(* ===== verification/Prelude.thy ===== *)
theory Prelude
  imports Complex_Main "HOL-Library.AList" "HOL-Library.List_Lexorder" "HOL-Library.Char_ord"
begin

text \<open>
  What every component shares: the Python string and dictionary operations the source uses,
  Python values as they come out of a JSON body or a query string, the exceptions the code raises,
  and a small state-and-exception monad with a rule set for facts of the form
  "whenever this computation returns, its result is justified and the invariant still holds".

  Text is a list of code points below 256 (what Starlette decodes header values to), so
  \<^typ>\<open>char\<close> is read as a Latin-1 code point, not as a UTF-8 byte.
\<close>

named_theorems safe_intros \<open>introduction rules for the judgement of safe computations\<close>
named_theorems py_string_simps \<open>equations for the Python string operations\<close>

section \<open>Python strings\<close>

definition is_space :: "char \<Rightarrow> bool" where
  "is_space c = (let n = (of_char c :: nat) in
     (9 \<le> n \<and> n \<le> 13) \<or> (28 \<le> n \<and> n \<le> 32) \<or> n = 133 \<or> n = 160)"

definition py_lstrip :: "string \<Rightarrow> string" where
  "py_lstrip s = dropWhile is_space s"

definition py_rstrip :: "string \<Rightarrow> string" where
  "py_rstrip s = rev (dropWhile is_space (rev s))"

definition py_strip :: "string \<Rightarrow> string" where
  "py_strip s = py_rstrip (py_lstrip s)"

definition strip_right_char :: "char \<Rightarrow> string \<Rightarrow> string" where
  "strip_right_char c s = rev (dropWhile (\<lambda>x. x = c) (rev s))"

definition strip_left_char :: "char \<Rightarrow> string \<Rightarrow> string" where
  "strip_left_char c s = dropWhile (\<lambda>x. x = c) s"

definition startswith :: "string \<Rightarrow> string \<Rightarrow> bool" where
  "startswith s p = (take (length p) s = p)"

definition endswith :: "string \<Rightarrow> string \<Rightarrow> bool" where
  "endswith s p = (drop (length s - length p) s = p)"

fun contains_str :: "string \<Rightarrow> string \<Rightarrow> bool" where
  "contains_str [] p = (p = [])"
| "contains_str (c # cs) p = (startswith (c # cs) p \<or> contains_str cs p)"

definition ascii_upper :: "char \<Rightarrow> char" where
  "ascii_upper c = (let n = (of_char c :: nat) in
     if 97 \<le> n \<and> n \<le> 122 then char_of (n - 32) else c)"

definition py_upper :: "string \<Rightarrow> string" where
  "py_upper s = map ascii_upper s"

definition latin_lower :: "char \<Rightarrow> char" where
  "latin_lower c = (let n = (of_char c :: nat) in
     if (65 \<le> n \<and> n \<le> 90) \<or> (192 \<le> n \<and> n \<le> 222 \<and> n \<noteq> 215)
     then char_of (n + 32) else c)"

definition py_lower :: "string \<Rightarrow> string" where
  "py_lower s = map latin_lower s"

text \<open>
  \<open>s.split(sep)\<close> for a non-empty separator: the counter skips the characters of a separator
  that has just been recognised.
\<close>

fun split_go :: "string \<Rightarrow> nat \<Rightarrow> string \<Rightarrow> string \<Rightarrow> string list" where
  "split_go sep k acc [] = [rev acc]"
| "split_go sep k acc (c # cs) =
     (if 0 < k then split_go sep (k - 1) acc cs
      else if startswith (c # cs) sep then rev acc # split_go sep (length sep - 1) [] cs
      else split_go sep 0 (c # acc) cs)"

definition py_split :: "string \<Rightarrow> string \<Rightarrow> string list" where
  "py_split sep s = split_go sep 0 [] s"

fun py_join :: "string \<Rightarrow> string list \<Rightarrow> string" where
  "py_join sep [] = []"
| "py_join sep [x] = x"
| "py_join sep (x # y # xs) = x @ sep @ py_join sep (y # xs)"

text \<open>\<open>s.partition(c)\<close>: the text before the first separator and, if there is one, the text after it.\<close>

definition py_partition :: "char \<Rightarrow> string \<Rightarrow> string \<times> string option" where
  "py_partition c s =
     (takeWhile (\<lambda>x. x \<noteq> c) s,
      case dropWhile (\<lambda>x. x \<noteq> c) s of [] \<Rightarrow> None | _ # rest \<Rightarrow> Some rest)"

definition nonempty :: "string \<Rightarrow> string option" where
  "nonempty s = (if s = [] then None else Some s)"

text \<open>\<open>str\<close> of an integer, and a text between single quotes.\<close>

definition digit_char :: "nat \<Rightarrow> char" where
  "digit_char n = char_of (48 + n)"

fun nat_text :: "nat \<Rightarrow> string" where
  "nat_text n = (if n < 10 then [digit_char n] else nat_text (n div 10) @ [digit_char (n mod 10)])"

declare nat_text.simps [simp del]

definition int_text :: "int \<Rightarrow> string" where
  "int_text i = (if i < 0 then CHR ''-'' # nat_text (nat (- i)) else nat_text (nat i))"

definition quoted :: "string \<Rightarrow> string" where
  "quoted s = [CHR 0x27] @ s @ [CHR 0x27]"

lemma startswith_append [simp]: "startswith (p @ s) p"
  by (simp add: startswith_def)

lemma startswith_iff: "startswith s p \<longleftrightarrow> (\<exists>t. s = p @ t)"
  unfolding startswith_def by (metis append_eq_conv_conj append_take_drop_id)

lemma startswith_refl [simp]: "startswith s s"
  by (simp add: startswith_def)

lemma endswith_iff: "endswith s p \<longleftrightarrow> (\<exists>t. s = t @ p)"
proof
  assume "endswith s p"
  then have "s = take (length s - length p) s @ p"
    unfolding endswith_def by (metis append_take_drop_id)
  then show "\<exists>t. s = t @ p" by blast
qed (auto simp: endswith_def)

lemma dropWhile_head: "dropWhile P xs = y # ys \<Longrightarrow> \<not> P y"
  by (metis dropWhile_eq_Cons_conv)

lemma py_rstrip_append_keep:
  "\<not> is_space c \<Longrightarrow> py_rstrip (xs @ [c]) = xs @ [c]"
  by (simp add: py_rstrip_def)

lemma py_rstrip_prefix: "\<exists>t. s = py_rstrip s @ t"
proof -
  have "rev s = takeWhile is_space (rev s) @ dropWhile is_space (rev s)"
    by simp
  then have "s = rev (dropWhile is_space (rev s)) @ rev (takeWhile is_space (rev s))"
    by (metis rev_append rev_rev_ident)
  then show ?thesis unfolding py_rstrip_def by blast
qed

lemma py_strip_no_space_head: "py_strip s = c # cs \<Longrightarrow> \<not> is_space c"
proof -
  assume a: "py_strip s = c # cs"
  obtain t where "py_lstrip s = py_strip s @ t"
    using py_rstrip_prefix [of "py_lstrip s"] unfolding py_strip_def by blast
  with a have "dropWhile is_space s = c # (cs @ t)"
    by (simp add: py_lstrip_def)
  then show ?thesis by (rule dropWhile_head)
qed

lemma py_rstrip_idem [simp]: "py_rstrip (py_rstrip s) = py_rstrip s"
  by (simp add: py_rstrip_def)

lemma py_strip_idem [simp]: "py_strip (py_strip s) = py_strip s"
proof (cases "py_strip s")
  case Nil
  have "py_strip [] = []" by (simp add: py_strip_def py_lstrip_def py_rstrip_def)
  then show ?thesis by (simp only: Nil)
next
  case (Cons c cs)
  then have "py_lstrip (py_strip s) = py_strip s"
    using py_strip_no_space_head [OF Cons] by (simp add: py_lstrip_def)
  then show ?thesis by (simp add: py_strip_def)
qed

lemma split_go_nonempty: "split_go sep k acc s \<noteq> []"
  by (induction sep k acc s rule: split_go.induct) auto

section \<open>Python values, dictionaries and truth\<close>

datatype pv =
    PNone
  | PBool bool
  | PInt int
  | PFloat real
  | PStr string
  | PList "pv list"
  | PDict "(string \<times> pv) list"

type_synonym pdict = "(string \<times> pv) list"

text \<open>
  A dictionary is its list of entries in insertion order with one entry per key. \<open>d.get(k)\<close> is
  \<^const>\<open>map_of\<close> with \<open>None\<close> for a missing key, \<open>d[k] = v\<close> is \<^const>\<open>AList.update\<close>,
  \<open>d.pop(k, None)\<close> is \<^const>\<open>AList.delete\<close>.
\<close>

definition dget :: "pdict \<Rightarrow> string \<Rightarrow> pv" where
  "dget d k = (case map_of d k of None \<Rightarrow> PNone | Some v \<Rightarrow> v)"

definition dhas :: "pdict \<Rightarrow> string \<Rightarrow> bool" where
  "dhas d k = (k \<in> set (map fst d))"

fun truthy :: "pv \<Rightarrow> bool" where
  "truthy PNone = False"
| "truthy (PBool b) = b"
| "truthy (PInt i) = (i \<noteq> 0)"
| "truthy (PFloat r) = (r \<noteq> 0)"
| "truthy (PStr s) = (s \<noteq> [])"
| "truthy (PList l) = (l \<noteq> [])"
| "truthy (PDict d) = (d \<noteq> [])"

definition py_or :: "pv \<Rightarrow> pv \<Rightarrow> pv" where
  "py_or a b = (if truthy a then a else b)"

fun as_str :: "pv \<Rightarrow> string option" where
  "as_str (PStr s) = Some s"
| "as_str _ = None"

fun as_list :: "pv \<Rightarrow> pv list option" where
  "as_list (PList l) = Some l"
| "as_list _ = None"

fun as_dict :: "pv \<Rightarrow> pdict option" where
  "as_dict (PDict d) = Some d"
| "as_dict _ = None"

lemma dget_update [simp]: "dget (AList.update k v d) k' = (if k = k' then v else dget d k')"
  by (simp add: dget_def update_conv')

lemma dhas_update [simp]: "dhas (AList.update k v d) k' = (k = k' \<or> dhas d k')"
proof -
  have "set (map fst (AList.update k v d)) = insert k (set (map fst d))"
    by (simp add: AList.dom_update)
  then show ?thesis unfolding dhas_def by auto
qed

lemma dhas_delete [simp]: "dhas (AList.delete k d) k' = (k \<noteq> k' \<and> dhas d k')"
  by (auto simp: dhas_def delete_keys)

lemma dget_not_dhas: "\<not> dhas d k \<Longrightarrow> dget d k = PNone"
proof -
  assume "\<not> dhas d k"
  then have "map_of d k = None" unfolding dhas_def by (simp add: map_of_eq_None_iff)
  then show ?thesis by (simp add: dget_def)
qed

text \<open>\<open>list(dict.fromkeys(xs))\<close>: the first occurrence of every element, in order.\<close>

fun dedupe_go :: "'a list \<Rightarrow> 'a list \<Rightarrow> 'a list" where
  "dedupe_go seen [] = []"
| "dedupe_go seen (x # xs) =
     (if x \<in> set seen then dedupe_go seen xs else x # dedupe_go (x # seen) xs)"

definition dedupe :: "'a list \<Rightarrow> 'a list" where
  "dedupe xs = dedupe_go [] xs"

lemma set_dedupe_go: "set (dedupe_go seen xs) = set xs - set seen"
  by (induction seen xs rule: dedupe_go.induct) auto

lemma distinct_dedupe_go: "distinct (dedupe_go seen xs)"
  by (induction seen xs rule: dedupe_go.induct) (auto simp: set_dedupe_go)

lemma set_dedupe [simp]: "set (dedupe xs) = set xs"
  by (simp add: dedupe_def set_dedupe_go)

lemma distinct_dedupe [simp]: "distinct (dedupe xs)"
  by (simp add: dedupe_def distinct_dedupe_go)

section \<open>Exceptions\<close>

datatype error_code =
    INTERNAL_ERROR
  | INVALID_PARAMETER_VALUE
  | PERMISSION_DENIED
  | UNAUTHENTICATED
  | ENDPOINT_NOT_FOUND
  | RESOURCE_DOES_NOT_EXIST
  | INVALID_STATE

text \<open>
  \<open>ApiExc\<close> is \<open>kubernetes.client.exceptions.ApiException\<close> with its HTTP status,
  \<open>OtherExc\<close> any exception the source does not name, such as a connection error.
\<close>

datatype exc =
    MlflowExc error_code string
  | ResolutionExc string
  | ReferenceMissingExc string
  | ApiExc "int option"
  | HttpExc
  | PyKeyError
  | PyTypeError
  | PyValueError
  | PyAssertion
  | PyNotImplemented string
  | OtherExc

section \<open>Computations with state and exceptions\<close>

type_synonym ('s, 'a) eff = "'s \<Rightarrow> (exc + 'a) \<times> 's"

definition ret :: "'a \<Rightarrow> ('s, 'a) eff" where
  "ret x = (\<lambda>s. (Inr x, s))"

definition raise :: "exc \<Rightarrow> ('s, 'a) eff" where
  "raise e = (\<lambda>s. (Inl e, s))"

definition andthen :: "('s, 'a) eff \<Rightarrow> ('a \<Rightarrow> ('s, 'b) eff) \<Rightarrow> ('s, 'b) eff" where
  "andthen m f = (\<lambda>s. case m s of (Inl e, s') \<Rightarrow> (Inl e, s') | (Inr x, s') \<Rightarrow> f x s')"

text \<open>\<open>try: m except ...: h\<close>, where \<open>h\<close> re-raises what the source does not catch.\<close>

definition handle :: "('s, 'a) eff \<Rightarrow> (exc \<Rightarrow> ('s, 'a) eff) \<Rightarrow> ('s, 'a) eff" where
  "handle m h = (\<lambda>s. case m s of (Inl e, s') \<Rightarrow> h e s' | (Inr x, s') \<Rightarrow> (Inr x, s'))"

definition lift :: "exc + 'a \<Rightarrow> ('s, 'a) eff" where
  "lift r = (\<lambda>s. (r, s))"

text \<open>\<open>all(f(x) for x in xs)\<close> stops at the first false answer.\<close>

fun all_eff :: "('a \<Rightarrow> ('s, bool) eff) \<Rightarrow> 'a list \<Rightarrow> ('s, bool) eff" where
  "all_eff f [] = ret True"
| "all_eff f (x # xs) = andthen (f x) (\<lambda>b. if b then all_eff f xs else ret False)"

text \<open>\<open>for x in xs: if f(x): return True\<close> and \<open>return False\<close> after the loop.\<close>

fun any_eff :: "('a \<Rightarrow> ('s, bool) eff) \<Rightarrow> 'a list \<Rightarrow> ('s, bool) eff" where
  "any_eff f [] = ret False"
| "any_eff f (x # xs) = andthen (f x) (\<lambda>b. if b then ret True else any_eff f xs)"

fun filter_eff :: "('a \<Rightarrow> ('s, bool) eff) \<Rightarrow> 'a list \<Rightarrow> ('s, 'a list) eff" where
  "filter_eff f [] = ret []"
| "filter_eff f (x # xs) = andthen (f x) (\<lambda>b.
     andthen (filter_eff f xs) (\<lambda>ys. ret (if b then x # ys else ys)))"

fun map_eff :: "('a \<Rightarrow> ('s, 'b) eff) \<Rightarrow> 'a list \<Rightarrow> ('s, 'b list) eff" where
  "map_eff f [] = ret []"
| "map_eff f (x # xs) = andthen (f x) (\<lambda>y. andthen (map_eff f xs) (\<lambda>ys. ret (y # ys)))"

lemmas eff_defs = ret_def raise_def andthen_def handle_def lift_def

subsection \<open>Safe computations\<close>

text \<open>
  \<open>safe I m Q\<close>: started where the invariant \<open>I\<close> holds, \<open>m\<close> ends where \<open>I\<close> holds, whether it
  returns or raises, and a value it returns satisfies \<open>Q\<close>.
\<close>

definition safe :: "('s \<Rightarrow> bool) \<Rightarrow> ('s, 'a) eff \<Rightarrow> ('a \<Rightarrow> bool) \<Rightarrow> bool" where
  "safe I m Q = (\<forall>s. I s \<longrightarrow> (case m s of (r, s') \<Rightarrow> I s' \<and> (\<forall>x. r = Inr x \<longrightarrow> Q x)))"

lemma safeI: "(\<And>s r s'. I s \<Longrightarrow> m s = (r, s') \<Longrightarrow> I s' \<and> (\<forall>x. r = Inr x \<longrightarrow> Q x)) \<Longrightarrow> safe I m Q"
  by (auto simp: safe_def split: prod.splits)

lemma safeD: "safe I m Q \<Longrightarrow> I s \<Longrightarrow> m s = (Inr x, s') \<Longrightarrow> Q x \<and> I s'"
  by (auto simp: safe_def split: prod.splits)

lemma safe_state: "safe I m Q \<Longrightarrow> I s \<Longrightarrow> m s = (r, s') \<Longrightarrow> I s'"
  by (auto simp: safe_def split: prod.splits)

lemma safe_ret [safe_intros]: "Q x \<Longrightarrow> safe I (ret x) Q"
  by (simp add: safe_def ret_def)

lemma safe_raise [safe_intros]: "safe I (raise e) Q"
  by (simp add: safe_def raise_def)

lemma safe_lift [safe_intros]: "(\<And>x. r = Inr x \<Longrightarrow> Q x) \<Longrightarrow> safe I (lift r) Q"
  by (simp add: safe_def lift_def)

lemma safe_weaken: "safe I m Q \<Longrightarrow> (\<And>x. Q x \<Longrightarrow> R x) \<Longrightarrow> safe I m R"
  by (auto simp: safe_def split: prod.splits)

lemma safe_andthen:
  assumes m: "safe I m Q" and f: "\<And>x. Q x \<Longrightarrow> safe I (f x) R"
  shows "safe I (andthen m f) R"
proof (rule safeI)
  fix s r s'
  assume s: "I s" and run: "andthen m f s = (r, s')"
  obtain q s1 where ms: "m s = (q, s1)" by (cases "m s")
  have s1: "I s1" by (rule safe_state [OF m s ms])
  show "I s' \<and> (\<forall>x. r = Inr x \<longrightarrow> R x)"
  proof (cases q)
    case (Inl e)
    with run ms s1 show ?thesis by (auto simp: andthen_def)
  next
    case (Inr x)
    with safeD [OF m s] ms have "Q x" by auto
    moreover from run ms Inr have "f x s1 = (r, s')" by (simp add: andthen_def)
    ultimately show ?thesis
      using safe_state [OF f s1] safeD [OF f s1] by (cases r) auto
  qed
qed

lemma safe_handle:
  assumes m: "safe I m Q" and h: "\<And>e. safe I (h e) Q"
  shows "safe I (handle m h) Q"
proof (rule safeI)
  fix s r s'
  assume s: "I s" and run: "handle m h s = (r, s')"
  obtain q s1 where ms: "m s = (q, s1)" by (cases "m s")
  have s1: "I s1" by (rule safe_state [OF m s ms])
  show "I s' \<and> (\<forall>x. r = Inr x \<longrightarrow> Q x)"
  proof (cases q)
    case (Inl e)
    with run ms have "h e s1 = (r, s')" by (simp add: handle_def)
    then show ?thesis
      using safe_state [OF h s1] safeD [OF h s1] by (cases r) auto
  next
    case (Inr x)
    with safeD [OF m s] ms s1 run show ?thesis by (auto simp: handle_def)
  qed
qed

lemma safe_if [safe_intros]:
  "(b \<Longrightarrow> safe I m Q) \<Longrightarrow> (\<not> b \<Longrightarrow> safe I n Q) \<Longrightarrow> safe I (if b then m else n) Q"
  by simp

lemma safe_all_eff:
  "(\<And>x. x \<in> set xs \<Longrightarrow> safe I (f x) (\<lambda>b. b \<longrightarrow> P x)) \<Longrightarrow>
   safe I (all_eff f xs) (\<lambda>b. b \<longrightarrow> (\<forall>x \<in> set xs. P x))"
proof (induction xs)
  case Nil
  then show ?case by (simp add: safe_ret)
next
  case (Cons x xs)
  have "safe I (f x) (\<lambda>b. b \<longrightarrow> P x)" by (rule Cons.prems) simp
  moreover have "safe I (all_eff f xs) (\<lambda>b. b \<longrightarrow> (\<forall>x \<in> set xs. P x))"
    by (rule Cons.IH) (simp add: Cons.prems)
  ultimately show ?case
    by (auto intro!: safe_andthen [of I "f x"] safe_ret elim: safe_weaken)
qed

lemma safe_any_eff:
  "(\<And>x. x \<in> set xs \<Longrightarrow> safe I (f x) (\<lambda>b. b \<longrightarrow> P x)) \<Longrightarrow>
   safe I (any_eff f xs) (\<lambda>b. b \<longrightarrow> (\<exists>x \<in> set xs. P x))"
proof (induction xs)
  case Nil
  then show ?case by (simp add: safe_ret)
next
  case (Cons x xs)
  have x: "safe I (f x) (\<lambda>b. b \<longrightarrow> P x)" by (rule Cons.prems) simp
  have "safe I (any_eff f xs) (\<lambda>b. b \<longrightarrow> (\<exists>x \<in> set xs. P x))"
    by (rule Cons.IH) (simp add: Cons.prems)
  then have xs: "safe I (any_eff f xs) (\<lambda>b. b \<longrightarrow> (\<exists>y \<in> set (x # xs). P y))"
    by (rule safe_weaken) auto
  show ?case unfolding any_eff.simps
    by (rule safe_andthen [OF x], rule safe_if, rule safe_ret, simp, rule xs)
qed

lemma safe_filter_eff:
  "(\<And>x. x \<in> set xs \<Longrightarrow> safe I (f x) (\<lambda>b. b \<longrightarrow> P x)) \<Longrightarrow>
   safe I (filter_eff f xs) (\<lambda>ys. (\<forall>y \<in> set ys. P y) \<and> set ys \<subseteq> set xs)"
proof (induction xs)
  case Nil
  then show ?case by (simp add: safe_ret)
next
  case (Cons x xs)
  have x: "safe I (f x) (\<lambda>b. b \<longrightarrow> P x)" by (rule Cons.prems) simp
  have xs: "safe I (filter_eff f xs) (\<lambda>ys. (\<forall>y \<in> set ys. P y) \<and> set ys \<subseteq> set xs)"
    by (rule Cons.IH) (simp add: Cons.prems)
  show ?case unfolding filter_eff.simps
    by (rule safe_andthen [OF x], rule safe_andthen [OF xs], rule safe_ret) auto
qed

lemma safe_map_eff:
  "(\<And>x. x \<in> set xs \<Longrightarrow> safe I (f x) (P x)) \<Longrightarrow>
   safe I (map_eff f xs) (\<lambda>ys. list_all2 P xs ys)"
proof (induction xs)
  case Nil
  then show ?case by (simp add: safe_ret)
next
  case (Cons x xs)
  have x: "safe I (f x) (P x)" by (rule Cons.prems) simp
  have xs: "safe I (map_eff f xs) (\<lambda>ys. list_all2 P xs ys)"
    by (rule Cons.IH) (simp add: Cons.prems)
  show ?case
    by (auto intro!: safe_andthen [OF x] safe_andthen [OF xs] safe_ret)
qed

end
