(* ===== verification/Rw_Lock.thy ===== *)
theory Rw_Lock
  imports Prelude
begin

text \<open>
  \<open>_ReadWriteLock\<close> of \<open>auth/authorizer.py\<close>: a writer-preferring lock made of one
  \<open>threading.Condition\<close>. A \<open>with self._condition\<close> block is one atomic step, since the condition's
  own lock is held for all of it except inside \<open>wait()\<close>; a thread in \<open>wait()\<close> is asleep until a
  \<open>notify_all()\<close> wakes it, and a woken thread tests its guard again before it goes on.
  The lemmas show mutual exclusion, that readers never overtake a waiting writer, and that no wakeup is
  lost: whenever some thread sleeps, some thread can take a step.
\<close>

section \<open>State and operations\<close>

datatype lock_pc = Idle | ReadAsleep | ReadWoken | Reading | WriteAsleep | WriteWoken | Writing

record rw_lock =
  readers :: int
  writer :: bool
  waiting_writers :: int
  pcs :: "nat \<Rightarrow> lock_pc"

definition rw_init :: rw_lock where
  "rw_init = \<lparr>readers = 0, writer = False, waiting_writers = 0, pcs = (\<lambda>_. Idle)\<rparr>"

fun woken :: "lock_pc \<Rightarrow> lock_pc" where
  "woken ReadAsleep = ReadWoken"
| "woken WriteAsleep = WriteWoken"
| "woken p = p"

definition notify_all :: "rw_lock \<Rightarrow> rw_lock" where
  "notify_all s = s\<lparr>pcs := (\<lambda>t. woken (pcs s t))\<rparr>"

definition read_guard :: "rw_lock \<Rightarrow> bool" where
  "read_guard s = (writer s \<or> 0 < waiting_writers s)"

definition write_guard :: "rw_lock \<Rightarrow> bool" where
  "write_guard s = (writer s \<or> 0 < readers s)"

text \<open>\<open>acquire_read\<close>: the test of the loop, made on entry and again after every wakeup.\<close>

definition acquire_read :: "nat \<Rightarrow> rw_lock \<Rightarrow> rw_lock" where
  "acquire_read t s =
     (if read_guard s then s\<lparr>pcs := (pcs s)(t := ReadAsleep)\<rparr>
      else s\<lparr>readers := readers s + 1, pcs := (pcs s)(t := Reading)\<rparr>)"

definition release_read :: "nat \<Rightarrow> rw_lock \<Rightarrow> rw_lock" where
  "release_read t s =
     (let s' = s\<lparr>readers := readers s - 1, pcs := (pcs s)(t := Idle)\<rparr>
      in if readers s' = 0 then notify_all s' else s')"

text \<open>
  \<open>acquire_write\<close>: \<open>acquire_write_enter\<close> is the code up to and including the first test, with
  \<open>_waiting_writers\<close> already raised; \<open>acquire_write_test\<close> is one further test of the loop. Both end
  with the \<open>finally\<close> clause when the guard is false.
\<close>

definition acquire_write_test :: "nat \<Rightarrow> rw_lock \<Rightarrow> rw_lock" where
  "acquire_write_test t s =
     (if write_guard s then s\<lparr>pcs := (pcs s)(t := WriteAsleep)\<rparr>
      else s\<lparr>writer := True, waiting_writers := waiting_writers s - 1,
             pcs := (pcs s)(t := Writing)\<rparr>)"

definition acquire_write_enter :: "nat \<Rightarrow> rw_lock \<Rightarrow> rw_lock" where
  "acquire_write_enter t s =
     acquire_write_test t (s\<lparr>waiting_writers := waiting_writers s + 1\<rparr>)"

definition release_write :: "nat \<Rightarrow> rw_lock \<Rightarrow> rw_lock" where
  "release_write t s = notify_all (s\<lparr>writer := False, pcs := (pcs s)(t := Idle)\<rparr>)"

text \<open>An exception raised inside \<open>wait()\<close> of \<open>acquire_write\<close> runs the \<open>finally\<close> clause only.\<close>

definition abort_write :: "nat \<Rightarrow> rw_lock \<Rightarrow> rw_lock" where
  "abort_write t s =
     s\<lparr>waiting_writers := waiting_writers s - 1, pcs := (pcs s)(t := Idle)\<rparr>"

inductive rw_step :: "rw_lock \<Rightarrow> rw_lock \<Rightarrow> bool" where
  read_enter: "pcs s t = Idle \<Longrightarrow> rw_step s (acquire_read t s)"
| read_retry: "pcs s t = ReadWoken \<Longrightarrow> rw_step s (acquire_read t s)"
| read_release: "pcs s t = Reading \<Longrightarrow> rw_step s (release_read t s)"
| write_enter: "pcs s t = Idle \<Longrightarrow> rw_step s (acquire_write_enter t s)"
| write_retry: "pcs s t = WriteWoken \<Longrightarrow> rw_step s (acquire_write_test t s)"
| write_release: "pcs s t = Writing \<Longrightarrow> rw_step s (release_write t s)"

inductive_cases rw_stepE: "rw_step s s'"

inductive rw_reachable :: "rw_lock \<Rightarrow> bool" where
  rw_start: "rw_reachable rw_init"
| rw_next: "rw_reachable s \<Longrightarrow> rw_step s s' \<Longrightarrow> rw_reachable s'"

section \<open>The invariant\<close>

definition cnt :: "(nat \<Rightarrow> lock_pc) \<Rightarrow> lock_pc set \<Rightarrow> int" where
  "cnt f P = int (card {t. f t \<in> P})"

text \<open>The counters count, and a writer is alone.\<close>

definition rw_core :: "rw_lock \<Rightarrow> bool" where
  "rw_core s \<longleftrightarrow>
     finite {t. pcs s t \<noteq> Idle} \<and>
     readers s = cnt (pcs s) {Reading} \<and>
     waiting_writers s = cnt (pcs s) {WriteAsleep, WriteWoken} \<and>
     cnt (pcs s) {Writing} = (if writer s then 1 else 0) \<and>
     (writer s \<longrightarrow> readers s = 0)"

text \<open>A sleeping thread sleeps for a reason that still holds.\<close>

definition rw_inv :: "rw_lock \<Rightarrow> bool" where
  "rw_inv s \<longleftrightarrow>
     rw_core s \<and>
     ((\<exists>t. pcs s t = ReadAsleep) \<longrightarrow> read_guard s) \<and>
     ((\<exists>t. pcs s t = WriteAsleep) \<longrightarrow> write_guard s)"

lemma finite_at: "finite {t. f t \<noteq> Idle} \<Longrightarrow> Idle \<notin> P \<Longrightarrow> finite {t. f t \<in> P}"
  by (rule finite_subset [of _ "{t. f t \<noteq> Idle}"]) auto

lemma finite_nonidle_upd: "finite {t. f t \<noteq> Idle} \<Longrightarrow> finite {u. (f(t := p)) u \<noteq> Idle}"
  by (rule finite_subset [of _ "insert t {t. f t \<noteq> Idle}"]) auto

lemma cnt_upd:
  assumes "finite {t. f t \<noteq> Idle}" and "Idle \<notin> P"
  shows "cnt (f(t := p)) P = cnt f P + (if p \<in> P then 1 else 0) - (if f t \<in> P then 1 else 0)"
proof -
  have fin: "finite {t. f t \<in> P}" by (rule finite_at [OF assms])
  have eq: "{u. (f(t := p)) u \<in> P} =
      (if p \<in> P then insert t ({u. f u \<in> P} - {t}) else {u. f u \<in> P} - {t})"
    by auto
  show ?thesis
  proof (cases "f t \<in> P")
    case True
    then have "0 < card {u. f u \<in> P}" using fin by (auto simp: card_gt_0_iff)
    with True fin show ?thesis
      unfolding cnt_def eq by (simp add: card_Diff_singleton card_insert_if of_nat_diff Suc_leI)
  next
    case False
    then have "{u. f u \<in> P} - {t} = {u. f u \<in> P}" by auto
    with False fin show ?thesis unfolding cnt_def eq by (simp add: card_insert_if)
  qed
qed

lemma woken_iff:
  "woken p = Idle \<longleftrightarrow> p = Idle" "woken p = Reading \<longleftrightarrow> p = Reading"
  "woken p = Writing \<longleftrightarrow> p = Writing" "woken p \<noteq> ReadAsleep" "woken p \<noteq> WriteAsleep"
  "woken p = WriteWoken \<longleftrightarrow> p = WriteAsleep \<or> p = WriteWoken"
  by (cases p; simp)+

lemma cnt_woken:
  "cnt (\<lambda>t. woken (f t)) {Reading} = cnt f {Reading}"
  "cnt (\<lambda>t. woken (f t)) {Writing} = cnt f {Writing}"
  "cnt (\<lambda>t. woken (f t)) {WriteAsleep, WriteWoken} = cnt f {WriteAsleep, WriteWoken}"
  by (simp_all add: cnt_def woken_iff)

lemma cnt_pos: "finite {t. f t \<noteq> Idle} \<Longrightarrow> Idle \<notin> P \<Longrightarrow> f t \<in> P \<Longrightarrow> 1 \<le> cnt f P"
  using finite_at [of f P] by (force simp: cnt_def card_gt_0_iff Suc_le_eq)

lemma cnt_pos_ex: "0 < cnt f P \<Longrightarrow> \<exists>t. f t \<in> P"
  by (auto simp: cnt_def card_gt_0_iff)

lemma cnt_nonneg [simp]: "0 \<le> cnt f P"
  by (simp add: cnt_def)

lemmas rw_op_defs = acquire_read_def release_read_def acquire_write_test_def
  acquire_write_enter_def release_write_def notify_all_def read_guard_def write_guard_def

lemma rw_inv_core: "rw_inv s \<Longrightarrow> rw_core s"
  by (simp add: rw_inv_def)

lemma rw_core_fin: "rw_core s \<Longrightarrow> finite {t. pcs s t \<noteq> Idle}"
  by (simp add: rw_core_def)

lemma rw_core_bounds: "rw_core s \<Longrightarrow> 0 \<le> readers s \<and> 0 \<le> waiting_writers s"
  by (simp add: rw_core_def)

lemma rw_core_reading: "rw_core s \<Longrightarrow> pcs s t = Reading \<Longrightarrow> 1 \<le> readers s \<and> \<not> writer s"
  using cnt_pos [of "pcs s" "{Reading}" t] by (auto simp: rw_core_def)

lemma rw_core_writing: "rw_core s \<Longrightarrow> pcs s t = Writing \<Longrightarrow> writer s"
  using cnt_pos [of "pcs s" "{Writing}" t] by (auto simp: rw_core_def split: if_splits)

lemma rw_inv_notify_all: "rw_core s \<Longrightarrow> rw_inv (notify_all s)"
  by (auto simp: rw_inv_def rw_core_def notify_all_def cnt_woken woken_iff)

lemma rw_inv_init: "rw_inv rw_init"
  by (simp add: rw_inv_def rw_core_def rw_init_def cnt_def)

lemma rw_core_move:
  assumes c: "rw_core s"
    and "r = readers s + (if p = Reading then 1 else 0) - (if pcs s t = Reading then 1 else 0)"
    and "n = waiting_writers s + (if p \<in> {WriteAsleep, WriteWoken} then 1 else 0)
                 - (if pcs s t \<in> {WriteAsleep, WriteWoken} then 1 else 0)"
    and "(if w then 1 else 0) = (if writer s then 1 else 0) + (if p = Writing then 1 else 0)
                 - (if pcs s t = Writing then (1::int) else 0)"
    and "w \<longrightarrow> r = 0"
  shows "rw_core (s\<lparr>readers := r, writer := w, waiting_writers := n, pcs := (pcs s)(t := p)\<rparr>)"
proof -
  note fin = rw_core_fin [OF c]
  have "cnt ((pcs s)(t := p)) {Reading} = r"
    "cnt ((pcs s)(t := p)) {WriteAsleep, WriteWoken} = n"
    "cnt ((pcs s)(t := p)) {Writing} = (if w then 1 else 0)"
    using assms by (simp_all add: cnt_upd [OF fin] rw_core_def del: fun_upd_apply)
  with assms(5) finite_nonidle_upd [OF fin, of t p] show ?thesis
    by (simp add: rw_core_def del: fun_upd_apply)
qed

lemma rw_inv_acquire_read:
  assumes i: "rw_inv s" and t: "pcs s t = Idle \<or> pcs s t = ReadWoken"
  shows "rw_inv (acquire_read t s)"
proof (cases "read_guard s")
  case True
  from i have wr: "writer s \<longrightarrow> readers s = 0" by (auto simp: rw_inv_def rw_core_def)
  have "acquire_read t s = s\<lparr>readers := readers s, writer := writer s, waiting_writers := waiting_writers s, pcs := (pcs s)(t := ReadAsleep)\<rparr>"
    using True t wr by (cases s) (simp add: acquire_read_def)
  moreover have "rw_core \<dots>"
    by (rule rw_core_move [OF rw_inv_core [OF i]]) (use True t wr in auto)
  ultimately have core: "rw_core (acquire_read t s)" by simp
  from True i core t show ?thesis
    by (auto simp: rw_inv_def acquire_read_def read_guard_def write_guard_def split: if_splits)
next
  case False
  with rw_core_bounds [OF rw_inv_core [OF i]] have z: "waiting_writers s = 0" "\<not> writer s"
    by (auto simp: read_guard_def)
  have "acquire_read t s = s\<lparr>readers := readers s + 1, writer := writer s, waiting_writers := waiting_writers s, pcs := (pcs s)(t := Reading)\<rparr>"
    using False t z by (cases s) (simp add: acquire_read_def)
  moreover have "rw_core \<dots>"
    by (rule rw_core_move [OF rw_inv_core [OF i]]) (use False t z in auto)
  ultimately have core: "rw_core (acquire_read t s)" by simp
  from False i z core rw_core_bounds [OF rw_inv_core [OF i]] show ?thesis
    by (auto simp: rw_inv_def acquire_read_def read_guard_def write_guard_def split: if_splits)
qed

lemma rw_inv_release_read:
  assumes i: "rw_inv s" and t: "pcs s t = Reading"
  shows "rw_inv (release_read t s)"
proof -
  let ?s = "s\<lparr>readers := readers s - 1, pcs := (pcs s)(t := Idle)\<rparr>"
  note b = rw_core_reading [OF rw_inv_core [OF i] t]
  have "?s = s\<lparr>readers := readers s - 1, writer := writer s, waiting_writers := waiting_writers s, pcs := (pcs s)(t := Idle)\<rparr>"
    using b t by (cases s) simp
  moreover have "rw_core \<dots>"
    by (rule rw_core_move [OF rw_inv_core [OF i]]) (use b t in auto)
  ultimately have core: "rw_core (?s)" by simp
  show ?thesis
  proof (cases "readers ?s = 0")
    case True
    then show ?thesis using rw_inv_notify_all [OF core] by (simp add: release_read_def)
  next
    case False
    with core i b show ?thesis
      by (auto simp: release_read_def rw_inv_def read_guard_def write_guard_def split: if_splits)
  qed
qed

lemma rw_inv_acquire_write_enter:
  assumes i: "rw_inv s" and t: "pcs s t = Idle"
  shows "rw_inv (acquire_write_enter t s)"
proof (cases "write_guard s")
  case True
  from i have wr: "writer s \<longrightarrow> readers s = 0" by (auto simp: rw_inv_def rw_core_def)
  have "acquire_write_enter t s = s\<lparr>readers := readers s, writer := writer s, waiting_writers := waiting_writers s + 1, pcs := (pcs s)(t := WriteAsleep)\<rparr>"
    using True [unfolded write_guard_def] t wr by (cases s) (simp add: acquire_write_enter_def acquire_write_test_def write_guard_def)
  moreover have "rw_core \<dots>"
    by (rule rw_core_move [OF rw_inv_core [OF i]]) (use True [unfolded write_guard_def] t wr in auto)
  ultimately have core: "rw_core (acquire_write_enter t s)" by simp
  from True i core rw_core_bounds [OF rw_inv_core [OF i]] show ?thesis
    by (auto simp: rw_inv_def acquire_write_enter_def acquire_write_test_def read_guard_def write_guard_def
        split: if_splits)
next
  case False
  with rw_core_bounds [OF rw_inv_core [OF i]] have z: "readers s = 0" "\<not> writer s"
    by (auto simp: write_guard_def)
  have "acquire_write_enter t s = s\<lparr>readers := readers s, writer := True, waiting_writers := waiting_writers s, pcs := (pcs s)(t := Writing)\<rparr>"
    using z t by (cases s) (simp add: acquire_write_enter_def acquire_write_test_def write_guard_def)
  moreover have "rw_core \<dots>"
    by (rule rw_core_move [OF rw_inv_core [OF i]]) (use z t in auto)
  ultimately have core: "rw_core (acquire_write_enter t s)" by simp
  from z i core show ?thesis
    by (auto simp: rw_inv_def acquire_write_enter_def acquire_write_test_def read_guard_def write_guard_def
        split: if_splits)
qed

lemma rw_inv_acquire_write_test:
  assumes i: "rw_inv s" and t: "pcs s t = WriteWoken"
  shows "rw_inv (acquire_write_test t s)"
proof (cases "write_guard s")
  case True
  from i have wr: "writer s \<longrightarrow> readers s = 0" by (auto simp: rw_inv_def rw_core_def)
  have "acquire_write_test t s = s\<lparr>readers := readers s, writer := writer s, waiting_writers := waiting_writers s, pcs := (pcs s)(t := WriteAsleep)\<rparr>"
    using True [unfolded write_guard_def] t wr by (cases s) (simp add: acquire_write_test_def write_guard_def)
  moreover have "rw_core \<dots>"
    by (rule rw_core_move [OF rw_inv_core [OF i]]) (use True [unfolded write_guard_def] t wr in auto)
  ultimately have core: "rw_core (acquire_write_test t s)" by simp
  from True i core t show ?thesis
    by (auto simp: rw_inv_def acquire_write_test_def read_guard_def write_guard_def split: if_splits)
next
  case False
  with rw_core_bounds [OF rw_inv_core [OF i]] have z: "readers s = 0" "\<not> writer s"
    by (auto simp: write_guard_def)
  have "acquire_write_test t s = s\<lparr>readers := readers s, writer := True, waiting_writers := waiting_writers s - 1, pcs := (pcs s)(t := Writing)\<rparr>"
    using z t by (cases s) (simp add: acquire_write_test_def write_guard_def)
  moreover have "rw_core \<dots>"
    by (rule rw_core_move [OF rw_inv_core [OF i]]) (use z t in auto)
  ultimately have core: "rw_core (acquire_write_test t s)" by simp
  from z i core show ?thesis
    by (auto simp: rw_inv_def acquire_write_test_def read_guard_def write_guard_def split: if_splits)
qed

lemma rw_inv_release_write:
  assumes i: "rw_inv s" and t: "pcs s t = Writing"
  shows "rw_inv (release_write t s)"
proof -
  let ?s = "s\<lparr>writer := False, pcs := (pcs s)(t := Idle)\<rparr>"
  note b = rw_core_writing [OF rw_inv_core [OF i] t]
  have "?s = s\<lparr>readers := readers s, writer := False, waiting_writers := waiting_writers s, pcs := (pcs s)(t := Idle)\<rparr>"
    using b t by (cases s) simp
  moreover have "rw_core \<dots>"
    by (rule rw_core_move [OF rw_inv_core [OF i]]) (use b t in auto)
  ultimately have core: "rw_core (?s)" by simp
  then show ?thesis unfolding release_write_def by (rule rw_inv_notify_all)
qed

lemmas rw_inv_ops = rw_inv_acquire_read rw_inv_release_read rw_inv_acquire_write_enter
  rw_inv_acquire_write_test rw_inv_release_write

lemma rw_step_inv: "rw_step s s' \<Longrightarrow> rw_inv s \<Longrightarrow> rw_inv s'"
  by (elim rw_stepE) (auto intro: rw_inv_ops)

lemma rw_reachable_inv: "rw_reachable s \<Longrightarrow> rw_inv s"
  by (induction rule: rw_reachable.induct) (auto intro: rw_inv_init rw_step_inv)

section \<open>What the lock promises\<close>

lemma rw_inv_writer_alone:
  assumes i: "rw_inv s" and w: "pcs s t = Writing" and u: "pcs s u = Reading \<or> pcs s u = Writing"
  shows "u = t"
proof -
  note core = rw_inv_core [OF i]
  have ws: "writer s" by (rule rw_core_writing [OF core w])
  with rw_core_reading [OF core, of u] u have u: "pcs s u = Writing" by blast
  have "card {t. pcs s t = Writing} = 1" using core ws by (simp add: rw_core_def cnt_def)
  then obtain z where "{t. pcs s t = Writing} = {z}" by (auto simp: card_1_singleton_iff)
  with u w show "u = t" by (metis mem_Collect_eq singletonD)
qed

text \<open>
  A woken thread always has a step; so has a thread that holds the lock. A sleeping thread's guard
  holds, and the guard names a thread of one of these two kinds.
\<close>

lemma rw_step_runnable:
  assumes "pcs s u \<in> {ReadWoken, WriteWoken, Reading, Writing}"
  shows "\<exists>s'. rw_step s s' \<and> pcs s' u \<noteq> pcs s u"
proof -
  consider "pcs s u = ReadWoken" | "pcs s u = WriteWoken" | "pcs s u = Reading" | "pcs s u = Writing"
    using assms by blast
  then show ?thesis
  proof cases
    case 1
    then have "pcs (acquire_read u s) u \<noteq> pcs s u" by (simp add: rw_op_defs)
    with read_retry [OF 1] show ?thesis by blast
  next
    case 2
    then have "pcs (acquire_write_test u s) u \<noteq> pcs s u" by (simp add: rw_op_defs)
    with write_retry [OF 2] show ?thesis by blast
  next
    case 3
    then have "pcs (release_read u s) u \<noteq> pcs s u" by (simp add: rw_op_defs Let_def)
    with read_release [OF 3] show ?thesis by blast
  next
    case 4
    then have "pcs (release_write u s) u \<noteq> pcs s u" by (simp add: rw_op_defs)
    with write_release [OF 4] show ?thesis by blast
  qed
qed

lemma rw_inv_holder: "rw_inv s \<Longrightarrow> write_guard s \<Longrightarrow> \<exists>u. pcs s u \<in> {Reading, Writing}"
  using cnt_pos_ex [of "pcs s" "{Writing}"] cnt_pos_ex [of "pcs s" "{Reading}"]
  by (auto simp: write_guard_def rw_inv_def rw_core_def split: if_splits)

lemma rw_inv_progress:
  assumes i: "rw_inv s" and t: "pcs s t \<noteq> Idle"
  shows "\<exists>u s'. pcs s u \<noteq> Idle \<and> rw_step s s' \<and> pcs s' u \<noteq> pcs s u"
proof -
  have "\<exists>u. pcs s u \<in> {ReadWoken, WriteWoken, Reading, Writing}"
  proof (cases "pcs s t \<in> {ReadAsleep, WriteAsleep}")
    case False
    with t show ?thesis by (cases "pcs s t") auto
  next
    case asleep: True
    show ?thesis
    proof (cases "write_guard s")
      case True
      with rw_inv_holder [OF i] show ?thesis by blast
    next
      case False
      with asleep i have r: "read_guard s" and nw: "\<nexists>u. pcs s u = WriteAsleep"
        by (auto simp: rw_inv_def)
      with False have "0 < waiting_writers s" by (simp add: read_guard_def write_guard_def)
      with i have "0 < cnt (pcs s) {WriteAsleep, WriteWoken}" by (simp add: rw_inv_def rw_core_def)
      with nw show ?thesis using cnt_pos_ex by blast
    qed
  qed
  then obtain u where "pcs s u \<in> {ReadWoken, WriteWoken, Reading, Writing}" by blast
  moreover from this have "pcs s u \<noteq> Idle" by auto
  ultimately show ?thesis using rw_step_runnable [of s u] by blast
qed

text \<open>C32: in every state the lock can reach, a thread that holds it for writing is alone: no other
  thread reads or writes.\<close>

theorem rw_lock_exclusion:
  assumes "rw_reachable s" and "pcs s t = Writing" and "pcs s u = Reading \<or> pcs s u = Writing"
  shows "u = t"
  using rw_inv_writer_alone [OF rw_reachable_inv [OF assms(1)] assms(2,3)] .

lemma rw_two_steps: "rw_reachable (acquire_read 2 (acquire_write_enter 1 rw_init))"
  by (intro rw_next [OF rw_next [OF rw_start write_enter] read_enter])
     (simp_all add: rw_op_defs rw_init_def)

theorem rw_lock_exclusion_witness:
  "pcs (acquire_read 2 (acquire_write_enter 1 rw_init)) 1 = Writing \<and>
   pcs (acquire_read 2 (acquire_write_enter 1 rw_init)) 2 \<noteq> Reading"
proof -
  have w: "pcs (acquire_read 2 (acquire_write_enter 1 rw_init)) 1 = Writing"
    by (simp add: rw_op_defs rw_init_def)
  then show ?thesis using rw_lock_exclusion [OF rw_two_steps w, of 2] by auto
qed



definition before_abort :: rw_lock where
  "before_abort =
     acquire_read 3 (release_write 1 (acquire_read 3 (acquire_write_enter 2 (acquire_write_enter 1 rw_init))))"

text \<open>A thread starts to read only in \<open>acquire_read\<close> behind an open guard; a writer that waits keeps it shut.\<close>

lemma rw_step_starts_reading:
  "rw_step s s' \<Longrightarrow> pcs s t \<noteq> Reading \<Longrightarrow> pcs s' t = Reading \<Longrightarrow> \<not> read_guard s"
  by (elim rw_stepE) (auto simp: rw_op_defs Let_def woken_iff split: if_splits)

lemma rw_inv_unclaimed:
  assumes i: "rw_inv s" and g: "\<not> read_guard s"
  shows "pcs s u \<notin> {WriteAsleep, WriteWoken, Writing}"
proof
  note core = rw_inv_core [OF i] and fin = rw_core_fin [OF rw_inv_core [OF i]]
  assume "pcs s u \<in> {WriteAsleep, WriteWoken, Writing}"
  then consider "pcs s u = Writing" | "pcs s u \<in> {WriteAsleep, WriteWoken}" by blast
  then show False
  proof cases
    case 1
    with rw_core_writing [OF core] g show False by (auto simp: read_guard_def)
  next
    case 2
    with cnt_pos [OF fin _ 2] core g show False by (auto simp: read_guard_def rw_core_def)
  qed
qed

text \<open>
  C34: the lock prefers writers. In every state the lock can reach, the step that lets a thread read is taken
  only when no thread writes and none waits to write, asleep or woken; so readers that keep arriving never
  overtake a waiting writer.
\<close>

theorem rw_lock_prefers_writers:
  assumes "rw_reachable s" and "rw_step s s'" and "pcs s t \<noteq> Reading" and "pcs s' t = Reading"
  shows "pcs s u \<notin> {WriteAsleep, WriteWoken, Writing}"
  by (rule rw_inv_unclaimed [OF rw_reachable_inv [OF assms(1)] rw_step_starts_reading [OF assms(2-4)]])

theorem rw_lock_prefers_writers_witness:
  "rw_step rw_init (acquire_read 1 rw_init) \<and> pcs (acquire_read 1 rw_init) 1 = Reading \<and>
   pcs rw_init 2 \<notin> {WriteAsleep, WriteWoken, Writing}"
proof -
  have "rw_step rw_init (acquire_read 1 rw_init)" by (rule read_enter) (simp add: rw_init_def)
  moreover have reads: "pcs (acquire_read 1 rw_init) 1 = Reading" by (simp add: rw_op_defs rw_init_def)
  moreover have "pcs rw_init 1 \<noteq> Reading" by (simp add: rw_init_def)
  ultimately show ?thesis using rw_lock_prefers_writers [OF rw_start, of "acquire_read 1 rw_init" 1 2] by blast
qed

text \<open>An exception raised inside a waiting writer's \<open>wait()\<close> strands readers. Thread 1 writes,
  thread 2 waits to write, thread 3 sleeps behind it. Thread 1 releases and wakes both; thread 3
  tests first and goes back to sleep, for thread 2 still counts as a waiting writer; then thread 2's
  wait is aborted and only the \<open>finally\<close> clause runs. Now the lock is free and no thread holds it or
  waits to write, and thread 3 sleeps on a false guard with nobody left to wake it.\<close>

lemma rw_lock_abort_strands_reader:
  "rw_reachable before_abort \<and> pcs before_abort 2 = WriteWoken \<and>
   \<not> read_guard (abort_write 2 before_abort) \<and>
   pcs (abort_write 2 before_abort) = (\<lambda>_. Idle)(3 := ReadAsleep)"
proof -
  have "rw_reachable before_abort"
    unfolding before_abort_def
    by (intro rw_next [OF rw_next [OF rw_next [OF rw_next [OF rw_next [OF rw_start write_enter]
          write_enter] read_enter] write_release] read_retry])
       (simp_all add: rw_op_defs rw_init_def)
  then show ?thesis
    by (simp add: before_abort_def abort_write_def rw_op_defs rw_init_def fun_eq_iff)
qed

end
