(* ===== verification/Constants.thy ===== *)
theory Constants
  imports Prelude
begin

text \<open>The constants of \<open>auth/constants.py\<close> that decide authorization.\<close>

definition DEFAULT_AUTH_GROUP :: string where
  "DEFAULT_AUTH_GROUP = ''mlflow.kubeflow.org''"

definition UNPROTECTED_PATH_PREFIXES :: "string list" where
  "UNPROTECTED_PATH_PREFIXES = [''/static'', ''/favicon.ico'', ''/health'', ''/build'']"

definition UNPROTECTED_PATHS :: "string list" where
  "UNPROTECTED_PATHS =
     [''/'', ''/health'', ''/version'', ''/server-info'', ''/metrics'',
      ''/api/3.0/mlflow/server-info'', ''/ajax-api/3.0/mlflow/server-info'',
      ''/ajax-api/3.0/mlflow/ui-telemetry'']"

definition RESOURCE_ASSISTANTS :: string where "RESOURCE_ASSISTANTS = ''assistants''"
definition RESOURCE_DATASETS :: string where "RESOURCE_DATASETS = ''datasets''"
definition RESOURCE_EXPERIMENTS :: string where "RESOURCE_EXPERIMENTS = ''experiments''"
definition RESOURCE_MCP_SERVERS :: string where "RESOURCE_MCP_SERVERS = ''mcpservers''"
definition RESOURCE_SKILLS :: string where "RESOURCE_SKILLS = ''skills''"
definition RESOURCE_REGISTERED_MODELS :: string where "RESOURCE_REGISTERED_MODELS = ''registeredmodels''"
definition RESOURCE_GATEWAY_SECRETS :: string where "RESOURCE_GATEWAY_SECRETS = ''gatewaysecrets''"
definition RESOURCE_GATEWAY_ENDPOINTS :: string where "RESOURCE_GATEWAY_ENDPOINTS = ''gatewayendpoints''"
definition RESOURCE_GATEWAY_MODEL_DEFINITIONS :: string where
  "RESOURCE_GATEWAY_MODEL_DEFINITIONS = ''gatewaymodeldefinitions''"
definition RESOURCE_GATEWAY_BUDGETS :: string where "RESOURCE_GATEWAY_BUDGETS = ''gatewaybudgets''"
definition RESOURCE_GATEWAY_GUARDRAILS :: string where
  "RESOURCE_GATEWAY_GUARDRAILS = ''gatewayguardrails''"

lemmas resource_defs = RESOURCE_ASSISTANTS_def RESOURCE_DATASETS_def RESOURCE_EXPERIMENTS_def
  RESOURCE_MCP_SERVERS_def RESOURCE_SKILLS_def RESOURCE_REGISTERED_MODELS_def
  RESOURCE_GATEWAY_SECRETS_def RESOURCE_GATEWAY_ENDPOINTS_def
  RESOURCE_GATEWAY_MODEL_DEFINITIONS_def RESOURCE_GATEWAY_BUDGETS_def
  RESOURCE_GATEWAY_GUARDRAILS_def

definition ALLOWED_RESOURCES :: "string list" where
  "ALLOWED_RESOURCES =
     [RESOURCE_ASSISTANTS, RESOURCE_DATASETS, RESOURCE_EXPERIMENTS, RESOURCE_MCP_SERVERS,
      RESOURCE_SKILLS, RESOURCE_REGISTERED_MODELS, RESOURCE_GATEWAY_SECRETS,
      RESOURCE_GATEWAY_ENDPOINTS, RESOURCE_GATEWAY_MODEL_DEFINITIONS, RESOURCE_GATEWAY_BUDGETS,
      RESOURCE_GATEWAY_GUARDRAILS]"

definition WORKSPACE_PERMISSION_RESOURCE_PRIORITY :: "string list" where
  "WORKSPACE_PERMISSION_RESOURCE_PRIORITY =
     [RESOURCE_EXPERIMENTS, RESOURCE_DATASETS, RESOURCE_MCP_SERVERS, RESOURCE_REGISTERED_MODELS,
      RESOURCE_GATEWAY_SECRETS, RESOURCE_GATEWAY_ENDPOINTS, RESOURCE_GATEWAY_MODEL_DEFINITIONS,
      RESOURCE_GATEWAY_BUDGETS, RESOURCE_GATEWAY_GUARDRAILS, RESOURCE_SKILLS]"

definition WORKSPACE_REQUIRED_ERROR_MESSAGE :: string where
  "WORKSPACE_REQUIRED_ERROR_MESSAGE = ''Workspace context is required for this request.''"

definition WORKSPACE_APIS_DISABLED_ERROR_MESSAGE :: string where
  "WORKSPACE_APIS_DISABLED_ERROR_MESSAGE =
     ''Workspace APIs are not supported when MLFLOW_K8S_AUTH_WORKSPACES_ENABLED=false.''"

definition WORKSPACE_MUTATION_DENIED_MESSAGE :: string where
  "WORKSPACE_MUTATION_DENIED_MESSAGE =
     ''Workspace create, update, and delete operations are not supported when MLflow workspaces map to Kubernetes namespaces.''"

end
