(* ===== verification/Rules.thy ===== *)
theory Rules
  imports Constants
begin

text \<open>
  \<open>auth/rules.py\<close>: the authorization rule, its constructors and the normalization of table values.
  The identifiers of name parsers (\<open>auth/resource_names.py\<close>) and collection policies
  (\<open>auth/collection_filters.py\<close>), string constants in the source, are the constructors of two
  datatypes. The well-formedness of a rule is what the authorization loop of \<open>auth/core.py\<close> needs
  so that it never meets a misconfigured rule.
\<close>

section \<open>Identifiers\<close>

datatype resource_name_parser =
    RESOURCE_NAME_PARSER_EXPERIMENT_NAME
  | RESOURCE_NAME_PARSER_EXPERIMENT_ID_TO_NAME
  | RESOURCE_NAME_PARSER_EXPERIMENT_IDS_TO_NAMES
  | RESOURCE_NAME_PARSER_NEW_EXPERIMENT_NAME
  | RESOURCE_NAME_PARSER_RUN_ID_TO_EXPERIMENT_NAME
  | RESOURCE_NAME_PARSER_MODEL_ID_TO_EXPERIMENT_NAME
  | RESOURCE_NAME_PARSER_DATASET_ID_TO_NAME
  | RESOURCE_NAME_PARSER_REGISTERED_MODEL_NAME
  | RESOURCE_NAME_PARSER_NEW_REGISTERED_MODEL_NAME
  | RESOURCE_NAME_PARSER_WEBHOOK_ID_TO_REGISTERED_MODEL_NAME
  | RESOURCE_NAME_PARSER_JOB_ID_TO_EXPERIMENT_NAME
  | RESOURCE_NAME_PARSER_ISSUE_ID_TO_EXPERIMENT_NAME
  | RESOURCE_NAME_PARSER_TRACE_REQUEST_ID_TO_EXPERIMENT_NAME
  | RESOURCE_NAME_PARSER_TRACE_ID_TO_EXPERIMENT_NAME
  | RESOURCE_NAME_PARSER_OPTIONAL_TRACE_IDS_TO_EXPERIMENT_NAMES
  | RESOURCE_NAME_PARSER_TRACE_V3_EXPERIMENT_ID_TO_NAME
  | RESOURCE_NAME_PARSER_ARTIFACT_EXPERIMENT_ID_TO_NAME
  | RESOURCE_NAME_PARSER_OTEL_EXPERIMENT_ID_HEADER_TO_NAME
  | RESOURCE_NAME_PARSER_MCP_SERVER_NAME
  | RESOURCE_NAME_PARSER_SKILL_NAME
  | RESOURCE_NAME_PARSER_SKILL_ARTIFACT_NAME
  | RESOURCE_NAME_PARSER_GATEWAY_SECRET_ID_TO_NAME
  | RESOURCE_NAME_PARSER_OPTIONAL_GATEWAY_SECRET_ID_TO_NAME
  | RESOURCE_NAME_PARSER_GATEWAY_ENDPOINT_ID_TO_NAME
  | RESOURCE_NAME_PARSER_GATEWAY_ENDPOINT_SELECTOR_TO_NAME
  | RESOURCE_NAME_PARSER_GATEWAY_PROXY_ENDPOINT_NAME
  | RESOURCE_NAME_PARSER_OPTIONAL_GATEWAY_ENDPOINT_NAME
  | RESOURCE_NAME_PARSER_OPTIONAL_ACTION_ENDPOINT_ID_TO_NAME
  | RESOURCE_NAME_PARSER_GATEWAY_MODEL_DEFINITION_ID_TO_NAME
  | RESOURCE_NAME_PARSER_GRAPHQL_EXPERIMENT_ID_TO_NAME
  | RESOURCE_NAME_PARSER_GRAPHQL_RUN_ID_TO_EXPERIMENT_NAME
  | RESOURCE_NAME_PARSER_GRAPHQL_RUN_IDS_TO_EXPERIMENT_NAMES

datatype collection_policy_id =
    COLLECTION_POLICY_BROAD_ONLY
  | COLLECTION_POLICY_GRAPHQL_FILTER
  | COLLECTION_POLICY_REQUEST_EXPERIMENT_IDS
  | COLLECTION_POLICY_REQUEST_EXPERIMENT_ID
  | COLLECTION_POLICY_REQUEST_RUN_IDS
  | COLLECTION_POLICY_REQUEST_TRACE_LOCATIONS
  | COLLECTION_POLICY_REQUEST_AUTHORIZED_EXPERIMENT_IDS
  | COLLECTION_POLICY_REQUEST_SEARCH_EXPERIMENTS
  | COLLECTION_POLICY_REQUEST_SEARCH_REGISTERED_MODELS
  | COLLECTION_POLICY_REQUEST_SEARCH_MODEL_VERSIONS
  | COLLECTION_POLICY_REQUEST_BATCH_GET_TRACES
  | COLLECTION_POLICY_REQUEST_BATCH_GET_TRACE_INFOS
  | COLLECTION_POLICY_REQUEST_LIST_SCORERS
  | COLLECTION_POLICY_REQUEST_SEARCH_DATASETS
  | COLLECTION_POLICY_REQUEST_SEARCH_MCP_SERVERS
  | COLLECTION_POLICY_REQUEST_SEARCH_MCP_ACCESS_ENDPOINTS

section \<open>Rules\<close>

record rule =
  rule_verb :: "string option"
  rule_resource :: "string option"
  rule_subresource :: "string option"
  resource_name_parsers :: "resource_name_parser list"
  collection_policy :: "collection_policy_id option"
  override_run_user :: bool
  apply_workspace_filter :: bool
  requires_workspace :: bool
  deny :: bool
  workspace_access_check :: bool
  deny_message :: "string option"
  allow_if_resource_reference_missing :: bool
  fallback_to_collection_policy_on_missing_resource_reference :: bool
  skip_gateway_dependency_permissions :: bool
  check_skill_artifact_permissions :: bool

text \<open>\<open>AuthorizationRule(verb)\<close> with every other field at its default.\<close>

definition authorization_rule :: "string option \<Rightarrow> rule" where
  "authorization_rule v =
     \<lparr>rule_verb = v, rule_resource = None, rule_subresource = None, resource_name_parsers = [],
      collection_policy = None, override_run_user = False, apply_workspace_filter = False,
      requires_workspace = True, deny = False, workspace_access_check = False, deny_message = None,
      allow_if_resource_reference_missing = False,
      fallback_to_collection_policy_on_missing_resource_reference = False,
      skip_gateway_dependency_permissions = False, check_skill_artifact_permissions = False\<rparr>"

definition assistants_rule :: "string option \<Rightarrow> rule" where
  "assistants_rule v = (authorization_rule v)\<lparr>rule_resource := Some RESOURCE_ASSISTANTS\<rparr>"

definition datasets_rule :: "string option \<Rightarrow> rule" where
  "datasets_rule v = (authorization_rule v)\<lparr>rule_resource := Some RESOURCE_DATASETS\<rparr>"

definition experiments_rule :: "string option \<Rightarrow> rule" where
  "experiments_rule v = (authorization_rule v)\<lparr>rule_resource := Some RESOURCE_EXPERIMENTS\<rparr>"

definition mcp_servers_rule :: "string option \<Rightarrow> rule" where
  "mcp_servers_rule v = (authorization_rule v)\<lparr>rule_resource := Some RESOURCE_MCP_SERVERS\<rparr>"

definition registered_models_rule :: "string option \<Rightarrow> rule" where
  "registered_models_rule v = (authorization_rule v)\<lparr>rule_resource := Some RESOURCE_REGISTERED_MODELS\<rparr>"

definition gateway_secrets_rule :: "string option \<Rightarrow> rule" where
  "gateway_secrets_rule v = (authorization_rule v)\<lparr>rule_resource := Some RESOURCE_GATEWAY_SECRETS\<rparr>"

definition gateway_endpoints_rule :: "string option \<Rightarrow> rule" where
  "gateway_endpoints_rule v = (authorization_rule v)\<lparr>rule_resource := Some RESOURCE_GATEWAY_ENDPOINTS\<rparr>"

definition gateway_budgets_rule :: "string option \<Rightarrow> rule" where
  "gateway_budgets_rule v = (authorization_rule v)\<lparr>rule_resource := Some RESOURCE_GATEWAY_BUDGETS\<rparr>"

definition gateway_guardrails_rule :: "string option \<Rightarrow> rule" where
  "gateway_guardrails_rule v = (authorization_rule v)\<lparr>rule_resource := Some RESOURCE_GATEWAY_GUARDRAILS\<rparr>"

definition gateway_model_definitions_rule :: "string option \<Rightarrow> rule" where
  "gateway_model_definitions_rule v = (authorization_rule v)\<lparr>rule_resource := Some RESOURCE_GATEWAY_MODEL_DEFINITIONS\<rparr>"

definition skills_rule :: "string option \<Rightarrow> rule" where
  "skills_rule v = (authorization_rule v)\<lparr>rule_resource := Some RESOURCE_SKILLS\<rparr>"

definition gateway_secrets_use_rule :: rule where
  "gateway_secrets_use_rule = (gateway_secrets_rule (Some ''create''))\<lparr>rule_subresource := Some ''use''\<rparr>"

definition gateway_endpoints_use_rule :: rule where
  "gateway_endpoints_use_rule = (gateway_endpoints_rule (Some ''create''))\<lparr>rule_subresource := Some ''use''\<rparr>"

text \<open>
  A value of a rule table: one rule, a tuple of rules, or the exception its constructor raised.
  The keyword arguments of \<open>_workspaces_rule\<close> are the update \<open>f\<close> of a rule without any.
\<close>

datatype rule_entry = One rule | Many "rule list" | Raised exc

definition workspaces_rule :: "string option \<Rightarrow> (rule \<Rightarrow> rule) \<Rightarrow> rule_entry" where
  "workspaces_rule v f =
     (let kw = f (authorization_rule None) in
      if v \<noteq> None \<and> \<not> (deny kw \<or> apply_workspace_filter kw \<or> workspace_access_check kw)
      then Raised PyValueError
      else if deny kw \<and> deny_message kw = None then Raised PyValueError
      else One (f (authorization_rule v)))"

definition normalize_resource_name :: "string option \<Rightarrow> exc + string option" where
  "normalize_resource_name r =
     (case r of
        None \<Rightarrow> Inr None
      | Some x \<Rightarrow> let n = filter (\<lambda>c. c \<noteq> CHR ''_'') x
                  in if n \<in> set ALLOWED_RESOURCES then Inr (Some n) else Inl PyValueError)"

definition normalize_rules :: "rule_entry \<Rightarrow> rule list" where
  "normalize_rules e = (case e of One r \<Rightarrow> [r] | Many rs \<Rightarrow> rs | Raised _ \<Rightarrow> [])"

lemmas rule_defs = authorization_rule_def assistants_rule_def
  datasets_rule_def
  experiments_rule_def
  mcp_servers_rule_def
  registered_models_rule_def
  gateway_secrets_rule_def
  gateway_endpoints_rule_def
  gateway_budgets_rule_def
  gateway_guardrails_rule_def
  gateway_model_definitions_rule_def
  skills_rule_def
  gateway_secrets_use_rule_def gateway_endpoints_use_rule_def workspaces_rule_def Let_def

section \<open>Well-formed rules\<close>

text \<open>
  \<open>wf_rule\<close>: a denying rule has its message, a rule with a verb asks for a resource the plugin knows
  with a verb of the Kubernetes API, and a rule without a verb says how the workspace is checked.
  \<open>policy_reads\<close>: collection policies only widen reads.
\<close>

definition wf_rule :: "rule \<Rightarrow> bool" where
  "wf_rule r =
     (if deny r then deny_message r \<noteq> None
      else case rule_verb r of
        None \<Rightarrow> workspace_access_check r \<or> apply_workspace_filter r
      | Some v \<Rightarrow> v \<in> set [''get'', ''list'', ''create'', ''update'', ''delete''] \<and>
          (case rule_resource r of None \<Rightarrow> False | Some res \<Rightarrow> res \<in> set ALLOWED_RESOURCES))"

definition policy_reads :: "rule \<Rightarrow> bool" where
  "policy_reads r =
     (case collection_policy r of
        None \<Rightarrow> True
      | Some _ \<Rightarrow> rule_verb r = Some ''get'' \<or> rule_verb r = Some ''list'')"

definition optional_named :: "rule \<Rightarrow> bool" where
  "optional_named r = (allow_if_resource_reference_missing r \<longrightarrow> resource_name_parsers r \<noteq> [])"

fun wf_entry :: "rule_entry \<Rightarrow> bool" where
  "wf_entry (One r) = (wf_rule r \<and> policy_reads r \<and> optional_named r)"
| "wf_entry (Many rs) = (rs \<noteq> [] \<and> list_all (\<lambda>r. wf_rule r \<and> policy_reads r \<and> optional_named r) rs)"
| "wf_entry (Raised e) = False"

end
