(* ===== verification/Rules_Base.thy ===== *)
theory Rules_Base
  imports Rules
begin

text \<open>
  The baseline tables of \<open>auth/rules_base.py\<close> and the skill registry's table of
  \<open>auth/rules_skill_registry.py\<close>, entry by entry and in the order of the source, which is the order
  of the dictionary. A request class is its protobuf name. \<open>OTLP_TRACES_PATH\<close> is a constant of
  \<open>mlflow.tracing.utils.otlp\<close> and a parameter here.
\<close>

definition GATEWAY_BUDGET_WINDOWS_DENIED_MESSAGE :: string where
  "GATEWAY_BUDGET_WINDOWS_DENIED_MESSAGE =
     ''Gateway budget window listing is disabled because the upstream MLflow endpoint returns tracker state without workspace filtering.''"

definition ISSUE_INVOKE_RULES :: "rule list" where
  "ISSUE_INVOKE_RULES =
     [(experiments_rule (Some ''update''))\<lparr>resource_name_parsers :=
       [RESOURCE_NAME_PARSER_EXPERIMENT_ID_TO_NAME]\<rparr>,
       (experiments_rule (Some ''get''))\<lparr>resource_name_parsers :=
       [RESOURCE_NAME_PARSER_OPTIONAL_TRACE_IDS_TO_EXPERIMENT_NAMES],
       allow_if_resource_reference_missing := True\<rparr>,
       gateway_secrets_use_rule\<lparr>resource_name_parsers :=
       [RESOURCE_NAME_PARSER_OPTIONAL_GATEWAY_SECRET_ID_TO_NAME],
       allow_if_resource_reference_missing := True\<rparr>,
       gateway_endpoints_use_rule\<lparr>resource_name_parsers :=
       [RESOURCE_NAME_PARSER_OPTIONAL_GATEWAY_ENDPOINT_NAME],
       allow_if_resource_reference_missing := True\<rparr>]"

definition CREATE_GATEWAY_GUARDRAIL_RULES :: "rule list" where
  "CREATE_GATEWAY_GUARDRAIL_RULES =
     [gateway_guardrails_rule (Some ''create''),
       gateway_endpoints_use_rule\<lparr>resource_name_parsers :=
       [RESOURCE_NAME_PARSER_OPTIONAL_ACTION_ENDPOINT_ID_TO_NAME],
       allow_if_resource_reference_missing := True\<rparr>]"

definition UPDATE_ENDPOINT_GUARDRAIL_RULES :: "rule list" where
  "UPDATE_ENDPOINT_GUARDRAIL_RULES =
     [(gateway_endpoints_rule (Some ''update''))\<lparr>resource_name_parsers :=
       [RESOURCE_NAME_PARSER_GATEWAY_ENDPOINT_ID_TO_NAME], skip_gateway_dependency_permissions :=
       True\<rparr>, gateway_guardrails_rule (Some ''update'')]"

definition LIST_ENDPOINT_GUARDRAIL_RULES :: "rule list" where
  "LIST_ENDPOINT_GUARDRAIL_RULES =
     [(gateway_endpoints_rule (Some ''get''))\<lparr>resource_name_parsers :=
       [RESOURCE_NAME_PARSER_GATEWAY_ENDPOINT_ID_TO_NAME]\<rparr>,
       gateway_guardrails_rule (Some ''list'')]"

definition base_request_rules_1 :: "(string \<times> rule_entry) list" where
  "base_request_rules_1 = [
     (''CreateExperiment'', One (experiments_rule (Some ''create''))),
     (''GetExperiment'', One ((experiments_rule (Some ''get''))\<lparr>resource_name_parsers :=
       [RESOURCE_NAME_PARSER_EXPERIMENT_ID_TO_NAME]\<rparr>)),
     (''GetExperimentByName'',
       One ((experiments_rule (Some ''get''))\<lparr>resource_name_parsers :=
       [RESOURCE_NAME_PARSER_EXPERIMENT_NAME]\<rparr>)),
     (''DeleteExperiment'',
       One ((experiments_rule (Some ''delete''))\<lparr>resource_name_parsers :=
       [RESOURCE_NAME_PARSER_EXPERIMENT_ID_TO_NAME]\<rparr>)),
     (''RestoreExperiment'',
       One ((experiments_rule (Some ''update''))\<lparr>resource_name_parsers :=
       [RESOURCE_NAME_PARSER_EXPERIMENT_ID_TO_NAME]\<rparr>)),
     (''UpdateExperiment'',
       One ((experiments_rule (Some ''update''))\<lparr>resource_name_parsers :=
       [RESOURCE_NAME_PARSER_EXPERIMENT_ID_TO_NAME,
       RESOURCE_NAME_PARSER_NEW_EXPERIMENT_NAME]\<rparr>)),
     (''SetExperimentTag'',
       One ((experiments_rule (Some ''update''))\<lparr>resource_name_parsers :=
       [RESOURCE_NAME_PARSER_EXPERIMENT_ID_TO_NAME]\<rparr>)),
     (''DeleteExperimentTag'',
       One ((experiments_rule (Some ''update''))\<lparr>resource_name_parsers :=
       [RESOURCE_NAME_PARSER_EXPERIMENT_ID_TO_NAME]\<rparr>)),
     (''SearchExperiments'', One ((experiments_rule (Some ''list''))\<lparr>collection_policy :=
       Some COLLECTION_POLICY_REQUEST_SEARCH_EXPERIMENTS\<rparr>)),
     (''AddDatasetToExperiments'',
       Many [(datasets_rule (Some ''update''))\<lparr>resource_name_parsers :=
       [RESOURCE_NAME_PARSER_DATASET_ID_TO_NAME]\<rparr>,
       (experiments_rule (Some ''update''))\<lparr>resource_name_parsers :=
       [RESOURCE_NAME_PARSER_EXPERIMENT_IDS_TO_NAMES]\<rparr>]),
     (''CreateDataset'', One (datasets_rule (Some ''create''))),
     (''DeleteDataset'', One ((datasets_rule (Some ''delete''))\<lparr>resource_name_parsers :=
       [RESOURCE_NAME_PARSER_DATASET_ID_TO_NAME]\<rparr>)),
     (''DeleteDatasetRecords'',
       One ((datasets_rule (Some ''update''))\<lparr>resource_name_parsers :=
       [RESOURCE_NAME_PARSER_DATASET_ID_TO_NAME]\<rparr>)),
     (''DeleteDatasetTag'', One ((datasets_rule (Some ''update''))\<lparr>resource_name_parsers :=
       [RESOURCE_NAME_PARSER_DATASET_ID_TO_NAME]\<rparr>)),
     (''RemoveDatasetFromExperiments'',
       Many [(datasets_rule (Some ''update''))\<lparr>resource_name_parsers :=
       [RESOURCE_NAME_PARSER_DATASET_ID_TO_NAME]\<rparr>,
       (experiments_rule (Some ''update''))\<lparr>resource_name_parsers :=
       [RESOURCE_NAME_PARSER_EXPERIMENT_IDS_TO_NAMES]\<rparr>]),
     (''SetDatasetTags'', One ((datasets_rule (Some ''update''))\<lparr>resource_name_parsers :=
       [RESOURCE_NAME_PARSER_DATASET_ID_TO_NAME]\<rparr>)),
     (''UpsertDatasetRecords'',
       One ((datasets_rule (Some ''update''))\<lparr>resource_name_parsers :=
       [RESOURCE_NAME_PARSER_DATASET_ID_TO_NAME]\<rparr>)),
     (''CreateAssessment'',
       One ((experiments_rule (Some ''update''))\<lparr>resource_name_parsers :=
       [RESOURCE_NAME_PARSER_TRACE_ID_TO_EXPERIMENT_NAME]\<rparr>)),
     (''UpdateAssessment'',
       One ((experiments_rule (Some ''update''))\<lparr>resource_name_parsers :=
       [RESOURCE_NAME_PARSER_TRACE_ID_TO_EXPERIMENT_NAME]\<rparr>)),
     (''CreateRun'', One ((experiments_rule (Some ''update''))\<lparr>resource_name_parsers :=
       [RESOURCE_NAME_PARSER_EXPERIMENT_ID_TO_NAME], override_run_user := True\<rparr>)),
     (''DeleteRun'', One ((experiments_rule (Some ''update''))\<lparr>resource_name_parsers :=
       [RESOURCE_NAME_PARSER_RUN_ID_TO_EXPERIMENT_NAME]\<rparr>)),
     (''RestoreRun'', One ((experiments_rule (Some ''update''))\<lparr>resource_name_parsers :=
       [RESOURCE_NAME_PARSER_RUN_ID_TO_EXPERIMENT_NAME]\<rparr>)),
     (''UpdateRun'', One ((experiments_rule (Some ''update''))\<lparr>resource_name_parsers :=
       [RESOURCE_NAME_PARSER_RUN_ID_TO_EXPERIMENT_NAME]\<rparr>)),
     (''LogMetric'', One ((experiments_rule (Some ''update''))\<lparr>resource_name_parsers :=
       [RESOURCE_NAME_PARSER_RUN_ID_TO_EXPERIMENT_NAME]\<rparr>)),
     (''LogBatch'', One ((experiments_rule (Some ''update''))\<lparr>resource_name_parsers :=
       [RESOURCE_NAME_PARSER_RUN_ID_TO_EXPERIMENT_NAME]\<rparr>)),
     (''LogModel'', One ((experiments_rule (Some ''update''))\<lparr>resource_name_parsers :=
       [RESOURCE_NAME_PARSER_RUN_ID_TO_EXPERIMENT_NAME]\<rparr>)),
     (''SetTag'', One ((experiments_rule (Some ''update''))\<lparr>resource_name_parsers :=
       [RESOURCE_NAME_PARSER_RUN_ID_TO_EXPERIMENT_NAME]\<rparr>)),
     (''DeleteTag'', One ((experiments_rule (Some ''update''))\<lparr>resource_name_parsers :=
       [RESOURCE_NAME_PARSER_RUN_ID_TO_EXPERIMENT_NAME]\<rparr>)),
     (''LogParam'', One ((experiments_rule (Some ''update''))\<lparr>resource_name_parsers :=
       [RESOURCE_NAME_PARSER_RUN_ID_TO_EXPERIMENT_NAME]\<rparr>)),
     (''CreateLoggedModel'',
       One ((experiments_rule (Some ''update''))\<lparr>resource_name_parsers :=
       [RESOURCE_NAME_PARSER_EXPERIMENT_ID_TO_NAME]\<rparr>)),
     (''DeleteLoggedModel'',
       One ((experiments_rule (Some ''update''))\<lparr>resource_name_parsers :=
       [RESOURCE_NAME_PARSER_MODEL_ID_TO_EXPERIMENT_NAME]\<rparr>))]"

definition base_request_rules_2 :: "(string \<times> rule_entry) list" where
  "base_request_rules_2 = [
     (''FinalizeLoggedModel'',
       One ((experiments_rule (Some ''update''))\<lparr>resource_name_parsers :=
       [RESOURCE_NAME_PARSER_MODEL_ID_TO_EXPERIMENT_NAME]\<rparr>)),
     (''DeleteLoggedModelTag'',
       One ((experiments_rule (Some ''update''))\<lparr>resource_name_parsers :=
       [RESOURCE_NAME_PARSER_MODEL_ID_TO_EXPERIMENT_NAME]\<rparr>)),
     (''SetLoggedModelTags'',
       One ((experiments_rule (Some ''update''))\<lparr>resource_name_parsers :=
       [RESOURCE_NAME_PARSER_MODEL_ID_TO_EXPERIMENT_NAME]\<rparr>)),
     (''LogLoggedModelParamsRequest'',
       One ((experiments_rule (Some ''update''))\<lparr>resource_name_parsers :=
       [RESOURCE_NAME_PARSER_MODEL_ID_TO_EXPERIMENT_NAME]\<rparr>)),
     (''RegisterScorer'', One ((experiments_rule (Some ''update''))\<lparr>resource_name_parsers :=
       [RESOURCE_NAME_PARSER_EXPERIMENT_ID_TO_NAME]\<rparr>)),
     (''DeleteScorer'', One ((experiments_rule (Some ''update''))\<lparr>resource_name_parsers :=
       [RESOURCE_NAME_PARSER_EXPERIMENT_ID_TO_NAME]\<rparr>)),
     (''EndTrace'', One ((experiments_rule (Some ''update''))\<lparr>resource_name_parsers :=
       [RESOURCE_NAME_PARSER_TRACE_REQUEST_ID_TO_EXPERIMENT_NAME]\<rparr>)),
     (''LinkPromptsToTrace'',
       One ((experiments_rule (Some ''update''))\<lparr>resource_name_parsers :=
       [RESOURCE_NAME_PARSER_TRACE_ID_TO_EXPERIMENT_NAME]\<rparr>)),
     (''LinkTracesToRun'',
       One ((experiments_rule (Some ''update''))\<lparr>resource_name_parsers :=
       [RESOURCE_NAME_PARSER_RUN_ID_TO_EXPERIMENT_NAME]\<rparr>)),
     (''DeleteTraceTag'', One ((experiments_rule (Some ''update''))\<lparr>resource_name_parsers :=
       [RESOURCE_NAME_PARSER_TRACE_REQUEST_ID_TO_EXPERIMENT_NAME]\<rparr>)),
     (''DeleteTraceTagV3'',
       One ((experiments_rule (Some ''update''))\<lparr>resource_name_parsers :=
       [RESOURCE_NAME_PARSER_TRACE_ID_TO_EXPERIMENT_NAME]\<rparr>)),
     (''DeleteTraces'', One ((experiments_rule (Some ''update''))\<lparr>resource_name_parsers :=
       [RESOURCE_NAME_PARSER_EXPERIMENT_ID_TO_NAME]\<rparr>)),
     (''DeleteTracesV3'', One ((experiments_rule (Some ''update''))\<lparr>resource_name_parsers :=
       [RESOURCE_NAME_PARSER_EXPERIMENT_ID_TO_NAME]\<rparr>)),
     (''SetTraceTag'', One ((experiments_rule (Some ''update''))\<lparr>resource_name_parsers :=
       [RESOURCE_NAME_PARSER_TRACE_REQUEST_ID_TO_EXPERIMENT_NAME]\<rparr>)),
     (''SetTraceTagV3'', One ((experiments_rule (Some ''update''))\<lparr>resource_name_parsers :=
       [RESOURCE_NAME_PARSER_TRACE_ID_TO_EXPERIMENT_NAME]\<rparr>)),
     (''StartTrace'', One ((experiments_rule (Some ''update''))\<lparr>resource_name_parsers :=
       [RESOURCE_NAME_PARSER_EXPERIMENT_ID_TO_NAME]\<rparr>)),
     (''StartTraceV3'', One ((experiments_rule (Some ''update''))\<lparr>resource_name_parsers :=
       [RESOURCE_NAME_PARSER_TRACE_V3_EXPERIMENT_ID_TO_NAME]\<rparr>)),
     (''LogInputs'', One ((experiments_rule (Some ''update''))\<lparr>resource_name_parsers :=
       [RESOURCE_NAME_PARSER_RUN_ID_TO_EXPERIMENT_NAME]\<rparr>)),
     (''LogOutputs'', One ((experiments_rule (Some ''update''))\<lparr>resource_name_parsers :=
       [RESOURCE_NAME_PARSER_RUN_ID_TO_EXPERIMENT_NAME]\<rparr>)),
     (''CompleteMultipartUpload'',
       One ((experiments_rule (Some ''update''))\<lparr>resource_name_parsers :=
       [RESOURCE_NAME_PARSER_ARTIFACT_EXPERIMENT_ID_TO_NAME]\<rparr>)),
     (''CreateMultipartUpload'',
       One ((experiments_rule (Some ''update''))\<lparr>resource_name_parsers :=
       [RESOURCE_NAME_PARSER_ARTIFACT_EXPERIMENT_ID_TO_NAME]\<rparr>)),
     (''AbortMultipartUpload'',
       One ((experiments_rule (Some ''update''))\<lparr>resource_name_parsers :=
       [RESOURCE_NAME_PARSER_ARTIFACT_EXPERIMENT_ID_TO_NAME]\<rparr>)),
     (''DeleteArtifact'', One ((experiments_rule (Some ''update''))\<lparr>resource_name_parsers :=
       [RESOURCE_NAME_PARSER_ARTIFACT_EXPERIMENT_ID_TO_NAME]\<rparr>)),
     (''UploadArtifact'', One ((experiments_rule (Some ''update''))\<lparr>resource_name_parsers :=
       [RESOURCE_NAME_PARSER_ARTIFACT_EXPERIMENT_ID_TO_NAME]\<rparr>)),
     (''GetAssessmentRequest'',
       One ((experiments_rule (Some ''get''))\<lparr>resource_name_parsers :=
       [RESOURCE_NAME_PARSER_TRACE_ID_TO_EXPERIMENT_NAME]\<rparr>)),
     (''GetRun'', One ((experiments_rule (Some ''get''))\<lparr>resource_name_parsers :=
       [RESOURCE_NAME_PARSER_RUN_ID_TO_EXPERIMENT_NAME]\<rparr>)),
     (''GetMetricHistory'', One ((experiments_rule (Some ''get''))\<lparr>resource_name_parsers :=
       [RESOURCE_NAME_PARSER_RUN_ID_TO_EXPERIMENT_NAME]\<rparr>)),
     (''ListArtifacts'', One ((experiments_rule (Some ''get''))\<lparr>resource_name_parsers :=
       [RESOURCE_NAME_PARSER_RUN_ID_TO_EXPERIMENT_NAME]\<rparr>)),
     (''GetLoggedModel'', One ((experiments_rule (Some ''get''))\<lparr>resource_name_parsers :=
       [RESOURCE_NAME_PARSER_MODEL_ID_TO_EXPERIMENT_NAME]\<rparr>)),
     (''ListLoggedModelArtifacts'',
       One ((experiments_rule (Some ''get''))\<lparr>resource_name_parsers :=
       [RESOURCE_NAME_PARSER_MODEL_ID_TO_EXPERIMENT_NAME]\<rparr>)),
     (''ListScorers'', One ((experiments_rule (Some ''get''))\<lparr>collection_policy :=
       Some COLLECTION_POLICY_REQUEST_LIST_SCORERS\<rparr>)),
     (''GetScorer'', One ((experiments_rule (Some ''get''))\<lparr>resource_name_parsers :=
       [RESOURCE_NAME_PARSER_EXPERIMENT_ID_TO_NAME]\<rparr>)),
     (''ListScorerVersions'',
       One ((experiments_rule (Some ''get''))\<lparr>resource_name_parsers :=
       [RESOURCE_NAME_PARSER_EXPERIMENT_ID_TO_NAME]\<rparr>)),
     (''GetTraceInfo'', One ((experiments_rule (Some ''get''))\<lparr>resource_name_parsers :=
       [RESOURCE_NAME_PARSER_TRACE_REQUEST_ID_TO_EXPERIMENT_NAME]\<rparr>))]"

definition base_request_rules_3 :: "(string \<times> rule_entry) list" where
  "base_request_rules_3 = [
     (''GetTraceInfoV3'', One ((experiments_rule (Some ''get''))\<lparr>resource_name_parsers :=
       [RESOURCE_NAME_PARSER_TRACE_ID_TO_EXPERIMENT_NAME]\<rparr>)),
     (''DownloadArtifact'', One ((experiments_rule (Some ''get''))\<lparr>resource_name_parsers :=
       [RESOURCE_NAME_PARSER_ARTIFACT_EXPERIMENT_ID_TO_NAME]\<rparr>)),
     (''ListArtifactsMlflowArtifacts'',
       One ((experiments_rule (Some ''get''))\<lparr>resource_name_parsers :=
       [RESOURCE_NAME_PARSER_ARTIFACT_EXPERIMENT_ID_TO_NAME]\<rparr>)),
     (''GetDataset'', One ((datasets_rule (Some ''get''))\<lparr>resource_name_parsers :=
       [RESOURCE_NAME_PARSER_DATASET_ID_TO_NAME]\<rparr>)),
     (''GetDatasetExperimentIds'',
       One ((datasets_rule (Some ''list''))\<lparr>resource_name_parsers :=
       [RESOURCE_NAME_PARSER_DATASET_ID_TO_NAME]\<rparr>)),
     (''GetDatasetRecords'', One ((datasets_rule (Some ''list''))\<lparr>resource_name_parsers :=
       [RESOURCE_NAME_PARSER_DATASET_ID_TO_NAME]\<rparr>)),
     (''SearchDatasets'', One ((datasets_rule (Some ''list''))\<lparr>collection_policy :=
       Some COLLECTION_POLICY_REQUEST_EXPERIMENT_IDS\<rparr>)),
     (''SearchEvaluationDatasets'',
       One ((datasets_rule (Some ''list''))\<lparr>collection_policy :=
       Some COLLECTION_POLICY_REQUEST_SEARCH_DATASETS\<rparr>)),
     (''SearchLoggedModels'', One ((experiments_rule (Some ''list''))\<lparr>collection_policy :=
       Some COLLECTION_POLICY_REQUEST_EXPERIMENT_IDS\<rparr>)),
     (''BatchGetTraces'', One ((experiments_rule (Some ''list''))\<lparr>collection_policy :=
       Some COLLECTION_POLICY_REQUEST_BATCH_GET_TRACES\<rparr>)),
     (''CalculateTraceFilterCorrelation'',
       One ((experiments_rule (Some ''list''))\<lparr>collection_policy :=
       Some COLLECTION_POLICY_REQUEST_EXPERIMENT_IDS\<rparr>)),
     (''QueryTraceMetrics'', One ((experiments_rule (Some ''list''))\<lparr>collection_policy :=
       Some COLLECTION_POLICY_REQUEST_EXPERIMENT_IDS\<rparr>)),
     (''SearchTraces'', One ((experiments_rule (Some ''list''))\<lparr>collection_policy :=
       Some COLLECTION_POLICY_REQUEST_AUTHORIZED_EXPERIMENT_IDS\<rparr>)),
     (''SearchTracesV3'', One ((experiments_rule (Some ''list''))\<lparr>collection_policy :=
       Some COLLECTION_POLICY_REQUEST_TRACE_LOCATIONS\<rparr>)),
     (''GetMetricHistoryBulkInterval'',
       One ((experiments_rule (Some ''list''))\<lparr>collection_policy :=
       Some COLLECTION_POLICY_REQUEST_RUN_IDS\<rparr>)),
     (''SearchRuns'', One ((experiments_rule (Some ''list''))\<lparr>collection_policy :=
       Some COLLECTION_POLICY_REQUEST_EXPERIMENT_IDS\<rparr>)),
     (''CreateRegisteredModel'', One (registered_models_rule (Some ''create''))),
     (''GetRegisteredModel'',
       One ((registered_models_rule (Some ''get''))\<lparr>resource_name_parsers :=
       [RESOURCE_NAME_PARSER_REGISTERED_MODEL_NAME]\<rparr>)),
     (''DeleteRegisteredModel'',
       One ((registered_models_rule (Some ''delete''))\<lparr>resource_name_parsers :=
       [RESOURCE_NAME_PARSER_REGISTERED_MODEL_NAME]\<rparr>)),
     (''UpdateRegisteredModel'',
       One ((registered_models_rule (Some ''update''))\<lparr>resource_name_parsers :=
       [RESOURCE_NAME_PARSER_REGISTERED_MODEL_NAME]\<rparr>)),
     (''RenameRegisteredModel'',
       One ((registered_models_rule (Some ''update''))\<lparr>resource_name_parsers :=
       [RESOURCE_NAME_PARSER_REGISTERED_MODEL_NAME,
       RESOURCE_NAME_PARSER_NEW_REGISTERED_MODEL_NAME]\<rparr>)),
     (''SearchRegisteredModels'',
       One ((registered_models_rule (Some ''list''))\<lparr>collection_policy :=
       Some COLLECTION_POLICY_REQUEST_SEARCH_REGISTERED_MODELS\<rparr>)),
     (''CreateModelVersion'',
       One ((registered_models_rule (Some ''update''))\<lparr>resource_name_parsers :=
       [RESOURCE_NAME_PARSER_REGISTERED_MODEL_NAME]\<rparr>)),
     (''DeleteModelVersion'',
       One ((registered_models_rule (Some ''update''))\<lparr>resource_name_parsers :=
       [RESOURCE_NAME_PARSER_REGISTERED_MODEL_NAME]\<rparr>)),
     (''UpdateModelVersion'',
       One ((registered_models_rule (Some ''update''))\<lparr>resource_name_parsers :=
       [RESOURCE_NAME_PARSER_REGISTERED_MODEL_NAME]\<rparr>)),
     (''TransitionModelVersionStage'',
       One ((registered_models_rule (Some ''update''))\<lparr>resource_name_parsers :=
       [RESOURCE_NAME_PARSER_REGISTERED_MODEL_NAME]\<rparr>)),
     (''SetRegisteredModelTag'',
       One ((registered_models_rule (Some ''update''))\<lparr>resource_name_parsers :=
       [RESOURCE_NAME_PARSER_REGISTERED_MODEL_NAME]\<rparr>)),
     (''DeleteRegisteredModelTag'',
       One ((registered_models_rule (Some ''update''))\<lparr>resource_name_parsers :=
       [RESOURCE_NAME_PARSER_REGISTERED_MODEL_NAME]\<rparr>)),
     (''SetModelVersionTag'',
       One ((registered_models_rule (Some ''update''))\<lparr>resource_name_parsers :=
       [RESOURCE_NAME_PARSER_REGISTERED_MODEL_NAME]\<rparr>)),
     (''DeleteModelVersionTag'',
       One ((registered_models_rule (Some ''update''))\<lparr>resource_name_parsers :=
       [RESOURCE_NAME_PARSER_REGISTERED_MODEL_NAME]\<rparr>)),
     (''SetRegisteredModelAlias'',
       One ((registered_models_rule (Some ''update''))\<lparr>resource_name_parsers :=
       [RESOURCE_NAME_PARSER_REGISTERED_MODEL_NAME]\<rparr>)),
     (''DeleteRegisteredModelAlias'',
       One ((registered_models_rule (Some ''update''))\<lparr>resource_name_parsers :=
       [RESOURCE_NAME_PARSER_REGISTERED_MODEL_NAME]\<rparr>)),
     (''CreateWebhook'',
       One ((registered_models_rule (Some ''update''))\<lparr>resource_name_parsers :=
       [RESOURCE_NAME_PARSER_REGISTERED_MODEL_NAME]\<rparr>)),
     (''DeleteWebhook'',
       One ((registered_models_rule (Some ''update''))\<lparr>resource_name_parsers :=
       [RESOURCE_NAME_PARSER_WEBHOOK_ID_TO_REGISTERED_MODEL_NAME]\<rparr>))]"

definition base_request_rules_4 :: "(string \<times> rule_entry) list" where
  "base_request_rules_4 = [
     (''TestWebhook'',
       One ((registered_models_rule (Some ''update''))\<lparr>resource_name_parsers :=
       [RESOURCE_NAME_PARSER_WEBHOOK_ID_TO_REGISTERED_MODEL_NAME]\<rparr>)),
     (''UpdateWebhook'',
       One ((registered_models_rule (Some ''update''))\<lparr>resource_name_parsers :=
       [RESOURCE_NAME_PARSER_WEBHOOK_ID_TO_REGISTERED_MODEL_NAME]\<rparr>)),
     (''GetModelVersion'',
       One ((registered_models_rule (Some ''get''))\<lparr>resource_name_parsers :=
       [RESOURCE_NAME_PARSER_REGISTERED_MODEL_NAME]\<rparr>)),
     (''GetModelVersionDownloadUri'',
       One ((registered_models_rule (Some ''get''))\<lparr>resource_name_parsers :=
       [RESOURCE_NAME_PARSER_REGISTERED_MODEL_NAME]\<rparr>)),
     (''GetModelVersionByAlias'',
       One ((registered_models_rule (Some ''get''))\<lparr>resource_name_parsers :=
       [RESOURCE_NAME_PARSER_REGISTERED_MODEL_NAME]\<rparr>)),
     (''GetWebhook'', One ((registered_models_rule (Some ''get''))\<lparr>resource_name_parsers :=
       [RESOURCE_NAME_PARSER_WEBHOOK_ID_TO_REGISTERED_MODEL_NAME]\<rparr>)),
     (''GetLatestVersions'',
       One ((registered_models_rule (Some ''list''))\<lparr>resource_name_parsers :=
       [RESOURCE_NAME_PARSER_REGISTERED_MODEL_NAME]\<rparr>)),
     (''ListWebhooks'', One ((registered_models_rule (Some ''list''))\<lparr>collection_policy :=
       Some COLLECTION_POLICY_BROAD_ONLY\<rparr>)),
     (''CreateGatewaySecret'', One (gateway_secrets_rule (Some ''create''))),
     (''GetGatewaySecretInfo'',
       One ((gateway_secrets_rule (Some ''get''))\<lparr>resource_name_parsers :=
       [RESOURCE_NAME_PARSER_GATEWAY_SECRET_ID_TO_NAME]\<rparr>)),
     (''UpdateGatewaySecret'',
       One ((gateway_secrets_rule (Some ''update''))\<lparr>resource_name_parsers :=
       [RESOURCE_NAME_PARSER_GATEWAY_SECRET_ID_TO_NAME]\<rparr>)),
     (''DeleteGatewaySecret'',
       One ((gateway_secrets_rule (Some ''delete''))\<lparr>resource_name_parsers :=
       [RESOURCE_NAME_PARSER_GATEWAY_SECRET_ID_TO_NAME]\<rparr>)),
     (''ListGatewaySecretInfos'',
       One ((gateway_secrets_rule (Some ''list''))\<lparr>collection_policy :=
       Some COLLECTION_POLICY_BROAD_ONLY\<rparr>)),
     (''CreateGatewayEndpoint'', One (gateway_endpoints_rule (Some ''create''))),
     (''GetGatewayEndpoint'',
       One ((gateway_endpoints_rule (Some ''get''))\<lparr>resource_name_parsers :=
       [RESOURCE_NAME_PARSER_GATEWAY_ENDPOINT_SELECTOR_TO_NAME]\<rparr>)),
     (''UpdateGatewayEndpoint'',
       One ((gateway_endpoints_rule (Some ''update''))\<lparr>resource_name_parsers :=
       [RESOURCE_NAME_PARSER_GATEWAY_ENDPOINT_ID_TO_NAME]\<rparr>)),
     (''DeleteGatewayEndpoint'',
       One ((gateway_endpoints_rule (Some ''delete''))\<lparr>resource_name_parsers :=
       [RESOURCE_NAME_PARSER_GATEWAY_ENDPOINT_ID_TO_NAME]\<rparr>)),
     (''ListGatewayEndpoints'',
       One ((gateway_endpoints_rule (Some ''list''))\<lparr>collection_policy :=
       Some COLLECTION_POLICY_BROAD_ONLY\<rparr>)),
     (''CreateGatewayModelDefinition'', One (gateway_model_definitions_rule (Some ''create''))),
     (''GetGatewayModelDefinition'',
       One ((gateway_model_definitions_rule (Some ''get''))\<lparr>resource_name_parsers :=
       [RESOURCE_NAME_PARSER_GATEWAY_MODEL_DEFINITION_ID_TO_NAME]\<rparr>)),
     (''UpdateGatewayModelDefinition'',
       One ((gateway_model_definitions_rule (Some ''update''))\<lparr>resource_name_parsers :=
       [RESOURCE_NAME_PARSER_GATEWAY_MODEL_DEFINITION_ID_TO_NAME]\<rparr>)),
     (''DeleteGatewayModelDefinition'',
       One ((gateway_model_definitions_rule (Some ''delete''))\<lparr>resource_name_parsers :=
       [RESOURCE_NAME_PARSER_GATEWAY_MODEL_DEFINITION_ID_TO_NAME]\<rparr>)),
     (''ListGatewayModelDefinitions'',
       One ((gateway_model_definitions_rule (Some ''list''))\<lparr>collection_policy :=
       Some COLLECTION_POLICY_BROAD_ONLY\<rparr>)),
     (''AttachModelToGatewayEndpoint'',
       One ((gateway_endpoints_rule (Some ''update''))\<lparr>resource_name_parsers :=
       [RESOURCE_NAME_PARSER_GATEWAY_ENDPOINT_ID_TO_NAME]\<rparr>)),
     (''DetachModelFromGatewayEndpoint'',
       One ((gateway_endpoints_rule (Some ''update''))\<lparr>resource_name_parsers :=
       [RESOURCE_NAME_PARSER_GATEWAY_ENDPOINT_ID_TO_NAME]\<rparr>)),
     (''CreateGatewayEndpointBinding'',
       One ((gateway_endpoints_rule (Some ''update''))\<lparr>resource_name_parsers :=
       [RESOURCE_NAME_PARSER_GATEWAY_ENDPOINT_ID_TO_NAME]\<rparr>)),
     (''DeleteGatewayEndpointBinding'',
       One ((gateway_endpoints_rule (Some ''update''))\<lparr>resource_name_parsers :=
       [RESOURCE_NAME_PARSER_GATEWAY_ENDPOINT_ID_TO_NAME]\<rparr>)),
     (''ListGatewayEndpointBindings'',
       One ((gateway_endpoints_rule (Some ''list''))\<lparr>resource_name_parsers :=
       [RESOURCE_NAME_PARSER_GATEWAY_ENDPOINT_ID_TO_NAME]\<rparr>)),
     (''SetGatewayEndpointTag'',
       One ((gateway_endpoints_rule (Some ''update''))\<lparr>resource_name_parsers :=
       [RESOURCE_NAME_PARSER_GATEWAY_ENDPOINT_ID_TO_NAME]\<rparr>)),
     (''DeleteGatewayEndpointTag'',
       One ((gateway_endpoints_rule (Some ''update''))\<lparr>resource_name_parsers :=
       [RESOURCE_NAME_PARSER_GATEWAY_ENDPOINT_ID_TO_NAME]\<rparr>)),
     (''CreatePromptOptimizationJob'',
       One ((experiments_rule (Some ''update''))\<lparr>resource_name_parsers :=
       [RESOURCE_NAME_PARSER_EXPERIMENT_ID_TO_NAME]\<rparr>)),
     (''GetPromptOptimizationJob'',
       One ((experiments_rule (Some ''get''))\<lparr>resource_name_parsers :=
       [RESOURCE_NAME_PARSER_JOB_ID_TO_EXPERIMENT_NAME]\<rparr>)),
     (''SearchPromptOptimizationJobs'',
       One ((experiments_rule (Some ''list''))\<lparr>collection_policy :=
       Some COLLECTION_POLICY_REQUEST_EXPERIMENT_ID\<rparr>)),
     (''CancelPromptOptimizationJob'',
       One ((experiments_rule (Some ''update''))\<lparr>resource_name_parsers :=
       [RESOURCE_NAME_PARSER_JOB_ID_TO_EXPERIMENT_NAME]\<rparr>)),
     (''DeletePromptOptimizationJob'',
       One ((experiments_rule (Some ''update''))\<lparr>resource_name_parsers :=
       [RESOURCE_NAME_PARSER_JOB_ID_TO_EXPERIMENT_NAME]\<rparr>)),
     (''ListWorkspaces'', workspaces_rule None (\<lambda>r. r\<lparr>apply_workspace_filter :=
       True, requires_workspace := False\<rparr>)),
     (''GetWorkspace'', One ((authorization_rule None)\<lparr>requires_workspace := False,
       workspace_access_check := True\<rparr>))]"

definition base_request_rules_5 :: "(string \<times> rule_entry) list" where
  "base_request_rules_5 = [
     (''CreateWorkspace'', workspaces_rule (Some ''create'') (\<lambda>r. r\<lparr>deny := True,
       deny_message := Some WORKSPACE_MUTATION_DENIED_MESSAGE, requires_workspace := False\<rparr>)),
     (''UpdateWorkspace'', workspaces_rule (Some ''update'') (\<lambda>r. r\<lparr>deny := True,
       deny_message := Some WORKSPACE_MUTATION_DENIED_MESSAGE, requires_workspace := False\<rparr>)),
     (''DeleteWorkspace'', workspaces_rule (Some ''delete'') (\<lambda>r. r\<lparr>deny := True,
       deny_message := Some WORKSPACE_MUTATION_DENIED_MESSAGE, requires_workspace := False\<rparr>)),
     (''BatchGetTraceInfos'', One ((experiments_rule (Some ''list''))\<lparr>collection_policy :=
       Some COLLECTION_POLICY_REQUEST_BATCH_GET_TRACE_INFOS\<rparr>)),
     (''GetPresignedDownloadUrl'',
       One ((experiments_rule (Some ''get''))\<lparr>resource_name_parsers :=
       [RESOURCE_NAME_PARSER_ARTIFACT_EXPERIMENT_ID_TO_NAME]\<rparr>)),
     (''CreateIssue'', One ((experiments_rule (Some ''update''))\<lparr>resource_name_parsers :=
       [RESOURCE_NAME_PARSER_EXPERIMENT_ID_TO_NAME]\<rparr>)),
     (''GetIssue'', One ((experiments_rule (Some ''get''))\<lparr>resource_name_parsers :=
       [RESOURCE_NAME_PARSER_ISSUE_ID_TO_EXPERIMENT_NAME]\<rparr>)),
     (''UpdateIssue'', One ((experiments_rule (Some ''update''))\<lparr>resource_name_parsers :=
       [RESOURCE_NAME_PARSER_ISSUE_ID_TO_EXPERIMENT_NAME]\<rparr>)),
     (''SearchIssues'', One ((experiments_rule (Some ''list''))\<lparr>collection_policy :=
       Some COLLECTION_POLICY_REQUEST_EXPERIMENT_ID\<rparr>)),
     (''CreateGatewayBudgetPolicy'', One (gateway_budgets_rule (Some ''create''))),
     (''GetGatewayBudgetPolicy'', One (gateway_budgets_rule (Some ''get''))),
     (''UpdateGatewayBudgetPolicy'', One (gateway_budgets_rule (Some ''update''))),
     (''DeleteGatewayBudgetPolicy'', One (gateway_budgets_rule (Some ''delete''))),
     (''ListGatewayBudgetPolicies'',
       One ((gateway_budgets_rule (Some ''list''))\<lparr>collection_policy :=
       Some COLLECTION_POLICY_BROAD_ONLY\<rparr>)),
     (''ListGatewayBudgetWindows'', One ((gateway_budgets_rule (Some ''list''))\<lparr>deny :=
       True, deny_message := Some GATEWAY_BUDGET_WINDOWS_DENIED_MESSAGE\<rparr>)),
     (''CreatePresignedUploadUrl'',
       One ((experiments_rule (Some ''update''))\<lparr>resource_name_parsers :=
       [RESOURCE_NAME_PARSER_RUN_ID_TO_EXPERIMENT_NAME]\<rparr>)),
     (''CreateGatewayGuardrail'', Many CREATE_GATEWAY_GUARDRAIL_RULES),
     (''GetGatewayGuardrail'', One (gateway_guardrails_rule (Some ''get''))),
     (''DeleteGatewayGuardrail'', One (gateway_guardrails_rule (Some ''delete''))),
     (''ListGatewayGuardrails'', One (gateway_guardrails_rule (Some ''list''))),
     (''AddGuardrailToEndpoint'', Many UPDATE_ENDPOINT_GUARDRAIL_RULES),
     (''RemoveGuardrailFromEndpoint'', Many UPDATE_ENDPOINT_GUARDRAIL_RULES),
     (''ListEndpointGuardrailConfigs'', Many LIST_ENDPOINT_GUARDRAIL_RULES),
     (''UpdateEndpointGuardrailConfig'', Many UPDATE_ENDPOINT_GUARDRAIL_RULES),
     (''CreateLabelSchema'',
       One ((experiments_rule (Some ''update''))\<lparr>resource_name_parsers :=
       [RESOURCE_NAME_PARSER_EXPERIMENT_ID_TO_NAME]\<rparr>)),
     (''GetLabelSchema'', One (experiments_rule (Some ''get''))),
     (''GetLabelSchemaByName'',
       One ((experiments_rule (Some ''get''))\<lparr>resource_name_parsers :=
       [RESOURCE_NAME_PARSER_EXPERIMENT_ID_TO_NAME]\<rparr>)),
     (''ListLabelSchemas'', One ((experiments_rule (Some ''get''))\<lparr>resource_name_parsers :=
       [RESOURCE_NAME_PARSER_EXPERIMENT_ID_TO_NAME]\<rparr>)),
     (''UpdateLabelSchema'', One (experiments_rule (Some ''update''))),
     (''DeleteLabelSchema'', One (experiments_rule (Some ''update''))),
     (''CreateReviewQueue'',
       One ((experiments_rule (Some ''update''))\<lparr>resource_name_parsers :=
       [RESOURCE_NAME_PARSER_EXPERIMENT_ID_TO_NAME]\<rparr>)),
     (''GetOrCreateUserQueue'',
       One ((experiments_rule (Some ''update''))\<lparr>resource_name_parsers :=
       [RESOURCE_NAME_PARSER_EXPERIMENT_ID_TO_NAME]\<rparr>)),
     (''GetReviewQueue'', One (experiments_rule (Some ''get''))),
     (''GetReviewQueueByName'',
       One ((experiments_rule (Some ''get''))\<lparr>resource_name_parsers :=
       [RESOURCE_NAME_PARSER_EXPERIMENT_ID_TO_NAME]\<rparr>)),
     (''ListReviewQueues'', One ((experiments_rule (Some ''get''))\<lparr>resource_name_parsers :=
       [RESOURCE_NAME_PARSER_EXPERIMENT_ID_TO_NAME]\<rparr>)),
     (''UpdateReviewQueue'', One (experiments_rule (Some ''update''))),
     (''DeleteReviewQueue'', One (experiments_rule (Some ''update''))),
     (''AddItemsToReviewQueue'', One (experiments_rule (Some ''update''))),
     (''RemoveItemsFromReviewQueue'', One (experiments_rule (Some ''update''))),
     (''ListReviewQueueItems'', One (experiments_rule (Some ''get''))),
     (''SetReviewQueueItemStatus'', One (experiments_rule (Some ''update''))),
     (''CreatePresignedDownloadUrl'',
       One ((experiments_rule (Some ''get''))\<lparr>resource_name_parsers :=
       [RESOURCE_NAME_PARSER_RUN_ID_TO_EXPERIMENT_NAME]\<rparr>))]"

definition base_path_rules_1 :: "string \<Rightarrow> ((string \<times> string) \<times> rule_entry) list" where
  "base_path_rules_1 otlp = [
     ((''/version'', ''GET''), One (authorization_rule None)),
     ((''/server-info'', ''GET''), One (authorization_rule None)),
     ((''/api/2.0/mlflow/model-versions/search'', ''GET''),
       One ((registered_models_rule (Some ''list''))\<lparr>collection_policy :=
       Some COLLECTION_POLICY_REQUEST_SEARCH_MODEL_VERSIONS\<rparr>)),
     ((''/ajax-api/2.0/mlflow/model-versions/search'', ''GET''),
       One ((registered_models_rule (Some ''list''))\<lparr>collection_policy :=
       Some COLLECTION_POLICY_REQUEST_SEARCH_MODEL_VERSIONS\<rparr>)),
     ((''/graphql'', ''GET''), One (experiments_rule (Some ''get''))),
     ((''/graphql'', ''POST''), One (experiments_rule (Some ''get''))),
     ((''/api/2.0/mlflow/gateway-proxy'', ''GET''), One (gateway_endpoints_use_rule)),
     ((''/api/2.0/mlflow/gateway-proxy'', ''POST''),
       One (gateway_endpoints_use_rule\<lparr>resource_name_parsers :=
       [RESOURCE_NAME_PARSER_GATEWAY_PROXY_ENDPOINT_NAME]\<rparr>)),
     ((''/ajax-api/2.0/mlflow/gateway-proxy'', ''GET''), One (gateway_endpoints_use_rule)),
     ((''/ajax-api/2.0/mlflow/gateway-proxy'', ''POST''),
       One (gateway_endpoints_use_rule\<lparr>resource_name_parsers :=
       [RESOURCE_NAME_PARSER_GATEWAY_PROXY_ENDPOINT_NAME]\<rparr>)),
     ((''/gateway/<endpoint_name>/mlflow/invocations'', ''POST''),
       One (gateway_endpoints_use_rule\<lparr>resource_name_parsers :=
       [RESOURCE_NAME_PARSER_GATEWAY_PROXY_ENDPOINT_NAME]\<rparr>)),
     ((''/gateway/mlflow/v1/chat/completions'', ''POST''),
       One (gateway_endpoints_use_rule\<lparr>resource_name_parsers :=
       [RESOURCE_NAME_PARSER_GATEWAY_PROXY_ENDPOINT_NAME]\<rparr>)),
     ((''/gateway/openai/v1/chat/completions'', ''POST''),
       One (gateway_endpoints_use_rule\<lparr>resource_name_parsers :=
       [RESOURCE_NAME_PARSER_GATEWAY_PROXY_ENDPOINT_NAME]\<rparr>)),
     ((''/gateway/openai/v1/embeddings'', ''POST''),
       One (gateway_endpoints_use_rule\<lparr>resource_name_parsers :=
       [RESOURCE_NAME_PARSER_GATEWAY_PROXY_ENDPOINT_NAME]\<rparr>)),
     ((''/gateway/openai/v1/responses'', ''POST''),
       One (gateway_endpoints_use_rule\<lparr>resource_name_parsers :=
       [RESOURCE_NAME_PARSER_GATEWAY_PROXY_ENDPOINT_NAME]\<rparr>)),
     ((''/gateway/anthropic/v1/messages'', ''POST''),
       One (gateway_endpoints_use_rule\<lparr>resource_name_parsers :=
       [RESOURCE_NAME_PARSER_GATEWAY_PROXY_ENDPOINT_NAME]\<rparr>)),
     ((''/gateway/gemini/v1beta/models/<endpoint_name>:generateContent'', ''POST''),
       One (gateway_endpoints_use_rule\<lparr>resource_name_parsers :=
       [RESOURCE_NAME_PARSER_GATEWAY_PROXY_ENDPOINT_NAME]\<rparr>)),
     ((''/gateway/gemini/v1beta/models/<endpoint_name>:streamGenerateContent'', ''POST''),
       One (gateway_endpoints_use_rule\<lparr>resource_name_parsers :=
       [RESOURCE_NAME_PARSER_GATEWAY_PROXY_ENDPOINT_NAME]\<rparr>)),
     ((''/get-artifact'', ''GET''),
       One ((experiments_rule (Some ''get''))\<lparr>resource_name_parsers :=
       [RESOURCE_NAME_PARSER_RUN_ID_TO_EXPERIMENT_NAME]\<rparr>)),
     ((''/model-versions/get-artifact'', ''GET''),
       One ((registered_models_rule (Some ''get''))\<lparr>resource_name_parsers :=
       [RESOURCE_NAME_PARSER_REGISTERED_MODEL_NAME]\<rparr>)),
     ((''/ajax-api/2.0/mlflow/upload-artifact'', ''POST''),
       One ((experiments_rule (Some ''update''))\<lparr>resource_name_parsers :=
       [RESOURCE_NAME_PARSER_RUN_ID_TO_EXPERIMENT_NAME]\<rparr>)),
     ((''/ajax-api/2.0/mlflow/get-trace-artifact'', ''GET''),
       One ((experiments_rule (Some ''get''))\<lparr>resource_name_parsers :=
       [RESOURCE_NAME_PARSER_TRACE_REQUEST_ID_TO_EXPERIMENT_NAME]\<rparr>)),
     ((''/ajax-api/3.0/mlflow/get-trace-artifact'', ''GET''),
       One ((experiments_rule (Some ''get''))\<lparr>resource_name_parsers :=
       [RESOURCE_NAME_PARSER_TRACE_REQUEST_ID_TO_EXPERIMENT_NAME]\<rparr>)),
     ((''/ajax-api/2.0/mlflow/metrics/get-history-bulk'', ''GET''),
       One ((experiments_rule (Some ''list''))\<lparr>collection_policy :=
       Some COLLECTION_POLICY_REQUEST_RUN_IDS\<rparr>)),
     ((''/ajax-api/2.0/mlflow/metrics/get-history-bulk-interval'', ''GET''),
       One ((experiments_rule (Some ''list''))\<lparr>collection_policy :=
       Some COLLECTION_POLICY_REQUEST_RUN_IDS\<rparr>)),
     ((''/ajax-api/2.0/mlflow/runs/create-promptlab-run'', ''POST''),
       One ((experiments_rule (Some ''update''))\<lparr>resource_name_parsers :=
       [RESOURCE_NAME_PARSER_EXPERIMENT_ID_TO_NAME]\<rparr>)),
     ((''/ajax-api/2.0/mlflow/logged-models/<model_id>/artifacts/files'', ''GET''),
       One ((experiments_rule (Some ''get''))\<lparr>resource_name_parsers :=
       [RESOURCE_NAME_PARSER_MODEL_ID_TO_EXPERIMENT_NAME]\<rparr>)),
     ((''/api/2.0/mlflow/experiments/search-datasets'', ''POST''),
       One ((datasets_rule (Some ''list''))\<lparr>collection_policy :=
       Some COLLECTION_POLICY_REQUEST_EXPERIMENT_IDS\<rparr>)),
     ((''/ajax-api/2.0/mlflow/experiments/search-datasets'', ''POST''),
       One ((datasets_rule (Some ''list''))\<lparr>collection_policy :=
       Some COLLECTION_POLICY_REQUEST_EXPERIMENT_IDS\<rparr>)),
     ((''/api/3.0/mlflow/traces/<trace_id>/assessments/<assessment_id>'', ''DELETE''),
       One ((experiments_rule (Some ''update''))\<lparr>resource_name_parsers :=
       [RESOURCE_NAME_PARSER_TRACE_ID_TO_EXPERIMENT_NAME]\<rparr>)),
     ((''/ajax-api/3.0/mlflow/traces/<trace_id>/assessments/<assessment_id>'', ''DELETE''),
       One ((experiments_rule (Some ''update''))\<lparr>resource_name_parsers :=
       [RESOURCE_NAME_PARSER_TRACE_ID_TO_EXPERIMENT_NAME]\<rparr>)),
     ((''/api/3.0/mlflow/traces/get'', ''GET''),
       One ((experiments_rule (Some ''get''))\<lparr>resource_name_parsers :=
       [RESOURCE_NAME_PARSER_TRACE_ID_TO_EXPERIMENT_NAME]\<rparr>)),
     ((''/ajax-api/3.0/mlflow/traces/get'', ''GET''),
       One ((experiments_rule (Some ''get''))\<lparr>resource_name_parsers :=
       [RESOURCE_NAME_PARSER_TRACE_ID_TO_EXPERIMENT_NAME]\<rparr>)),
     ((otlp, ''POST''), One ((experiments_rule (Some ''update''))\<lparr>resource_name_parsers :=
       [RESOURCE_NAME_PARSER_OTEL_EXPERIMENT_ID_HEADER_TO_NAME]\<rparr>)),
     ((''/ajax-api/3.0/jobs'', ''POST''), One (experiments_rule (Some ''update''))),
     ((''/ajax-api/3.0/jobs/'', ''POST''), One (experiments_rule (Some ''update''))),
     ((''/ajax-api/3.0/jobs/<job_id>'', ''GET''), One (experiments_rule (Some ''get''))),
     ((''/ajax-api/3.0/jobs/<job_id>/'', ''GET''), One (experiments_rule (Some ''get''))),
     ((''/ajax-api/3.0/jobs/cancel/<job_id>'', ''PATCH''), One (experiments_rule (Some ''update''))),
     ((''/ajax-api/3.0/jobs/cancel/<job_id>/'', ''PATCH''),
       One (experiments_rule (Some ''update'')))]"

definition base_path_rules_2 :: "((string \<times> string) \<times> rule_entry) list" where
  "base_path_rules_2 = [
     ((''/ajax-api/3.0/jobs/search'', ''POST''),
       One ((experiments_rule (Some ''list''))\<lparr>collection_policy :=
       Some COLLECTION_POLICY_REQUEST_EXPERIMENT_ID\<rparr>)),
     ((''/ajax-api/3.0/jobs/search/'', ''POST''),
       One ((experiments_rule (Some ''list''))\<lparr>collection_policy :=
       Some COLLECTION_POLICY_REQUEST_EXPERIMENT_ID\<rparr>)),
     ((''/ajax-api/3.0/mlflow/jobs/<job_id>'', ''GET''), One (experiments_rule (Some ''get''))),
     ((''/ajax-api/3.0/mlflow/jobs/<job_id>/'', ''GET''), One (experiments_rule (Some ''get''))),
     ((''/ajax-api/3.0/mlflow/jobs/cancel/<job_id>'', ''PATCH''),
       One (experiments_rule (Some ''update''))),
     ((''/ajax-api/3.0/mlflow/jobs/cancel/<job_id>/'', ''PATCH''),
       One (experiments_rule (Some ''update''))),
     ((''/ajax-api/3.0/mlflow/assistant/message'', ''POST''),
       One (assistants_rule (Some ''create''))),
     ((''/ajax-api/3.0/mlflow/assistant/sessions/<session_id>/stream'', ''GET''),
       One (assistants_rule (Some ''get''))),
     ((''/ajax-api/3.0/mlflow/assistant/status'', ''GET''), One (assistants_rule (Some ''get''))),
     ((''/ajax-api/3.0/mlflow/assistant/sessions/<session_id>'', ''PATCH''),
       One (assistants_rule (Some ''update''))),
     ((''/ajax-api/3.0/mlflow/assistant/providers/<provider>/health'', ''GET''),
       One (assistants_rule (Some ''get''))),
     ((''/ajax-api/3.0/mlflow/assistant/config'', ''GET''), One (assistants_rule (Some ''get''))),
     ((''/ajax-api/3.0/mlflow/assistant/config'', ''PUT''), One (assistants_rule (Some ''update''))),
     ((''/ajax-api/3.0/mlflow/assistant/skills/install'', ''POST''),
       One (assistants_rule (Some ''update''))),
     ((''/ajax-api/3.0/mlflow/gateway/supported-providers'', ''GET''),
       One ((gateway_model_definitions_rule (Some ''list''))\<lparr>collection_policy :=
       Some COLLECTION_POLICY_BROAD_ONLY\<rparr>)),
     ((''/ajax-api/3.0/mlflow/gateway/supported-models'', ''GET''),
       One ((gateway_model_definitions_rule (Some ''list''))\<lparr>collection_policy :=
       Some COLLECTION_POLICY_BROAD_ONLY\<rparr>)),
     ((''/ajax-api/3.0/mlflow/gateway/provider-config'', ''GET''),
       One (gateway_model_definitions_rule (Some ''get''))),
     ((''/ajax-api/3.0/mlflow/gateway/secrets/config'', ''GET''),
       One (gateway_secrets_rule (Some ''get''))),
     ((''/ajax-api/3.0/mlflow/scorers/online-configs'', ''GET''),
       One ((experiments_rule (Some ''get''))\<lparr>resource_name_parsers :=
       [RESOURCE_NAME_PARSER_EXPERIMENT_ID_TO_NAME]\<rparr>)),
     ((''/api/3.0/mlflow/scorers/online-configs'', ''GET''),
       One ((experiments_rule (Some ''get''))\<lparr>resource_name_parsers :=
       [RESOURCE_NAME_PARSER_EXPERIMENT_ID_TO_NAME]\<rparr>)),
     ((''/ajax-api/3.0/mlflow/scorers/online-config'', ''PUT''),
       One ((experiments_rule (Some ''update''))\<lparr>resource_name_parsers :=
       [RESOURCE_NAME_PARSER_EXPERIMENT_ID_TO_NAME]\<rparr>)),
     ((''/api/3.0/mlflow/scorers/online-config'', ''PUT''),
       One ((experiments_rule (Some ''update''))\<lparr>resource_name_parsers :=
       [RESOURCE_NAME_PARSER_EXPERIMENT_ID_TO_NAME]\<rparr>)),
     ((''/ajax-api/3.0/mlflow/scorer/invoke'', ''POST''),
       One ((experiments_rule (Some ''update''))\<lparr>resource_name_parsers :=
       [RESOURCE_NAME_PARSER_EXPERIMENT_ID_TO_NAME]\<rparr>)),
     ((''/ajax-api/3.0/mlflow/demo/generate'', ''POST''), Many [experiments_rule (Some ''create''),
       datasets_rule (Some ''create''), registered_models_rule (Some ''create'')]),
     ((''/ajax-api/3.0/mlflow/demo/delete'', ''POST''), Many [experiments_rule (Some ''delete''),
       datasets_rule (Some ''delete''), registered_models_rule (Some ''delete'')]),
     ((''/ajax-api/3.0/mlflow/issues/invoke'', ''POST''), Many ISSUE_INVOKE_RULES),
     ((''/ajax-api/3.0/mlflow/issues/invoke/'', ''POST''), Many ISSUE_INVOKE_RULES),
     ((''/ajax-api/3.0/mlflow/assistant/providers/<provider>/models'', ''GET''),
       One (assistants_rule (Some ''get''))),
     ((''/gateway/proxy/<endpoint_name>/<path:path>'', ''POST''),
       One (gateway_endpoints_use_rule\<lparr>resource_name_parsers :=
       [RESOURCE_NAME_PARSER_GATEWAY_PROXY_ENDPOINT_NAME]\<rparr>)),
     ((''/ajax-api/3.0/mlflow/genai/evaluate/invoke'', ''POST''),
       One ((experiments_rule (Some ''update''))\<lparr>resource_name_parsers :=
       [RESOURCE_NAME_PARSER_EXPERIMENT_ID_TO_NAME]\<rparr>)),
     ((''/gateway/openai/v1/responses/compact'', ''POST''),
       One (gateway_endpoints_use_rule\<lparr>resource_name_parsers :=
       [RESOURCE_NAME_PARSER_GATEWAY_PROXY_ENDPOINT_NAME]\<rparr>)),
     ((''/ajax-api/3.0/mlflow/assistant/sessions/<session_id>/permission'', ''POST''),
       One (assistants_rule (Some ''update''))),
     ((''/ajax-api/3.0/mlflow/assistant/providers'', ''GET''), One (assistants_rule (Some ''get''))),
     ((''/api/2.0/mlflow-artifacts/artifacts/<path:artifact_path>'', ''GET''),
       One ((experiments_rule (Some ''get''))\<lparr>resource_name_parsers :=
       [RESOURCE_NAME_PARSER_ARTIFACT_EXPERIMENT_ID_TO_NAME]\<rparr>)),
     ((''/ajax-api/2.0/mlflow-artifacts/artifacts/<path:artifact_path>'', ''GET''),
       One ((experiments_rule (Some ''get''))\<lparr>resource_name_parsers :=
       [RESOURCE_NAME_PARSER_ARTIFACT_EXPERIMENT_ID_TO_NAME]\<rparr>)),
     ((''/api/2.0/mlflow-artifacts/artifacts/<path:artifact_path>'', ''PUT''),
       One ((experiments_rule (Some ''update''))\<lparr>resource_name_parsers :=
       [RESOURCE_NAME_PARSER_ARTIFACT_EXPERIMENT_ID_TO_NAME]\<rparr>)),
     ((''/ajax-api/2.0/mlflow-artifacts/artifacts/<path:artifact_path>'', ''PUT''),
       One ((experiments_rule (Some ''update''))\<lparr>resource_name_parsers :=
       [RESOURCE_NAME_PARSER_ARTIFACT_EXPERIMENT_ID_TO_NAME]\<rparr>)),
     ((''/ajax-api/3.0/mlflow/mcp-servers'', ''POST''), One (mcp_servers_rule (Some ''create''))),
     ((''/ajax-api/3.0/mlflow/mcp-servers'', ''GET''),
       One ((mcp_servers_rule (Some ''list''))\<lparr>collection_policy :=
       Some COLLECTION_POLICY_REQUEST_SEARCH_MCP_SERVERS\<rparr>)),
     ((''/ajax-api/3.0/mlflow/mcp-servers/endpoints'', ''GET''),
       One ((mcp_servers_rule (Some ''list''))\<lparr>collection_policy :=
       Some COLLECTION_POLICY_REQUEST_SEARCH_MCP_ACCESS_ENDPOINTS\<rparr>)),
     ((''/ajax-api/3.0/mlflow/mcp-servers/<path:name>/versions'', ''POST''),
       One ((mcp_servers_rule (Some ''update''))\<lparr>resource_name_parsers :=
       [RESOURCE_NAME_PARSER_MCP_SERVER_NAME]\<rparr>)),
     ((''/ajax-api/3.0/mlflow/mcp-servers/<path:name>/versions'', ''GET''),
       One ((mcp_servers_rule (Some ''get''))\<lparr>resource_name_parsers :=
       [RESOURCE_NAME_PARSER_MCP_SERVER_NAME]\<rparr>)),
     ((''/ajax-api/3.0/mlflow/mcp-servers/<path:name>/versions/<path:version>'', ''GET''),
       One ((mcp_servers_rule (Some ''get''))\<lparr>resource_name_parsers :=
       [RESOURCE_NAME_PARSER_MCP_SERVER_NAME]\<rparr>)),
     ((''/ajax-api/3.0/mlflow/mcp-servers/<path:name>/versions/<path:version>'', ''PATCH''),
       One ((mcp_servers_rule (Some ''update''))\<lparr>resource_name_parsers :=
       [RESOURCE_NAME_PARSER_MCP_SERVER_NAME]\<rparr>))]"

definition base_path_rules_3 :: "((string \<times> string) \<times> rule_entry) list" where
  "base_path_rules_3 = [
     ((''/ajax-api/3.0/mlflow/mcp-servers/<path:name>/versions/<path:version>'', ''DELETE''),
       One ((mcp_servers_rule (Some ''update''))\<lparr>resource_name_parsers :=
       [RESOURCE_NAME_PARSER_MCP_SERVER_NAME]\<rparr>)),
     ((''/ajax-api/3.0/mlflow/mcp-servers/<path:name>/versions/<path:version>/tags'', ''POST''),
       One ((mcp_servers_rule (Some ''update''))\<lparr>resource_name_parsers :=
       [RESOURCE_NAME_PARSER_MCP_SERVER_NAME]\<rparr>)),
     ((''/ajax-api/3.0/mlflow/mcp-servers/<path:name>/versions/<path:version>/tags/<path:key>'',
       ''DELETE''), One ((mcp_servers_rule (Some ''update''))\<lparr>resource_name_parsers :=
       [RESOURCE_NAME_PARSER_MCP_SERVER_NAME]\<rparr>)),
     ((''/ajax-api/3.0/mlflow/mcp-servers/<path:name>/endpoints'', ''POST''),
       One ((mcp_servers_rule (Some ''update''))\<lparr>resource_name_parsers :=
       [RESOURCE_NAME_PARSER_MCP_SERVER_NAME]\<rparr>)),
     ((''/ajax-api/3.0/mlflow/mcp-servers/<path:name>/endpoints'', ''GET''),
       One ((mcp_servers_rule (Some ''get''))\<lparr>resource_name_parsers :=
       [RESOURCE_NAME_PARSER_MCP_SERVER_NAME]\<rparr>)),
     ((''/ajax-api/3.0/mlflow/mcp-servers/<path:name>/endpoints/<endpoint_id>'', ''GET''),
       One ((mcp_servers_rule (Some ''get''))\<lparr>resource_name_parsers :=
       [RESOURCE_NAME_PARSER_MCP_SERVER_NAME]\<rparr>)),
     ((''/ajax-api/3.0/mlflow/mcp-servers/<path:name>/endpoints/<endpoint_id>'', ''PATCH''),
       One ((mcp_servers_rule (Some ''update''))\<lparr>resource_name_parsers :=
       [RESOURCE_NAME_PARSER_MCP_SERVER_NAME]\<rparr>)),
     ((''/ajax-api/3.0/mlflow/mcp-servers/<path:name>/endpoints/<endpoint_id>'', ''DELETE''),
       One ((mcp_servers_rule (Some ''update''))\<lparr>resource_name_parsers :=
       [RESOURCE_NAME_PARSER_MCP_SERVER_NAME]\<rparr>)),
     ((''/ajax-api/3.0/mlflow/mcp-servers/<path:name>/tags'', ''POST''),
       One ((mcp_servers_rule (Some ''update''))\<lparr>resource_name_parsers :=
       [RESOURCE_NAME_PARSER_MCP_SERVER_NAME]\<rparr>)),
     ((''/ajax-api/3.0/mlflow/mcp-servers/<path:name>/tags/<path:key>'', ''DELETE''),
       One ((mcp_servers_rule (Some ''update''))\<lparr>resource_name_parsers :=
       [RESOURCE_NAME_PARSER_MCP_SERVER_NAME]\<rparr>)),
     ((''/ajax-api/3.0/mlflow/mcp-servers/<path:name>/aliases'', ''POST''),
       One ((mcp_servers_rule (Some ''update''))\<lparr>resource_name_parsers :=
       [RESOURCE_NAME_PARSER_MCP_SERVER_NAME]\<rparr>)),
     ((''/ajax-api/3.0/mlflow/mcp-servers/<path:name>/aliases/<path:alias>'', ''GET''),
       One ((mcp_servers_rule (Some ''get''))\<lparr>resource_name_parsers :=
       [RESOURCE_NAME_PARSER_MCP_SERVER_NAME]\<rparr>)),
     ((''/ajax-api/3.0/mlflow/mcp-servers/<path:name>/aliases/<path:alias>'', ''DELETE''),
       One ((mcp_servers_rule (Some ''update''))\<lparr>resource_name_parsers :=
       [RESOURCE_NAME_PARSER_MCP_SERVER_NAME]\<rparr>)),
     ((''/ajax-api/3.0/mlflow/mcp-servers/<path:name>'', ''GET''),
       One ((mcp_servers_rule (Some ''get''))\<lparr>resource_name_parsers :=
       [RESOURCE_NAME_PARSER_MCP_SERVER_NAME]\<rparr>)),
     ((''/ajax-api/3.0/mlflow/mcp-servers/<path:name>'', ''PATCH''),
       One ((mcp_servers_rule (Some ''update''))\<lparr>resource_name_parsers :=
       [RESOURCE_NAME_PARSER_MCP_SERVER_NAME]\<rparr>)),
     ((''/ajax-api/3.0/mlflow/mcp-servers/<path:name>'', ''DELETE''),
       One ((mcp_servers_rule (Some ''delete''))\<lparr>resource_name_parsers :=
       [RESOURCE_NAME_PARSER_MCP_SERVER_NAME]\<rparr>)),
     ((''/api/3.0/mlflow/mcp-servers'', ''POST''), One (mcp_servers_rule (Some ''create''))),
     ((''/api/3.0/mlflow/mcp-servers'', ''GET''),
       One ((mcp_servers_rule (Some ''list''))\<lparr>collection_policy :=
       Some COLLECTION_POLICY_REQUEST_SEARCH_MCP_SERVERS\<rparr>)),
     ((''/api/3.0/mlflow/mcp-servers/endpoints'', ''GET''),
       One ((mcp_servers_rule (Some ''list''))\<lparr>collection_policy :=
       Some COLLECTION_POLICY_REQUEST_SEARCH_MCP_ACCESS_ENDPOINTS\<rparr>)),
     ((''/api/3.0/mlflow/mcp-servers/<path:name>/versions'', ''POST''),
       One ((mcp_servers_rule (Some ''update''))\<lparr>resource_name_parsers :=
       [RESOURCE_NAME_PARSER_MCP_SERVER_NAME]\<rparr>)),
     ((''/api/3.0/mlflow/mcp-servers/<path:name>/versions'', ''GET''),
       One ((mcp_servers_rule (Some ''get''))\<lparr>resource_name_parsers :=
       [RESOURCE_NAME_PARSER_MCP_SERVER_NAME]\<rparr>)),
     ((''/api/3.0/mlflow/mcp-servers/<path:name>/versions/<path:version>'', ''GET''),
       One ((mcp_servers_rule (Some ''get''))\<lparr>resource_name_parsers :=
       [RESOURCE_NAME_PARSER_MCP_SERVER_NAME]\<rparr>)),
     ((''/api/3.0/mlflow/mcp-servers/<path:name>/versions/<path:version>'', ''PATCH''),
       One ((mcp_servers_rule (Some ''update''))\<lparr>resource_name_parsers :=
       [RESOURCE_NAME_PARSER_MCP_SERVER_NAME]\<rparr>)),
     ((''/api/3.0/mlflow/mcp-servers/<path:name>/versions/<path:version>'', ''DELETE''),
       One ((mcp_servers_rule (Some ''update''))\<lparr>resource_name_parsers :=
       [RESOURCE_NAME_PARSER_MCP_SERVER_NAME]\<rparr>)),
     ((''/api/3.0/mlflow/mcp-servers/<path:name>/versions/<path:version>/tags'', ''POST''),
       One ((mcp_servers_rule (Some ''update''))\<lparr>resource_name_parsers :=
       [RESOURCE_NAME_PARSER_MCP_SERVER_NAME]\<rparr>)),
     ((''/api/3.0/mlflow/mcp-servers/<path:name>/versions/<path:version>/tags/<path:key>'',
       ''DELETE''), One ((mcp_servers_rule (Some ''update''))\<lparr>resource_name_parsers :=
       [RESOURCE_NAME_PARSER_MCP_SERVER_NAME]\<rparr>)),
     ((''/api/3.0/mlflow/mcp-servers/<path:name>/endpoints'', ''POST''),
       One ((mcp_servers_rule (Some ''update''))\<lparr>resource_name_parsers :=
       [RESOURCE_NAME_PARSER_MCP_SERVER_NAME]\<rparr>)),
     ((''/api/3.0/mlflow/mcp-servers/<path:name>/endpoints'', ''GET''),
       One ((mcp_servers_rule (Some ''get''))\<lparr>resource_name_parsers :=
       [RESOURCE_NAME_PARSER_MCP_SERVER_NAME]\<rparr>))]"

definition base_path_rules_4 :: "((string \<times> string) \<times> rule_entry) list" where
  "base_path_rules_4 = [
     ((''/api/3.0/mlflow/mcp-servers/<path:name>/endpoints/<endpoint_id>'', ''GET''),
       One ((mcp_servers_rule (Some ''get''))\<lparr>resource_name_parsers :=
       [RESOURCE_NAME_PARSER_MCP_SERVER_NAME]\<rparr>)),
     ((''/api/3.0/mlflow/mcp-servers/<path:name>/endpoints/<endpoint_id>'', ''PATCH''),
       One ((mcp_servers_rule (Some ''update''))\<lparr>resource_name_parsers :=
       [RESOURCE_NAME_PARSER_MCP_SERVER_NAME]\<rparr>)),
     ((''/api/3.0/mlflow/mcp-servers/<path:name>/endpoints/<endpoint_id>'', ''DELETE''),
       One ((mcp_servers_rule (Some ''update''))\<lparr>resource_name_parsers :=
       [RESOURCE_NAME_PARSER_MCP_SERVER_NAME]\<rparr>)),
     ((''/api/3.0/mlflow/mcp-servers/<path:name>/tags'', ''POST''),
       One ((mcp_servers_rule (Some ''update''))\<lparr>resource_name_parsers :=
       [RESOURCE_NAME_PARSER_MCP_SERVER_NAME]\<rparr>)),
     ((''/api/3.0/mlflow/mcp-servers/<path:name>/tags/<path:key>'', ''DELETE''),
       One ((mcp_servers_rule (Some ''update''))\<lparr>resource_name_parsers :=
       [RESOURCE_NAME_PARSER_MCP_SERVER_NAME]\<rparr>)),
     ((''/api/3.0/mlflow/mcp-servers/<path:name>/aliases'', ''POST''),
       One ((mcp_servers_rule (Some ''update''))\<lparr>resource_name_parsers :=
       [RESOURCE_NAME_PARSER_MCP_SERVER_NAME]\<rparr>)),
     ((''/api/3.0/mlflow/mcp-servers/<path:name>/aliases/<path:alias>'', ''GET''),
       One ((mcp_servers_rule (Some ''get''))\<lparr>resource_name_parsers :=
       [RESOURCE_NAME_PARSER_MCP_SERVER_NAME]\<rparr>)),
     ((''/api/3.0/mlflow/mcp-servers/<path:name>/aliases/<path:alias>'', ''DELETE''),
       One ((mcp_servers_rule (Some ''update''))\<lparr>resource_name_parsers :=
       [RESOURCE_NAME_PARSER_MCP_SERVER_NAME]\<rparr>)),
     ((''/api/3.0/mlflow/mcp-servers/<path:name>'', ''GET''),
       One ((mcp_servers_rule (Some ''get''))\<lparr>resource_name_parsers :=
       [RESOURCE_NAME_PARSER_MCP_SERVER_NAME]\<rparr>)),
     ((''/api/3.0/mlflow/mcp-servers/<path:name>'', ''PATCH''),
       One ((mcp_servers_rule (Some ''update''))\<lparr>resource_name_parsers :=
       [RESOURCE_NAME_PARSER_MCP_SERVER_NAME]\<rparr>)),
     ((''/api/3.0/mlflow/mcp-servers/<path:name>'', ''DELETE''),
       One ((mcp_servers_rule (Some ''delete''))\<lparr>resource_name_parsers :=
       [RESOURCE_NAME_PARSER_MCP_SERVER_NAME]\<rparr>)),
     ((''/ajax-api/3.0/mlflow/assistant/sessions/<session_id>/tool-result'', ''POST''),
       One (assistants_rule (Some ''update''))),
     ((''/gateway/mlflow/v1/models'', ''GET''),
       One ((gateway_endpoints_rule (Some ''list''))\<lparr>collection_policy :=
       Some COLLECTION_POLICY_BROAD_ONLY\<rparr>)),
     ((''/gateway/typesafe/v1/systemone'', ''POST''),
       One (gateway_endpoints_use_rule\<lparr>resource_name_parsers :=
       [RESOURCE_NAME_PARSER_GATEWAY_PROXY_ENDPOINT_NAME]\<rparr>))]"

definition skill_path_rules_1 :: "((string \<times> string) \<times> rule_entry) list" where
  "skill_path_rules_1 = [
     ((''/api/3.0/mlflow/skills'', ''POST''), One (skills_rule (Some ''create''))),
     ((''/api/3.0/mlflow/skills'', ''GET''), One (skills_rule (Some ''list''))),
     ((''/api/3.0/mlflow/skills/bulk-register'', ''POST''), One (skills_rule (Some ''update''))),
     ((''/api/3.0/mlflow/skills/@<organization>/<name>/versions'', ''POST''),
       One ((skills_rule (Some ''update''))\<lparr>resource_name_parsers :=
       [RESOURCE_NAME_PARSER_SKILL_NAME]\<rparr>)),
     ((''/api/3.0/mlflow/skills/@<organization>/<name>/versions'', ''GET''),
       One ((skills_rule (Some ''get''))\<lparr>resource_name_parsers :=
       [RESOURCE_NAME_PARSER_SKILL_NAME]\<rparr>)),
     ((''/api/3.0/mlflow/skills/@<organization>/<name>/versions/<version>'', ''GET''),
       One ((skills_rule (Some ''get''))\<lparr>resource_name_parsers :=
       [RESOURCE_NAME_PARSER_SKILL_NAME]\<rparr>)),
     ((''/api/3.0/mlflow/skills/@<organization>/<name>/versions/<version>'', ''PATCH''),
       One ((skills_rule (Some ''update''))\<lparr>resource_name_parsers :=
       [RESOURCE_NAME_PARSER_SKILL_NAME]\<rparr>)),
     ((''/api/3.0/mlflow/skills/@<organization>/<name>/versions/<version>'', ''DELETE''),
       One ((skills_rule (Some ''update''))\<lparr>resource_name_parsers :=
       [RESOURCE_NAME_PARSER_SKILL_NAME]\<rparr>)),
     ((''/api/3.0/mlflow/skills/@<organization>/<name>/versions/<version>/tags'', ''POST''),
       One ((skills_rule (Some ''update''))\<lparr>resource_name_parsers :=
       [RESOURCE_NAME_PARSER_SKILL_NAME]\<rparr>)),
     ((''/api/3.0/mlflow/skills/@<organization>/<name>/versions/<version>/tags/<path:key>'',
       ''DELETE''), One ((skills_rule (Some ''update''))\<lparr>resource_name_parsers :=
       [RESOURCE_NAME_PARSER_SKILL_NAME]\<rparr>)),
     ((''/api/3.0/mlflow/skills/@<organization>/<name>/aliases'', ''POST''),
       One ((skills_rule (Some ''update''))\<lparr>resource_name_parsers :=
       [RESOURCE_NAME_PARSER_SKILL_NAME]\<rparr>)),
     ((''/api/3.0/mlflow/skills/@<organization>/<name>/aliases/<alias>'', ''GET''),
       One ((skills_rule (Some ''get''))\<lparr>resource_name_parsers :=
       [RESOURCE_NAME_PARSER_SKILL_NAME]\<rparr>)),
     ((''/api/3.0/mlflow/skills/@<organization>/<name>/aliases/<alias>'', ''DELETE''),
       One ((skills_rule (Some ''update''))\<lparr>resource_name_parsers :=
       [RESOURCE_NAME_PARSER_SKILL_NAME]\<rparr>)),
     ((''/api/3.0/mlflow/skills/@<organization>/<name>/tags'', ''POST''),
       One ((skills_rule (Some ''update''))\<lparr>resource_name_parsers :=
       [RESOURCE_NAME_PARSER_SKILL_NAME]\<rparr>)),
     ((''/api/3.0/mlflow/skills/@<organization>/<name>/tags/<path:key>'', ''DELETE''),
       One ((skills_rule (Some ''update''))\<lparr>resource_name_parsers :=
       [RESOURCE_NAME_PARSER_SKILL_NAME]\<rparr>)),
     ((''/api/3.0/mlflow/skills/@<organization>/<name>'', ''GET''),
       One ((skills_rule (Some ''get''))\<lparr>resource_name_parsers :=
       [RESOURCE_NAME_PARSER_SKILL_NAME]\<rparr>)),
     ((''/api/3.0/mlflow/skills/@<organization>/<name>'', ''PATCH''),
       One ((skills_rule (Some ''update''))\<lparr>resource_name_parsers :=
       [RESOURCE_NAME_PARSER_SKILL_NAME]\<rparr>)),
     ((''/api/3.0/mlflow/skills/@<organization>/<name>'', ''DELETE''),
       One ((skills_rule (Some ''delete''))\<lparr>resource_name_parsers :=
       [RESOURCE_NAME_PARSER_SKILL_NAME]\<rparr>)),
     ((''/api/3.0/mlflow/skills/<name>/versions'', ''POST''),
       One ((skills_rule (Some ''update''))\<lparr>resource_name_parsers :=
       [RESOURCE_NAME_PARSER_SKILL_NAME]\<rparr>)),
     ((''/api/3.0/mlflow/skills/<name>/versions'', ''GET''),
       One ((skills_rule (Some ''get''))\<lparr>resource_name_parsers :=
       [RESOURCE_NAME_PARSER_SKILL_NAME]\<rparr>)),
     ((''/api/3.0/mlflow/skills/<name>/versions/<version>'', ''GET''),
       One ((skills_rule (Some ''get''))\<lparr>resource_name_parsers :=
       [RESOURCE_NAME_PARSER_SKILL_NAME]\<rparr>)),
     ((''/api/3.0/mlflow/skills/<name>/versions/<version>'', ''PATCH''),
       One ((skills_rule (Some ''update''))\<lparr>resource_name_parsers :=
       [RESOURCE_NAME_PARSER_SKILL_NAME]\<rparr>)),
     ((''/api/3.0/mlflow/skills/<name>/versions/<version>'', ''DELETE''),
       One ((skills_rule (Some ''update''))\<lparr>resource_name_parsers :=
       [RESOURCE_NAME_PARSER_SKILL_NAME]\<rparr>)),
     ((''/api/3.0/mlflow/skills/<name>/versions/<version>/tags'', ''POST''),
       One ((skills_rule (Some ''update''))\<lparr>resource_name_parsers :=
       [RESOURCE_NAME_PARSER_SKILL_NAME]\<rparr>)),
     ((''/api/3.0/mlflow/skills/<name>/versions/<version>/tags/<path:key>'', ''DELETE''),
       One ((skills_rule (Some ''update''))\<lparr>resource_name_parsers :=
       [RESOURCE_NAME_PARSER_SKILL_NAME]\<rparr>)),
     ((''/api/3.0/mlflow/skills/<name>/aliases'', ''POST''),
       One ((skills_rule (Some ''update''))\<lparr>resource_name_parsers :=
       [RESOURCE_NAME_PARSER_SKILL_NAME]\<rparr>)),
     ((''/api/3.0/mlflow/skills/<name>/aliases/<alias>'', ''GET''),
       One ((skills_rule (Some ''get''))\<lparr>resource_name_parsers :=
       [RESOURCE_NAME_PARSER_SKILL_NAME]\<rparr>)),
     ((''/api/3.0/mlflow/skills/<name>/aliases/<alias>'', ''DELETE''),
       One ((skills_rule (Some ''update''))\<lparr>resource_name_parsers :=
       [RESOURCE_NAME_PARSER_SKILL_NAME]\<rparr>)),
     ((''/api/3.0/mlflow/skills/<name>/tags'', ''POST''),
       One ((skills_rule (Some ''update''))\<lparr>resource_name_parsers :=
       [RESOURCE_NAME_PARSER_SKILL_NAME]\<rparr>)),
     ((''/api/3.0/mlflow/skills/<name>/tags/<path:key>'', ''DELETE''),
       One ((skills_rule (Some ''update''))\<lparr>resource_name_parsers :=
       [RESOURCE_NAME_PARSER_SKILL_NAME]\<rparr>)),
     ((''/api/3.0/mlflow/skills/<name>'', ''GET''),
       One ((skills_rule (Some ''get''))\<lparr>resource_name_parsers :=
       [RESOURCE_NAME_PARSER_SKILL_NAME]\<rparr>)),
     ((''/api/3.0/mlflow/skills/<name>'', ''PATCH''),
       One ((skills_rule (Some ''update''))\<lparr>resource_name_parsers :=
       [RESOURCE_NAME_PARSER_SKILL_NAME]\<rparr>)),
     ((''/api/3.0/mlflow/skills/<name>'', ''DELETE''),
       One ((skills_rule (Some ''delete''))\<lparr>resource_name_parsers :=
       [RESOURCE_NAME_PARSER_SKILL_NAME]\<rparr>)),
     ((''/ajax-api/3.0/mlflow/skills'', ''POST''), One (skills_rule (Some ''create''))),
     ((''/ajax-api/3.0/mlflow/skills'', ''GET''), One (skills_rule (Some ''list''))),
     ((''/ajax-api/3.0/mlflow/skills/bulk-register'', ''POST''),
       One (skills_rule (Some ''update''))),
     ((''/ajax-api/3.0/mlflow/skills/@<organization>/<name>/versions'', ''POST''),
       One ((skills_rule (Some ''update''))\<lparr>resource_name_parsers :=
       [RESOURCE_NAME_PARSER_SKILL_NAME]\<rparr>)),
     ((''/ajax-api/3.0/mlflow/skills/@<organization>/<name>/versions'', ''GET''),
       One ((skills_rule (Some ''get''))\<lparr>resource_name_parsers :=
       [RESOURCE_NAME_PARSER_SKILL_NAME]\<rparr>)),
     ((''/ajax-api/3.0/mlflow/skills/@<organization>/<name>/versions/<version>'', ''GET''),
       One ((skills_rule (Some ''get''))\<lparr>resource_name_parsers :=
       [RESOURCE_NAME_PARSER_SKILL_NAME]\<rparr>)),
     ((''/ajax-api/3.0/mlflow/skills/@<organization>/<name>/versions/<version>'', ''PATCH''),
       One ((skills_rule (Some ''update''))\<lparr>resource_name_parsers :=
       [RESOURCE_NAME_PARSER_SKILL_NAME]\<rparr>)),
     ((''/ajax-api/3.0/mlflow/skills/@<organization>/<name>/versions/<version>'', ''DELETE''),
       One ((skills_rule (Some ''update''))\<lparr>resource_name_parsers :=
       [RESOURCE_NAME_PARSER_SKILL_NAME]\<rparr>)),
     ((''/ajax-api/3.0/mlflow/skills/@<organization>/<name>/versions/<version>/tags'', ''POST''),
       One ((skills_rule (Some ''update''))\<lparr>resource_name_parsers :=
       [RESOURCE_NAME_PARSER_SKILL_NAME]\<rparr>)),
     ((''/ajax-api/3.0/mlflow/skills/@<organization>/<name>/versions/<version>/tags/<path:key>'',
       ''DELETE''), One ((skills_rule (Some ''update''))\<lparr>resource_name_parsers :=
       [RESOURCE_NAME_PARSER_SKILL_NAME]\<rparr>)),
     ((''/ajax-api/3.0/mlflow/skills/@<organization>/<name>/aliases'', ''POST''),
       One ((skills_rule (Some ''update''))\<lparr>resource_name_parsers :=
       [RESOURCE_NAME_PARSER_SKILL_NAME]\<rparr>)),
     ((''/ajax-api/3.0/mlflow/skills/@<organization>/<name>/aliases/<alias>'', ''GET''),
       One ((skills_rule (Some ''get''))\<lparr>resource_name_parsers :=
       [RESOURCE_NAME_PARSER_SKILL_NAME]\<rparr>)),
     ((''/ajax-api/3.0/mlflow/skills/@<organization>/<name>/aliases/<alias>'', ''DELETE''),
       One ((skills_rule (Some ''update''))\<lparr>resource_name_parsers :=
       [RESOURCE_NAME_PARSER_SKILL_NAME]\<rparr>)),
     ((''/ajax-api/3.0/mlflow/skills/@<organization>/<name>/tags'', ''POST''),
       One ((skills_rule (Some ''update''))\<lparr>resource_name_parsers :=
       [RESOURCE_NAME_PARSER_SKILL_NAME]\<rparr>))]"

definition skill_path_rules_2 :: "((string \<times> string) \<times> rule_entry) list" where
  "skill_path_rules_2 = [
     ((''/ajax-api/3.0/mlflow/skills/@<organization>/<name>/tags/<path:key>'', ''DELETE''),
       One ((skills_rule (Some ''update''))\<lparr>resource_name_parsers :=
       [RESOURCE_NAME_PARSER_SKILL_NAME]\<rparr>)),
     ((''/ajax-api/3.0/mlflow/skills/@<organization>/<name>'', ''GET''),
       One ((skills_rule (Some ''get''))\<lparr>resource_name_parsers :=
       [RESOURCE_NAME_PARSER_SKILL_NAME]\<rparr>)),
     ((''/ajax-api/3.0/mlflow/skills/@<organization>/<name>'', ''PATCH''),
       One ((skills_rule (Some ''update''))\<lparr>resource_name_parsers :=
       [RESOURCE_NAME_PARSER_SKILL_NAME]\<rparr>)),
     ((''/ajax-api/3.0/mlflow/skills/@<organization>/<name>'', ''DELETE''),
       One ((skills_rule (Some ''delete''))\<lparr>resource_name_parsers :=
       [RESOURCE_NAME_PARSER_SKILL_NAME]\<rparr>)),
     ((''/ajax-api/3.0/mlflow/skills/<name>/versions'', ''POST''),
       One ((skills_rule (Some ''update''))\<lparr>resource_name_parsers :=
       [RESOURCE_NAME_PARSER_SKILL_NAME]\<rparr>)),
     ((''/ajax-api/3.0/mlflow/skills/<name>/versions'', ''GET''),
       One ((skills_rule (Some ''get''))\<lparr>resource_name_parsers :=
       [RESOURCE_NAME_PARSER_SKILL_NAME]\<rparr>)),
     ((''/ajax-api/3.0/mlflow/skills/<name>/versions/<version>'', ''GET''),
       One ((skills_rule (Some ''get''))\<lparr>resource_name_parsers :=
       [RESOURCE_NAME_PARSER_SKILL_NAME]\<rparr>)),
     ((''/ajax-api/3.0/mlflow/skills/<name>/versions/<version>'', ''PATCH''),
       One ((skills_rule (Some ''update''))\<lparr>resource_name_parsers :=
       [RESOURCE_NAME_PARSER_SKILL_NAME]\<rparr>)),
     ((''/ajax-api/3.0/mlflow/skills/<name>/versions/<version>'', ''DELETE''),
       One ((skills_rule (Some ''update''))\<lparr>resource_name_parsers :=
       [RESOURCE_NAME_PARSER_SKILL_NAME]\<rparr>)),
     ((''/ajax-api/3.0/mlflow/skills/<name>/versions/<version>/tags'', ''POST''),
       One ((skills_rule (Some ''update''))\<lparr>resource_name_parsers :=
       [RESOURCE_NAME_PARSER_SKILL_NAME]\<rparr>)),
     ((''/ajax-api/3.0/mlflow/skills/<name>/versions/<version>/tags/<path:key>'', ''DELETE''),
       One ((skills_rule (Some ''update''))\<lparr>resource_name_parsers :=
       [RESOURCE_NAME_PARSER_SKILL_NAME]\<rparr>)),
     ((''/ajax-api/3.0/mlflow/skills/<name>/aliases'', ''POST''),
       One ((skills_rule (Some ''update''))\<lparr>resource_name_parsers :=
       [RESOURCE_NAME_PARSER_SKILL_NAME]\<rparr>)),
     ((''/ajax-api/3.0/mlflow/skills/<name>/aliases/<alias>'', ''GET''),
       One ((skills_rule (Some ''get''))\<lparr>resource_name_parsers :=
       [RESOURCE_NAME_PARSER_SKILL_NAME]\<rparr>)),
     ((''/ajax-api/3.0/mlflow/skills/<name>/aliases/<alias>'', ''DELETE''),
       One ((skills_rule (Some ''update''))\<lparr>resource_name_parsers :=
       [RESOURCE_NAME_PARSER_SKILL_NAME]\<rparr>)),
     ((''/ajax-api/3.0/mlflow/skills/<name>/tags'', ''POST''),
       One ((skills_rule (Some ''update''))\<lparr>resource_name_parsers :=
       [RESOURCE_NAME_PARSER_SKILL_NAME]\<rparr>)),
     ((''/ajax-api/3.0/mlflow/skills/<name>/tags/<path:key>'', ''DELETE''),
       One ((skills_rule (Some ''update''))\<lparr>resource_name_parsers :=
       [RESOURCE_NAME_PARSER_SKILL_NAME]\<rparr>)),
     ((''/ajax-api/3.0/mlflow/skills/<name>'', ''GET''),
       One ((skills_rule (Some ''get''))\<lparr>resource_name_parsers :=
       [RESOURCE_NAME_PARSER_SKILL_NAME]\<rparr>)),
     ((''/ajax-api/3.0/mlflow/skills/<name>'', ''PATCH''),
       One ((skills_rule (Some ''update''))\<lparr>resource_name_parsers :=
       [RESOURCE_NAME_PARSER_SKILL_NAME]\<rparr>)),
     ((''/ajax-api/3.0/mlflow/skills/<name>'', ''DELETE''),
       One ((skills_rule (Some ''delete''))\<lparr>resource_name_parsers :=
       [RESOURCE_NAME_PARSER_SKILL_NAME]\<rparr>))]"

definition BASE_REQUEST_AUTHORIZATION_RULES :: "(string \<times> rule_entry) list" where
  "BASE_REQUEST_AUTHORIZATION_RULES =
     base_request_rules_1 @ base_request_rules_2 @ base_request_rules_3 @ base_request_rules_4 @ base_request_rules_5"

definition BASE_PATH_AUTHORIZATION_RULES :: "string \<Rightarrow> ((string \<times> string) \<times> rule_entry) list" where
  "BASE_PATH_AUTHORIZATION_RULES otlp =
     base_path_rules_1 otlp @ base_path_rules_2 @ base_path_rules_3 @ base_path_rules_4"

definition SKILL_REGISTRY_PATH_AUTHORIZATION_RULES :: "((string \<times> string) \<times> rule_entry) list" where
  "SKILL_REGISTRY_PATH_AUTHORIZATION_RULES =
     skill_path_rules_1 @ skill_path_rules_2"

end
