(* ===== verification/Paths.thy ===== *)
theory Paths
  imports Constants
begin

text \<open>
  Request paths and headers of \<open>auth/core.py\<close>: prefix stripping and canonical paths, the unprotected
  paths, templates with parameters and their matching (\<open>_re_compile_path\<close> and
  \<open>_compile_named_path_pattern\<close> of \<open>auth/compiler.py\<close>), bearer tokens, forwarded groups and the
  claim of a token used as user name.
\<close>

section \<open>Canonical paths\<close>

definition normalized_prefix :: "string \<Rightarrow> string" where
  "normalized_prefix prefix =
     (let n = strip_right_char CHR ''/'' (py_strip prefix)
      in if n \<noteq> [] \<and> \<not> startswith n ''/'' then CHR ''/'' # n else n)"

definition strip_prefix :: "string \<Rightarrow> string option \<Rightarrow> string" where
  "strip_prefix path prefix =
     (case prefix of
        None \<Rightarrow> path
      | Some p \<Rightarrow>
          if path = [] \<or> p = [] then path
          else (let n = normalized_prefix p in
            if n = [] \<or> n = ''/'' then path
            else if path = n then ''/''
            else if startswith path (n @ ''/'') then drop (length n) path
            else path))"

definition STATIC_PREFIX_APPLICABLE_PREFIXES :: "string list" where
  "STATIC_PREFIX_APPLICABLE_PREFIXES =
     [''/'', ''/health'', ''/metrics'', ''/version'', ''/server-info'', ''/api'', ''/ajax-api'',
      ''/get-artifact'', ''/model-versions/get-artifact'', ''/static-files'', ''/graphql'',
      ''/gateway'', ''/v1/traces'']"

text \<open>\<open>static\<close> is the value of the static prefix variable, if the environment sets it.\<close>

definition get_static_prefix :: "string option \<Rightarrow> string option" where
  "get_static_prefix static = (case static of None \<Rightarrow> None | Some p \<Rightarrow> nonempty p)"

definition strip_static_prefix :: "string option \<Rightarrow> string \<Rightarrow> string" where
  "strip_static_prefix static path =
     (case get_static_prefix static of
        None \<Rightarrow> path
      | Some prefix \<Rightarrow>
          let stripped = strip_prefix path (Some prefix) in
          if stripped = path then path
          else if list_ex (\<lambda>c. stripped = c \<or> startswith stripped (c @ ''/''))
                    STATIC_PREFIX_APPLICABLE_PREFIXES
               then stripped
               else path)"

definition first_nonempty :: "string option list \<Rightarrow> string" where
  "first_nonempty xs =
     (case filter (\<lambda>x. x \<noteq> None \<and> x \<noteq> Some []) xs of Some s # _ \<Rightarrow> s | _ \<Rightarrow> [])"

definition canonicalize_path ::
  "string option \<Rightarrow> string \<Rightarrow> string option \<Rightarrow> string option \<Rightarrow> string option \<Rightarrow> string option \<Rightarrow> string" where
  "canonicalize_path static raw_path path_info scope_path root_path script_name =
     (let path = first_nonempty [path_info, scope_path, Some raw_path] in
      if path = [] then path
      else (let path = (if startswith path ''/'' then path else CHR ''/'' # path);
                path = strip_prefix path root_path;
                path = strip_prefix path script_name
            in strip_static_prefix static path))"

definition is_unprotected_path :: "string \<Rightarrow> bool" where
  "is_unprotected_path path \<longleftrightarrow>
     list_ex (startswith path) UNPROTECTED_PATH_PREFIXES \<or> path \<in> set UNPROTECTED_PATHS"

section \<open>Templates\<close>

text \<open>
  \<open>chunks o c path\<close> cuts a path at the tokens \<open>o[^c]+c\<close>, as \<open>re.sub\<close> and \<open>re.finditer\<close> find them: an
  opening character whose token would be empty or is never closed is a literal.
\<close>

datatype chunk = Literal char | Token string

function chunks :: "char \<Rightarrow> char \<Rightarrow> string \<Rightarrow> chunk list" where
  "chunks op cl [] = []"
| "chunks op cl (x # xs) =
     (let name = takeWhile (\<lambda>c. c \<noteq> cl) xs; rest = dropWhile (\<lambda>c. c \<noteq> cl) xs in
      if x = op \<and> name \<noteq> [] \<and> rest \<noteq> [] then Token name # chunks op cl (tl rest)
      else Literal x # chunks op cl xs)"
  by pat_completeness auto

termination
  by (relation "measure (\<lambda>(op, cl, xs). length xs)")
     (auto intro!: le_imp_less_Suc le_trans [OF diff_le_self] length_dropWhile_le)

definition split_path_token :: "string \<Rightarrow> bool \<times> string" where
  "split_path_token t = (if startswith t ''path:'' then (True, drop 5 t) else (False, t))"

text \<open>
  A compiled template: \<open>Lit\<close> a literal of the pattern, \<open>Grp True n\<close> the group \<open>(.+)\<close> of a path
  parameter, \<open>Grp False n\<close> the group \<open>([^/]+)\<close>. The named pattern escapes its literals; the anonymous
  one of \<open>_re_compile_path\<close> does not, so there a dot matches any character but a line feed. The
  templates hold no other character with a meaning in a pattern (\<open>plain_template\<close>).
\<close>

datatype piece = Lit char | Grp bool string

fun piece_of :: "chunk \<Rightarrow> piece" where
  "piece_of (Literal c) = Lit c"
| "piece_of (Token t) = (case split_path_token t of (p, n) \<Rightarrow> Grp p n)"

definition compile_template :: "string \<Rightarrow> piece list" where
  "compile_template path = map piece_of (chunks CHR ''<'' CHR ''>'' path)"

definition pattern_special :: "char \<Rightarrow> bool" where
  "pattern_special c = (c \<in> set [CHR ''$'', CHR ''^'', CHR ''*'', CHR ''+'', CHR ''?'', CHR ''('',
     CHR '')'', CHR ''['', CHR '']'', CHR ''{'', CHR ''}'', CHR ''|'', CHR 0x5C])"

definition plain_template :: "string \<Rightarrow> bool" where
  "plain_template path =
     list_all (\<lambda>p. case p of Lit c \<Rightarrow> \<not> pattern_special c | Grp _ _ \<Rightarrow> True) (compile_template path)"

definition newline :: char where "newline = CHR 0x0A"

definition group_char :: "bool \<Rightarrow> char \<Rightarrow> bool" where
  "group_char path c = (if path then c \<noteq> newline else c \<noteq> CHR ''/'')"

definition literal_matches :: "bool \<Rightarrow> char \<Rightarrow> char \<Rightarrow> bool" where
  "literal_matches escaped c x = (if \<not> escaped \<and> c = CHR ''.'' then x \<noteq> newline else c = x)"

text \<open>The lengths a group can take at the head of a text, longest first.\<close>

definition group_lengths :: "bool \<Rightarrow> string \<Rightarrow> nat list" where
  "group_lengths path s = rev [1 ..< Suc (length (takeWhile (group_char path) s))]"

primrec full_match :: "bool \<Rightarrow> piece list \<Rightarrow> string \<Rightarrow> bool" where
  "full_match escaped [] s = (s = [])"
| "full_match escaped (p # ps) s =
     (case p of
        Lit c \<Rightarrow> (case s of [] \<Rightarrow> False | x # s' \<Rightarrow> literal_matches escaped c x \<and> full_match escaped ps s')
      | Grp path n \<Rightarrow> list_ex (\<lambda>k. full_match escaped ps (drop k s)) (group_lengths path s))"

fun first_some :: "('a \<Rightarrow> 'b option) \<Rightarrow> 'a list \<Rightarrow> 'b option" where
  "first_some f [] = None"
| "first_some f (x # xs) = (case f x of None \<Rightarrow> first_some f xs | Some y \<Rightarrow> Some y)"

text \<open>\<open>fullmatch\<close> of the named pattern with the groups, found by greedy backtracking.\<close>

primrec named_groups :: "piece list \<Rightarrow> string \<Rightarrow> (string \<times> string) list option" where
  "named_groups [] s = (if s = [] then Some [] else None)"
| "named_groups (p # ps) s =
     (case p of
        Lit c \<Rightarrow> (case s of [] \<Rightarrow> None | x # s' \<Rightarrow> if c = x then named_groups ps s' else None)
      | Grp path n \<Rightarrow>
          first_some (\<lambda>k. map_option (\<lambda>g. (n, take k s) # g) (named_groups ps (drop k s)))
            (group_lengths path s))"

text \<open>\<open>_fastapi_path_to_template\<close> and \<open>_templated_path_to_probe\<close>.\<close>

fun template_text :: "chunk \<Rightarrow> string" where
  "template_text (Literal c) = [c]"
| "template_text (Token t) =
     (case py_partition CHR '':'' t of
        (name, Some conv) \<Rightarrow> ''<'' @ conv @ '':'' @ name @ ''>''
      | (name, None) \<Rightarrow> ''<'' @ t @ ''>'')"

definition fastapi_path_to_template :: "string \<Rightarrow> string" where
  "fastapi_path_to_template path = concat (map template_text (chunks CHR ''{'' CHR ''}'' path))"

section \<open>Tokens, groups and claims\<close>

definition resolve_bearer_token :: "string option \<Rightarrow> string option \<Rightarrow> exc + string" where
  "resolve_bearer_token authorization forwarded =
     (let header = (case authorization of None \<Rightarrow> None | Some h \<Rightarrow> nonempty h);
          direct = (case header of
            None \<Rightarrow> None
          | Some h \<Rightarrow> (case py_partition CHR '' '' h of
              (scheme, Some token) \<Rightarrow> if py_lower scheme = ''bearer'' then nonempty token else None
            | (scheme, None) \<Rightarrow> None));
          proxied = (case forwarded of
            None \<Rightarrow> None
          | Some f \<Rightarrow> (let token = py_strip f in
              if token = [] then None
              else if startswith (py_lower token) ''bearer '' then nonempty (py_strip (drop 7 token))
              else Some token))
      in case direct of
           Some t \<Rightarrow> Inr t
         | None \<Rightarrow> (case proxied of
             Some t \<Rightarrow> Inr t
           | None \<Rightarrow> if header \<noteq> None
               then Inl (MlflowExc UNAUTHENTICATED
                 ''Authorization header must be in the format 'Bearer <token>'.'')
               else Inl (MlflowExc UNAUTHENTICATED
                 ''Missing Authorization header or X-Forwarded-Access-Token header.'')))"

definition parse_remote_groups :: "string option \<Rightarrow> string \<Rightarrow> string list" where
  "parse_remote_groups header separator =
     (case header of
        None \<Rightarrow> []
      | Some v \<Rightarrow>
          if v = [] then []
          else (let tokens = (if separator = [] then [v] else py_split separator v)
                in filter (\<lambda>t. t \<noteq> []) (map py_strip tokens)))"

text \<open>
  \<open>_parse_jwt_subject\<close>: \<open>payload\<close> decodes a padded base64url segment and parses it as JSON, \<open>None\<close>
  when either step raises. Every exception ends as no user name.
\<close>

definition parse_jwt_subject ::
  "(string \<Rightarrow> pv option) \<Rightarrow> string \<Rightarrow> string \<Rightarrow> string option" where
  "parse_jwt_subject payload token claim =
     (let parts = py_split ''.'' token in
      if length parts < 2 then None
      else (let segment = parts ! 1;
                padding = replicate ((4 - length segment mod 4) mod 4) CHR ''=''
            in case payload (segment @ padding) of
                 Some (PDict d) \<Rightarrow> (case dget d claim of PStr s \<Rightarrow> nonempty s | _ \<Rightarrow> None)
               | _ \<Rightarrow> None))"


section \<open>Lemmas\<close>

lemma normalized_prefix_shape: "normalized_prefix p = [] \<or> startswith (normalized_prefix p) ''/''"
  by (auto simp: normalized_prefix_def Let_def startswith_def)

lemma strip_prefix_absolute: "startswith path ''/'' \<Longrightarrow> startswith (strip_prefix path prefix) ''/''"
  by (auto simp: strip_prefix_def Let_def startswith_iff split: option.splits)

lemma strip_static_prefix_absolute:
  "startswith path ''/'' \<Longrightarrow> startswith (strip_static_prefix static path) ''/''"
  using strip_prefix_absolute [of path]
  by (auto simp: strip_static_prefix_def Let_def split: option.splits)

lemma group_lengths_iff:
  "k \<in> set (group_lengths p s) \<longleftrightarrow> 0 < k \<and> k \<le> length s \<and> (\<forall>c \<in> set (take k s). group_char p c)"
proof -
  have "k \<le> length (takeWhile P s) \<longleftrightarrow> k \<le> length s \<and> (\<forall>c \<in> set (take k s). P c)" for P
  proof (induction s arbitrary: k)
    case (Cons x s)
    then show ?case by (cases k) auto
  qed simp
  moreover have "k \<in> set (group_lengths p s) \<longleftrightarrow> 0 < k \<and> k \<le> length (takeWhile (group_char p) s)"
    by (auto simp: group_lengths_def simp del: upt_Suc)
  ultimately show ?thesis by blast
qed

lemma first_some_None: "first_some f xs = None \<longleftrightarrow> (\<forall>x \<in> set xs. f x = None)"
  by (induction xs) (auto split: option.splits)

lemma first_some_Some: "first_some f xs = Some y \<Longrightarrow> \<exists>x \<in> set xs. f x = Some y"
  by (induction xs) (auto split: option.splits)

text \<open>What a template stands for, given values for its parameters in order.\<close>

fun instantiate :: "piece list \<Rightarrow> string list \<Rightarrow> string option" where
  "instantiate [] [] = Some []"
| "instantiate (Lit c # ps) vs = map_option (Cons c) (instantiate ps vs)"
| "instantiate (Grp p n # ps) (v # vs) =
     (if v \<noteq> [] \<and> list_all (group_char p) v then map_option (append v) (instantiate ps vs) else None)"
| "instantiate _ _ = None"

lemma named_groups_instantiate:
  "named_groups ps s = Some g \<Longrightarrow> instantiate ps (map snd g) = Some s"
proof (induction ps arbitrary: s g)
  case Nil
  then show ?case by (auto split: if_splits)
next
  case (Cons p ps)
  show ?case
  proof (cases p)
    case (Lit c)
    with Cons show ?thesis by (auto split: list.splits if_splits)
  next
    case (Grp path n)
    with Cons.prems obtain k g' where k: "k \<in> set (group_lengths path s)"
      and g: "named_groups ps (drop k s) = Some g'" "g = (n, take k s) # g'"
      by (auto dest!: first_some_Some)
    from Cons.IH [OF g(1)] k g(2) Grp show ?thesis by (auto simp: group_lengths_iff list_all_iff)
  qed
qed

lemma instantiate_full_match: "instantiate ps vs = Some s \<Longrightarrow> full_match True ps s"
proof (induction ps vs arbitrary: s rule: instantiate.induct)
  case (3 p n ps v vs)
  then obtain s' where s: "s = v @ s'" "instantiate ps vs = Some s'"
    and v: "v \<noteq> []" "list_all (group_char p) v"
    by (auto split: if_splits)
  then have "length v \<in> set (group_lengths p s)" by (auto simp: group_lengths_iff list_all_iff)
  with 3 s v show ?case by (auto simp: list_ex_iff intro!: bexI [of _ "length v"])
qed (auto simp: literal_matches_def)

lemma full_match_unescaped: "full_match True ps s \<Longrightarrow> newline \<notin> set s \<Longrightarrow> full_match False ps s"
proof (induction ps arbitrary: s)
  case (Cons p ps)
  have drop: "newline \<notin> set (drop k s)" for k using Cons.prems(2) by (meson in_set_dropD)
  show ?case
  proof (cases p)
    case (Lit c)
    with Cons show ?thesis by (auto simp: literal_matches_def split: list.splits)
  next
    case (Grp path n)
    with Cons.prems(1) Cons.IH drop show ?thesis by (auto simp: list_ex_iff)
  qed
qed simp

lemma full_match_named: "full_match True ps s \<Longrightarrow> named_groups ps s \<noteq> None"
proof (induction ps arbitrary: s)
  case (Cons p ps)
  show ?case
  proof (cases p)
    case (Lit c)
    with Cons show ?thesis by (auto simp: literal_matches_def split: list.splits)
  next
    case (Grp path n)
    with Cons.prems obtain k where "k \<in> set (group_lengths path s)" "full_match True ps (drop k s)"
      by (auto simp: list_ex_iff)
    with Cons.IH [of "drop k s"] Grp show ?thesis
      by (auto simp: first_some_None intro!: bexI [of _ k])
  qed
qed simp


section \<open>Properties\<close>

text \<open>
  A canonical path is absolute or empty, whatever the raw path, the root path, the script name and
  the static prefix are.
\<close>

lemma canonicalize_path_absolute:
  "canonicalize_path static raw path_info scope root_path script = [] \<or>
   startswith (canonicalize_path static raw path_info scope root_path script) ''/''"
proof (cases "first_nonempty [path_info, scope, Some raw] = []")
  case False
  have "startswith (if startswith p ''/'' then p else CHR ''/'' # p) ''/''" for p
    by (simp add: startswith_def)
  then have "startswith (canonicalize_path static raw path_info scope root_path script) ''/''"
    unfolding canonicalize_path_def Let_def using False
    by (simp only: if_False strip_static_prefix_absolute strip_prefix_absolute)
  then show ?thesis by simp
qed (simp add: canonicalize_path_def)

text \<open>
  Stripping a deployment prefix removes exactly the normalized prefix at a segment boundary, or
  nothing. It is not idempotent, as a comment of \<open>_canonicalize_path\<close> says it is: a path whose
  remainder starts with the prefix again loses it twice.
\<close>

lemma strip_prefix_exact:
  "(strip_prefix path (Some p) = path \<or>
    path = normalized_prefix p @ strip_prefix path (Some p) \<or>
    path = normalized_prefix p \<and> strip_prefix path (Some p) = ''/'') \<and>
   (let once = strip_prefix ''/api/api/2.0/mlflow/runs/get'' (Some ''/api'')
    in once = ''/api/2.0/mlflow/runs/get'' \<and> strip_prefix once (Some ''/api'') = ''/2.0/mlflow/runs/get'')"
proof -
  have "strip_prefix path (Some p) = path \<or>
    path = normalized_prefix p @ strip_prefix path (Some p) \<or>
    path = normalized_prefix p \<and> strip_prefix path (Some p) = ''/''"
    by (auto simp: strip_prefix_def Let_def startswith_iff)
  moreover have "normalized_prefix ''/api'' = ''/api''"
    by (simp add: normalized_prefix_def py_strip_def py_lstrip_def py_rstrip_def is_space_def
        strip_right_char_def startswith_def)
  ultimately show ?thesis by (simp add: Let_def strip_prefix_def startswith_def)
qed

text \<open>
  Path parameters are cut out of the path exactly. When the named pattern of a template matches,
  writing the captured values back into the template gives the path; every value is non-empty, and a
  value of a plain parameter has no slash.
\<close>

lemma named_groups_exact:
  assumes "named_groups (compile_template template) path = Some groups"
  shows "instantiate (compile_template template) (map snd groups) = Some path"
  by (rule named_groups_instantiate [OF assms])

definition demo_template :: string where
  "demo_template = ''/s/<name>/t/<path:key>''"

lemma demo_template_pieces:
  "compile_template demo_template =
     map Lit ''/s/'' @ [Grp False ''name''] @ map Lit ''/t/'' @ [Grp True ''key'']"
  by (simp add: compile_template_def demo_template_def split_path_token_def startswith_def)

lemma named_groups_exact_witness:
  "instantiate (compile_template demo_template) [''x'', ''a/b''] = Some ''/s/x/t/a/b''"
proof -
  have "named_groups (compile_template demo_template) ''/s/x/t/a/b'' =
      Some [(''name'', ''x''), (''key'', ''a/b'')]"
    by (simp add: demo_template_pieces group_lengths_def group_char_def newline_def upt_rec)
  from named_groups_exact [OF this] show ?thesis by simp
qed

text \<open>
  The two compilations of a template agree in one direction. A path from which parameters can be
  extracted is also matched by the rule compiled from the same template, so extraction never
  succeeds where authorization finds no rule, provided the path has no line feed.
\<close>

lemma named_groups_imply_rule_match:
  assumes "named_groups (compile_template template) path = Some groups" and "newline \<notin> set path"
  shows "full_match False (compile_template template) path"
  by (rule full_match_unescaped [OF instantiate_full_match [OF named_groups_instantiate [OF assms(1)]] assms(2)])

theorem named_groups_imply_rule_match_witness:
  "full_match False (compile_template demo_template) ''/s/x/t/y''"
proof -
  have "named_groups (compile_template demo_template) ''/s/x/t/y'' = Some [(''name'', ''x''), (''key'', ''y'')]"
    by (simp add: demo_template_pieces group_lengths_def group_char_def newline_def upt_rec)
  from named_groups_imply_rule_match [OF this] show ?thesis by (simp add: newline_def)
qed

text \<open>
  A resolved bearer token is never empty, and a request without a usable token ends as
  unauthenticated.
\<close>

lemma resolve_bearer_token_total:
  "(\<exists>t. t \<noteq> [] \<and> resolve_bearer_token authorization forwarded = Inr t) \<or>
   (\<exists>msg. resolve_bearer_token authorization forwarded = Inl (MlflowExc UNAUTHENTICATED msg))"
  by (auto simp: resolve_bearer_token_def nonempty_def Let_def split: option.splits prod.splits if_splits)

lemma split_go_chars: "t \<in> set (split_go sep k acc s) \<Longrightarrow> set t \<subseteq> set acc \<union> set s"
  by (induction sep k acc s rule: split_go.induct) (auto split: if_splits)

lemma set_py_strip: "set (py_strip s) \<subseteq> set s"
  by (auto simp: py_strip_def py_rstrip_def py_lstrip_def dest!: set_dropWhileD)

text \<open>
  Forwarded groups are stripped, non-empty and free of the separator's split points, and a header
  without NUL gives groups without NUL, which is what the subject hash needs to tell callers apart.
\<close>

lemma parse_remote_groups_clean:
  "list_all (\<lambda>g. g \<noteq> [] \<and> py_strip g = g \<and> set g \<subseteq> set (case header of None \<Rightarrow> [] | Some v \<Rightarrow> v))
     (parse_remote_groups header separator)"
  using split_go_chars [of _ separator 0 "[]"] set_py_strip
  by (fastforce simp: parse_remote_groups_def list_all_iff py_split_def Let_def split: option.splits)

end
