(* ===== verification/Rules_Registry.thy ===== *)
theory Rules_Registry
  imports Rules_Base Paths
begin

text \<open>
  The tables of \<open>auth/rules.py\<close> as they stand after the module is loaded: the baseline, and on an
  MLflow with the skill registry the entries and flags of \<open>apply_skill_registry_deltas\<close>. The
  theorems check every entry of every table.
\<close>

section \<open>The tables\<close>

type_synonym request_table = "(string \<times> rule_entry) list"
type_synonym path_table = "((string \<times> string) \<times> rule_entry) list"

definition dict_update :: "('k \<times> 'v) list \<Rightarrow> ('k \<times> 'v) list \<Rightarrow> ('k \<times> 'v) list" where
  "dict_update new d = fold (\<lambda>(k, v). AList.update k v) new d"

text \<open>\<open>d[k] = d[k]._replace(check_skill_artifact_permissions=True)\<close>; a tuple has no \<open>_replace\<close>.\<close>

definition replace_check :: "'k \<Rightarrow> ('k \<times> rule_entry) list \<Rightarrow> exc + ('k \<times> rule_entry) list" where
  "replace_check k d =
     (case map_of d k of
        None \<Rightarrow> Inl PyKeyError
      | Some (One r) \<Rightarrow> Inr (AList.update k (One (r\<lparr>check_skill_artifact_permissions := True\<rparr>)) d)
      | Some _ \<Rightarrow> Inl OtherExc)"

fun replace_checks :: "'k list \<Rightarrow> ('k \<times> rule_entry) list \<Rightarrow> exc + ('k \<times> rule_entry) list" where
  "replace_checks [] d = Inr d"
| "replace_checks (k # ks) d =
     (case replace_check k d of Inl e \<Rightarrow> Inl e | Inr d' \<Rightarrow> replace_checks ks d')"

definition skill_artifact_classes :: "string list" where
  "skill_artifact_classes =
     [''DownloadArtifact'', ''ListArtifactsMlflowArtifacts'', ''GetPresignedDownloadUrl'',
      ''UploadArtifact'', ''DeleteArtifact'', ''CreateMultipartUpload'', ''CompleteMultipartUpload'',
      ''AbortMultipartUpload'']"

definition skill_artifact_paths :: "(string \<times> string) list" where
  "skill_artifact_paths =
     [(''/api/2.0/mlflow-artifacts/artifacts/<path:artifact_path>'', ''GET''),
      (''/ajax-api/2.0/mlflow-artifacts/artifacts/<path:artifact_path>'', ''GET''),
      (''/api/2.0/mlflow-artifacts/artifacts/<path:artifact_path>'', ''PUT''),
      (''/ajax-api/2.0/mlflow-artifacts/artifacts/<path:artifact_path>'', ''PUT'')]"

definition apply_skill_registry_deltas ::
  "request_table \<Rightarrow> path_table \<Rightarrow> exc + (request_table \<times> path_table)" where
  "apply_skill_registry_deltas request_rules path_rules =
     (case replace_checks skill_artifact_classes request_rules of
        Inl e \<Rightarrow> Inl e
      | Inr req \<Rightarrow>
          (case replace_checks skill_artifact_paths
                  (dict_update SKILL_REGISTRY_PATH_AUTHORIZATION_RULES path_rules) of
             Inl e \<Rightarrow> Inl e
           | Inr paths \<Rightarrow> Inr (req, paths)))"

text \<open>\<open>HAS_SKILL_REGISTRY\<close> is whether the installed MLflow has the skill registry.\<close>

definition authorization_tables :: "string \<Rightarrow> bool \<Rightarrow> exc + (request_table \<times> path_table)" where
  "authorization_tables otlp has_skill_registry =
     (if has_skill_registry
      then apply_skill_registry_deltas BASE_REQUEST_AUTHORIZATION_RULES (BASE_PATH_AUTHORIZATION_RULES otlp)
      else Inr (BASE_REQUEST_AUTHORIZATION_RULES, BASE_PATH_AUTHORIZATION_RULES otlp))"

section \<open>Every entry is well-formed\<close>

definition wf_path_entry :: "(string \<times> string) \<times> rule_entry \<Rightarrow> bool" where
  "wf_path_entry e =
     (wf_entry (snd e) \<or> is_unprotected_path (fst (fst e)) \<and> CHR ''<'' \<notin> set (fst (fst e)))"

text \<open>A method that changes something asks for a verb that changes something, or is denied.\<close>

definition changing_rule :: "rule \<Rightarrow> bool" where
  "changing_rule r = (deny r \<or> rule_verb r \<in> set [Some ''create'', Some ''update'', Some ''delete''])"

definition changing_entry :: "(string \<times> string) \<times> rule_entry \<Rightarrow> bool" where
  "changing_entry e =
     (snd (fst e) \<notin> set [''PUT'', ''PATCH'', ''DELETE''] \<or> list_all changing_rule (normalize_rules (snd e)))"

definition path_entry_ok :: "(string \<times> string) \<times> rule_entry \<Rightarrow> bool" where
  "path_entry_ok e = (wf_path_entry e \<and> changing_entry e)"

definition request_entry_ok :: "string \<times> rule_entry \<Rightarrow> bool" where
  "request_entry_ok e = wf_entry (snd e)"

lemma request_tables_ok: "list_all request_entry_ok BASE_REQUEST_AUTHORIZATION_RULES"
proof -
  have "list_all request_entry_ok base_request_rules_1" by code_simp
  moreover have "list_all request_entry_ok base_request_rules_2" by code_simp
  moreover have "list_all request_entry_ok base_request_rules_3" by code_simp
  moreover have "list_all request_entry_ok base_request_rules_4" by code_simp
  moreover have "list_all request_entry_ok base_request_rules_5" by code_simp
  ultimately show ?thesis by (simp add: BASE_REQUEST_AUTHORIZATION_RULES_def)
qed

lemma base_path_tables_ok: "list_all path_entry_ok (BASE_PATH_AUTHORIZATION_RULES otlp)"
proof -
  have "list_all path_entry_ok (base_path_rules_1 otlp)"
    by (simp add: base_path_rules_1_def path_entry_ok_def wf_path_entry_def changing_entry_def
        normalize_rules_def changing_rule_def rule_defs wf_rule_def policy_reads_def optional_named_def
        resource_defs ALLOWED_RESOURCES_def is_unprotected_path_def UNPROTECTED_PATHS_def)
  moreover have "list_all path_entry_ok base_path_rules_2" by code_simp
  moreover have "list_all path_entry_ok base_path_rules_3" by code_simp
  moreover have "list_all path_entry_ok base_path_rules_4" by code_simp
  ultimately show ?thesis by (simp add: BASE_PATH_AUTHORIZATION_RULES_def)
qed

lemma skill_path_table_ok: "list_all path_entry_ok SKILL_REGISTRY_PATH_AUTHORIZATION_RULES"
proof -
  have "list_all path_entry_ok skill_path_rules_1" by code_simp
  moreover have "list_all path_entry_ok skill_path_rules_2" by code_simp
  ultimately show ?thesis by (simp add: SKILL_REGISTRY_PATH_AUTHORIZATION_RULES_def)
qed

lemma list_all_update:
  "list_all P d \<Longrightarrow> P (k, v) \<Longrightarrow> list_all P (AList.update k v d)"
  by (induction d) auto

lemma list_all_dict_update: "list_all P new \<Longrightarrow> list_all P d \<Longrightarrow> list_all P (dict_update new d)"
  unfolding dict_update_def
  by (induction new arbitrary: d) (auto intro: list_all_update)

lemma list_all_replace_checks:
  assumes "\<And>k r. P (k, One r) \<Longrightarrow> P (k, One (r\<lparr>check_skill_artifact_permissions := True\<rparr>))"
    and "list_all P d" and "replace_checks ks d = Inr d'"
  shows "list_all P d'"
  using assms(2,3)
proof (induction ks arbitrary: d)
  case (Cons k ks)
  then obtain r where "map_of d k = Some (One r)"
    and step: "replace_checks ks (AList.update k (One (r\<lparr>check_skill_artifact_permissions := True\<rparr>)) d) = Inr d'"
    by (auto simp: replace_check_def split: option.splits rule_entry.splits)
  with Cons.prems(1) have "P (k, One r)" by (auto simp: list_all_iff dest: map_of_SomeD)
  with Cons.IH [OF _ step] Cons.prems(1) show ?case by (auto intro: list_all_update assms(1))
qed simp

lemma rule_checks_replace [simp]:
  "wf_rule (r\<lparr>check_skill_artifact_permissions := b\<rparr>) = wf_rule r"
  "policy_reads (r\<lparr>check_skill_artifact_permissions := b\<rparr>) = policy_reads r"
  "optional_named (r\<lparr>check_skill_artifact_permissions := b\<rparr>) = optional_named r"
  "changing_rule (r\<lparr>check_skill_artifact_permissions := b\<rparr>) = changing_rule r"
  by (simp_all add: wf_rule_def policy_reads_def optional_named_def changing_rule_def
      cong: option.case_cong)

lemma entry_ok_replace:
  "path_entry_ok (k, One r) \<Longrightarrow> path_entry_ok (k, One (r\<lparr>check_skill_artifact_permissions := True\<rparr>))"
  "request_entry_ok (c, One r) \<Longrightarrow> request_entry_ok (c, One (r\<lparr>check_skill_artifact_permissions := True\<rparr>))"
  by (simp_all add: path_entry_ok_def request_entry_ok_def wf_path_entry_def changing_entry_def
      normalize_rules_def)

lemma replace_checks_present:
  "(\<And>k. k \<in> set ks \<Longrightarrow> \<exists>r. map_of d k = Some (One r)) \<Longrightarrow> \<exists>d'. replace_checks ks d = Inr d'"
proof (induction ks arbitrary: d)
  case (Cons k ks)
  then obtain r where "map_of d k = Some (One r)" by auto
  with Cons show ?case by (simp add: replace_check_def update_conv')
qed simp

lemma map_of_dict_update: "map_of (dict_update new d) = map_of d ++ map_of (rev new)"
  unfolding dict_update_def
  by (induction new arbitrary: d) (auto simp: update_conv' map_add_def fun_eq_iff split: option.splits)


definition one_at :: "('k \<times> rule_entry) list \<Rightarrow> 'k \<Rightarrow> bool" where
  "one_at d k = (case map_of d k of Some (One r) \<Rightarrow> True | _ \<Rightarrow> False)"

definition none_at :: "('k \<times> rule_entry) list \<Rightarrow> 'k \<Rightarrow> bool" where
  "none_at d k = (case map_of d k of Some r \<Rightarrow> False | None \<Rightarrow> True)"

lemma one_at_append: "one_at (xs @ ys) k = (if none_at xs k then one_at ys k else one_at xs k)"
  by (auto simp: one_at_def none_at_def split: option.splits)

lemma one_at_append_left: "one_at xs k \<Longrightarrow> one_at (xs @ ys) k"
  by (auto simp: one_at_def split: option.splits)

lemma one_at_append_right: "none_at xs k \<Longrightarrow> one_at ys k \<Longrightarrow> one_at (xs @ ys) k"
  by (auto simp: one_at_append)

lemmas one_at_appends = one_at_append_left one_at_append_right

lemma none_at_append: "none_at (xs @ ys) k = (none_at xs k \<and> none_at ys k)"
  by (auto simp: none_at_def split: option.splits)

lemma map_of_rev_none_at: "none_at xs k \<Longrightarrow> map_of (rev xs) k = None"
  by (auto simp: none_at_def map_of_eq_None_iff split: option.splits)

lemma request_deltas_present:
  "list_all (none_at base_request_rules_1) skill_artifact_classes"
  "list_all (one_at base_request_rules_2) (drop 3 skill_artifact_classes)"
  "list_all (none_at base_request_rules_2) (take 3 skill_artifact_classes)"
  "list_all (one_at base_request_rules_3) (take 2 skill_artifact_classes)"
  "list_all (none_at base_request_rules_3) (take 1 (drop 2 skill_artifact_classes))"
  "list_all (none_at base_request_rules_4) (take 1 (drop 2 skill_artifact_classes))"
  "list_all (one_at base_request_rules_5) (take 1 (drop 2 skill_artifact_classes))"
  by code_simp+

lemma path_deltas_absent:
  "list_all (none_at skill_path_rules_1) skill_artifact_paths"
  "list_all (none_at skill_path_rules_2) skill_artifact_paths"
  by code_simp+

lemma path_deltas_present:
  "list_all (one_at base_path_rules_2) skill_artifact_paths"
  by code_simp

lemma path_deltas_absent_1: "list_all (none_at (base_path_rules_1 otlp)) skill_artifact_paths"
  by (simp add: base_path_rules_1_def skill_artifact_paths_def none_at_def)

section \<open>Properties\<close>

lemma authorization_tables_load: "\<exists>req paths. authorization_tables otlp b = Inr (req, paths)"
proof -
  have req: "\<exists>d'. replace_checks skill_artifact_classes BASE_REQUEST_AUTHORIZATION_RULES = Inr d'"
  proof (rule replace_checks_present)
    fix k assume "k \<in> set skill_artifact_classes"
    then have "one_at BASE_REQUEST_AUTHORIZATION_RULES k"
      using request_deltas_present
      by (auto simp: BASE_REQUEST_AUTHORIZATION_RULES_def skill_artifact_classes_def
          intro: one_at_appends)
    then show "\<exists>r. map_of BASE_REQUEST_AUTHORIZATION_RULES k = Some (One r)"
      by (auto simp: one_at_def split: option.splits rule_entry.splits)
  qed
  have "\<exists>d'. replace_checks skill_artifact_paths
      (dict_update SKILL_REGISTRY_PATH_AUTHORIZATION_RULES (BASE_PATH_AUTHORIZATION_RULES otlp)) = Inr d'"
  proof (rule replace_checks_present)
    fix k assume k: "k \<in> set skill_artifact_paths"
    then have "one_at (BASE_PATH_AUTHORIZATION_RULES otlp) k"
      and none: "none_at SKILL_REGISTRY_PATH_AUTHORIZATION_RULES k"
      using path_deltas_present path_deltas_absent path_deltas_absent_1 [of otlp]
      by (auto simp: BASE_PATH_AUTHORIZATION_RULES_def SKILL_REGISTRY_PATH_AUTHORIZATION_RULES_def
          none_at_append list_all_iff intro!: one_at_append_right [of "base_path_rules_1 otlp"]
          one_at_append_left [of base_path_rules_2])
    then show "\<exists>r. map_of (dict_update SKILL_REGISTRY_PATH_AUTHORIZATION_RULES
        (BASE_PATH_AUTHORIZATION_RULES otlp)) k = Some (One r)"
      using map_of_rev_none_at [OF none]
      by (auto simp: map_of_dict_update map_add_def one_at_def split: option.splits rule_entry.splits)
  qed
  with req show ?thesis by (auto simp: authorization_tables_def apply_skill_registry_deltas_def)
qed

lemma authorization_tables_entries:
  assumes t: "authorization_tables otlp b = Inr (req, paths)"
  shows "list_all request_entry_ok req \<and> list_all path_entry_ok paths"
proof (cases b)
  case False
  with t show ?thesis using request_tables_ok base_path_tables_ok [of otlp]
    by (auto simp: authorization_tables_def)
next
  case True
  with t have "replace_checks skill_artifact_classes BASE_REQUEST_AUTHORIZATION_RULES = Inr req"
    and "replace_checks skill_artifact_paths
      (dict_update SKILL_REGISTRY_PATH_AUTHORIZATION_RULES (BASE_PATH_AUTHORIZATION_RULES otlp)) = Inr paths"
    by (simp_all add: authorization_tables_def apply_skill_registry_deltas_def split: sum.splits)
  with list_all_replace_checks [of request_entry_ok, OF entry_ok_replace(2) request_tables_ok]
    list_all_replace_checks [of path_entry_ok, OF entry_ok_replace(1)
      list_all_dict_update [OF skill_path_table_ok base_path_tables_ok]]
  show ?thesis by blast
qed

text \<open>
  C35: the rule tables load and every entry is well-formed, with and without the skill registry. No rule
  constructor raises, the skill registry's changes find every entry they flag, a denying rule has a
  message, a rule with a verb names a known resource and a verb of the API, a collection policy only
  accompanies a read, and every PUT, PATCH and DELETE path asks for a changing verb or is denied.
\<close>

theorem authorization_tables_well_formed:
  "case authorization_tables otlp b of
     Inl e \<Rightarrow> False
   | Inr (req, paths) \<Rightarrow> list_all (\<lambda>(c, v). wf_entry v) req \<and>
       list_all (\<lambda>((p, m), v). wf_entry v \<or> is_unprotected_path p) paths \<and>
       list_all (\<lambda>(k, v). list_all changing_rule (normalize_rules v))
         (filter (\<lambda>((p, m), v). m \<in> set [''PUT'', ''PATCH'', ''DELETE'']) paths)"
proof -
  obtain req paths where t: "authorization_tables otlp b = Inr (req, paths)"
    using authorization_tables_load by blast
  have "list_all request_entry_ok req \<and> list_all path_entry_ok paths"
    by (rule authorization_tables_entries [OF t])
  then show ?thesis
    by (auto simp: t request_entry_ok_def path_entry_ok_def wf_path_entry_def changing_entry_def
        list_all_iff)
qed

end
