(* ===== verification/Ttl_Cache.thy ===== *)
theory Ttl_Cache
  imports Prelude
begin

text \<open>
  The bounded caches with expiring entries: \<open>_ExpiringCache\<close> of \<open>auth/authorizer.py\<close> and
  \<open>_NameLookupCache\<close> with its subclass \<open>_ExperimentIdLookupCache\<close> of \<open>auth/resource_names.py\<close>.
  The \<open>OrderedDict\<close> of each is the list of its entries, oldest first. A method that runs under the
  cache's lock is one function; \<open>time.time()\<close> is the argument \<open>now\<close>, a real number (the rounding of
  the float addition \<open>now + ttl\<close> is not modelled). The locale \<open>expiring_store\<close> is the contract both
  caches keep, and its lemmas say that a hit is always a value stored less than one TTL ago.
\<close>

section \<open>Entries and the shared loops\<close>

type_synonym ('k, 'v) entries = "('k \<times> ('v \<times> real)) list"

record ('k, 'v) ttl_cache =
  ttl_seconds :: real
  max_entries :: nat
  entries :: "('k, 'v) entries"

definition new_cache :: "real \<Rightarrow> nat \<Rightarrow> ('k, 'v) ttl_cache" where
  "new_cache ttl n = \<lparr>ttl_seconds = ttl, max_entries = n, entries = []\<rparr>"

definition reap_expired :: "real \<Rightarrow> ('k, 'v) entries \<Rightarrow> ('k, 'v) entries" where
  "reap_expired now es = filter (\<lambda>e. now < snd (snd e)) es"

text \<open>
  \<open>while len(self._entries) >= self._max_entries: self._entries.popitem(last=False)\<close>;
  \<open>popitem\<close> of an empty dictionary raises \<open>KeyError\<close>.
\<close>

fun evict_oldest :: "nat \<Rightarrow> ('k, 'v) entries \<Rightarrow> exc + ('k, 'v) entries" where
  "evict_oldest n [] = (if n = 0 then Inl PyKeyError else Inr [])"
| "evict_oldest n (e # es) = (if n \<le> length (e # es) then evict_oldest n es else Inr (e # es))"

text \<open>\<open>set\<close> of both classes: drop what has expired and the old entry of the key, make room, append.\<close>

definition cache_set :: "real \<Rightarrow> 'k \<Rightarrow> 'v \<Rightarrow> ('k, 'v) ttl_cache \<Rightarrow> exc + ('k, 'v) ttl_cache" where
  "cache_set now k v c =
     (case evict_oldest (max_entries c) (AList.delete k (reap_expired now (entries c))) of
        Inl e \<Rightarrow> Inl e
      | Inr es \<Rightarrow> Inr (c\<lparr>entries := es @ [(k, (v, now + ttl_seconds c))]\<rparr>))"

section \<open>\<open>_ExpiringCache.get\<close>\<close>

text \<open>The part under the read lock: a hit, a miss, or the expiration that was seen to have passed.\<close>

datatype 'v read_result = Hit 'v | Miss | Stale real

definition expiring_read :: "real \<Rightarrow> 'k \<Rightarrow> ('k, 'v) ttl_cache \<Rightarrow> 'v read_result" where
  "expiring_read now k c =
     (case map_of (entries c) k of
        None \<Rightarrow> Miss
      | Some (v, expires_at) \<Rightarrow> if now < expires_at then Hit v else Stale expires_at)"

text \<open>The part under the write lock, entered later: other threads may have run in between.\<close>

definition expiring_evict :: "real \<Rightarrow> 'k \<Rightarrow> ('k, 'v) ttl_cache \<Rightarrow> ('k, 'v) ttl_cache" where
  "expiring_evict observed k c =
     (case map_of (entries c) k of
        None \<Rightarrow> c
      | Some (v, current) \<Rightarrow>
          if current \<le> observed then c\<lparr>entries := AList.delete k (entries c)\<rparr> else c)"

definition expiring_get ::
  "real \<Rightarrow> 'k \<Rightarrow> ('k, 'v) ttl_cache \<Rightarrow> 'v option \<times> ('k, 'v) ttl_cache" where
  "expiring_get now k c =
     (case expiring_read now k c of
        Hit v \<Rightarrow> (Some v, c)
      | Miss \<Rightarrow> (None, c)
      | Stale observed \<Rightarrow> (None, expiring_evict observed k c))"

section \<open>\<open>_NameLookupCache\<close>\<close>

definition move_to_end :: "'k \<Rightarrow> ('k, 'v) entries \<Rightarrow> ('k, 'v) entries" where
  "move_to_end k es =
     (case map_of es k of None \<Rightarrow> es | Some x \<Rightarrow> AList.delete k es @ [(k, x)])"

definition lookup_get ::
  "real \<Rightarrow> 'k \<Rightarrow> ('k, 'v) ttl_cache \<Rightarrow> 'v option \<times> ('k, 'v) ttl_cache" where
  "lookup_get now k c =
     (case map_of (entries c) k of
        None \<Rightarrow> (None, c)
      | Some (name, expires_at) \<Rightarrow>
          if now < expires_at then (Some name, c\<lparr>entries := move_to_end k (entries c)\<rparr>)
          else (None, c\<lparr>entries := AList.delete k (entries c)\<rparr>))"

definition lookup_invalidate :: "'k \<Rightarrow> ('k, 'v) ttl_cache \<Rightarrow> ('k, 'v) ttl_cache" where
  "lookup_invalidate k c = c\<lparr>entries := AList.delete k (entries c)\<rparr>"

definition lookup_clear :: "('k, 'v) ttl_cache \<Rightarrow> ('k, 'v) ttl_cache" where
  "lookup_clear c = c\<lparr>entries := []\<rparr>"

section \<open>Well-formed caches\<close>

definition cache_inv :: "('k, 'v) ttl_cache \<Rightarrow> bool" where
  "cache_inv c \<longleftrightarrow> distinct (map fst (entries c)) \<and> length (entries c) \<le> max_entries c \<and>
     0 < max_entries c"

definition peek :: "('k, 'v) ttl_cache \<Rightarrow> 'k \<Rightarrow> ('v \<times> real) option" where
  "peek c k = map_of (entries c) k"

lemma cache_inv_new: "0 < n \<Longrightarrow> cache_inv (new_cache ttl n)"
  by (simp add: cache_inv_def new_cache_def)

lemma distinct_filter_keys: "distinct (map fst es) \<Longrightarrow> distinct (map fst (filter P es))"
  by (induction es) auto

lemma evict_oldest_spec:
  "0 < n \<Longrightarrow> \<exists>es'. evict_oldest n es = Inr es' \<and> (\<exists>m. es' = drop m es) \<and> length es' < n"
proof (induction n es rule: evict_oldest.induct)
  case (1 n)
  then show ?case by simp
next
  case (2 n e es)
  show ?case
  proof (cases "n \<le> length (e # es)")
    case True
    with 2 obtain es' m where "evict_oldest n es = Inr es'" "es' = drop m es" "length es' < n"
      by blast
    with True show ?thesis by (metis drop_Suc_Cons evict_oldest.simps(2))
  next
    case False
    then show ?thesis by (auto intro: exI [of _ 0])
  qed
qed

lemma map_of_drop_Some:
  assumes "distinct (map fst es)" and "map_of (drop m es) k = Some x"
  shows "map_of es k = Some x"
proof -
  from assms(2) have "(k, x) \<in> set es" by (meson in_set_dropD map_of_SomeD)
  with assms(1) show ?thesis by (simp add: map_of_is_SomeI)
qed

lemma map_of_filter_Some:
  assumes "distinct (map fst es)" and "map_of (filter P es) k = Some x"
  shows "map_of es k = Some x"
proof -
  from assms(2) have "(k, x) \<in> set es" using map_of_SomeD by fastforce
  with assms(1) show ?thesis by (simp add: map_of_is_SomeI)
qed

lemma cache_set_spec:
  assumes "cache_inv c"
  obtains c' where "cache_set now k v c = Inr c'" "cache_inv c'"
    "peek c' k = Some (v, now + ttl_seconds c)"
    "\<And>j x. j \<noteq> k \<Longrightarrow> peek c' j = Some x \<Longrightarrow> peek c j = Some x \<and> now < snd x"
    "ttl_seconds c' = ttl_seconds c" "max_entries c' = max_entries c"
proof -
  let ?es = "AList.delete k (reap_expired now (entries c))"
  from assms have n: "0 < max_entries c" and d: "distinct (map fst (entries c))"
    by (simp_all add: cache_inv_def)
  have d1: "distinct (map fst (reap_expired now (entries c)))"
    unfolding reap_expired_def by (rule distinct_filter_keys [OF d])
  have d2: "distinct (map fst ?es)" by (rule distinct_delete [OF d1])
  obtain es' m where ev: "evict_oldest (max_entries c) ?es = Inr es'" and es': "es' = drop m ?es"
    and len: "length es' < max_entries c"
    using evict_oldest_spec [OF n] by blast
  let ?c = "c\<lparr>entries := es' @ [(k, (v, now + ttl_seconds c))]\<rparr>"
  have kn: "k \<notin> fst ` set es'"
  proof -
    have "fst ` set es' \<subseteq> fst ` set ?es" unfolding es' by (intro image_mono set_drop_subset)
    moreover have "k \<notin> fst ` set ?es" by (auto simp: AList.delete_eq)
    ultimately show ?thesis by blast
  qed
  show thesis
  proof (rule that [of ?c])
    show "cache_set now k v c = Inr ?c" by (simp add: cache_set_def ev)
    have "distinct (map fst es')" unfolding es' drop_map [symmetric] by (rule distinct_drop [OF d2])
    with kn len n show "cache_inv ?c" by (simp add: cache_inv_def)
    from kn have "map_of es' k = None" by (simp add: map_of_eq_None_iff)
    then show "peek ?c k = Some (v, now + ttl_seconds c)" by (simp add: peek_def map_add_def)
  next
    fix j x
    assume j: "j \<noteq> k" and p: "peek ?c j = Some x"
    then have "map_of es' j = Some x" by (auto simp: peek_def map_add_def split: option.splits if_splits)
    then have "map_of ?es j = Some x" unfolding es' by (rule map_of_drop_Some [OF d2])
    then have r: "map_of (reap_expired now (entries c)) j = Some x"
      using j by (simp add: delete_conv')
    then have "map_of (entries c) j = Some x"
      unfolding reap_expired_def by (rule map_of_filter_Some [OF d])
    moreover from r have "now < snd x" using map_of_SomeD [OF r] by (auto simp: reap_expired_def)
    ultimately show "peek c j = Some x \<and> now < snd x" by (simp add: peek_def)
  qed simp_all
qed


section \<open>The contract of an expiring store\<close>

text \<open>
  A store is driven by operations; \<open>stored\<close> says what an operation stores and when. The laws: no
  operation fails, a stored value is there with its expiration, and an operation that does not store
  a key never brings it in or changes it.
\<close>

fun run_ops :: "('op \<Rightarrow> 'c \<Rightarrow> exc + 'c) \<Rightarrow> 'op list \<Rightarrow> 'c \<Rightarrow> exc + 'c" where
  "run_ops step [] c = Inr c"
| "run_ops step (p # ps) c = (case step p c of Inl e \<Rightarrow> Inl e | Inr c' \<Rightarrow> run_ops step ps c')"

lemma run_ops_snoc:
  "run_ops step (ps @ [p]) c = (case run_ops step ps c of Inl e \<Rightarrow> Inl e | Inr c' \<Rightarrow> step p c')"
  by (induction ps arbitrary: c) (auto split: sum.splits)

locale expiring_store =
  fixes step :: "'op \<Rightarrow> 'c \<Rightarrow> exc + 'c"
    and stored :: "'op \<Rightarrow> ('k \<times> 'v \<times> real) option"
    and view :: "'c \<Rightarrow> 'k \<Rightarrow> ('v \<times> real) option"
    and inv :: "'c \<Rightarrow> bool"
    and ttl :: real
  assumes step_ok: "inv c \<Longrightarrow> \<exists>c'. step p c = Inr c' \<and> inv c'"
    and step_stores: "inv c \<Longrightarrow> step p c = Inr c' \<Longrightarrow> stored p = Some (k, v, t) \<Longrightarrow>
           view c' k = Some (v, t + ttl)"
    and step_keeps: "inv c \<Longrightarrow> step p c = Inr c' \<Longrightarrow> (\<forall>v t. stored p \<noteq> Some (j, v, t)) \<Longrightarrow>
           view c' j = Some x \<Longrightarrow> view c j = Some x"
begin

lemma run_ok: "inv c \<Longrightarrow> \<exists>c'. run_ops step ps c = Inr c' \<and> inv c'"
proof (induction ps arbitrary: c)
  case Nil
  then show ?case by simp
next
  case (Cons p ps)
  from step_ok [OF Cons.prems, of p] obtain c1 where "step p c = Inr c1" "inv c1" by blast
  with Cons.IH [of c1] show ?case by simp
qed

lemma run_view:
  assumes "inv c" and "view c = Map.empty" and "run_ops step ps c = Inr c'"
    and "view c' k = Some (v, e)"
  shows "\<exists>pre p post t. ps = pre @ p # post \<and> stored p = Some (k, v, t) \<and> e = t + ttl \<and>
           (\<forall>q \<in> set post. \<forall>w u. stored q \<noteq> Some (k, w, u))"
  using assms
proof (induction ps arbitrary: c' v e rule: rev_induct)
  case Nil
  then show ?case by simp
next
  case (snoc p ps)
  from run_ok [OF snoc.prems(1), of ps] obtain c1 where c1: "run_ops step ps c = Inr c1" "inv c1"
    by blast
  with snoc.prems(3) have st: "step p c1 = Inr c'" by (simp add: run_ops_snoc)
  show ?case
  proof (cases "\<exists>w u. stored p = Some (k, w, u)")
    case True
    then obtain w u where s: "stored p = Some (k, w, u)" by blast
    from step_stores [OF c1(2) st s] snoc.prems(4) have "w = v" "e = u + ttl" by auto
    with s have "ps @ [p] = ps @ p # [] \<and> stored p = Some (k, v, u) \<and> e = u + ttl" by simp
    then show ?thesis by (metis empty_iff empty_set)
  next
    case False
    then have "view c1 k = Some (v, e)" using step_keeps [OF c1(2) st _ snoc.prems(4)] by blast
    from snoc.IH [OF snoc.prems(1,2) c1(1) this] obtain pre q post t
      where "ps = pre @ q # post" "stored q = Some (k, v, t)" "e = t + ttl"
        "\<forall>q \<in> set post. \<forall>w u. stored q \<noteq> Some (k, w, u)" by blast
    with False have "ps @ [p] = pre @ q # (post @ [p])" "stored q = Some (k, v, t)" "e = t + ttl"
      "\<forall>q \<in> set (post @ [p]). \<forall>w u. stored q \<noteq> Some (k, w, u)" by auto
    then show ?thesis by blast
  qed
qed

end

section \<open>Both caches keep the contract\<close>

datatype ('k, 'v) expiring_op = EGet real 'k | EEvict real 'k | ESet real 'k 'v

fun expiring_step :: "('k, 'v) expiring_op \<Rightarrow> ('k, 'v) ttl_cache \<Rightarrow> exc + ('k, 'v) ttl_cache" where
  "expiring_step (EGet now k) c = Inr (snd (expiring_get now k c))"
| "expiring_step (EEvict observed k) c = Inr (expiring_evict observed k c)"
| "expiring_step (ESet now k v) c = cache_set now k v c"

fun expiring_stored :: "('k, 'v) expiring_op \<Rightarrow> ('k \<times> 'v \<times> real) option" where
  "expiring_stored (ESet now k v) = Some (k, v, now)"
| "expiring_stored _ = None"

fun_cases expiring_storedE: "expiring_stored p = Some (k, v, t)"

datatype ('k, 'v) lookup_op = LGet real 'k | LSet real 'k 'v | LInvalidate 'k | LClear

fun lookup_step :: "('k, 'v) lookup_op \<Rightarrow> ('k, 'v) ttl_cache \<Rightarrow> exc + ('k, 'v) ttl_cache" where
  "lookup_step (LGet now k) c = Inr (snd (lookup_get now k c))"
| "lookup_step (LSet now k v) c = cache_set now k v c"
| "lookup_step (LInvalidate k) c = Inr (lookup_invalidate k c)"
| "lookup_step LClear c = Inr (lookup_clear c)"

fun lookup_stored :: "('k, 'v) lookup_op \<Rightarrow> ('k \<times> 'v \<times> real) option" where
  "lookup_stored (LSet now k v) = Some (k, v, now)"
| "lookup_stored _ = None"

definition cache_at :: "real \<Rightarrow> ('k, 'v) ttl_cache \<Rightarrow> bool" where
  "cache_at ttl c \<longleftrightarrow> cache_inv c \<and> ttl_seconds c = ttl"

lemma cache_at_delete:
  "cache_at ttl c \<Longrightarrow> cache_at ttl (c\<lparr>entries := AList.delete k (entries c)\<rparr>)"
  unfolding cache_at_def cache_inv_def
  by (auto intro: distinct_delete le_trans [OF length_delete_le])

lemma cache_at_clear: "cache_at ttl c \<Longrightarrow> cache_at ttl (lookup_clear c)"
  by (simp add: cache_at_def cache_inv_def lookup_clear_def)

lemma peek_delete: "peek (c\<lparr>entries := AList.delete k (entries c)\<rparr>) j = Some x \<Longrightarrow> peek c j = Some x"
  by (auto simp: peek_def delete_conv' split: if_splits)

lemma cache_at_expiring_evict: "cache_at ttl c \<Longrightarrow> cache_at ttl (expiring_evict observed k c)"
  by (auto simp: expiring_evict_def cache_at_delete split: option.splits)

lemma peek_expiring_evict: "peek (expiring_evict observed k c) j = Some x \<Longrightarrow> peek c j = Some x"
  by (auto simp: expiring_evict_def split: option.splits if_splits dest: peek_delete)

lemma cache_at_expiring_get: "cache_at ttl c \<Longrightarrow> cache_at ttl (snd (expiring_get now k c))"
  by (auto simp: expiring_get_def cache_at_expiring_evict split: read_result.splits)

lemma peek_expiring_get: "peek (snd (expiring_get now k c)) j = Some x \<Longrightarrow> peek c j = Some x"
  by (auto simp: expiring_get_def split: read_result.splits dest: peek_expiring_evict)

lemma expiring_read_Hit:
  "expiring_read now k c = Hit v \<longleftrightarrow> (\<exists>e. peek c k = Some (v, e) \<and> now < e)"
  by (auto simp: expiring_read_def peek_def split: option.splits)

lemma expiring_get_Some: "fst (expiring_get now k c) = Some v \<longleftrightarrow> expiring_read now k c = Hit v"
  by (auto simp: expiring_get_def split: read_result.splits)

lemma move_to_end_facts:
  assumes "distinct (map fst es)"
  shows "distinct (map fst (move_to_end k es))" and "map_of (move_to_end k es) = map_of es"
    and "length (move_to_end k es) = length es"
proof -
  show "distinct (map fst (move_to_end k es))"
    using assms by (auto simp: move_to_end_def AList.delete_eq split: option.splits intro: distinct_filter_keys)
  show "map_of (move_to_end k es) = map_of es"
    by (auto simp: move_to_end_def fun_eq_iff map_add_def delete_conv' split: option.splits)
  show "length (move_to_end k es) = length es"
  proof (cases "map_of es k")
    case None
    then show ?thesis by (simp add: move_to_end_def)
  next
    case (Some x)
    then have "(k, x) \<in> set es" by (rule map_of_SomeD)
    with assms have "length (AList.delete k es) = length es - 1"
    proof (induction es)
      case (Cons e es)
      then show ?case
      proof (cases "fst e = k")
        case True
        with Cons.prems have "AList.delete k es = es" by (auto intro!: delete_idem)
        with True show ?thesis by (cases e) simp
      next
        case False
        with Cons.prems have mem: "(k, x) \<in> set es" by (cases e) auto
        with Cons have "length (AList.delete k es) = length es - 1" by simp
        moreover have "0 < length es" by (rule length_pos_if_in_set [OF mem])
        ultimately show ?thesis using False by (cases e) simp
      qed
    qed simp
    moreover from \<open>(k, x) \<in> set es\<close> have "0 < length es" by (rule length_pos_if_in_set)
    ultimately show ?thesis using Some by (simp add: move_to_end_def)
  qed
qed

lemma cache_at_lookup_get: "cache_at ttl c \<Longrightarrow> cache_at ttl (snd (lookup_get now k c))"
  by (auto simp: lookup_get_def cache_at_delete split: option.splits)
     (auto simp: cache_at_def cache_inv_def move_to_end_facts)

lemma peek_lookup_get:
  assumes c: "cache_at ttl c" and p: "peek (snd (lookup_get now k c)) j = Some x"
  shows "peek c j = Some x"
proof (cases "map_of (entries c) k")
  case None
  with p show ?thesis by (simp add: lookup_get_def)
next
  case (Some y)
  obtain v e where y: "y = (v, e)" by (cases y)
  show ?thesis
  proof (cases "now < e")
    case True
    from c have "distinct (map fst (entries c))" by (simp add: cache_at_def cache_inv_def)
    then have "map_of (move_to_end k (entries c)) = map_of (entries c)" by (rule move_to_end_facts)
    with True Some y p show ?thesis by (simp add: lookup_get_def peek_def)
  next
    case False
    with Some y p have "peek (c\<lparr>entries := AList.delete k (entries c)\<rparr>) j = Some x"
      by (simp add: lookup_get_def)
    then show ?thesis by (rule peek_delete)
  qed
qed

lemma lookup_get_Some:
  "fst (lookup_get now k c) = Some v \<longleftrightarrow> (\<exists>e. peek c k = Some (v, e) \<and> now < e)"
  by (auto simp: lookup_get_def peek_def split: option.splits)

lemma cache_set_at:
  assumes "cache_at ttl c"
  obtains c' where "cache_set now k v c = Inr c'" "cache_at ttl c'" "peek c' k = Some (v, now + ttl)"
    "\<And>j x. j \<noteq> k \<Longrightarrow> peek c' j = Some x \<Longrightarrow> peek c j = Some x"
  using cache_set_spec [of c now k v] assms unfolding cache_at_def by metis

lemma cache_set_keeps:
  "cache_at ttl c \<Longrightarrow> cache_set now k v c = Inr c' \<Longrightarrow> j \<noteq> k \<Longrightarrow> peek c' j = Some x \<Longrightarrow>
   peek c j = Some x"
  by (erule cache_set_at [of ttl c now k v]) auto

interpretation expiring: expiring_store expiring_step expiring_stored peek "cache_at ttl" ttl for ttl
proof (unfold_locales, goal_cases)
  case (1 c p)
  then show ?case
    by (cases p) (auto intro: cache_at_expiring_get cache_at_expiring_evict elim: cache_set_at [of ttl c])
next
  case (2 c p c' k v t)
  then show ?case by (cases p) (auto elim: cache_set_at [of ttl c t k v])
next
  case (3 c p c' j x)
  then show ?case
    by (cases p) (auto intro: peek_expiring_get peek_expiring_evict cache_set_keeps)
qed

interpretation lookup: expiring_store lookup_step lookup_stored peek "cache_at ttl" ttl for ttl
proof (unfold_locales, goal_cases)
  case (1 c p)
  then show ?case
    by (cases p) (auto intro: cache_at_lookup_get cache_at_clear cache_at_delete simp: lookup_invalidate_def
        elim: cache_set_at [of ttl c])
next
  case (2 c p c' k v t)
  then show ?case by (cases p) (auto elim: cache_set_at [of ttl c t k v])
next
  case (3 c p c' j x)
  show ?case
  proof (cases p)
    case (LGet now k)
    with 3 show ?thesis by (auto intro: peek_lookup_get)
  next
    case (LSet now k v)
    with 3 show ?thesis by (auto intro: cache_set_keeps)
  next
    case (LInvalidate k)
    with 3 show ?thesis by (auto simp: lookup_invalidate_def intro: peek_delete)
  next
    case LClear
    with 3 show ?thesis by (auto simp: lookup_clear_def peek_def)
  qed
qed


lemma cache_at_new: "0 < n \<Longrightarrow> cache_at ttl (new_cache ttl n)"
  by (simp add: cache_at_def cache_inv_new) (simp add: new_cache_def)

lemma peek_new: "peek (new_cache ttl n) = Map.empty"
  by (simp add: peek_def new_cache_def fun_eq_iff)

section \<open>Properties of \<open>_ExpiringCache\<close>\<close>

text \<open>C20: whatever reads, evictions and stores have run on a new authorization cache, in whatever
  order, a hit returns the value of the last store of its key, made less than one TTL ago.\<close>

theorem expiring_hit_is_fresh:
  assumes "0 < n" and "run_ops expiring_step ops (new_cache ttl n) = Inr c"
    and "fst (expiring_get now k c) = Some v"
  shows "\<exists>pre post t. ops = pre @ ESet t k v # post \<and> now < t + ttl \<and>
           (\<forall>w u. ESet u k w \<notin> set post)"
proof -
  from assms(3) obtain e where e: "peek c k = Some (v, e)" "now < e"
    by (auto simp: expiring_get_Some expiring_read_Hit)
  from expiring.run_view [OF cache_at_new [OF assms(1)] peek_new assms(2) e(1)]
  obtain pre p post t where p: "ops = pre @ p # post" "expiring_stored p = Some (k, v, t)"
    "e = t + ttl" "\<forall>q \<in> set post. \<forall>w u. expiring_stored q \<noteq> Some (k, w, u)" by blast
  from p(2) have "p = ESet t k v" by (elim expiring_storedE) simp
  moreover from p(4) have "\<forall>w u. ESet u k w \<notin> set post" by force
  ultimately show ?thesis using p(1,3) e(2) by blast
qed

definition demo_ops :: "(string, bool) expiring_op list" where
  "demo_ops = [ESet 0 ''a'' True, EGet 1 ''b'', ESet 2 ''a'' False]"

theorem expiring_hit_is_fresh_witness:
  "\<exists>c. run_ops expiring_step demo_ops (new_cache 10 3) = Inr c \<and>
     fst (expiring_get 5 ''a'' c) = Some False \<and>
     (\<exists>pre post t. demo_ops = pre @ ESet t ''a'' False # post \<and> (5::real) < t + 10)"
proof -
  let ?c = "\<lparr>ttl_seconds = 10, max_entries = 3, entries = [(''a'', (False, 12))]\<rparr>"
  have r: "run_ops expiring_step demo_ops (new_cache 10 3) = Inr ?c"
    by (simp add: demo_ops_def new_cache_def cache_set_def reap_expired_def expiring_get_def
        expiring_read_def)
  moreover have g: "fst (expiring_get 5 ''a'' ?c) = Some False"
    by (simp add: expiring_get_def expiring_read_def)
  moreover have "(0::nat) < 3" by simp
  ultimately show ?thesis using expiring_hit_is_fresh [of 3 demo_ops 10 ?c 5 "''a''" False] by blast
qed

text \<open>C22: between the moment \<open>get\<close> sees an expired entry under the read lock and the moment it
  removes it under the write lock, any other operations may run. If one of them stored the key again
  with a later expiration, the fresh entry survives the removal.\<close>

theorem expiring_evict_keeps_refreshed:
  assumes "0 < ttl" and "cache_at ttl c" and "expiring_read now k c = Stale observed"
    and "run_ops expiring_step ops c = Inr c1"
    and "cache_set t k v c1 = Inr c2" and "now \<le> t"
  shows "peek (expiring_evict observed k c2) k = Some (v, t + ttl)"
proof -
  from assms(3) have "observed \<le> now" by (auto simp: expiring_read_def split: option.splits if_splits)
  with assms(1,6) have late: "\<not> t + ttl \<le> observed" by simp
  from expiring.run_ok [OF assms(2), of ops] assms(4) have "cache_at ttl c1" by auto
  with assms(5) have "peek c2 k = Some (v, t + ttl)" by (auto elim: cache_set_at [of ttl c1 t k v])
  with late show ?thesis by (simp add: expiring_evict_def peek_def)
qed

theorem expiring_evict_keeps_refreshed_witness:
  "\<exists>c c2. cache_at 10 c \<and> expiring_read 20 ''a'' c = Stale (10::real) \<and>
     cache_set 21 ''a'' True c = Inr c2 \<and>
     peek (expiring_evict 10 ''a'' c2) ''a'' = Some (True, 31)"
proof -
  let ?c = "\<lparr>ttl_seconds = 10, max_entries = 3, entries = [(''a'', (False, 10::real))]\<rparr>"
  let ?c2 = "\<lparr>ttl_seconds = 10, max_entries = 3, entries = [(''a'', (True, 31::real))]\<rparr>"
  have c: "cache_at 10 ?c" by (simp add: cache_at_def cache_inv_def)
  have r: "expiring_read 20 ''a'' ?c = Stale 10" by (simp add: expiring_read_def)
  have s: "cache_set 21 ''a'' True ?c = Inr ?c2" by (simp add: cache_set_def reap_expired_def)
  have "peek (expiring_evict 10 ''a'' ?c2) ''a'' = Some (True, 21 + 10)"
    by (rule expiring_evict_keeps_refreshed [OF _ c r _ s, of "[]"]) simp_all
  then have "peek (expiring_evict 10 ''a'' ?c2) ''a'' = Some (True, 31)" by simp
  with c r s show ?thesis by blast
qed

section \<open>\<open>_ExperimentIdLookupCache\<close>\<close>

text \<open>
  \<open>resolve\<close> runs in two locked parts with the store lookup between them: the first answers from the
  cache or remembers the generation, the second caches the identifier if the generation is unchanged.
\<close>

record ('k, 'v) id_cache =
  id_entries :: "('k, 'v) ttl_cache"
  generation :: nat

definition id_begin ::
  "real \<Rightarrow> 'k \<Rightarrow> ('k, string) id_cache \<Rightarrow> (string + nat) \<times> ('k, string) id_cache" where
  "id_begin now k c =
     (case lookup_get now k (id_entries c) of
        (Some i, es) \<Rightarrow> (if i \<noteq> [] then (Inl i, c\<lparr>id_entries := es\<rparr>)
                        else (Inr (generation c), c\<lparr>id_entries := es\<rparr>))
      | (None, es) \<Rightarrow> (Inr (generation c), c\<lparr>id_entries := es\<rparr>))"

definition id_finish ::
  "real \<Rightarrow> 'k \<Rightarrow> nat \<Rightarrow> string option \<Rightarrow> ('k, string) id_cache \<Rightarrow> exc + ('k, string) id_cache" where
  "id_finish now k g found c =
     (case found of
        None \<Rightarrow> Inr c
      | Some i \<Rightarrow>
          if g = generation c
          then (case cache_set now k i (id_entries c) of
                  Inl e \<Rightarrow> Inl e | Inr es \<Rightarrow> Inr (c\<lparr>id_entries := es\<rparr>))
          else Inr c)"

definition id_clear :: "('k, string) id_cache \<Rightarrow> ('k, string) id_cache" where
  "id_clear c = c\<lparr>generation := Suc (generation c), id_entries := lookup_clear (id_entries c)\<rparr>"

datatype 'k id_op = IBegin real 'k | IFinish real 'k nat "string option" | IClear

fun id_step :: "'k id_op \<Rightarrow> ('k, string) id_cache \<Rightarrow> exc + ('k, string) id_cache" where
  "id_step (IBegin now k) c = Inr (snd (id_begin now k c))"
| "id_step (IFinish now k g found) c = id_finish now k g found c"
| "id_step IClear c = Inr (id_clear c)"

lemma id_step_generation:
  "id_step p c = Inr c' \<Longrightarrow> generation c \<le> generation c' \<and> (p = IClear \<longrightarrow> generation c < generation c')"
  by (cases p)
     (auto simp: id_begin_def id_finish_def id_clear_def split: option.splits sum.splits prod.splits if_splits)

lemma id_run_generation:
  "run_ops id_step ops c = Inr c' \<Longrightarrow>
   generation c \<le> generation c' \<and> (IClear \<in> set ops \<longrightarrow> generation c < generation c')"
proof (induction ops arbitrary: c)
  case Nil
  then show ?case by simp
next
  case (Cons p ps)
  from Cons.prems obtain c1 where c1: "id_step p c = Inr c1" "run_ops id_step ps c1 = Inr c'"
    by (auto split: sum.splits)
  from id_step_generation [OF c1(1)] Cons.IH [OF c1(2)] show ?case by auto
qed

text \<open>C23: if the experiment-identifier cache is cleared (as a rename or a delete does) at any point
  between the two parts of a \<open>resolve\<close>, the identifier found in between is not cached: the second part
  leaves the cache as it is.\<close>

theorem id_cache_never_stores_stale:
  assumes "id_begin now k c = (Inr g, c1)" and "run_ops id_step ops c1 = Inr c2"
    and "IClear \<in> set ops"
  shows "id_finish later k g found c2 = Inr c2"
proof -
  from assms(1) have "g = generation c1"
    by (auto simp: id_begin_def split: prod.splits option.splits if_splits)
  with id_run_generation [OF assms(2)] assms(3) have "g \<noteq> generation c2" by auto
  then show ?thesis by (simp add: id_finish_def split: option.splits)
qed

theorem id_cache_never_stores_stale_witness:
  "\<exists>c2. run_ops id_step [IClear] \<lparr>id_entries = new_cache 60 5, generation = 0\<rparr> = Inr c2 \<and>
     id_finish 1 ''exp'' 0 (Some ''7'') c2 = Inr c2"
proof -
  let ?c = "\<lparr>id_entries = new_cache 60 5, generation = 0\<rparr> :: (string, string) id_cache"
  have b: "id_begin 0 ''exp'' ?c = (Inr 0, ?c)"
    by (simp add: id_begin_def lookup_get_def new_cache_def)
  obtain c2 where r: "run_ops id_step [IClear] ?c = Inr c2" by simp
  have "id_finish 1 ''exp'' 0 (Some ''7'') c2 = Inr c2"
    by (rule id_cache_never_stores_stale [OF b r]) simp
  with r show ?thesis by blast
qed

end
