(* ===== verification/World.thy ===== *)
theory World
  imports Ttl_Cache Constants
begin

text \<open>
  The state of the authorization plugin and the world it talks to.

  \<open>world\<close> is the state the plugin keeps between requests: the \<open>KubernetesAuthorizer\<close> object and the
  three name caches of \<open>auth/resource_names.py\<close>. \<open>env\<close> is everything outside \<open>src/\<close>: the clock, the
  Kubernetes API, MLflow's stores and parsers, the digest and JSON functions. Each answer may depend
  on the number of the interaction (\<open>tick\<close>), so the cluster, the stores and the clock may change
  between any two calls; nothing is assumed about them.
\<close>

section \<open>Identities\<close>

datatype auth_mode = SELF_SUBJECT_ACCESS_REVIEW | SUBJECT_ACCESS_REVIEW

primrec mode_value :: "auth_mode \<Rightarrow> string" where
  "mode_value SELF_SUBJECT_ACCESS_REVIEW = ''self_subject_access_review''"
| "mode_value SUBJECT_ACCESS_REVIEW = ''subject_access_review''"

text \<open>Iterating over the members of \<open>AuthorizationMode\<close>.\<close>

instantiation auth_mode :: enum
begin

definition enum_auth_mode :: "auth_mode list" where
  "enum_auth_mode = [SELF_SUBJECT_ACCESS_REVIEW, SUBJECT_ACCESS_REVIEW]"

definition enum_all_auth_mode :: "(auth_mode \<Rightarrow> bool) \<Rightarrow> bool" where
  "enum_all_auth_mode P \<longleftrightarrow> P SELF_SUBJECT_ACCESS_REVIEW \<and> P SUBJECT_ACCESS_REVIEW"

definition enum_ex_auth_mode :: "(auth_mode \<Rightarrow> bool) \<Rightarrow> bool" where
  "enum_ex_auth_mode P \<longleftrightarrow> P SELF_SUBJECT_ACCESS_REVIEW \<or> P SUBJECT_ACCESS_REVIEW"

instance
proof
  have every: "(\<forall>m. P m) \<longleftrightarrow> P SELF_SUBJECT_ACCESS_REVIEW \<and> P SUBJECT_ACCESS_REVIEW" for P :: "auth_mode \<Rightarrow> bool"
    by (metis auth_mode.exhaust)
  show "UNIV = set (enum_class.enum :: auth_mode list)"
    using auth_mode.exhaust by (auto simp: enum_auth_mode_def)
  show "distinct (enum_class.enum :: auth_mode list)" by (simp add: enum_auth_mode_def)
  show "enum_class.enum_all P = Ball UNIV P" for P :: "auth_mode \<Rightarrow> bool"
    by (simp add: enum_all_auth_mode_def every)
  show "enum_class.enum_ex P = Bex UNIV P" for P :: "auth_mode \<Rightarrow> bool"
    using every [of "\<lambda>m. \<not> P m"] by (auto simp: enum_ex_auth_mode_def)
qed

end

text \<open>\<open>_RequestIdentity\<close>.\<close>

record identity =
  id_token :: "string option"
  id_user :: "string option"
  id_groups :: "string list"

section \<open>What the Kubernetes API is asked and answers\<close>

record review_attrs =
  ra_group :: string
  ra_resource :: string
  ra_verb :: string
  ra_namespace :: string
  ra_subresource :: "string option"
  ra_name :: "string option"

record resource_rule =
  rr_api_groups :: "string list"
  rr_resources :: "string list"
  rr_verbs :: "string list"
  rr_resource_names :: "string list"

record rules_status =
  rs_evaluation_error :: bool
  rs_incomplete :: bool
  rs_resource_rules :: "resource_rule list"

section \<open>Documents and clauses parsed by libraries\<close>

text \<open>
  The part of a \<open>graphql-core\<close> document the source reads. An argument value is kept as the library's
  own node, a text here; \<open>env_value_from_ast\<close> is \<open>value_from_ast_untyped\<close>.
\<close>

datatype selection =
    Field string "(string \<times> string) list" "selection list option"
  | InlineFragment "selection list option"
  | FragmentSpread string

datatype gql_definition =
    FragmentDefinition string "selection list option"
  | OperationDefinition "selection list option"
  | OtherDefinition

text \<open>One clause of a parsed MLflow search filter: the dictionary with type, key, comparator, value.\<close>

datatype clause_value = ClauseStr string | ClauseTuple "string list" | ClauseOther

record clause =
  cl_type :: string
  cl_key :: string
  cl_comparator :: string
  cl_value :: clause_value

datatype search_kind =
    SearchDatasets | SearchMcpServers | SearchMcpAccessEndpoints | SearchExperimentsK
  | SearchModels | SearchModelVersionsK

datatype store_lookup =
    LkExperiment | LkExperimentByName | LkRun | LkDataset | LkLoggedModel | LkJob | LkIssue
  | LkTraceInfo | LkWebhook | LkSecret | LkGatewayEndpoint | LkGatewayModelDefinition

section \<open>The environment\<close>

text \<open>
  An entity a store returns is the dictionary of its attributes, \<open>PNone\<close> for no entity, so
  \<open>getattr(x, name, None)\<close> is a lookup with \<open>None\<close> as default. \<open>env_is_file_uri\<close> and \<open>env_decode\<close> are
  helpers of \<open>mlflow.utils.uri\<close>; \<open>env_skill_identity\<close> is \<open>parse_skill_upload_path\<close>.
\<close>

record env =
  env_now :: "nat \<Rightarrow> real"
  env_sha256 :: "string \<Rightarrow> string"
  env_json_loads :: "string \<Rightarrow> pv option"
  env_ssar :: "nat \<Rightarrow> string \<Rightarrow> review_attrs \<Rightarrow> exc + bool option"
  env_sar :: "nat \<Rightarrow> string \<Rightarrow> string list \<Rightarrow> review_attrs \<Rightarrow> exc + bool option"
  env_ssrr :: "nat \<Rightarrow> string \<Rightarrow> string \<Rightarrow> exc + rules_status option"
  env_impersonated_ssrr :: "nat \<Rightarrow> string \<Rightarrow> string list \<Rightarrow> string \<Rightarrow> exc + rules_status option"
  env_lookup :: "nat \<Rightarrow> store_lookup \<Rightarrow> string \<Rightarrow> exc + pv"
  env_has_lookup :: "store_lookup \<Rightarrow> bool"
  env_request_workspace :: "string option"
  env_graphql_parse :: "string \<Rightarrow> gql_definition list option"
  env_value_from_ast :: "string \<Rightarrow> pdict \<Rightarrow> pv"
  env_parse_filter :: "search_kind \<Rightarrow> string \<Rightarrow> exc + clause list"
  env_message_fields :: "string \<Rightarrow> (string \<times> string) list"
  env_parse_dict :: "string \<Rightarrow> pdict \<Rightarrow> (pdict) option"
  env_decode :: "string \<Rightarrow> string option"
  env_is_file_uri :: "string \<Rightarrow> bool option"
  env_skill_identity :: "string \<Rightarrow> (pv \<times> pv) option"

section \<open>The state\<close>

record authz_key =
  identity_hash :: string
  namespace :: string
  resource_of :: string
  subresource_of :: "string option"
  verb_of :: string
  resource_name_of :: "string option"

record rules_key =
  rk_mode :: auth_mode
  rk_identity_hash :: string
  rk_namespace :: string

text \<open>
  \<open>KubernetesAuthorizer\<close>. \<open>az_base_configured\<close> says whether \<open>_base_configuration\<close> is set,
  \<open>az_sar_client\<close> whether \<open>_sar_api_client\<close> is.
\<close>

record authorizer =
  az_group :: string
  az_mode :: auth_mode
  az_label :: string
  az_base_configured :: bool
  az_sar_client :: bool
  az_cache :: "(authz_key, bool) ttl_cache"
  az_rules_cache :: "(rules_key, resource_rule list) ttl_cache"

record world =
  tick :: nat
  az :: authorizer
  experiment_name_cache :: "(string, string) ttl_cache"
  run_experiment_name_cache :: "(string, string) ttl_cache"
  experiment_id_cache :: "(string option \<times> string, string) id_cache"

text \<open>One interaction with the environment.\<close>

definition ask :: "(nat \<Rightarrow> 'a) \<Rightarrow> (world, 'a) eff" where
  "ask f = (\<lambda>w. (Inr (f (tick w)), w\<lparr>tick := Suc (tick w)\<rparr>))"

definition ask_res :: "(nat \<Rightarrow> exc + 'a) \<Rightarrow> (world, 'a) eff" where
  "ask_res f = (\<lambda>w. (f (tick w), w\<lparr>tick := Suc (tick w)\<rparr>))"

definition get_world :: "(world \<Rightarrow> 'a) \<Rightarrow> (world, 'a) eff" where
  "get_world f = (\<lambda>w. (Inr (f w), w))"

lemmas world_eff_defs = ask_def ask_res_def get_world_def

end
