(* ===== verification/Authorizer.thy ===== *)
theory Authorizer
  imports World
begin

text \<open>
  \<open>auth/authorizer.py\<close> and \<open>_RequestIdentity\<close> of \<open>auth/core.py\<close>: subject hashes, access reviews
  behind the decision cache, discovery of named grants, workspace access and the configuration from
  the environment. The invariant \<open>az_inv\<close> says that every positive cached decision was once given by
  the Kubernetes API; \<open>approved\<close> is what a positive answer means to the callers.
\<close>

section \<open>Subject hashes\<close>

definition missing_token_error :: exc where
  "missing_token_error =
     MlflowExc UNAUTHENTICATED ''Bearer token is required for SelfSubjectAccessReview mode.''"

definition missing_user_error :: "string \<Rightarrow> exc" where
  "missing_user_error label =
     MlflowExc UNAUTHENTICATED (label @ '' is required for SubjectAccessReview mode.'')"

definition NUL :: string where
  "NUL = [CHR 0x00]"

definition serialized_subject :: "string \<Rightarrow> string list \<Rightarrow> string" where
  "serialized_subject u gs = py_join NUL [u, py_join NUL (sort gs)]"

definition subject_hash ::
  "(string \<Rightarrow> string) \<Rightarrow> auth_mode \<Rightarrow> string \<Rightarrow> identity \<Rightarrow> exc + string" where
  "subject_hash sha m label i =
     (if m = SELF_SUBJECT_ACCESS_REVIEW
      then (case id_token i of
              None \<Rightarrow> Inl missing_token_error
            | Some t \<Rightarrow> if t = [] then Inl missing_token_error else Inr (sha t))
      else (let u = py_strip (case id_user i of None \<Rightarrow> [] | Some u \<Rightarrow> u)
            in if u = [] then Inl (missing_user_error label)
               else Inr (sha (serialized_subject u (id_groups i)))))"

section \<open>Access reviews\<close>

definition effective_resource_name :: "string \<Rightarrow> string option \<Rightarrow> string option \<Rightarrow> string option" where
  "effective_resource_name verb sub name =
     (if name = None then None
      else if verb = ''watch'' then None
      else if verb = ''create'' \<and> sub = None then None
      else name)"

definition normalize_resource_type :: "string \<Rightarrow> string" where
  "normalize_resource_type r = filter (\<lambda>c. c \<noteq> CHR ''_'') r"

definition submit_self_subject_access_review ::
  "env \<Rightarrow> string \<Rightarrow> review_attrs \<Rightarrow> (world, bool) eff" where
  "submit_self_subject_access_review env tok attrs =
     andthen (get_world (\<lambda>w. az_base_configured (az w))) (\<lambda>configured.
       if \<not> configured
       then raise (MlflowExc INTERNAL_ERROR
         ''SelfSubjectAccessReview mode is not initialized with base configuration.'')
       else andthen (ask_res (\<lambda>t. env_ssar env t tok attrs)) (\<lambda>allowed.
         case allowed of
           None \<Rightarrow> raise (MlflowExc INTERNAL_ERROR
             ''Unexpected Kubernetes SelfSubjectAccessReview response structure'')
         | Some b \<Rightarrow> ret b))"

definition submit_subject_access_review ::
  "env \<Rightarrow> string \<Rightarrow> string list \<Rightarrow> review_attrs \<Rightarrow> (world, bool) eff" where
  "submit_subject_access_review env u gs attrs =
     andthen (get_world (\<lambda>w. az_sar_client (az w))) (\<lambda>client.
       if \<not> client
       then raise (MlflowExc INTERNAL_ERROR ''SubjectAccessReview mode requires a Kubernetes client.'')
       else andthen (ask_res (\<lambda>t. env_sar env t u gs attrs)) (\<lambda>allowed.
         case allowed of
           None \<Rightarrow> raise (MlflowExc INTERNAL_ERROR
             ''Unexpected Kubernetes SubjectAccessReview response structure'')
         | Some b \<Rightarrow> ret b))"

definition close_authorizer :: "authorizer \<Rightarrow> authorizer" where
  "close_authorizer a = (if az_sar_client a then a\<lparr>az_sar_client := False\<rparr> else a)"

definition review_failure :: "auth_mode \<Rightarrow> exc \<Rightarrow> exc" where
  "review_failure m e =
     (case e of
        ApiExc status \<Rightarrow>
          (if status = Some 401
           then MlflowExc UNAUTHENTICATED
             ''Authentication with the Kubernetes API failed. The provided token may be invalid or expired.''
           else if status = Some 403
           then MlflowExc PERMISSION_DENIED
             (if m = SELF_SUBJECT_ACCESS_REVIEW
              then ''The Kubernetes service account is not permitted to perform SelfSubjectAccessReview. Grant the required authorization.''
              else ''The Kubernetes service account is not permitted to perform SubjectAccessReview. Grant 'create' on subjectaccessreviews.'')
           else MlflowExc INTERNAL_ERROR ''Failed to perform Kubernetes authorization check'')
      | _ \<Rightarrow> e)"

definition opt_text :: "string option \<Rightarrow> string" where
  "opt_text s = (case s of None \<Rightarrow> [] | Some t \<Rightarrow> t)"

definition decision_cache_get :: "env \<Rightarrow> authz_key \<Rightarrow> (world, bool option) eff" where
  "decision_cache_get env k =
     andthen (ask (env_now env)) (\<lambda>now w.
       case expiring_get now k (az_cache (az w)) of
         (r, c) \<Rightarrow> (Inr r, w\<lparr>az := (az w)\<lparr>az_cache := c\<rparr>\<rparr>))"

definition decision_cache_set :: "env \<Rightarrow> authz_key \<Rightarrow> bool \<Rightarrow> (world, unit) eff" where
  "decision_cache_set env k b =
     andthen (ask (env_now env)) (\<lambda>now w.
       case cache_set now k b (az_cache (az w)) of
         Inl e \<Rightarrow> (Inl e, w)
       | Inr c \<Rightarrow> (Inr (), w\<lparr>az := (az w)\<lparr>az_cache := c\<rparr>\<rparr>))"

definition decision_key ::
  "string \<Rightarrow> string \<Rightarrow> string \<Rightarrow> string \<Rightarrow> string option \<Rightarrow> string option \<Rightarrow> authz_key" where
  "decision_key h resource_type verb ns sub name =
     \<lparr>identity_hash = h, namespace = ns, resource_of = normalize_resource_type resource_type,
      subresource_of = sub, verb_of = verb,
      resource_name_of = effective_resource_name verb sub name\<rparr>"

definition key_attrs :: "string \<Rightarrow> authz_key \<Rightarrow> review_attrs" where
  "key_attrs g k =
     \<lparr>ra_group = g, ra_resource = resource_of k, ra_verb = verb_of k, ra_namespace = namespace k,
      ra_subresource = subresource_of k, ra_name = resource_name_of k\<rparr>"

definition submit_review :: "env \<Rightarrow> identity \<Rightarrow> authz_key \<Rightarrow> (world, bool) eff" where
  "submit_review env i k =
     andthen (get_world az) (\<lambda>a.
       handle
         (if az_mode a = SELF_SUBJECT_ACCESS_REVIEW
          then submit_self_subject_access_review env (opt_text (id_token i)) (key_attrs (az_group a) k)
          else submit_subject_access_review env (opt_text (id_user i)) (id_groups i)
                 (key_attrs (az_group a) k))
         (\<lambda>e. raise (review_failure (az_mode a) e)))"

definition is_allowed ::
  "env \<Rightarrow> identity \<Rightarrow> string \<Rightarrow> string \<Rightarrow> string \<Rightarrow> string option \<Rightarrow> string option \<Rightarrow> (world, bool) eff" where
  "is_allowed env i resource_type verb ns sub name =
     andthen (get_world az) (\<lambda>a.
     andthen (lift (subject_hash (env_sha256 env) (az_mode a) (az_label a) i)) (\<lambda>h.
     let k = decision_key h resource_type verb ns sub name in
     andthen (decision_cache_get env k) (\<lambda>cached.
       case cached of
         Some b \<Rightarrow> ret b
       | None \<Rightarrow>
           andthen (submit_review env i k) (\<lambda>allowed.
           andthen (decision_cache_set env k allowed) (\<lambda>_.
           ret allowed)))))"

section \<open>Workspaces\<close>

definition can_access_workspace :: "env \<Rightarrow> identity \<Rightarrow> string \<Rightarrow> string \<Rightarrow> (world, bool) eff" where
  "can_access_workspace env i workspace_name verb =
     andthen (get_world az) (\<lambda>a.
     andthen (lift (subject_hash (env_sha256 env) (az_mode a) (az_label a) i)) (\<lambda>_.
     any_eff (\<lambda>r. is_allowed env i r verb workspace_name None None)
       WORKSPACE_PERMISSION_RESOURCE_PRIORITY))"

definition accessible_workspaces :: "env \<Rightarrow> identity \<Rightarrow> string list \<Rightarrow> (world, string list) eff" where
  "accessible_workspaces env i names =
     andthen (get_world az) (\<lambda>a.
     andthen (lift (subject_hash (env_sha256 env) (az_mode a) (az_label a) i)) (\<lambda>_.
     filter_eff (\<lambda>n. can_access_workspace env i n ''list'') names))"

section \<open>Collection scopes\<close>

record collection_scope =
  scope_broad :: bool
  scope_names :: "string list"

definition submit_self_subject_rules_review ::
  "env \<Rightarrow> string \<Rightarrow> string \<Rightarrow> (world, rules_status option) eff" where
  "submit_self_subject_rules_review env tok ns =
     andthen (get_world (\<lambda>w. az_base_configured (az w))) (\<lambda>configured.
       if \<not> configured
       then raise (MlflowExc INTERNAL_ERROR
         ''SelfSubjectAccessReview mode is not initialized with base configuration.'')
       else ask_res (\<lambda>t. env_ssrr env t tok ns))"

definition has_line_break :: "string \<Rightarrow> bool" where
  "has_line_break s = (CHR 0x0D \<in> set s \<or> CHR 0x0A \<in> set s)"

definition submit_impersonated_subject_rules_review ::
  "env \<Rightarrow> string \<Rightarrow> string list \<Rightarrow> string \<Rightarrow> (world, rules_status option) eff" where
  "submit_impersonated_subject_rules_review env u gs ns =
     (if u = [] \<or> list_ex has_line_break (u # gs)
      then raise (MlflowExc PERMISSION_DENIED ''Invalid forwarded identity for Kubernetes rules review.'')
      else andthen (get_world (\<lambda>w. az_sar_client (az w))) (\<lambda>client.
        if \<not> client
        then raise (MlflowExc INTERNAL_ERROR ''SubjectAccessReview mode requires a Kubernetes client.'')
        else ask_res (\<lambda>t. env_impersonated_ssrr env t u gs ns)))"

definition rules_failure :: "auth_mode \<Rightarrow> exc \<Rightarrow> exc" where
  "rules_failure m e =
     (case e of
        ApiExc _ \<Rightarrow> MlflowExc PERMISSION_DENIED
          (if m = SUBJECT_ACCESS_REVIEW
           then ''Failed to discover collection permissions in trusted-proxy mode. See server logs for details. For impersonation-related failures, verify the Kubernetes version, feature configuration, and RBAC permissions described in the trusted-proxy requirements (docs/kubernetes-rbac.md#trusted-proxy-mode).''
           else ''Failed to discover Kubernetes collection permissions in SelfSubjectAccessReview mode. See server logs for details.'')
      | _ \<Rightarrow> e)"

definition rules_cache_get :: "env \<Rightarrow> rules_key \<Rightarrow> (world, resource_rule list option) eff" where
  "rules_cache_get env k =
     andthen (ask (env_now env)) (\<lambda>now w.
       case expiring_get now k (az_rules_cache (az w)) of
         (r, c) \<Rightarrow> (Inr r, w\<lparr>az := (az w)\<lparr>az_rules_cache := c\<rparr>\<rparr>))"

definition rules_cache_set :: "env \<Rightarrow> rules_key \<Rightarrow> resource_rule list \<Rightarrow> (world, unit) eff" where
  "rules_cache_set env k rules =
     andthen (ask (env_now env)) (\<lambda>now w.
       case cache_set now k rules (az_rules_cache (az w)) of
         Inl e \<Rightarrow> (Inl e, w)
       | Inr c \<Rightarrow> (Inr (), w\<lparr>az := (az w)\<lparr>az_rules_cache := c\<rparr>\<rparr>))"

text \<open>The rules review behind its cache: an incomplete or failed evaluation is refused.\<close>

definition review_rules :: "env \<Rightarrow> identity \<Rightarrow> string \<Rightarrow> (world, resource_rule list) eff" where
  "review_rules env i ns =
     andthen (get_world az) (\<lambda>a.
     andthen (lift (subject_hash (env_sha256 env) (az_mode a) (az_label a) i)) (\<lambda>h.
     let k = \<lparr>rk_mode = az_mode a, rk_identity_hash = h, rk_namespace = ns\<rparr> in
     andthen (rules_cache_get env k) (\<lambda>cached.
       case cached of
         Some rules \<Rightarrow> ret rules
       | None \<Rightarrow>
           andthen
             (handle
               (if az_mode a = SELF_SUBJECT_ACCESS_REVIEW
                then submit_self_subject_rules_review env (opt_text (id_token i)) ns
                else submit_impersonated_subject_rules_review env (opt_text (id_user i)) (id_groups i) ns)
               (\<lambda>e. raise (rules_failure (az_mode a) e)))
             (\<lambda>status.
               case status of
                 None \<Rightarrow> raise (MlflowExc PERMISSION_DENIED
                   ''Kubernetes collection permissions could not be evaluated.'')
               | Some st \<Rightarrow>
                   if rs_evaluation_error st \<or> rs_incomplete st
                   then raise (MlflowExc PERMISSION_DENIED
                     ''Kubernetes collection permissions could not be evaluated.'')
                   else andthen (rules_cache_set env k (rs_resource_rules st)) (\<lambda>_.
                     ret (rs_resource_rules st))))))"

definition rule_candidates :: "string \<Rightarrow> string \<Rightarrow> resource_rule \<Rightarrow> string list" where
  "rule_candidates g requested r =
     (let groups = rr_api_groups r; resources = rr_resources r; verbs = rr_verbs r in
      if g \<notin> set groups \<and> ''*'' \<notin> set groups then []
      else if requested \<notin> set resources \<and> ''*'' \<notin> set resources then []
      else if ''get'' \<notin> set verbs \<and> ''list'' \<notin> set verbs \<and> ''*'' \<notin> set verbs then []
      else if ''get'' \<in> set verbs \<or> ''*'' \<in> set verbs
           then filter (\<lambda>n. n \<noteq> []) (rr_resource_names r)
           else [])"

definition discover_collection_scope ::
  "env \<Rightarrow> identity \<Rightarrow> string \<Rightarrow> string \<Rightarrow> string option \<Rightarrow> (world, collection_scope) eff" where
  "discover_collection_scope env i resource_type ns sub =
     andthen (is_allowed env i resource_type ''get'' ns sub None) (\<lambda>broad.
       if broad then ret \<lparr>scope_broad = True, scope_names = []\<rparr>
       else
         andthen (get_world az) (\<lambda>a.
         let res = normalize_resource_type resource_type;
             requested = (case sub of Some s \<Rightarrow> if s \<noteq> [] then res @ ''/'' @ s else res | None \<Rightarrow> res) in
         andthen (review_rules env i ns) (\<lambda>rules.
         let candidates = sort (remdups (concat (map (rule_candidates (az_group a) requested) rules))) in
         andthen (filter_eff (\<lambda>n. is_allowed env i resource_type ''get'' ns sub (Some n)) candidates)
           (\<lambda>verified. ret \<lparr>scope_broad = False, scope_names = verified\<rparr>))))"

section \<open>The invariant of the decision cache\<close>

text \<open>
  \<open>granted_at env g m k t\<close>: at interaction \<open>t\<close> the Kubernetes API allowed the request \<open>k\<close> stands for,
  for an identity whose subject hash is the one in the key.
\<close>

definition granted_at :: "env \<Rightarrow> string \<Rightarrow> auth_mode \<Rightarrow> authz_key \<Rightarrow> nat \<Rightarrow> bool" where
  "granted_at env g m k t \<longleftrightarrow>
     (\<exists>i label. subject_hash (env_sha256 env) m label i = Inr (identity_hash k) \<and>
        (if m = SELF_SUBJECT_ACCESS_REVIEW
         then env_ssar env t (opt_text (id_token i)) (key_attrs g k) = Inr (Some True)
         else env_sar env t (opt_text (id_user i)) (id_groups i) (key_attrs g k) = Inr (Some True)))"

text \<open>A cached positive decision was given at some earlier interaction and stored right after it.\<close>

definition cached_grant :: "env \<Rightarrow> string \<Rightarrow> auth_mode \<Rightarrow> real \<Rightarrow> nat \<Rightarrow> authz_key \<Rightarrow> real \<Rightarrow> bool" where
  "cached_grant env g m ttl n k e \<longleftrightarrow>
     (\<exists>t. Suc t < n \<and> granted_at env g m k t \<and> e = env_now env (Suc t) + ttl)"

definition az_inv :: "env \<Rightarrow> string \<Rightarrow> auth_mode \<Rightarrow> real \<Rightarrow> world \<Rightarrow> bool" where
  "az_inv env g m ttl w \<longleftrightarrow>
     az_group (az w) = g \<and> az_mode (az w) = m \<and> cache_at ttl (az_cache (az w)) \<and>
     (\<forall>k e. peek (az_cache (az w)) k = Some (True, e) \<longrightarrow> cached_grant env g m ttl (tick w) k e)"

definition approved ::
  "env \<Rightarrow> string \<Rightarrow> auth_mode \<Rightarrow> identity \<Rightarrow> string \<Rightarrow> string \<Rightarrow> string \<Rightarrow> string option \<Rightarrow>
   string option \<Rightarrow> bool" where
  "approved env g m i resource_type verb ns sub name \<longleftrightarrow>
     (\<exists>h t label. subject_hash (env_sha256 env) m label i = Inr h \<and>
        granted_at env g m (decision_key h resource_type verb ns sub name) t)"

lemma cached_grant_mono: "cached_grant env g m ttl n k e \<Longrightarrow> n \<le> n' \<Longrightarrow> cached_grant env g m ttl n' k e"
  by (force simp: cached_grant_def)

lemma az_inv_mode: "az_inv env g m ttl w \<Longrightarrow> az_mode (az w) = m \<and> az_group (az w) = g"
  by (simp add: az_inv_def)

lemma az_inv_frame:
  "az_inv env g m ttl w \<Longrightarrow> az w' = az w \<Longrightarrow> tick w \<le> tick w' \<Longrightarrow> az_inv env g m ttl w'"
  by (auto simp: az_inv_def intro: cached_grant_mono)

lemma safe_ask [safe_intros]: "(\<And>x. Q x) \<Longrightarrow> safe (az_inv env g m ttl) (ask f) Q"
  by (auto simp: safe_def ask_def intro: az_inv_frame)

lemma safe_ask_res [safe_intros]: "(\<And>x. Q x) \<Longrightarrow> safe (az_inv env g m ttl) (ask_res f) Q"
  by (auto simp: safe_def ask_res_def intro: az_inv_frame)

lemma safe_get_az: "(\<And>a. az_mode a = m \<Longrightarrow> az_group a = g \<Longrightarrow> Q a) \<Longrightarrow>
    safe (az_inv env g m ttl) (get_world az) Q"
  by (auto simp: safe_def get_world_def dest: az_inv_mode)

lemma safe_get_world [safe_intros]: "(\<And>x. Q x) \<Longrightarrow> safe I (get_world f) Q"
  by (auto simp: safe_def get_world_def)

text \<open>What a review leaves behind: the state but the tick, and a positive answer is a grant.\<close>

lemma submit_review_result:
  assumes "submit_review env i k w = (Inr b, w')"
  shows "az w' = az w \<and> Suc (tick w) = tick w' \<and>
    (b \<longrightarrow> subject_hash (env_sha256 env) (az_mode (az w)) label i = Inr (identity_hash k) \<longrightarrow>
       granted_at env (az_group (az w)) (az_mode (az w)) k (tick w))"
  using assms
  by (auto simp: submit_review_def submit_self_subject_access_review_def granted_at_def
      submit_subject_access_review_def eff_defs world_eff_defs
      split: if_splits option.splits sum.splits prod.splits)

lemma submit_review_state:
  "submit_review env i k w = (r, w') \<Longrightarrow> az w' = az w \<and> tick w \<le> tick w'"
  by (auto simp: submit_review_def submit_self_subject_access_review_def
      submit_subject_access_review_def eff_defs world_eff_defs
      split: if_splits option.splits sum.splits prod.splits)

lemma decision_cache_get_result:
  assumes "az_inv env g m ttl w" and "decision_cache_get env k w = (r, w')"
  shows "az_inv env g m ttl w' \<and> tick w' = Suc (tick w) \<and> az_mode (az w') = az_mode (az w) \<and>
    az_group (az w') = az_group (az w) \<and>
    (r = Inr (Some True) \<longrightarrow> (\<exists>e. cached_grant env g m ttl (tick w) k e \<and> env_now env (tick w) < e))"
proof -
  let ?c = "az_cache (az w)"
  from assms(2) have r: "r = Inr (fst (expiring_get (env_now env (tick w)) k ?c))"
    and w': "w' = w\<lparr>tick := Suc (tick w),
               az := (az w)\<lparr>az_cache := snd (expiring_get (env_now env (tick w)) k ?c)\<rparr>\<rparr>"
    by (auto simp: decision_cache_get_def eff_defs world_eff_defs split: prod.splits)
  have inv: "az_inv env g m ttl w'"
    unfolding w' using assms(1)
    by (auto simp: az_inv_def cache_at_expiring_get dest!: peek_expiring_get
        intro: cached_grant_mono [where n = "tick w"])
  have "\<exists>e. cached_grant env g m ttl (tick w) k e \<and> env_now env (tick w) < e" if "r = Inr (Some True)"
  proof -
    from that r have "fst (expiring_get (env_now env (tick w)) k ?c) = Some True" by simp
    then obtain e where "peek ?c k = Some (True, e)" "env_now env (tick w) < e"
      by (auto simp: expiring_get_Some expiring_read_Hit)
    with assms(1) show ?thesis by (auto simp: az_inv_def)
  qed
  with inv w' show ?thesis by simp
qed

lemma decision_cache_set_result:
  assumes "az_inv env g m ttl w"
    and "b \<longrightarrow> (\<exists>t. Suc t = tick w \<and> granted_at env g m k t)"
    and "decision_cache_set env k b w = (r, w')"
  shows "az_inv env g m ttl w'"
proof -
  let ?c = "az_cache (az w)" and ?now = "env_now env (tick w)"
  have at: "cache_at ttl ?c" using assms(1) by (simp add: az_inv_def)
  obtain c' where c': "cache_set ?now k b ?c = Inr c'" "cache_at ttl c'"
    "peek c' k = Some (b, ?now + ttl)" "\<And>j x. j \<noteq> k \<Longrightarrow> peek c' j = Some x \<Longrightarrow> peek ?c j = Some x"
    using cache_set_at [OF at, of ?now k b] by blast
  from assms(3) c'(1) have w': "w' = w\<lparr>tick := Suc (tick w), az := (az w)\<lparr>az_cache := c'\<rparr>\<rparr>"
    by (auto simp: decision_cache_set_def eff_defs world_eff_defs)
  have "cached_grant env g m ttl (Suc (tick w)) j e" if p: "peek c' j = Some (True, e)" for j e
  proof (cases "j = k")
    case True
    with p c'(3) have "b" "e = ?now + ttl" by auto
    moreover from assms(2) \<open>b\<close> obtain t where "Suc t = tick w" "granted_at env g m k t" by blast
    ultimately show ?thesis using True unfolding cached_grant_def by (metis lessI)
  next
    case False
    with c'(4) p have "peek ?c j = Some (True, e)" by blast
    with assms(1) have "cached_grant env g m ttl (tick w) j e" by (auto simp: az_inv_def)
    then show ?thesis by (rule cached_grant_mono) simp
  qed
  with c'(2) w' assms(1) show ?thesis by (simp add: az_inv_def)
qed

text \<open>The whole of \<open>is_allowed\<close>: the invariant, and where a positive answer comes from.\<close>

lemma is_allowed_result:
  assumes inv: "az_inv env g m ttl w"
    and run: "is_allowed env i res verb ns sub name w = (r, w')"
  shows "az_inv env g m ttl w' \<and>
    (r = Inr True \<longrightarrow> (\<exists>h label. subject_hash (env_sha256 env) m label i = Inr h \<and>
       (granted_at env g m (decision_key h res verb ns sub name) (Suc (tick w)) \<or>
        (\<exists>e. cached_grant env g m ttl (tick w) (decision_key h res verb ns sub name) e \<and>
             env_now env (tick w) < e))))"
proof (cases "subject_hash (env_sha256 env) (az_mode (az w)) (az_label (az w)) i")
  case (Inl e)
  with run inv show ?thesis by (auto simp: is_allowed_def eff_defs world_eff_defs)
next
  case (Inr h)
  let ?k = "decision_key h res verb ns sub name"
  note m = az_inv_mode [OF inv]
  have hash: "subject_hash (env_sha256 env) m (az_label (az w)) i = Inr h" using Inr m by simp
  obtain rc w1 where g1: "decision_cache_get env ?k w = (rc, w1)" by (cases "decision_cache_get env ?k w")
  note get = decision_cache_get_result [OF inv g1]
  obtain cached where rc: "rc = Inr cached"
    using g1 by (auto simp: decision_cache_get_def eff_defs world_eff_defs split: prod.splits)
  show ?thesis
  proof (cases cached)
    case (Some b)
    with run g1 rc Inr have "w' = w1" "r = Inr b"
      by (auto simp: is_allowed_def Let_def eff_defs world_eff_defs)
    with get rc Some hash show ?thesis by auto
  next
    case None
    obtain rs w2 where s: "submit_review env i ?k w1 = (rs, w2)" by (cases "submit_review env i ?k w1")
    have inv2: "az_inv env g m ttl w2"
      using az_inv_frame [of env g m ttl w1 w2] get submit_review_state [OF s] by simp
    show ?thesis
    proof (cases rs)
      case (Inl e)
      with run g1 rc Inr None s inv2 show ?thesis
        by (auto simp: is_allowed_def Let_def eff_defs world_eff_defs)
    next
      case rs: (Inr b)
      have res: "az w2 = az w1 \<and> Suc (tick w1) = tick w2 \<and> (b \<longrightarrow> granted_at env g m ?k (tick w1))"
        using submit_review_result [OF s [unfolded rs], of "az_label (az w)"] get m hash
        by (simp add: decision_key_def)
      obtain rz w3 where z: "decision_cache_set env ?k b w2 = (rz, w3)"
        by (cases "decision_cache_set env ?k b w2")
      have inv3: "az_inv env g m ttl w3"
        by (rule decision_cache_set_result [OF inv2 _ z]) (use res in auto)
      from run g1 rc Inr None s rs z have "w' = w3 \<and> (r = Inr True \<longrightarrow> b)"
        by (auto simp: is_allowed_def Let_def eff_defs world_eff_defs split: sum.splits)
      with inv3 res get hash show ?thesis by auto
    qed
  qed
qed

lemma safe_is_allowed:
  "safe (az_inv env g m ttl) (is_allowed env i res verb ns sub name)
     (\<lambda>b. b \<longrightarrow> approved env g m i res verb ns sub name)"
proof (rule safeI)
  fix w r w'
  assume "az_inv env g m ttl w" and "is_allowed env i res verb ns sub name w = (r, w')"
  from is_allowed_result [OF this]
  show "az_inv env g m ttl w' \<and> (\<forall>x. r = Inr x \<longrightarrow> x \<longrightarrow> approved env g m i res verb ns sub name)"
    unfolding approved_def cached_grant_def by blast
qed


section \<open>The access-review interface\<close>

text \<open>
  What the rest of the plugin uses of the authorizer: a question, an answer, and the meaning of a
  positive answer.
\<close>

type_synonym question = "string \<times> string \<times> string \<times> string option \<times> string option"

locale access_reviews =
  fixes inv :: "'s \<Rightarrow> bool"
    and allowed :: "'q \<Rightarrow> ('s, bool) eff"
    and granted :: "'q \<Rightarrow> bool"
  assumes allowed_safe: "safe inv (allowed q) (\<lambda>b. b \<longrightarrow> granted q)"
begin

lemma all_granted:
  "safe inv (all_eff (\<lambda>x. allowed (f x)) xs) (\<lambda>b. b \<longrightarrow> (\<forall>x \<in> set xs. granted (f x)))"
  by (rule safe_all_eff) (rule allowed_safe)

lemma any_granted:
  "safe inv (any_eff (\<lambda>x. allowed (f x)) xs) (\<lambda>b. b \<longrightarrow> (\<exists>x \<in> set xs. granted (f x)))"
  by (rule safe_any_eff) (rule allowed_safe)

lemma filter_granted:
  "safe inv (filter_eff (\<lambda>x. allowed (f x)) xs) (\<lambda>ys. (\<forall>y \<in> set ys. granted (f y)) \<and> set ys \<subseteq> set xs)"
  by (rule safe_filter_eff) (rule allowed_safe)

lemma guard_granted:
  assumes yes: "granted q \<Longrightarrow> safe inv m Q" and no: "safe inv n Q"
  shows "safe inv (andthen (allowed q) (\<lambda>b. if b then m else n)) Q"
  by (rule safe_andthen [OF allowed_safe]) (auto intro: yes no)

end

definition review_question :: "env \<Rightarrow> identity \<Rightarrow> question \<Rightarrow> (world, bool) eff" where
  "review_question env i q =
     (case q of (res, verb, ns, sub, name) \<Rightarrow> is_allowed env i res verb ns sub name)"

definition question_approved :: "env \<Rightarrow> string \<Rightarrow> auth_mode \<Rightarrow> identity \<Rightarrow> question \<Rightarrow> bool" where
  "question_approved env g m i q =
     (case q of (res, verb, ns, sub, name) \<Rightarrow> approved env g m i res verb ns sub name)"

interpretation reviews: access_reviews
  "az_inv env g m ttl" "review_question env i" "question_approved env g m i" for env g m ttl i
  by unfold_locales
     (auto simp: review_question_def question_approved_def intro: safe_is_allowed split: prod.splits)

lemmas question_simps = review_question_def question_approved_def

text \<open>The lemmas of the interface with the question written out.\<close>

lemma safe_all_allowed:
  "safe (az_inv env g m ttl) (all_eff (\<lambda>n. is_allowed env i res verb ns sub (f n)) xs)
     (\<lambda>b. b \<longrightarrow> (\<forall>n \<in> set xs. approved env g m i res verb ns sub (f n)))"
  using reviews.all_granted [of env g m ttl i "\<lambda>n. (res, verb, ns, sub, f n)"]
  by (simp add: question_simps)

lemma safe_filter_allowed:
  "safe (az_inv env g m ttl) (filter_eff (\<lambda>n. is_allowed env i res verb ns sub (f n)) xs)
     (\<lambda>ys. (\<forall>n \<in> set ys. approved env g m i res verb ns sub (f n)) \<and> set ys \<subseteq> set xs)"
  using reviews.filter_granted [of env g m ttl i "\<lambda>n. (res, verb, ns, sub, f n)"]
  by (simp add: question_simps)

lemma safe_any_resource:
  "safe (az_inv env g m ttl) (any_eff (\<lambda>r. is_allowed env i r verb ns None None) rs)
     (\<lambda>b. b \<longrightarrow> (\<exists>r \<in> set rs. approved env g m i r verb ns None None))"
  using reviews.any_granted [of env g m ttl i "\<lambda>r. (r, verb, ns, None, None)"]
  by (simp add: question_simps)

lemma safe_if_allowed:
  assumes "approved env g m i res verb ns sub name \<Longrightarrow> safe (az_inv env g m ttl) x Q"
    and "safe (az_inv env g m ttl) y Q"
  shows "safe (az_inv env g m ttl)
    (andthen (is_allowed env i res verb ns sub name) (\<lambda>b. if b then x else y)) Q"
  using reviews.guard_granted [of env g m i "(res, verb, ns, sub, name)" ttl x Q y] assms
  by (simp add: question_simps)

section \<open>Workspaces and scopes are backed by reviews\<close>

definition workspace_listed ::
  "env \<Rightarrow> string \<Rightarrow> auth_mode \<Rightarrow> identity \<Rightarrow> string \<Rightarrow> string \<Rightarrow> bool" where
  "workspace_listed env g m i verb n \<longleftrightarrow>
     (\<exists>r \<in> set WORKSPACE_PERMISSION_RESOURCE_PRIORITY. approved env g m i r verb n None None)"

lemma safe_can_access_workspace:
  "safe (az_inv env g m ttl) (can_access_workspace env i n verb)
     (\<lambda>b. b \<longrightarrow> workspace_listed env g m i verb n)"
  unfolding can_access_workspace_def workspace_listed_def
  by (rule safe_andthen [OF safe_get_world], rule TrueI,
      rule safe_andthen [OF safe_lift], rule TrueI, rule safe_any_resource)

lemma safe_accessible_workspaces:
  "safe (az_inv env g m ttl) (accessible_workspaces env i names)
     (\<lambda>ys. (\<forall>n \<in> set ys. workspace_listed env g m i ''list'' n) \<and> set ys \<subseteq> set names)"
  unfolding accessible_workspaces_def
  by (rule safe_andthen [OF safe_get_world], rule TrueI,
      rule safe_andthen [OF safe_lift], rule TrueI,
      rule safe_filter_eff, rule safe_can_access_workspace)

lemma safe_rules_cache_get:
  "safe (az_inv env g m ttl) (rules_cache_get env k) (\<lambda>_. True)"
  unfolding rules_cache_get_def
  by (rule safe_andthen [OF safe_ask], rule TrueI)
     (auto simp: safe_def az_inv_def split: prod.splits)

lemma safe_rules_cache_set:
  "safe (az_inv env g m ttl) (rules_cache_set env k rules) (\<lambda>_. True)"
  unfolding rules_cache_set_def
  by (rule safe_andthen [OF safe_ask], rule TrueI)
     (auto simp: safe_def az_inv_def split: prod.splits sum.splits)

lemma safe_submit_rules:
  "safe (az_inv env g m ttl) (submit_self_subject_rules_review env tok ns) (\<lambda>_. True)"
  "safe (az_inv env g m ttl) (submit_impersonated_subject_rules_review env u gs ns) (\<lambda>_. True)"
  unfolding submit_self_subject_rules_review_def submit_impersonated_subject_rules_review_def
  by (auto intro!: safe_intros safe_andthen [OF safe_get_world [where Q = "\<lambda>_. True"]])

lemma safe_review_rules: "safe (az_inv env g m ttl) (review_rules env i ns) (\<lambda>_. True)"
  unfolding review_rules_def Let_def
  apply (rule safe_andthen [OF safe_get_world], rule TrueI)
  apply (rule safe_andthen [OF safe_lift], rule TrueI)
  apply (rule safe_andthen [OF safe_rules_cache_get])
  apply (auto intro!: safe_intros safe_andthen [OF safe_rules_cache_set]
      safe_andthen [OF safe_handle [where Q = "\<lambda>_. True"]] safe_submit_rules split: option.splits)
  done

definition scope_approved ::
  "env \<Rightarrow> string \<Rightarrow> auth_mode \<Rightarrow> identity \<Rightarrow> string \<Rightarrow> string \<Rightarrow> string option \<Rightarrow>
   collection_scope \<Rightarrow> bool" where
  "scope_approved env g m i res ns sub sc \<longleftrightarrow>
     (scope_broad sc \<longrightarrow> approved env g m i res ''get'' ns sub None) \<and>
     (\<forall>n \<in> set (scope_names sc). approved env g m i res ''get'' ns sub (Some n))"

lemma safe_discover_collection_scope:
  "safe (az_inv env g m ttl) (discover_collection_scope env i res ns sub)
     (scope_approved env g m i res ns sub)"
  unfolding discover_collection_scope_def Let_def
  apply (rule safe_if_allowed)
   apply (rule safe_ret, simp add: scope_approved_def)
  apply (rule safe_andthen [OF safe_get_world], rule TrueI)
  apply (rule safe_andthen [OF safe_review_rules])
  apply (rule safe_andthen [OF safe_filter_allowed])
  apply (rule safe_ret, simp add: scope_approved_def)
  done


section \<open>Properties\<close>

text \<open>An environment for concrete runs: the digest is the identity, the API allows what \<open>ok\<close> says.\<close>

definition sample_env :: "(review_attrs \<Rightarrow> bool) \<Rightarrow> env" where
  "sample_env ok =
     \<lparr>env_now = (\<lambda>n. real n), env_sha256 = (\<lambda>s. s), env_json_loads = (\<lambda>s. None),
      env_ssar = (\<lambda>n tok a. Inr (Some (ok a))), env_sar = (\<lambda>n u gs a. Inr (Some (ok a))),
      env_ssrr = (\<lambda>n tok ns. Inr None), env_impersonated_ssrr = (\<lambda>n u gs ns. Inr None),
      env_lookup = (\<lambda>n k s. Inr PNone), env_has_lookup = (\<lambda>k. True),
      env_request_workspace = None, env_graphql_parse = (\<lambda>s. None),
      env_value_from_ast = (\<lambda>v vars. PNone), env_parse_filter = (\<lambda>k s. Inr []),
      env_message_fields = (\<lambda>m. []), env_parse_dict = (\<lambda>m d. None),
      env_decode = (\<lambda>s. Some s), env_is_file_uri = (\<lambda>s. Some False),
      env_skill_identity = (\<lambda>s. None)\<rparr>"

definition sample_authorizer :: "auth_mode \<Rightarrow> authorizer" where
  "sample_authorizer m =
     \<lparr>az_group = DEFAULT_AUTH_GROUP, az_mode = m, az_label = ''Remote user header'',
      az_base_configured = True, az_sar_client = True, az_cache = new_cache 300 10,
      az_rules_cache = new_cache 300 10\<rparr>"

definition sample_world :: "auth_mode \<Rightarrow> world" where
  "sample_world m =
     \<lparr>tick = 0, az = sample_authorizer m, experiment_name_cache = new_cache 300 10,
      run_experiment_name_cache = new_cache 300 10,
      experiment_id_cache = \<lparr>id_entries = new_cache 300 10, generation = 0\<rparr>\<rparr>"

lemma az_inv_sample [simp]: "az_inv env DEFAULT_AUTH_GROUP m 300 (sample_world m)"
  by (simp add: az_inv_def sample_world_def sample_authorizer_def cache_at_new peek_new)

text \<open>
  C9: a positive answer of \<open>is_allowed\<close> comes from the Kubernetes API. Either this call asked and was
  allowed, or an earlier review of the same subject hash, group, resource, subresource, verb,
  namespace and name was allowed and stored less than the time-to-live before this call.
\<close>

theorem is_allowed_sound:
  assumes "az_inv env g m ttl w"
    and "is_allowed env i res verb ns sub name w = (Inr True, w')"
  shows "\<exists>h label. subject_hash (env_sha256 env) m label i = Inr h \<and>
    (granted_at env g m (decision_key h res verb ns sub name) (Suc (tick w)) \<or>
     (\<exists>t. Suc t < tick w \<and> granted_at env g m (decision_key h res verb ns sub name) t \<and>
          env_now env (tick w) < env_now env (Suc t) + ttl))"
  using is_allowed_result [OF assms] unfolding cached_grant_def by blast

lemmas run_defs = is_allowed_def decision_cache_get_def decision_cache_set_def submit_review_def
  submit_self_subject_access_review_def submit_subject_access_review_def expiring_get_def
  expiring_read_def cache_set_def reap_expired_def new_cache_def

definition sample_identity :: identity where
  "sample_identity = \<lparr>id_token = Some ''t'', id_user = Some ''alice'', id_groups = [''dev'']\<rparr>"

lemmas sample_defs = sample_env_def sample_world_def sample_authorizer_def sample_identity_def

theorem is_allowed_sound_witness:
  "let env = sample_env (\<lambda>a. ra_verb a = ''get''); w = sample_world SELF_SUBJECT_ACCESS_REVIEW in
   \<exists>h label. subject_hash (env_sha256 env) SELF_SUBJECT_ACCESS_REVIEW label sample_identity = Inr h \<and>
     granted_at env DEFAULT_AUTH_GROUP SELF_SUBJECT_ACCESS_REVIEW
       (decision_key h RESOURCE_EXPERIMENTS ''get'' ''ns'' None None) 1"
proof -
  let ?env = "sample_env (\<lambda>a. ra_verb a = ''get'')" and ?w = "sample_world SELF_SUBJECT_ACCESS_REVIEW"
  have run: "fst (is_allowed ?env sample_identity RESOURCE_EXPERIMENTS ''get'' ''ns'' None None ?w) = Inr True"
    by (simp add: run_defs Let_def eff_defs world_eff_defs subject_hash_def decision_key_def
        key_attrs_def opt_text_def sample_defs)
  have tick: "tick ?w = 0" by (simp add: sample_world_def)
  show ?thesis
    using is_allowed_sound [OF az_inv_sample, of ?env sample_identity RESOURCE_EXPERIMENTS "''get''" "''ns''"
        None None SELF_SUBJECT_ACCESS_REVIEW "snd (is_allowed ?env sample_identity RESOURCE_EXPERIMENTS
          ''get'' ''ns'' None None ?w)"] run tick
    by (simp add: prod_eq_iff)
qed

text \<open>
  A failed review is never remembered. When \<open>is_allowed\<close> raises, whatever the error, every decision
  in the cache was there before, so the next request asks the API again.
\<close>

lemma is_allowed_error_not_cached:
  assumes "az_inv env g m ttl w"
    and "is_allowed env i res verb ns sub name w = (Inl e, w')"
    and "peek (az_cache (az w')) k = Some x"
  shows "peek (az_cache (az w)) k = Some x"
proof (cases "subject_hash (env_sha256 env) (az_mode (az w)) (az_label (az w)) i")
  case (Inl e)
  with assms show ?thesis by (auto simp: is_allowed_def eff_defs world_eff_defs)
next
  case (Inr h)
  let ?k = "decision_key h res verb ns sub name"
  obtain rc w1 where g1: "decision_cache_get env ?k w = (rc, w1)" by (cases "decision_cache_get env ?k w")
  obtain cached where rc: "rc = Inr cached"
    and w1: "az_cache (az w1) = snd (expiring_get (env_now env (tick w)) ?k (az_cache (az w)))"
    using g1 by (auto simp: decision_cache_get_def eff_defs world_eff_defs split: prod.splits)
  obtain rs w2 where s: "submit_review env i ?k w1 = (rs, w2)" by (cases "submit_review env i ?k w1")
  have none: "cached = None" using assms(2) g1 rc Inr
    by (cases cached) (auto simp: is_allowed_def Let_def eff_defs world_eff_defs)
  have at: "cache_at ttl (az_cache (az w2))"
    using decision_cache_get_result [OF assms(1) g1] submit_review_state [OF s] by (simp add: az_inv_def)
  have "az_cache (az w') = az_cache (az w2)"
  proof (cases rs)
    case (Inl e)
    with assms(2) g1 rc none s Inr show ?thesis
      by (auto simp: is_allowed_def Let_def eff_defs world_eff_defs)
  next
    case rs: (Inr b)
    obtain c' where "cache_set (env_now env (tick w2)) ?k b (az_cache (az w2)) = Inr c'"
      using cache_set_at [OF at] by blast
    with assms(2) g1 rc none s Inr rs show ?thesis
      by (auto simp: is_allowed_def decision_cache_set_def Let_def eff_defs world_eff_defs)
  qed
  with assms(3) submit_review_state [OF s] w1 show ?thesis by (auto dest!: peek_expiring_get)
qed

lemma is_allowed_error_not_cached_witness:
  "let env = (sample_env (\<lambda>a. True))\<lparr>env_ssar := \<lambda>n tok a. Inl (ApiExc (Some 403))\<rparr>;
       r = is_allowed env sample_identity RESOURCE_EXPERIMENTS ''get'' ''ns'' None None
             (sample_world SELF_SUBJECT_ACCESS_REVIEW)
   in (\<exists>msg. fst r = Inl (MlflowExc PERMISSION_DENIED msg)) \<and>
      peek (az_cache (az (snd r))) = Map.empty"
proof -
  let ?env = "(sample_env (\<lambda>a. True))\<lparr>env_ssar := \<lambda>n tok a. Inl (ApiExc (Some 403))\<rparr>"
    and ?w = "sample_world SELF_SUBJECT_ACCESS_REVIEW"
  let ?r = "is_allowed ?env sample_identity RESOURCE_EXPERIMENTS ''get'' ''ns'' None None ?w"
  have run: "\<exists>msg. fst ?r = Inl (MlflowExc PERMISSION_DENIED msg)"
    by (simp add: run_defs Let_def eff_defs world_eff_defs subject_hash_def decision_key_def
        key_attrs_def opt_text_def sample_defs review_failure_def)
  then obtain e w' where r: "?r = (Inl e, w')" by (metis prod.collapse)
  have empty: "peek (az_cache (az ?w)) = Map.empty" by (simp add: sample_defs peek_new)
  have "peek (az_cache (az (snd ?r))) k = None" for k
    using is_allowed_error_not_cached [OF az_inv_sample r, of k] r empty
    by (cases "peek (az_cache (az w')) k") auto
  with run show ?thesis by (auto simp: Let_def)
qed

lemma append_sep_eq:
  "c \<notin> set x \<Longrightarrow> c \<notin> set y \<Longrightarrow> x @ c # s = y @ c # t \<Longrightarrow> x = y \<and> s = t"
  by (auto simp: append_eq_append_conv2 append_eq_Cons_conv Cons_eq_append_conv)

lemma py_join_nul_inj:
  assumes "\<forall>x \<in> set xs. c \<notin> set x \<and> x \<noteq> []" and "\<forall>x \<in> set ys. c \<notin> set x \<and> x \<noteq> []"
    and "py_join [c] xs = py_join [c] ys"
  shows "xs = ys"
  using assms
proof (induction "[c]" xs arbitrary: ys rule: py_join.induct)
  case 1
  then show ?case by (cases "([c], ys)" rule: py_join.cases) auto
next
  case (2 x)
  then show ?case by (cases "([c], ys)" rule: py_join.cases) auto
next
  case (3 x y xs)
  then obtain y1 y2 ys' where ys: "ys = y1 # y2 # ys'"
    by (cases "([c], ys)" rule: py_join.cases) auto
  have "c \<notin> set x" "c \<notin> set y1" using 3(2,3) ys by auto
  moreover have "x @ c # py_join [c] (y # xs) = y1 @ c # py_join [c] (y2 # ys')"
    using 3(4) ys by simp
  ultimately have "x = y1" "py_join [c] (y # xs) = py_join [c] (y2 # ys')"
    by (auto dest: append_sep_eq)
  moreover from this(2) have "y # xs = y2 # ys'" by (rule 3(1) [rotated 2]) (use 3(2,3) ys in auto)
  ultimately show ?case using ys by simp
qed

text \<open>
  C19: with a collision-free digest the subject hash of proxy mode identifies the caller. Two identities
  with the same hash have the same (stripped) user name and the same groups up to order, provided
  names contain no NUL and groups are not empty, which header parsing guarantees.
\<close>

theorem subject_hash_identifies_caller:
  assumes "subject_hash sha SUBJECT_ACCESS_REVIEW l i = Inr h"
    and "subject_hash sha SUBJECT_ACCESS_REVIEW l' j = Inr h"
    and "\<forall>x y. sha x = sha y \<longrightarrow> x = y"
    and "\<forall>s \<in> set (opt_text (id_user i) # opt_text (id_user j) # id_groups i @ id_groups j).
           CHR 0x00 \<notin> set s"
    and "[] \<notin> set (id_groups i @ id_groups j)"
  shows "py_strip (opt_text (id_user i)) = py_strip (opt_text (id_user j)) \<and>
    sort (id_groups i) = sort (id_groups j)"
proof -
  let ?u = "py_strip (opt_text (id_user i))" and ?v = "py_strip (opt_text (id_user j))"
  have sub: "set (py_strip s) \<subseteq> set s" for s
    by (auto simp: py_strip_def py_rstrip_def py_lstrip_def dest!: set_dropWhileD)
  have "serialized_subject ?u (id_groups i) = serialized_subject ?v (id_groups j)"
    using assms(1-3) by (auto simp: subject_hash_def opt_text_def Let_def split: if_splits)
  then have eq: "?u @ CHR 0x00 # py_join NUL (sort (id_groups i)) =
      ?v @ CHR 0x00 # py_join NUL (sort (id_groups j))"
    by (simp add: serialized_subject_def NUL_def)
  have "CHR 0x00 \<notin> set ?u" "CHR 0x00 \<notin> set ?v" using assms(4) sub by fastforce+
  from append_sep_eq [OF this eq]
  have "?u = ?v" "py_join NUL (sort (id_groups i)) = py_join NUL (sort (id_groups j))" by auto
  moreover from this(2) have "sort (id_groups i) = sort (id_groups j)"
    unfolding NUL_def by (rule py_join_nul_inj [rotated 2]) (use assms(4,5) in auto)
  ultimately show ?thesis by simp
qed

theorem subject_hash_identifies_caller_witness:
  "let i = \<lparr>id_token = None, id_user = Some '' alice'', id_groups = [''b'', ''a'']\<rparr>;
       j = \<lparr>id_token = None, id_user = Some ''alice'', id_groups = [''a'', ''b'']\<rparr>
   in py_strip (opt_text (id_user i)) = py_strip (opt_text (id_user j)) \<and>
      sort (id_groups i) = sort (id_groups j)"
  unfolding Let_def
  by (rule subject_hash_identifies_caller [where sha = "\<lambda>s. s" and l = "[]" and l' = "[]"
        and h = "serialized_subject ''alice'' [''a'', ''b'']"])
     (auto simp: subject_hash_def serialized_subject_def opt_text_def py_strip_def py_rstrip_def
        py_lstrip_def is_space_def of_char_def insort_key.simps less_eq_char_def)

text \<open>
  C10: a discovered collection scope is verified. A broad scope means that a review of the whole
  collection was allowed, and every name of a named scope was allowed by a review of that name;
  the rules review only suggests candidates.
\<close>

theorem discover_collection_scope_sound:
  assumes "az_inv env g m ttl w"
    and "discover_collection_scope env i res ns sub w = (Inr sc, w')"
  shows "(scope_broad sc \<longrightarrow> scope_names sc = [] \<and> approved env g m i res ''get'' ns sub None) \<and>
    (\<forall>n \<in> set (scope_names sc). approved env g m i res ''get'' ns sub (Some n))"
proof -
  have "scope_broad sc \<longrightarrow> scope_names sc = []"
    using assms(2)
    by (auto simp: discover_collection_scope_def Let_def andthen_def ret_def
        split: prod.splits sum.splits if_splits)
  with safeD [OF safe_discover_collection_scope assms] show ?thesis by (auto simp: scope_approved_def)
qed

definition sample_rules_env :: env where
  "sample_rules_env = (sample_env (\<lambda>a. ra_name a = Some ''b''))
     \<lparr>env_ssrr := \<lambda>n tok ns. Inr (Some \<lparr>rs_evaluation_error = False, rs_incomplete = False,
        rs_resource_rules = [\<lparr>rr_api_groups = [''*''], rr_resources = [''experiments''],
          rr_verbs = [''get''], rr_resource_names = [''b'', ''a'']\<rparr>]\<rparr>)\<rparr>"

theorem discover_collection_scope_sound_witness:
  "approved sample_rules_env DEFAULT_AUTH_GROUP SELF_SUBJECT_ACCESS_REVIEW sample_identity
     RESOURCE_EXPERIMENTS ''get'' ''ns'' None (Some ''b'')"
proof -
  have run: "\<exists>w'. discover_collection_scope sample_rules_env sample_identity RESOURCE_EXPERIMENTS ''ns'' None
      (sample_world SELF_SUBJECT_ACCESS_REVIEW) = (Inr \<lparr>scope_broad = False, scope_names = [''b'']\<rparr>, w')"
    by (simp add: discover_collection_scope_def review_rules_def run_defs Let_def eff_defs world_eff_defs
        subject_hash_def decision_key_def key_attrs_def opt_text_def sample_defs sample_rules_env_def
        rules_cache_get_def rules_cache_set_def submit_self_subject_rules_review_def
        effective_resource_name_def rule_candidates_def normalize_resource_type_def resource_defs
        less_eq_char_def DEFAULT_AUTH_GROUP_def)
  then show ?thesis
    using discover_collection_scope_sound [OF az_inv_sample, of sample_rules_env sample_identity
        RESOURCE_EXPERIMENTS "''ns''" None SELF_SUBJECT_ACCESS_REVIEW] by force
qed

text \<open>
  Workspace listing discloses only workspaces the caller may list. Every name
  \<open>accessible_workspaces\<close> returns was asked about and has an approved \<open>list\<close> review for one of the
  workspace resources.
\<close>

lemma accessible_workspaces_sound:
  assumes "az_inv env g m ttl w" and "accessible_workspaces env i names w = (Inr ys, w')"
    and "n \<in> set ys"
  shows "n \<in> set names \<and>
    (\<exists>r \<in> set WORKSPACE_PERMISSION_RESOURCE_PRIORITY. approved env g m i r ''list'' n None None)"
  using safeD [OF safe_accessible_workspaces assms(1,2)] assms(3) by (auto simp: workspace_listed_def)

lemma accessible_workspaces_sound_witness:
  "\<exists>r \<in> set WORKSPACE_PERMISSION_RESOURCE_PRIORITY.
     approved (sample_env (\<lambda>a. ra_namespace a = ''a'' \<and> ra_resource a = ''datasets''))
       DEFAULT_AUTH_GROUP SUBJECT_ACCESS_REVIEW sample_identity r ''list'' ''a'' None None"
proof -
  let ?env = "sample_env (\<lambda>a. ra_namespace a = ''a'' \<and> ra_resource a = ''datasets'')"
  have run: "\<exists>w'. accessible_workspaces ?env sample_identity [''a'']
      (sample_world SUBJECT_ACCESS_REVIEW) = (Inr [''a''], w')"
    by (simp add: accessible_workspaces_def can_access_workspace_def run_defs Let_def eff_defs
        world_eff_defs subject_hash_def decision_key_def key_attrs_def opt_text_def sample_defs
        effective_resource_name_def normalize_resource_type_def resource_defs
        WORKSPACE_PERMISSION_RESOURCE_PRIORITY_def py_strip_def py_rstrip_def py_lstrip_def is_space_def)
  then show ?thesis
    using accessible_workspaces_sound [OF az_inv_sample, of ?env sample_identity "[''a'']"
        SUBJECT_ACCESS_REVIEW "[''a'']" _ "''a''"] by force
qed

end
