(* ===== verification/Request_Context.thy ===== *)
theory Request_Context
  imports World
begin

text \<open>
  \<open>auth/request_context.py\<close> and \<open>_ensure_request_context_json_body\<close> of \<open>auth/core.py\<close>: the request as
  the authorization code sees it. \<open>ensure_json_body\<close> is what the callback that loads the body gives,
  the parsed body or an exception, if the request has such a callback.
\<close>

record request =
  rq_authorization_header :: "string option"
  rq_forwarded_access_token :: "string option"
  rq_remote_user :: "string option"
  rq_remote_groups :: "string option"
  rq_path :: string
  rq_method :: string
  rq_workspace :: "string option"
  rq_headers :: "(string \<times> string) list"
  rq_path_params :: pdict
  rq_query_params :: pdict
  rq_json_body :: pv
  rq_graphql_payload :: "pdict option"
  rq_ensure_json_body :: "(exc + pv) option"

section \<open>Adapters\<close>

definition collect_query_param :: "string \<times> string \<Rightarrow> pdict \<Rightarrow> pdict" where
  "collect_query_param kv params =
     (case kv of (key, value) \<Rightarrow>
        (case dget params key of
           PNone \<Rightarrow> AList.update key (PStr value) params
         | PList l \<Rightarrow> AList.update key (PList (l @ [PStr value])) params
         | current \<Rightarrow> AList.update key (PList [current, PStr value]) params))"

definition collect_query_params :: "(string \<times> string) list \<Rightarrow> pdict" where
  "collect_query_params items = fold collect_query_param items []"

definition collect_headers :: "(string \<times> string) list \<Rightarrow> (string \<times> string) list" where
  "collect_headers items = fold (\<lambda>(k, v). AList.update (py_lower k) v) items []"

definition first_value :: "pdict \<Rightarrow> string \<Rightarrow> string option" where
  "first_value m key =
     (let value = (case dget m key of PList [] \<Rightarrow> PNone | PList (v # _) \<Rightarrow> v | v \<Rightarrow> v)
      in case value of PStr s \<Rightarrow> nonempty s | _ \<Rightarrow> None)"

definition build_graphql_payload :: "env \<Rightarrow> string \<Rightarrow> pv \<Rightarrow> pdict \<Rightarrow> pdict option" where
  "build_graphql_payload env path json_body query_params =
     (if \<not> endswith path ''/graphql'' then None
      else case json_body of
        PDict d \<Rightarrow> Some d
      | _ \<Rightarrow>
         (let query = first_value query_params ''query'';
              operation_name = first_value query_params ''operationName'';
              variables = (case first_value query_params ''variables'' of
                None \<Rightarrow> None
              | Some raw \<Rightarrow> (case env_json_loads env raw of Some (PDict d) \<Rightarrow> Some d | _ \<Rightarrow> None))
          in if query = None \<and> operation_name = None \<and> variables = None then None
             else Some
               ((case query of None \<Rightarrow> [] | Some q \<Rightarrow> [(''query'', PStr q)]) @
                (case operation_name of None \<Rightarrow> [] | Some n \<Rightarrow> [(''operationName'', PStr n)]) @
                (case variables of None \<Rightarrow> [] | Some v \<Rightarrow> [(''variables'', PDict v)]))))"

definition build_fastapi_authorization_request ::
  "env \<Rightarrow> (string \<Rightarrow> string option) \<Rightarrow> (string \<times> string) list \<Rightarrow> string \<Rightarrow> string \<Rightarrow>
   (string \<times> string) list \<Rightarrow> string \<Rightarrow> string option \<Rightarrow> string \<Rightarrow> pv \<Rightarrow> pdict \<Rightarrow> pdict \<Rightarrow>
   (exc + pv) option \<Rightarrow> request" where
  "build_fastapi_authorization_request env header headers user_header groups_header query_items path
     workspace method json_body path_params route_params loader =
     (let query_params = collect_query_params query_items in
      \<lparr>rq_authorization_header = header ''Authorization'',
       rq_forwarded_access_token = header ''X-Forwarded-Access-Token'',
       rq_remote_user = header user_header, rq_remote_groups = header groups_header,
       rq_path = path, rq_method = method, rq_workspace = workspace,
       rq_headers = collect_headers headers,
       rq_path_params = (if path_params \<noteq> [] then path_params else route_params),
       rq_query_params = query_params, rq_json_body = json_body,
       rq_graphql_payload = build_graphql_payload env path json_body query_params,
       rq_ensure_json_body = loader\<rparr>)"

section \<open>Loading the body\<close>

definition ensure_request_context_json_body :: "env \<Rightarrow> bool \<Rightarrow> request \<Rightarrow> (world, request) eff" where
  "ensure_request_context_json_body env allow_get_body rq =
     (if rq_json_body rq \<noteq> PNone then ret rq
      else case rq_ensure_json_body rq of
        None \<Rightarrow> ret rq
      | Some loader \<Rightarrow>
          if py_upper (rq_method rq) = ''GET'' \<and> rq_query_params rq \<noteq> [] \<and> \<not> allow_get_body then ret rq
          else andthen (lift loader) (\<lambda>body.
            ret (rq\<lparr>rq_json_body := body,
                    rq_graphql_payload :=
                      build_graphql_payload env (rq_path rq) body (rq_query_params rq),
                    rq_ensure_json_body := None\<rparr>)))"

text \<open>
  What loading the body may change. Path, method, query, headers and workspace stay, and the body it
  leaves is the one the request had or the one the callback gave.
\<close>

definition same_request :: "request \<Rightarrow> request \<Rightarrow> bool" where
  "same_request a b \<longleftrightarrow>
     rq_path a = rq_path b \<and> rq_method a = rq_method b \<and> rq_headers a = rq_headers b \<and>
     rq_path_params a = rq_path_params b"

lemma same_request_refl [simp, intro]: "same_request a a"
  by (simp add: same_request_def)

lemma same_request_trans [trans]: "same_request a b \<Longrightarrow> same_request b c \<Longrightarrow> same_request a c"
  by (simp add: same_request_def)

lemma safe_ensure:
  "safe I (ensure_request_context_json_body env b rq)
     (\<lambda>rq'. same_request rq rq' \<and> rq_query_params rq' = rq_query_params rq \<and>
        rq_workspace rq' = rq_workspace rq)"
  by (auto simp: ensure_request_context_json_body_def same_request_def safe_def eff_defs
      split: option.splits sum.splits prod.splits)

section \<open>Properties\<close>

definition collected :: "string list \<Rightarrow> pv" where
  "collected vs = (case vs of [] \<Rightarrow> PNone | [v] \<Rightarrow> PStr v | _ \<Rightarrow> PList (map PStr vs))"

lemma dget_collect_query_param:
  "dget params k = collected vs \<Longrightarrow>
   dget (collect_query_param (k', v) params) k = collected (if k' = k then vs @ [v] else vs)"
  by (cases vs rule: remdups_adj.cases)
     (auto simp: collect_query_param_def collected_def split: pv.splits)

text \<open>
  Query parameters are collected without loss or reordering. The value of a key is the text of its
  only occurrence, or the list of the texts of all its occurrences in order; a key that does not occur
  is missing.
\<close>

lemma collect_query_params_complete:
  "dget (collect_query_params items) k = collected (map snd (filter (\<lambda>(k', v). k' = k) items))"
proof (induction items rule: rev_induct)
  case Nil
  show ?case by (simp add: collect_query_params_def collected_def dget_def)
next
  case (snoc kv items)
  obtain k' v where kv: "kv = (k', v)" by (cases kv)
  from dget_collect_query_param [OF snoc.IH, of k' v] show ?case
    by (simp add: kv collect_query_params_def)
qed

end
