(* ===== verification/Graphql.thy ===== *)
theory Graphql
  imports Rules World "HOL-Library.Product_Lexorder"
begin

text \<open>
  \<open>auth/graphql.py\<close>: the field tables, the scan of a parsed query and the rules it needs. A document is
  the list of its definitions as \<open>graphql.parse\<close> returns it. The lemmas show that the scan ends, that
  it finds every nested model registry field that can be reached, and that the rules cover every
  field found.
\<close>

section \<open>Tables\<close>

definition K8S_GRAPHQL_OPERATION_RESOURCE_MAP :: "(string \<times> string) list" where
  "K8S_GRAPHQL_OPERATION_RESOURCE_MAP =
     [(''MlflowGetExperimentQuery'', RESOURCE_EXPERIMENTS),
      (''GetExperiment'', RESOURCE_EXPERIMENTS),
      (''GetRun'', RESOURCE_EXPERIMENTS),
      (''MlflowGetRunQuery'', RESOURCE_EXPERIMENTS),
      (''SearchRuns'', RESOURCE_EXPERIMENTS),
      (''MlflowSearchRunsQuery'', RESOURCE_EXPERIMENTS),
      (''GetMetricHistoryBulkInterval'', RESOURCE_EXPERIMENTS),
      (''MlflowGetMetricHistoryBulkIntervalQuery'', RESOURCE_EXPERIMENTS),
      (''SearchModelVersions'', RESOURCE_REGISTERED_MODELS),
      (''MlflowSearchModelVersionsQuery'', RESOURCE_REGISTERED_MODELS),
      (''GetModelVersion'', RESOURCE_REGISTERED_MODELS),
      (''MlflowGetModelVersionQuery'', RESOURCE_REGISTERED_MODELS),
      (''GetRegisteredModel'', RESOURCE_REGISTERED_MODELS),
      (''MlflowGetRegisteredModelQuery'', RESOURCE_REGISTERED_MODELS),
      (''SearchRegisteredModels'', RESOURCE_REGISTERED_MODELS),
      (''MlflowSearchRegisteredModelsQuery'', RESOURCE_REGISTERED_MODELS)]"

definition K8S_GRAPHQL_OPERATION_VERB_MAP :: "(string \<times> string) list" where
  "K8S_GRAPHQL_OPERATION_VERB_MAP =
     [(''MlflowGetExperimentQuery'', ''get''),
      (''GetExperiment'', ''get''),
      (''GetRun'', ''get''),
      (''MlflowGetRunQuery'', ''get''),
      (''SearchRuns'', ''list''),
      (''MlflowSearchRunsQuery'', ''list''),
      (''GetMetricHistoryBulkInterval'', ''get''),
      (''MlflowGetMetricHistoryBulkIntervalQuery'', ''get''),
      (''SearchModelVersions'', ''list''),
      (''MlflowSearchModelVersionsQuery'', ''list''),
      (''GetModelVersion'', ''get''),
      (''MlflowGetModelVersionQuery'', ''get''),
      (''GetRegisteredModel'', ''get''),
      (''MlflowGetRegisteredModelQuery'', ''get''),
      (''SearchRegisteredModels'', ''list''),
      (''MlflowSearchRegisteredModelsQuery'', ''list'')]"

definition GRAPHQL_FIELD_RESOURCE_MAP :: "(string \<times> string) list" where
  "GRAPHQL_FIELD_RESOURCE_MAP =
     [(''mlflowGetExperiment'', RESOURCE_EXPERIMENTS),
      (''mlflowGetRun'', RESOURCE_EXPERIMENTS),
      (''mlflowSearchRuns'', RESOURCE_EXPERIMENTS),
      (''mlflowGetMetricHistoryBulkInterval'', RESOURCE_EXPERIMENTS),
      (''mlflowListArtifacts'', RESOURCE_EXPERIMENTS),
      (''mlflowSearchDatasets'', RESOURCE_EXPERIMENTS),
      (''mlflowSearchModelVersions'', RESOURCE_REGISTERED_MODELS),
      (''test'', RESOURCE_EXPERIMENTS),
      (''testMutation'', RESOURCE_EXPERIMENTS)]"

definition GRAPHQL_FIELD_VERB_MAP :: "(string \<times> string) list" where
  "GRAPHQL_FIELD_VERB_MAP =
     [(''mlflowGetExperiment'', ''get''),
      (''mlflowGetRun'', ''get''),
      (''mlflowSearchRuns'', ''list''),
      (''mlflowGetMetricHistoryBulkInterval'', ''get''),
      (''mlflowListArtifacts'', ''get''),
      (''mlflowSearchDatasets'', ''list''),
      (''mlflowSearchModelVersions'', ''list''),
      (''test'', ''get''),
      (''testMutation'', ''get'')]"

definition GRAPHQL_FIELD_AUTH_POLICY_SINGLE_OBJECT :: string where
  "GRAPHQL_FIELD_AUTH_POLICY_SINGLE_OBJECT = ''single_object''"

definition GRAPHQL_FIELD_AUTH_POLICY_REQUEST_FILTER :: string where
  "GRAPHQL_FIELD_AUTH_POLICY_REQUEST_FILTER = ''request_filter''"

definition GRAPHQL_FIELD_AUTH_POLICY_REQUEST_SCOPE :: string where
  "GRAPHQL_FIELD_AUTH_POLICY_REQUEST_SCOPE = ''request_scope''"

definition GRAPHQL_FIELD_AUTH_POLICY_BROAD_ONLY :: string where
  "GRAPHQL_FIELD_AUTH_POLICY_BROAD_ONLY = ''broad_only''"

definition GRAPHQL_FIELD_AUTH_POLICY_MAP :: "(string \<times> string) list" where
  "GRAPHQL_FIELD_AUTH_POLICY_MAP =
     [(''mlflowGetExperiment'', GRAPHQL_FIELD_AUTH_POLICY_SINGLE_OBJECT),
      (''mlflowGetRun'', GRAPHQL_FIELD_AUTH_POLICY_SINGLE_OBJECT),
      (''mlflowSearchRuns'', GRAPHQL_FIELD_AUTH_POLICY_REQUEST_FILTER),
      (''mlflowGetMetricHistoryBulkInterval'', GRAPHQL_FIELD_AUTH_POLICY_SINGLE_OBJECT),
      (''mlflowListArtifacts'', GRAPHQL_FIELD_AUTH_POLICY_SINGLE_OBJECT),
      (''mlflowSearchDatasets'', GRAPHQL_FIELD_AUTH_POLICY_REQUEST_FILTER),
      (''mlflowSearchModelVersions'', GRAPHQL_FIELD_AUTH_POLICY_REQUEST_SCOPE),
      (''test'', GRAPHQL_FIELD_AUTH_POLICY_BROAD_ONLY),
      (''testMutation'', GRAPHQL_FIELD_AUTH_POLICY_BROAD_ONLY)]"

definition GRAPHQL_FIELD_RESOURCE_NAME_PARSERS :: "(string \<times> resource_name_parser list) list" where
  "GRAPHQL_FIELD_RESOURCE_NAME_PARSERS =
     [(''mlflowGetExperiment'', [RESOURCE_NAME_PARSER_GRAPHQL_EXPERIMENT_ID_TO_NAME]),
      (''mlflowGetRun'', [RESOURCE_NAME_PARSER_GRAPHQL_RUN_ID_TO_EXPERIMENT_NAME]),
      (''mlflowGetMetricHistoryBulkInterval'', [RESOURCE_NAME_PARSER_GRAPHQL_RUN_IDS_TO_EXPERIMENT_NAMES]),
      (''mlflowListArtifacts'', [RESOURCE_NAME_PARSER_GRAPHQL_RUN_ID_TO_EXPERIMENT_NAME])]"

definition GRAPHQL_NESTED_MODEL_REGISTRY_FIELDS :: "string list" where
  "GRAPHQL_NESTED_MODEL_REGISTRY_FIELDS = [''modelVersions'']"

lemmas gql_policy_defs = GRAPHQL_FIELD_AUTH_POLICY_SINGLE_OBJECT_def
  GRAPHQL_FIELD_AUTH_POLICY_REQUEST_FILTER_def GRAPHQL_FIELD_AUTH_POLICY_REQUEST_SCOPE_def
  GRAPHQL_FIELD_AUTH_POLICY_BROAD_ONLY_def

definition build_graphql_operation_rules :: "exc + (string \<times> rule) list" where
  "build_graphql_operation_rules =
     (let resource_operations = map fst K8S_GRAPHQL_OPERATION_RESOURCE_MAP;
          verb_operations = map fst K8S_GRAPHQL_OPERATION_VERB_MAP in
      if set resource_operations \<noteq> set verb_operations then Inl PyValueError
      else fold (\<lambda>op acc. case acc of
             Inl e \<Rightarrow> Inl e
           | Inr rules \<Rightarrow>
               (case normalize_resource_name (map_of K8S_GRAPHQL_OPERATION_RESOURCE_MAP op) of
                  Inl e \<Rightarrow> Inl e
                | Inr res \<Rightarrow>
                    Inr (AList.update op
                      ((authorization_rule (map_of K8S_GRAPHQL_OPERATION_VERB_MAP op))\<lparr>rule_resource :=
                         (case res of None \<Rightarrow> Some RESOURCE_EXPERIMENTS | Some r \<Rightarrow>
                            if r = [] then Some RESOURCE_EXPERIMENTS else Some r)\<rparr>) rules)))
             resource_operations (Inr []))"

section \<open>Scanning a query\<close>

record gql_root_field =
  gf_name :: string
  gf_args :: pdict

record gql_info =
  gql_root_fields :: "string list"
  gql_nested :: bool
  gql_nested_roots :: "string list"
  gql_inputs :: "gql_root_field list"

definition empty_info :: gql_info where
  "empty_info = \<lparr>gql_root_fields = [], gql_nested = False, gql_nested_roots = [], gql_inputs = []\<rparr>"

definition field_arguments_to_dict ::
  "(string \<Rightarrow> pdict \<Rightarrow> pv) \<Rightarrow> (string \<times> string) list \<Rightarrow> pdict \<Rightarrow> pdict" where
  "field_arguments_to_dict ev arguments variables =
     fold (\<lambda>(n, v). AList.update n (ev v variables)) arguments []"

text \<open>A frame of the stack: the selections of a selection set, whether they are at the root, the root field.\<close>

type_synonym frame = "selection list \<times> bool \<times> string option"

record scan_state =
  sc_info :: gql_info
  sc_visited :: "string list"
  sc_stack :: "frame list"

definition note_root :: "(string \<Rightarrow> pdict \<Rightarrow> pv) \<Rightarrow> pdict \<Rightarrow> string \<Rightarrow> (string \<times> string) list \<Rightarrow> gql_info \<Rightarrow> gql_info" where
  "note_root ev variables name arguments i =
     i\<lparr>gql_root_fields := List.insert name (gql_root_fields i),
       gql_inputs := gql_inputs i @ [\<lparr>gf_name = name, gf_args = field_arguments_to_dict ev arguments variables\<rparr>]\<rparr>"

definition note_nested :: "string \<Rightarrow> string option \<Rightarrow> gql_info \<Rightarrow> gql_info" where
  "note_nested name root_name i =
     (if name \<in> set GRAPHQL_NESTED_MODEL_REGISTRY_FIELDS
      then i\<lparr>gql_nested := True,
             gql_nested_roots := (case root_name of None \<Rightarrow> gql_nested_roots i
               | Some r \<Rightarrow> List.insert r (gql_nested_roots i))\<rparr>
      else i)"

definition push :: "selection list option \<Rightarrow> bool \<Rightarrow> string option \<Rightarrow> scan_state \<Rightarrow> scan_state" where
  "push sels is_root root_name s =
     (case sels of None \<Rightarrow> s | Some ss \<Rightarrow> s\<lparr>sc_stack := (ss, is_root, root_name) # sc_stack s\<rparr>)"

text \<open>The loop over the selections of one popped frame; \<open>root_name\<close> is its loop variable.\<close>

fun scan_selections ::
  "(string \<Rightarrow> pdict \<Rightarrow> pv) \<Rightarrow> pdict \<Rightarrow> (string \<times> selection list option) list \<Rightarrow> bool \<Rightarrow> string option \<Rightarrow>
   selection list \<Rightarrow> scan_state \<Rightarrow> scan_state" where
  "scan_selections ev variables frags is_root root_name [] s = s"
| "scan_selections ev variables frags is_root root_name (Field name arguments sub # rest) s =
     (let root_name' = (if is_root then Some name else root_name);
          s1 = (if is_root then s\<lparr>sc_info := note_root ev variables name arguments (sc_info s)\<rparr> else s);
          s2 = s1\<lparr>sc_info := note_nested name root_name' (sc_info s1)\<rparr>
      in scan_selections ev variables frags is_root root_name' rest (push sub False root_name' s2))"
| "scan_selections ev variables frags is_root root_name (InlineFragment sub # rest) s =
     scan_selections ev variables frags is_root root_name rest (push sub is_root root_name s)"
| "scan_selections ev variables frags is_root root_name (FragmentSpread name # rest) s =
     scan_selections ev variables frags is_root root_name rest
       (if name \<in> set (sc_visited s) then s
        else (let s1 = s\<lparr>sc_visited := name # sc_visited s\<rparr> in
          case map_of frags name of None \<Rightarrow> s1 | Some sub \<Rightarrow> push sub is_root root_name s1))"

text \<open>The size of what is still to be scanned: the stack and the fragments not yet visited.\<close>

fun selection_weight :: "selection \<Rightarrow> nat" and selections_weight :: "selection list \<Rightarrow> nat" where
  "selection_weight (Field n a None) = 1"
| "selection_weight (Field n a (Some ss)) = Suc (Suc (selections_weight ss))"
| "selection_weight (InlineFragment None) = 1"
| "selection_weight (InlineFragment (Some ss)) = Suc (Suc (selections_weight ss))"
| "selection_weight (FragmentSpread n) = 1"
| "selections_weight [] = 0"
| "selections_weight (s # ss) = selection_weight s + selections_weight ss"

definition frame_weight :: "frame \<Rightarrow> nat" where
  "frame_weight f = Suc (selections_weight (fst f))"

fun sub_weight :: "selection list option \<Rightarrow> nat" where
  "sub_weight None = 0"
| "sub_weight (Some ss) = Suc (selections_weight ss)"

definition unvisited_weight :: "(string \<times> selection list option) list \<Rightarrow> string list \<Rightarrow> nat" where
  "unvisited_weight frags visited =
     sum_list (map (\<lambda>(n, sub). if n \<in> set visited then 0 else sub_weight sub) frags)"

definition scan_weight :: "(string \<times> selection list option) list \<Rightarrow> scan_state \<Rightarrow> nat" where
  "scan_weight frags s =
     sum_list (map frame_weight (sc_stack s)) + unvisited_weight frags (sc_visited s)"

lemma scan_weight_push [simp]:
  "scan_weight frags (push sub b r s) = scan_weight frags s + sub_weight sub"
  by (cases sub) (simp_all add: push_def scan_weight_def frame_weight_def)

lemma scan_weight_info [simp]: "scan_weight frags (s\<lparr>sc_info := i\<rparr>) = scan_weight frags s"
  by (simp add: scan_weight_def)

lemma unvisited_weight_visit:
  "name \<notin> set visited \<Longrightarrow>
   (case map_of frags name of None \<Rightarrow> 0 | Some sub \<Rightarrow> sub_weight sub) +
     unvisited_weight frags (name # visited) \<le> unvisited_weight frags visited"
proof (induction frags)
  case Nil
  then show ?case by (simp add: unvisited_weight_def)
next
  case (Cons f frags)
  have "unvisited_weight frags (name # visited) \<le> unvisited_weight frags visited"
    unfolding unvisited_weight_def by (rule sum_list_mono) auto
  with Cons show ?case by (cases f) (auto simp: unvisited_weight_def)
qed

lemma scan_weight_selections:
  "scan_weight frags (scan_selections ev variables frags is_root root_name ss s) \<le>
     scan_weight frags s + selections_weight ss"
proof (induction ev variables frags is_root root_name ss s rule: scan_selections.induct)
  case (2 ev variables frags is_root root_name name arguments sub rest s)
  show ?case using 2 by (cases sub) (fastforce simp: Let_def)+
next
  case (3 ev variables frags is_root root_name sub rest s)
  then show ?case by (cases sub) fastforce+
next
  case (4 ev variables frags is_root root_name name rest s)
  show ?case
  proof (cases "name \<in> set (sc_visited s)")
    case True
    with 4 show ?thesis by simp
  next
    case False
    let ?s1 = "s\<lparr>sc_visited := name # sc_visited s\<rparr>"
    have "scan_weight frags (case map_of frags name of None \<Rightarrow> ?s1 | Some sub \<Rightarrow> push sub is_root root_name ?s1)
        \<le> scan_weight frags s"
      using unvisited_weight_visit [OF False, of frags]
      by (auto simp: scan_weight_def push_def frame_weight_def split: option.splits)
    with False 4 show ?thesis by (simp add: Let_def)
  qed
qed simp

text \<open>The loop over the stack.\<close>

function scan_stack ::
  "(string \<Rightarrow> pdict \<Rightarrow> pv) \<Rightarrow> pdict \<Rightarrow> (string \<times> selection list option) list \<Rightarrow> scan_state \<Rightarrow> gql_info" where
  "scan_stack ev variables frags s =
     (case sc_stack s of
        [] \<Rightarrow> sc_info s
      | (sels, is_root, root_name) # rest \<Rightarrow>
          scan_stack ev variables frags
            (scan_selections ev variables frags is_root root_name sels (s\<lparr>sc_stack := rest\<rparr>)))"
  by pat_completeness auto

termination
proof (relation "measure (\<lambda>(ev, variables, frags, s). scan_weight frags s)")
  fix ev :: "string \<Rightarrow> pdict \<Rightarrow> pv" and variables frags f sels g is_root root_name rest
    and s :: scan_state
  assume "sc_stack s = f # rest" "(sels, g) = f" "(is_root, root_name) = g"
  then have "scan_weight frags (s\<lparr>sc_stack := rest\<rparr>) + selections_weight sels < scan_weight frags s"
    by (auto simp: scan_weight_def frame_weight_def)
  with scan_weight_selections [of frags ev variables is_root root_name sels "s\<lparr>sc_stack := rest\<rparr>"]
  show "((ev, variables, frags, scan_selections ev variables frags is_root root_name sels
      (s\<lparr>sc_stack := rest\<rparr>)), ev, variables, frags, s)
      \<in> measure (\<lambda>(ev, variables, frags, s). scan_weight frags s)"
    by simp
qed simp

declare scan_stack.simps [simp del]

text \<open>The same loop cut off after \<open>n\<close> rounds: no result if selection sets are left.\<close>

fun scan_rounds ::
  "nat \<Rightarrow> (string \<Rightarrow> pdict \<Rightarrow> pv) \<Rightarrow> pdict \<Rightarrow> (string \<times> selection list option) list \<Rightarrow> scan_state \<Rightarrow>
   gql_info option" where
  "scan_rounds 0 ev variables frags s = (if sc_stack s = [] then Some (sc_info s) else None)"
| "scan_rounds (Suc n) ev variables frags s =
     (case sc_stack s of
        [] \<Rightarrow> Some (sc_info s)
      | (sels, is_root, root_name) # rest \<Rightarrow>
          scan_rounds n ev variables frags
            (scan_selections ev variables frags is_root root_name sels (s\<lparr>sc_stack := rest\<rparr>)))"

lemma scan_weight_round:
  "sc_stack s = (sels, is_root, root_name) # rest \<Longrightarrow>
   scan_weight frags (scan_selections ev variables frags is_root root_name sels (s\<lparr>sc_stack := rest\<rparr>)) < scan_weight frags s"
  using scan_weight_selections [of frags ev variables is_root root_name sels "s\<lparr>sc_stack := rest\<rparr>"]
  by (simp add: scan_weight_def frame_weight_def)

lemma scan_rounds_enough:
  "scan_weight frags s \<le> n \<Longrightarrow> scan_rounds n ev variables frags s = Some (scan_stack ev variables frags s)"
proof (induction n arbitrary: s)
  case 0
  then have "sc_stack s = []" by (cases "sc_stack s") (auto simp: scan_weight_def frame_weight_def)
  then show ?case by (simp add: scan_stack.simps)
next
  case (Suc n)
  show ?case
  proof (cases "sc_stack s")
    case Nil
    then show ?thesis by (simp add: scan_stack.simps)
  next
    case (Cons f rest)
    obtain sels is_root root_name where f: "f = (sels, is_root, root_name)" by (cases f)
    from scan_weight_round [OF Cons [unfolded f], of frags ev variables] Suc
    show ?thesis by (simp add: Cons f scan_stack.simps [of ev variables frags s])
  qed
qed

definition fragment_definitions :: "gql_definition list \<Rightarrow> (string \<times> selection list option) list" where
  "fragment_definitions ds =
     rev (concat (map (\<lambda>d. case d of FragmentDefinition n sub \<Rightarrow> [(n, sub)] | _ \<Rightarrow> []) ds))"

definition scan_definition ::
  "(string \<Rightarrow> pdict \<Rightarrow> pv) \<Rightarrow> pdict \<Rightarrow> (string \<times> selection list option) list \<Rightarrow> gql_definition \<Rightarrow>
   gql_info \<Rightarrow> gql_info" where
  "scan_definition ev variables frags d i =
     (case d of
        OperationDefinition (Some ss) \<Rightarrow>
          scan_stack ev variables frags \<lparr>sc_info = i, sc_visited = [], sc_stack = [(ss, True, None)]\<rparr>
      | _ \<Rightarrow> i)"

definition extract_graphql_query_info :: "env \<Rightarrow> string \<Rightarrow> pdict option \<Rightarrow> gql_info" where
  "extract_graphql_query_info env query_string variables =
     (case env_graphql_parse env query_string of
        None \<Rightarrow> empty_info
      | Some ds \<Rightarrow>
          fold (scan_definition (env_value_from_ast env) (case variables of None \<Rightarrow> [] | Some v \<Rightarrow> v)
                 (fragment_definitions ds)) ds empty_info)"


section \<open>The scan finds what can be reached\<close>

text \<open>The selection sets one step below a selection set, through fields, inline fragments and spreads.\<close>

definition below :: "(string \<times> selection list option) list \<Rightarrow> selection list \<Rightarrow> selection list \<Rightarrow> bool" where
  "below frags ss sub \<longleftrightarrow>
     (\<exists>n a. Field n a (Some sub) \<in> set ss) \<or> InlineFragment (Some sub) \<in> set ss \<or>
     (\<exists>n. FragmentSpread n \<in> set ss \<and> map_of frags n = Some (Some sub))"

inductive reaches :: "(string \<times> selection list option) list \<Rightarrow> selection list \<Rightarrow> selection list \<Rightarrow> bool"
  for frags where
  reaches_self: "reaches frags ss ss"
| reaches_below: "reaches frags ss sub \<Longrightarrow> below frags sub sub' \<Longrightarrow> reaches frags ss sub'"

definition registry_field_in :: "selection list \<Rightarrow> bool" where
  "registry_field_in ss \<longleftrightarrow>
     (\<exists>n a sub. Field n a sub \<in> set ss \<and> n \<in> set GRAPHQL_NESTED_MODEL_REGISTRY_FIELDS)"

definition pending :: "scan_state \<Rightarrow> selection list set" where
  "pending s = fst ` set (sc_stack s)"

lemma pending_push [simp]:
  "pending (push sub b r s) = (case sub of None \<Rightarrow> pending s | Some ss \<Rightarrow> insert ss (pending s))"
  by (cases sub) (simp_all add: push_def pending_def)

lemma push_other [simp]:
  "sc_info (push sub b r s) = sc_info s" "sc_visited (push sub b r s) = sc_visited s"
  by (cases sub; simp add: push_def)+

lemma pending_frame [simp]:
  "pending (s\<lparr>sc_info := i\<rparr>) = pending s" "pending (s\<lparr>sc_visited := v\<rparr>) = pending s"
  by (simp_all add: pending_def)

lemma note_root_nested [simp]: "gql_nested (note_root ev variables name arguments i) = gql_nested i"
  by (simp add: note_root_def)

lemma note_nested_nested [simp]:
  "gql_nested (note_nested name r i) =
     (gql_nested i \<or> name \<in> set GRAPHQL_NESTED_MODEL_REGISTRY_FIELDS)"
  by (auto simp: note_nested_def)

text \<open>What one frame's loop leaves: nothing is lost, and each selection is queued or was visited.\<close>

definition sel_done :: "selection \<Rightarrow> scan_state \<Rightarrow> bool" where
  "sel_done x s =
     (case x of
        Field n a sub \<Rightarrow>
          (case sub of None \<Rightarrow> True | Some ss \<Rightarrow> ss \<in> pending s) \<and>
          (n \<in> set GRAPHQL_NESTED_MODEL_REGISTRY_FIELDS \<longrightarrow> gql_nested (sc_info s))
      | InlineFragment sub \<Rightarrow> (case sub of None \<Rightarrow> True | Some ss \<Rightarrow> ss \<in> pending s)
      | FragmentSpread n \<Rightarrow> n \<in> set (sc_visited s))"

definition grows :: "(string \<times> selection list option) list \<Rightarrow> scan_state \<Rightarrow> scan_state \<Rightarrow> bool" where
  "grows frags s s' \<longleftrightarrow>
     pending s \<subseteq> pending s' \<and> set (sc_visited s) \<subseteq> set (sc_visited s') \<and>
     (gql_nested (sc_info s) \<longrightarrow> gql_nested (sc_info s')) \<and>
     (\<forall>n \<in> set (sc_visited s') - set (sc_visited s). \<forall>sub.
        map_of frags n = Some (Some sub) \<longrightarrow> sub \<in> pending s')"

lemma grows_trans: "grows frags a b \<Longrightarrow> grows frags b c \<Longrightarrow> grows frags a c"
  unfolding grows_def by blast

lemma sel_done_grows: "sel_done x s \<Longrightarrow> grows frags s s' \<Longrightarrow> sel_done x s'"
  by (auto simp: sel_done_def grows_def split: selection.splits option.splits)

lemma scan_selections_done:
  "grows frags s (scan_selections ev variables frags is_root root_name ss s) \<and>
   (\<forall>x \<in> set ss. sel_done x (scan_selections ev variables frags is_root root_name ss s))"
proof (induction ev variables frags is_root root_name ss s rule: scan_selections.induct)
  case (1 ev variables frags is_root root_name s)
  show ?case by (simp add: grows_def)
next
  case (2 ev variables frags is_root root_name name arguments sub rest s)
  let ?r = "if is_root then Some name else root_name"
  let ?s1 = "if is_root then s\<lparr>sc_info := note_root ev variables name arguments (sc_info s)\<rparr> else s"
  let ?s2 = "push sub False ?r (?s1\<lparr>sc_info := note_nested name ?r (sc_info ?s1)\<rparr>)"
  have step: "grows frags s ?s2" "sel_done (Field name arguments sub) ?s2"
    by (auto simp: grows_def sel_done_def split: option.splits)
  with 2 [OF refl refl refl] show ?case
    by (auto simp: Let_def intro: grows_trans sel_done_grows)
next
  case (3 ev variables frags is_root root_name sub rest s)
  have "grows frags s (push sub is_root root_name s)"
    "sel_done (InlineFragment sub) (push sub is_root root_name s)"
    by (auto simp: grows_def sel_done_def split: option.splits)
  with 3 show ?case by (auto intro: grows_trans sel_done_grows)
next
  case (4 ev variables frags is_root root_name name rest s)
  let ?s1 = "if name \<in> set (sc_visited s) then s
    else (let s1 = s\<lparr>sc_visited := name # sc_visited s\<rparr> in
      case map_of frags name of None \<Rightarrow> s1 | Some sub \<Rightarrow> push sub is_root root_name s1)"
  have "grows frags s ?s1" "sel_done (FragmentSpread name) ?s1"
    by (auto simp: grows_def sel_done_def Let_def split: option.splits)
  with 4 show ?case by (auto intro: grows_trans sel_done_grows)
qed

text \<open>\<open>done\<close> are the selection sets already scanned.\<close>

definition scan_inv :: "(string \<times> selection list option) list \<Rightarrow> selection list set \<Rightarrow> scan_state \<Rightarrow> bool" where
  "scan_inv frags scanned s \<longleftrightarrow>
     (\<forall>d \<in> scanned. (registry_field_in d \<longrightarrow> gql_nested (sc_info s)) \<and>
        (\<forall>c. below frags d c \<longrightarrow> c \<in> scanned \<union> pending s)) \<and>
     (\<forall>n \<in> set (sc_visited s). \<forall>sub. map_of frags n = Some (Some sub) \<longrightarrow> sub \<in> scanned \<union> pending s)"

lemma scan_inv_step:
  assumes inv: "scan_inv frags scanned s" and top: "sc_stack s = (sels, is_root, root_name) # rest"
  shows "scan_inv frags (insert sels scanned)
    (scan_selections ev variables frags is_root root_name sels (s\<lparr>sc_stack := rest\<rparr>))"
    (is "scan_inv frags _ ?s'")
proof -
  have g: "grows frags (s\<lparr>sc_stack := rest\<rparr>) ?s'" and d: "\<forall>x \<in> set sels. sel_done x ?s'"
    using scan_selections_done [of frags "s\<lparr>sc_stack := rest\<rparr>"] by blast+
  have p: "pending s = insert sels (pending (s\<lparr>sc_stack := rest\<rparr>))"
    by (simp add: pending_def top)
  have visited: "\<forall>n \<in> set (sc_visited ?s'). \<forall>sub. map_of frags n = Some (Some sub) \<longrightarrow>
      sub \<in> insert sels scanned \<union> pending ?s'"
    using inv g p unfolding scan_inv_def grows_def by (simp, blast)
  have own: "(registry_field_in sels \<longrightarrow> gql_nested (sc_info ?s')) \<and>
      (\<forall>c. below frags sels c \<longrightarrow> c \<in> insert sels scanned \<union> pending ?s')"
    using d visited by (fastforce simp: registry_field_in_def below_def sel_done_def split: option.splits)
  have "\<forall>x \<in> scanned. (registry_field_in x \<longrightarrow> gql_nested (sc_info ?s')) \<and>
      (\<forall>c. below frags x c \<longrightarrow> c \<in> insert sels scanned \<union> pending ?s')"
    using inv g p unfolding scan_inv_def grows_def by (simp, blast)
  with own visited show ?thesis unfolding scan_inv_def by blast
qed

lemma scan_stack_complete:
  "scan_inv frags scanned s \<Longrightarrow> d0 \<in> scanned \<union> pending s \<Longrightarrow> reaches frags d0 d \<Longrightarrow>
   registry_field_in d \<Longrightarrow> gql_nested (scan_stack ev variables frags s)"
proof (induction ev variables frags s arbitrary: scanned rule: scan_stack.induct)
  case (1 ev variables frags s)
  show ?case
  proof (cases "sc_stack s")
    case Nil
    then have none: "pending s = {}" by (simp add: pending_def)
    have "d \<in> scanned"
      using "1.prems"(3) "1.prems"(1,2) none
      by (induction rule: reaches.induct) (auto simp: scan_inv_def)
    with "1.prems" Nil show ?thesis by (simp add: scan_stack.simps scan_inv_def)
  next
    case (Cons f rest)
    obtain sels is_root root_name where f: "f = (sels, is_root, root_name)" by (cases f)
    note top = Cons [unfolded f]
    let ?s' = "scan_selections ev variables frags is_root root_name sels (s\<lparr>sc_stack := rest\<rparr>)"
    have "pending s \<subseteq> insert sels (pending ?s')"
      using scan_selections_done [of frags "s\<lparr>sc_stack := rest\<rparr>" ev variables is_root root_name sels] top
      by (auto simp: grows_def pending_def)
    then have "d0 \<in> insert sels scanned \<union> pending ?s'" using "1.prems"(2) by auto
    with "1.IH" [OF top refl refl scan_inv_step [OF "1.prems"(1) top] _ "1.prems"(3,4)] top
    show ?thesis by (simp add: scan_stack.simps [of ev variables frags s])
  qed
qed


lemma scan_stack_mono: "gql_nested (sc_info s) \<Longrightarrow> gql_nested (scan_stack ev variables frags s)"
proof (induction ev variables frags s rule: scan_stack.induct)
  case (1 ev variables frags s)
  show ?case
  proof (cases "sc_stack s")
    case Nil
    with "1.prems" show ?thesis by (simp add: scan_stack.simps)
  next
    case (Cons f rest)
    obtain sels is_root root_name where f: "f = (sels, is_root, root_name)" by (cases f)
    note top = Cons [unfolded f]
    have "gql_nested (sc_info (scan_selections ev variables frags is_root root_name sels
        (s\<lparr>sc_stack := rest\<rparr>)))"
      using scan_selections_done [of frags "s\<lparr>sc_stack := rest\<rparr>" ev variables is_root root_name sels]
        "1.prems" by (auto simp: grows_def)
    with "1.IH" [OF top refl refl] top show ?thesis by (simp add: scan_stack.simps [of ev variables frags s])
  qed
qed

lemma scan_definition_mono: "gql_nested i \<Longrightarrow> gql_nested (scan_definition ev variables frags d i)"
  by (auto simp: scan_definition_def scan_stack_mono split: gql_definition.splits option.splits)

lemma scan_definitions_mono: "gql_nested i \<Longrightarrow> gql_nested (fold (scan_definition ev variables frags) ds i)"
  by (induction ds arbitrary: i) (auto intro: scan_definition_mono)

lemma scan_definition_complete:
  assumes "reaches frags ss d" "registry_field_in d"
  shows "gql_nested (scan_definition ev variables frags (OperationDefinition (Some ss)) i)"
proof -
  let ?s = "\<lparr>sc_info = i, sc_visited = [], sc_stack = [(ss, True, None)]\<rparr>"
  have "scan_inv frags {} ?s" by (simp add: scan_inv_def)
  moreover have "ss \<in> {} \<union> pending ?s" by (simp add: pending_def)
  ultimately show ?thesis
    using scan_stack_complete [OF _ _ assms] by (simp add: scan_definition_def)
qed

lemma scan_definitions_complete:
  "OperationDefinition (Some ss) \<in> set ds \<Longrightarrow> reaches frags ss d \<Longrightarrow> registry_field_in d \<Longrightarrow>
   gql_nested (fold (scan_definition ev variables frags) ds i)"
  by (induction ds arbitrary: i) (auto intro: scan_definitions_mono scan_definition_complete)

text \<open>Root fields written in an operation or in its inline fragments.\<close>

inductive inline_root :: "selection list \<Rightarrow> string \<Rightarrow> bool" where
  root_field: "Field n a sub \<in> set ss \<Longrightarrow> inline_root ss n"
| root_inline: "InlineFragment (Some sub) \<in> set ss \<Longrightarrow> inline_root sub n \<Longrightarrow> inline_root ss n"

inductive_cases inline_rootE: "inline_root ss n"

definition root_done :: "bool \<Rightarrow> selection \<Rightarrow> scan_state \<Rightarrow> bool" where
  "root_done is_root x s =
     (case x of
        Field n a sub \<Rightarrow> is_root \<longrightarrow> n \<in> set (gql_root_fields (sc_info s))
      | InlineFragment (Some ss) \<Rightarrow> \<exists>r. (ss, is_root, r) \<in> set (sc_stack s)
      | _ \<Rightarrow> True)"

definition root_grows :: "scan_state \<Rightarrow> scan_state \<Rightarrow> bool" where
  "root_grows s s' \<longleftrightarrow>
     set (sc_stack s) \<subseteq> set (sc_stack s') \<and>
     set (gql_root_fields (sc_info s)) \<subseteq> set (gql_root_fields (sc_info s'))"

lemma root_grows_trans: "root_grows a b \<Longrightarrow> root_grows b c \<Longrightarrow> root_grows a c"
  unfolding root_grows_def by blast

lemma root_done_grows: "root_done b x s \<Longrightarrow> root_grows s s' \<Longrightarrow> root_done b x s'"
  by (auto simp: root_done_def root_grows_def split: selection.splits option.splits)

lemma note_roots [simp]:
  "set (gql_root_fields (note_root ev variables n a i)) = insert n (set (gql_root_fields i))"
  "gql_root_fields (note_nested n r i) = gql_root_fields i"
  by (auto simp: note_root_def note_nested_def)

lemma push_stack [simp]: "set (sc_stack (push sub b r s)) =
    (case sub of None \<Rightarrow> set (sc_stack s) | Some ss \<Rightarrow> insert (ss, b, r) (set (sc_stack s)))"
  by (cases sub) (simp_all add: push_def)

lemma scan_selections_roots:
  "root_grows s (scan_selections ev variables frags is_root root_name ss s) \<and>
   (\<forall>x \<in> set ss. root_done is_root x (scan_selections ev variables frags is_root root_name ss s))"
proof (induction ev variables frags is_root root_name ss s rule: scan_selections.induct)
  case (1 ev variables frags is_root root_name s)
  show ?case by (simp add: root_grows_def)
next
  case (2 ev variables frags is_root root_name name arguments sub rest s)
  let ?r = "if is_root then Some name else root_name"
  let ?s1 = "if is_root then s\<lparr>sc_info := note_root ev variables name arguments (sc_info s)\<rparr> else s"
  let ?s2 = "push sub False ?r (?s1\<lparr>sc_info := note_nested name ?r (sc_info ?s1)\<rparr>)"
  have "root_grows s ?s2" "root_done is_root (Field name arguments sub) ?s2"
    by (auto simp: root_grows_def root_done_def split: option.splits)
  with 2 [OF refl refl refl] show ?case
    by (auto simp: Let_def intro: root_grows_trans root_done_grows)
next
  case (3 ev variables frags is_root root_name sub rest s)
  have "root_grows s (push sub is_root root_name s)"
    "root_done is_root (InlineFragment sub) (push sub is_root root_name s)"
    by (auto simp: root_grows_def root_done_def split: option.splits)
  with 3 show ?case by (auto intro: root_grows_trans root_done_grows)
next
  case (4 ev variables frags is_root root_name name rest s)
  let ?s1 = "if name \<in> set (sc_visited s) then s
    else (let s1 = s\<lparr>sc_visited := name # sc_visited s\<rparr> in
      case map_of frags name of None \<Rightarrow> s1 | Some sub \<Rightarrow> push sub is_root root_name s1)"
  have "root_grows s ?s1" "root_done is_root (FragmentSpread name) ?s1"
    by (auto simp: root_grows_def root_done_def Let_def split: option.splits)
  with 4 show ?case by (auto intro: root_grows_trans root_done_grows)
qed

lemma scan_stack_roots:
  "n \<in> set (gql_root_fields (sc_info s)) \<or>
   (\<exists>ss r. (ss, True, r) \<in> set (sc_stack s) \<and> inline_root ss n) \<Longrightarrow>
   n \<in> set (gql_root_fields (scan_stack ev variables frags s))"
proof (induction ev variables frags s rule: scan_stack.induct)
  case (1 ev variables frags s)
  show ?case
  proof (cases "sc_stack s")
    case Nil
    with "1.prems" show ?thesis by (simp add: scan_stack.simps)
  next
    case (Cons f rest)
    obtain sels is_root root_name where f: "f = (sels, is_root, root_name)" by (cases f)
    note top = Cons [unfolded f]
    let ?s' = "scan_selections ev variables frags is_root root_name sels (s\<lparr>sc_stack := rest\<rparr>)"
    have g: "root_grows (s\<lparr>sc_stack := rest\<rparr>) ?s'" and d: "\<forall>x \<in> set sels. root_done is_root x ?s'"
      using scan_selections_roots by blast+
    have "n \<in> set (gql_root_fields (sc_info ?s')) \<or>
        (\<exists>ss r. (ss, True, r) \<in> set (sc_stack ?s') \<and> inline_root ss n)"
      if root: is_root and inl: "inline_root sels n"
      using inl
    proof (rule inline_rootE)
      fix a sub assume "Field n a sub \<in> set sels"
      from bspec [OF d this] root show ?thesis by (simp add: root_done_def)
    next
      fix sub assume sub: "InlineFragment (Some sub) \<in> set sels" "inline_root sub n"
      from bspec [OF d sub(1)] root sub(2) show ?thesis by (auto simp: root_done_def)
    qed
    then have "n \<in> set (gql_root_fields (sc_info ?s')) \<or>
        (\<exists>ss r. (ss, True, r) \<in> set (sc_stack ?s') \<and> inline_root ss n)"
      using "1.prems" g top unfolding root_grows_def by fastforce
    with "1.IH" [OF top refl refl] top show ?thesis by (simp add: scan_stack.simps [of ev variables frags s])
  qed
qed

lemma scan_definition_roots:
  "n \<in> set (gql_root_fields i) \<Longrightarrow> n \<in> set (gql_root_fields (scan_definition ev variables frags d i))"
  "inline_root ss n \<Longrightarrow>
   n \<in> set (gql_root_fields (scan_definition ev variables frags (OperationDefinition (Some ss)) i))"
  by (auto simp: scan_definition_def intro!: scan_stack_roots split: gql_definition.splits option.splits)

lemma scan_definitions_roots:
  "n \<in> set (gql_root_fields i) \<or> (\<exists>ss. OperationDefinition (Some ss) \<in> set ds \<and> inline_root ss n) \<Longrightarrow>
   n \<in> set (gql_root_fields (fold (scan_definition ev variables frags) ds i))"
proof (induction ds arbitrary: i)
  case (Cons d ds)
  from Cons.prems have "n \<in> set (gql_root_fields (scan_definition ev variables frags d i)) \<or>
      (\<exists>ss. OperationDefinition (Some ss) \<in> set ds \<and> inline_root ss n)"
    by (auto intro: scan_definition_roots)
  from Cons.IH [OF this] show ?case by simp
qed auto

section \<open>The rules of a query\<close>

type_synonym gql_key = "string \<times> string \<times> string"

record gql_rules =
  gr_unknown :: "string list"
  gr_rules :: "(gql_key \<times> resource_name_parser list) list"
  gr_filterable :: "(gql_key \<times> bool) list"
  gr_scope :: "gql_key list"

definition root_field_has_filterable_experiment_ids :: "gql_root_field \<Rightarrow> bool" where
  "root_field_has_filterable_experiment_ids f =
     (case dget (gf_args f) ''input'' of
        PDict input \<Rightarrow> (case py_or (dget input ''experimentIds'') (dget input ''experiment_ids'') of
          PList l \<Rightarrow> l \<noteq> [] | _ \<Rightarrow> False)
      | _ \<Rightarrow> False)"

definition all_request_filter_occurrences_are_filterable :: "gql_info \<Rightarrow> string \<Rightarrow> bool" where
  "all_request_filter_occurrences_are_filterable i name =
     (let matching = filter (\<lambda>f. gf_name f = name) (gql_inputs i)
      in matching \<noteq> [] \<and> list_all root_field_has_filterable_experiment_ids matching)"

definition field_policy :: "string \<Rightarrow> string" where
  "field_policy f = (case map_of GRAPHQL_FIELD_AUTH_POLICY_MAP f of
     None \<Rightarrow> GRAPHQL_FIELD_AUTH_POLICY_BROAD_ONLY | Some p \<Rightarrow> p)"

definition field_verb :: "string \<Rightarrow> string" where
  "field_verb f = (case map_of GRAPHQL_FIELD_VERB_MAP f of None \<Rightarrow> ''get'' | Some v \<Rightarrow> v)"

definition field_parsers :: "string \<Rightarrow> resource_name_parser list" where
  "field_parsers f =
     (if field_policy f = GRAPHQL_FIELD_AUTH_POLICY_SINGLE_OBJECT
      then (case map_of GRAPHQL_FIELD_RESOURCE_NAME_PARSERS f of None \<Rightarrow> [] | Some ps \<Rightarrow> ps)
      else [])"

definition graphql_field_step :: "gql_info \<Rightarrow> string \<Rightarrow> gql_rules \<Rightarrow> gql_rules" where
  "graphql_field_step i f g =
     (case map_of GRAPHQL_FIELD_RESOURCE_MAP f of
        None \<Rightarrow> g\<lparr>gr_unknown := gr_unknown g @ [f]\<rparr>
      | Some res \<Rightarrow>
          let key = (field_verb f, res, field_policy f);
              existing = (case map_of (gr_rules g) key of None \<Rightarrow> [] | Some ps \<Rightarrow> ps);
              parsers = (if existing = [] then field_parsers f else dedupe (existing @ field_parsers f));
              g1 = g\<lparr>gr_rules := AList.update key parsers (gr_rules g)\<rparr>
          in if field_policy f = GRAPHQL_FIELD_AUTH_POLICY_REQUEST_FILTER
             then g1\<lparr>gr_filterable := AList.update key
                ((case map_of (gr_filterable g) key of None \<Rightarrow> True | Some b \<Rightarrow> b) \<and>
                  all_request_filter_occurrences_are_filterable i f) (gr_filterable g)\<rparr>
             else if field_policy f = GRAPHQL_FIELD_AUTH_POLICY_REQUEST_SCOPE
             then g1\<lparr>gr_scope := List.insert key (gr_scope g)\<rparr>
             else g1)"

definition needs_broad_registry_read :: "gql_info \<Rightarrow> bool" where
  "needs_broad_registry_read i \<longleftrightarrow>
     gql_nested i \<and>
     list_ex (\<lambda>f. \<not> (map_of GRAPHQL_FIELD_RESOURCE_MAP f = Some RESOURCE_REGISTERED_MODELS \<and>
                map_of GRAPHQL_FIELD_AUTH_POLICY_MAP f = Some GRAPHQL_FIELD_AUTH_POLICY_REQUEST_SCOPE))
       (gql_nested_roots i)"

definition registry_read_key :: gql_key where
  "registry_read_key = (''get'', RESOURCE_REGISTERED_MODELS, GRAPHQL_FIELD_AUTH_POLICY_BROAD_ONLY)"

definition graphql_key_policy :: "gql_rules \<Rightarrow> gql_key \<Rightarrow> collection_policy_id option" where
  "graphql_key_policy g key =
     (if map_of (gr_filterable g) key = Some True \<or> key \<in> set (gr_scope g)
      then Some COLLECTION_POLICY_GRAPHQL_FILTER else None)"

definition graphql_key_rule :: "gql_rules \<Rightarrow> gql_key \<Rightarrow> rule" where
  "graphql_key_rule g key =
     (case key of (verb, res, policy) \<Rightarrow>
        (authorization_rule (Some verb))\<lparr>rule_resource := Some res,
           resource_name_parsers := (case map_of (gr_rules g) key of None \<Rightarrow> [] | Some ps \<Rightarrow> ps),
           collection_policy := graphql_key_policy g key\<rparr>)"

definition graphql_rules_state :: "gql_info \<Rightarrow> gql_rules" where
  "graphql_rules_state i =
     fold (graphql_field_step i) (sort (remdups (gql_root_fields i)))
       \<lparr>gr_unknown = [],
        gr_rules = (if needs_broad_registry_read i then [(registry_read_key, [])] else []),
        gr_filterable = [], gr_scope = []\<rparr>"

definition determine_graphql_rules :: "gql_info \<Rightarrow> rule list option" where
  "determine_graphql_rules i =
     (let g = graphql_rules_state i in
      if gr_unknown g \<noteq> [] then None
      else if gr_rules g = [] then None
      else Some (map (graphql_key_rule g) (sort (map fst (gr_rules g)))))"


section \<open>The rules cover the query\<close>

definition field_key :: "string \<Rightarrow> string \<Rightarrow> gql_key" where
  "field_key f res = (field_verb f, res, field_policy f)"

text \<open>What holds of the fields \<open>fs\<close> already processed, one part at a time.\<close>

definition known_cover :: "string set \<Rightarrow> gql_rules \<Rightarrow> bool" where
  "known_cover fs g \<longleftrightarrow>
     (\<forall>f \<in> fs. map_of GRAPHQL_FIELD_RESOURCE_MAP f = None \<longrightarrow> gr_unknown g \<noteq> [])"

definition rules_cover :: "string set \<Rightarrow> gql_rules \<Rightarrow> bool" where
  "rules_cover fs g \<longleftrightarrow>
     (\<forall>f \<in> fs. \<forall>res. map_of GRAPHQL_FIELD_RESOURCE_MAP f = Some res \<longrightarrow>
        (\<exists>ps. map_of (gr_rules g) (field_key f res) = Some ps \<and> set (field_parsers f) \<subseteq> set ps))"

definition filter_cover :: "gql_info \<Rightarrow> string set \<Rightarrow> gql_rules \<Rightarrow> bool" where
  "filter_cover i fs g \<longleftrightarrow>
     (\<forall>f \<in> fs. \<forall>res. map_of GRAPHQL_FIELD_RESOURCE_MAP f = Some res \<longrightarrow>
        field_policy f = GRAPHQL_FIELD_AUTH_POLICY_REQUEST_FILTER \<longrightarrow>
        (\<exists>b. map_of (gr_filterable g) (field_key f res) = Some b \<and>
           (b \<longrightarrow> all_request_filter_occurrences_are_filterable i f)))"

definition scope_cover :: "gql_rules \<Rightarrow> bool" where
  "scope_cover g \<longleftrightarrow>
     (\<forall>v r p. (v, r, p) \<in> set (gr_scope g) \<longrightarrow> p = GRAPHQL_FIELD_AUTH_POLICY_REQUEST_SCOPE) \<and>
     (\<forall>v r p b. map_of (gr_filterable g) (v, r, p) = Some b \<longrightarrow> p = GRAPHQL_FIELD_AUTH_POLICY_REQUEST_FILTER)"

lemma map_of_update [simp]: "map_of (AList.update k v al) k' = (if k' = k then Some v else map_of al k')"
  by (simp add: update_conv')

lemma step_unknown:
  "map_of GRAPHQL_FIELD_RESOURCE_MAP f = None \<Longrightarrow>
   graphql_field_step i f g = g\<lparr>gr_unknown := gr_unknown g @ [f]\<rparr>"
  by (simp add: graphql_field_step_def)

lemma step_known:
  assumes "map_of GRAPHQL_FIELD_RESOURCE_MAP f = Some res"
  shows "gr_unknown (graphql_field_step i f g) = gr_unknown g"
    "\<exists>ps. gr_rules (graphql_field_step i f g) = AList.update (field_key f res) ps (gr_rules g) \<and>
       set ps = set (field_parsers f) \<union>
         (case map_of (gr_rules g) (field_key f res) of None \<Rightarrow> {} | Some old \<Rightarrow> set old)"
    "gr_filterable (graphql_field_step i f g) =
       (if field_policy f = GRAPHQL_FIELD_AUTH_POLICY_REQUEST_FILTER
        then AList.update (field_key f res)
          ((case map_of (gr_filterable g) (field_key f res) of None \<Rightarrow> True | Some b \<Rightarrow> b) \<and>
            all_request_filter_occurrences_are_filterable i f) (gr_filterable g)
        else gr_filterable g)"
    "gr_scope (graphql_field_step i f g) =
       (if field_policy f = GRAPHQL_FIELD_AUTH_POLICY_REQUEST_SCOPE
        then List.insert (field_key f res) (gr_scope g) else gr_scope g)"
proof -
  show "gr_unknown (graphql_field_step i f g) = gr_unknown g"
    using assms by (simp add: graphql_field_step_def Let_def)
  let ?old = "case map_of (gr_rules g) (field_key f res) of None \<Rightarrow> [] | Some ps \<Rightarrow> ps"
  have "gr_rules (graphql_field_step i f g) = AList.update (field_key f res)
      (if ?old = [] then field_parsers f else dedupe (?old @ field_parsers f)) (gr_rules g)"
    using assms by (simp add: graphql_field_step_def Let_def field_key_def)
  then show "\<exists>ps. gr_rules (graphql_field_step i f g) = AList.update (field_key f res) ps (gr_rules g) \<and>
       set ps = set (field_parsers f) \<union>
         (case map_of (gr_rules g) (field_key f res) of None \<Rightarrow> {} | Some old \<Rightarrow> set old)"
    by (intro exI conjI, assumption) (auto split: option.splits)
  show "gr_filterable (graphql_field_step i f g) =
       (if field_policy f = GRAPHQL_FIELD_AUTH_POLICY_REQUEST_FILTER
        then AList.update (field_key f res)
          ((case map_of (gr_filterable g) (field_key f res) of None \<Rightarrow> True | Some b \<Rightarrow> b) \<and>
            all_request_filter_occurrences_are_filterable i f) (gr_filterable g)
        else gr_filterable g)"
    using assms by (simp add: graphql_field_step_def Let_def field_key_def)
  show "gr_scope (graphql_field_step i f g) =
       (if field_policy f = GRAPHQL_FIELD_AUTH_POLICY_REQUEST_SCOPE
        then List.insert (field_key f res) (gr_scope g) else gr_scope g)"
    using assms by (simp add: graphql_field_step_def Let_def field_key_def gql_policy_defs)
qed

lemma field_key_policy: "field_key f res = (v, r, p) \<Longrightarrow> p = field_policy f \<and> r = res \<and> v = field_verb f"
  by (simp add: field_key_def)

lemma cover_step:
  assumes "known_cover fs g" "rules_cover fs g" "filter_cover i fs g" "scope_cover g"
  shows "known_cover (insert f fs) (graphql_field_step i f g) \<and>
    rules_cover (insert f fs) (graphql_field_step i f g) \<and>
    filter_cover i (insert f fs) (graphql_field_step i f g) \<and>
    scope_cover (graphql_field_step i f g)"
proof (cases "map_of GRAPHQL_FIELD_RESOURCE_MAP f")
  case None
  with assms show ?thesis
    by (auto simp: step_unknown known_cover_def rules_cover_def filter_cover_def scope_cover_def)
next
  case (Some res)
  note step = step_known [OF Some, of i g]
  have "known_cover (insert f fs) (graphql_field_step i f g)"
    using assms(1) Some by (simp add: known_cover_def step(1))
  moreover have "rules_cover (insert f fs) (graphql_field_step i f g)"
    using assms(2) Some step(2) unfolding rules_cover_def
    by (elim exE conjE) (fastforce split: option.splits)
  moreover have "filter_cover i (insert f fs) (graphql_field_step i f g)"
    unfolding filter_cover_def
  proof (intro ballI allI impI)
    fix fa resa
    assume fa: "fa \<in> insert f fs" and resa: "map_of GRAPHQL_FIELD_RESOURCE_MAP fa = Some resa"
      and pol: "field_policy fa = GRAPHQL_FIELD_AUTH_POLICY_REQUEST_FILTER"
    show "\<exists>b. map_of (gr_filterable (graphql_field_step i f g)) (field_key fa resa) = Some b \<and>
        (b \<longrightarrow> all_request_filter_occurrences_are_filterable i fa)"
    proof (cases "field_key fa resa = field_key f res")
      case True
      then have "field_policy f = GRAPHQL_FIELD_AUTH_POLICY_REQUEST_FILTER"
        using pol by (simp add: field_key_def)
      with True assms(3) fa resa pol show ?thesis
        unfolding filter_cover_def step(3) by fastforce
    next
      case False
      with fa resa Some have "fa \<in> fs" by auto
      with assms(3) resa pol False show ?thesis unfolding filter_cover_def step(3) by auto
    qed
  qed
  moreover have "scope_cover (graphql_field_step i f g)"
    using assms(4) unfolding scope_cover_def step(3,4) field_key_def
    by auto
  ultimately show ?thesis by blast
qed

lemma cover_fold:
  "known_cover fs g \<Longrightarrow> rules_cover fs g \<Longrightarrow> filter_cover i fs g \<Longrightarrow> scope_cover g \<Longrightarrow>
   known_cover (set xs \<union> fs) (fold (graphql_field_step i) xs g) \<and>
   rules_cover (set xs \<union> fs) (fold (graphql_field_step i) xs g) \<and>
   filter_cover i (set xs \<union> fs) (fold (graphql_field_step i) xs g) \<and>
   scope_cover (fold (graphql_field_step i) xs g)"
proof (induction xs arbitrary: fs g)
  case (Cons x xs)
  from Cons.IH [of "insert x fs" "graphql_field_step i x g"] cover_step [OF Cons.prems, of x]
  show ?case by auto
qed simp

lemma rules_state_cover:
  "known_cover (set (gql_root_fields i)) (graphql_rules_state i) \<and>
   rules_cover (set (gql_root_fields i)) (graphql_rules_state i) \<and>
   filter_cover i (set (gql_root_fields i)) (graphql_rules_state i) \<and>
   scope_cover (graphql_rules_state i)"
  using cover_fold [of "{}" "\<lparr>gr_unknown = [],
        gr_rules = (if needs_broad_registry_read i then [(registry_read_key, [])] else []),
        gr_filterable = [], gr_scope = []\<rparr>" i "sort (remdups (gql_root_fields i))"]
  unfolding graphql_rules_state_def
  by (simp add: known_cover_def rules_cover_def filter_cover_def scope_cover_def)


section \<open>Properties\<close>

text \<open>
  C36: no nested model registry read escapes the scan. If any selection set reachable from an operation,
  through fields, inline fragments and fragment spreads of any depth and with cycles, selects a model
  registry field, the scan reports nested registry access; and it always ends.
\<close>

theorem extract_finds_nested_registry_access:
  assumes "env_graphql_parse env q = Some ds" and "OperationDefinition (Some ss) \<in> set ds"
    and "reaches (fragment_definitions ds) ss d" and "registry_field_in d"
  shows "gql_nested (extract_graphql_query_info env q variables)"
  using scan_definitions_complete [OF assms(2-4)] assms(1) by (simp add: extract_graphql_query_info_def)

definition demo_document :: "gql_definition list" where
  "demo_document =
     [OperationDefinition (Some [Field ''mlflowGetRun'' [] (Some [FragmentSpread ''F''])]),
      FragmentDefinition ''F'' (Some [InlineFragment (Some [Field ''modelVersions'' [] None, FragmentSpread ''F''])])]"

definition demo_gql_env :: "env \<Rightarrow> env" where
  "demo_gql_env env = env\<lparr>env_graphql_parse := \<lambda>q. Some demo_document\<rparr>"

theorem extract_finds_nested_registry_access_witness:
  "\<forall>env q variables. gql_nested (extract_graphql_query_info (demo_gql_env env) q variables)"
proof (intro allI, rule extract_finds_nested_registry_access)
  fix env and q :: string and variables :: "pdict option"
  show "env_graphql_parse (demo_gql_env env) q = Some demo_document" by (simp add: demo_gql_env_def)
  show "OperationDefinition (Some [Field ''mlflowGetRun'' [] (Some [FragmentSpread ''F''])]) \<in> set demo_document"
    by (simp add: demo_document_def)
  let ?F = "[InlineFragment (Some [Field ''modelVersions'' [] None, FragmentSpread ''F''])]"
  have frags: "fragment_definitions demo_document = [(''F'', Some ?F)]"
    by (simp add: fragment_definitions_def demo_document_def)
  show "reaches (fragment_definitions demo_document) [Field ''mlflowGetRun'' [] (Some [FragmentSpread ''F''])]
      [Field ''modelVersions'' [] None, FragmentSpread ''F'']"
    by (rule reaches_below [OF reaches_below [OF reaches_below [OF reaches_self,
          where sub' = "[FragmentSpread ''F'']"], where sub' = ?F]])
       (simp_all add: below_def frags)
  show "registry_field_in [Field ''modelVersions'' [] None, FragmentSpread ''F'']"
    by (auto simp: registry_field_in_def GRAPHQL_NESTED_MODEL_REGISTRY_FIELDS_def)
qed

definition covers_field :: "gql_info \<Rightarrow> string \<Rightarrow> rule \<Rightarrow> bool" where
  "covers_field i f r \<longleftrightarrow>
     rule_verb r = Some (field_verb f) \<and> rule_resource r = map_of GRAPHQL_FIELD_RESOURCE_MAP f \<and>
     rule_resource r \<noteq> None \<and> set (field_parsers f) \<subseteq> set (resource_name_parsers r) \<and>
     \<not> allow_if_resource_reference_missing r \<and>
     (collection_policy r \<noteq> None \<longrightarrow>
        field_policy f = GRAPHQL_FIELD_AUTH_POLICY_REQUEST_SCOPE \<or>
        field_policy f = GRAPHQL_FIELD_AUTH_POLICY_REQUEST_FILTER \<and>
          all_request_filter_occurrences_are_filterable i f)"

lemma graphql_key_rule_covers:
  assumes "rules_cover fs g" "filter_cover i fs g" "scope_cover g" "f \<in> fs"
    and "map_of GRAPHQL_FIELD_RESOURCE_MAP f = Some res"
  shows "covers_field i f (graphql_key_rule g (field_key f res))"
proof -
  obtain ps where ps: "map_of (gr_rules g) (field_verb f, res, field_policy f) = Some ps"
    "set (field_parsers f) \<subseteq> set ps"
    using assms(1,4,5) unfolding rules_cover_def field_key_def by blast
  have scope: "(field_verb f, res, field_policy f) \<in> set (gr_scope g) \<Longrightarrow>
      field_policy f = GRAPHQL_FIELD_AUTH_POLICY_REQUEST_SCOPE"
    using assms(3) unfolding scope_cover_def by blast
  have filt: "map_of (gr_filterable g) (field_verb f, res, field_policy f) = Some True \<Longrightarrow>
      field_policy f = GRAPHQL_FIELD_AUTH_POLICY_REQUEST_FILTER \<and>
      all_request_filter_occurrences_are_filterable i f"
    using assms(2-5) unfolding scope_cover_def filter_cover_def field_key_def by fastforce
  show ?thesis
    using ps(2) scope filt
    by (simp add: covers_field_def graphql_key_rule_def field_key_def ps(1) assms(5)
        authorization_rule_def graphql_key_policy_def)
qed

lemma fold_keeps_keys:
  "set (map fst (gr_rules g)) \<subseteq> set (map fst (gr_rules (fold (graphql_field_step i) xs g)))"
proof (induction xs arbitrary: g)
  case (Cons x xs)
  have "set (map fst (gr_rules g)) \<subseteq> set (map fst (gr_rules (graphql_field_step i x g)))"
  proof (cases "map_of GRAPHQL_FIELD_RESOURCE_MAP x")
    case None
    then show ?thesis by (simp add: step_unknown)
  next
    case (Some res)
    then obtain ps where "gr_rules (graphql_field_step i x g) = AList.update (field_key x res) ps (gr_rules g)"
      using step_known(2) by blast
    then show ?thesis by (simp only: set_map dom_update Un_upper2)
  qed
  with Cons.IH [of "graphql_field_step i x g"] show ?case by auto
qed simp

lemma field_resource_ok:
  "map_of GRAPHQL_FIELD_RESOURCE_MAP f = Some res \<Longrightarrow> res \<in> set ALLOWED_RESOURCES"
  by (drule map_of_SomeD) (auto simp: GRAPHQL_FIELD_RESOURCE_MAP_def ALLOWED_RESOURCES_def)

lemma field_verb_ok: "field_verb f \<in> set [''get'', ''list'']"
proof (cases "map_of GRAPHQL_FIELD_VERB_MAP f")
  case (Some v)
  then have "(f, v) \<in> set GRAPHQL_FIELD_VERB_MAP" by (rule map_of_SomeD)
  then show ?thesis by (auto simp: field_verb_def Some GRAPHQL_FIELD_VERB_MAP_def)
qed (simp add: field_verb_def)

definition key_ok :: "gql_key \<Rightarrow> bool" where
  "key_ok k = (fst k \<in> set [''get'', ''list''] \<and> fst (snd k) \<in> set ALLOWED_RESOURCES)"

lemma fold_keys_ok:
  "\<forall>k \<in> fst ` set (gr_rules g). key_ok k \<Longrightarrow>
   \<forall>k \<in> fst ` set (gr_rules (fold (graphql_field_step i) xs g)). key_ok k"
proof (induction xs arbitrary: g)
  case (Cons x xs)
  have "\<forall>k \<in> fst ` set (gr_rules (graphql_field_step i x g)). key_ok k"
  proof (cases "map_of GRAPHQL_FIELD_RESOURCE_MAP x")
    case None
    with Cons.prems show ?thesis by (simp add: step_unknown)
  next
    case (Some res)
    then obtain ps where "gr_rules (graphql_field_step i x g) = AList.update (field_key x res) ps (gr_rules g)"
      using step_known(2) by blast
    moreover have "key_ok (field_key x res)"
      using field_resource_ok [OF Some] field_verb_ok by (simp add: key_ok_def field_key_def)
    ultimately show ?thesis using Cons.prems by (simp only: dom_update) blast
  qed
  from Cons.IH [OF this] show ?case by simp
qed simp

lemma rules_state_keys_ok: "\<forall>k \<in> fst ` set (gr_rules (graphql_rules_state i)). key_ok k"
  unfolding graphql_rules_state_def
  by (rule fold_keys_ok) (simp add: key_ok_def registry_read_key_def ALLOWED_RESOURCES_def)

lemma graphql_key_rule_wf: "key_ok k \<Longrightarrow> wf_rule (graphql_key_rule g k)"
  by (cases k) (auto simp: key_ok_def graphql_key_rule_def wf_rule_def authorization_rule_def)

text \<open>
  C37: the rules of a query cover it. When rules are determined, every root field has a rule with its
  verb, its resource and at least its name parsers; a collection policy comes only from a field scoped by the resolver or one whose every occurrence names experiment ids,
  and nested registry access outside the model version search adds a read of the whole registry.
\<close>

theorem determine_graphql_rules_cover:
  assumes "determine_graphql_rules i = Some rules"
  shows "(\<forall>f \<in> set (gql_root_fields i). \<exists>r \<in> set rules. covers_field i f r) \<and>
    (needs_broad_registry_read i \<longrightarrow>
       (\<exists>r \<in> set rules. rule_verb r = Some ''get'' \<and> rule_resource r = Some RESOURCE_REGISTERED_MODELS)) \<and>
    rules \<noteq> [] \<and> list_all wf_rule rules"
proof -
  let ?g = "graphql_rules_state i"
  note cover = rules_state_cover [of i]
  from assms have known: "gr_unknown ?g = []" and some: "gr_rules ?g \<noteq> []"
    and rules: "rules = map (graphql_key_rule ?g) (sort (map fst (gr_rules ?g)))"
    by (auto simp: determine_graphql_rules_def Let_def split: if_splits)
  have fields: "\<exists>r \<in> set rules. covers_field i f r" if f: "f \<in> set (gql_root_fields i)" for f
  proof -
    obtain res where res: "map_of GRAPHQL_FIELD_RESOURCE_MAP f = Some res"
      using cover f known by (cases "map_of GRAPHQL_FIELD_RESOURCE_MAP f") (auto simp: known_cover_def)
    then obtain ps where "map_of (gr_rules ?g) (field_key f res) = Some ps"
      using cover f unfolding rules_cover_def by blast
    then have "(field_key f res, ps) \<in> set (gr_rules ?g)" by (rule map_of_SomeD)
    then have "graphql_key_rule ?g (field_key f res) \<in> set rules" by (force simp: rules)
    moreover have "covers_field i f (graphql_key_rule ?g (field_key f res))"
      by (rule graphql_key_rule_covers [OF _ _ _ f res]) (use cover in auto)
    ultimately show ?thesis by blast
  qed
  have "registry_read_key \<in> set (map fst (gr_rules ?g))" if "needs_broad_registry_read i"
    using fold_keeps_keys [of "\<lparr>gr_unknown = [], gr_rules = [(registry_read_key, [])],
        gr_filterable = [], gr_scope = []\<rparr>" i] that
    by (auto simp: graphql_rules_state_def)
  then have broad: "needs_broad_registry_read i \<longrightarrow>
      (\<exists>r \<in> set rules. rule_verb r = Some ''get'' \<and> rule_resource r = Some RESOURCE_REGISTERED_MODELS)"
    by (force simp: rules graphql_key_rule_def registry_read_key_def authorization_rule_def)
  have "list_all wf_rule rules"
    using rules_state_keys_ok [of i] by (auto simp: rules list_all_iff intro!: graphql_key_rule_wf)
  moreover have "rules \<noteq> []"
  proof -
    have "length rules = length (gr_rules ?g)" by (simp add: rules)
    with some show ?thesis by auto
  qed
  ultimately show ?thesis using fields broad by blast
qed


definition demo_info :: gql_info where
  "demo_info =
     \<lparr>gql_root_fields = [''mlflowGetRun'', ''mlflowSearchRuns''], gql_nested = True,
      gql_nested_roots = [''mlflowGetRun''],
      gql_inputs = [\<lparr>gf_name = ''mlflowSearchRuns'',
        gf_args = [(''input'', PDict [(''experimentIds'', PList [PStr ''7''])])]\<rparr>]\<rparr>"

theorem determine_graphql_rules_cover_witness:
  "\<exists>rules. determine_graphql_rules demo_info = Some rules \<and>
     (\<exists>r \<in> set rules. covers_field demo_info ''mlflowSearchRuns'' r) \<and>
     (\<exists>r \<in> set rules. rule_resource r = Some RESOURCE_REGISTERED_MODELS)"
proof -
  have "gr_unknown (graphql_rules_state demo_info) = []" "gr_rules (graphql_rules_state demo_info) \<noteq> []"
    by code_simp+
  then obtain rules where r: "determine_graphql_rules demo_info = Some rules"
    by (simp add: determine_graphql_rules_def Let_def)
  have "''mlflowSearchRuns'' \<in> set (gql_root_fields demo_info)" "needs_broad_registry_read demo_info"
    by code_simp+
  with determine_graphql_rules_cover [OF r] r show ?thesis by blast
qed

definition document_size :: "selection list \<Rightarrow> (string \<times> selection list option) list \<Rightarrow> nat" where
  "document_size ss frags = Suc (selections_weight ss) + sum_list (map (\<lambda>(n, sub). sub_weight sub) frags)"

text \<open>
  C16: the scan of a query ends after a number of rounds linear in the document. Whatever the operation,
  its fragments and their references to each other, cycles included, the loop has emptied its stack after
  at most as many rounds as the operation and the fragments, each counted once, have selections and
  selection sets, and its result is that of the unbounded loop.
\<close>

theorem graphql_scan_takes_linear_rounds:
  "scan_rounds (document_size ss frags) ev variables frags
     \<lparr>sc_info = i, sc_visited = [], sc_stack = [(ss, True, None)]\<rparr> =
   Some (scan_stack ev variables frags \<lparr>sc_info = i, sc_visited = [], sc_stack = [(ss, True, None)]\<rparr>)"
  by (rule scan_rounds_enough) (simp add: scan_weight_def frame_weight_def unvisited_weight_def document_size_def)

text \<open>
  A limit of the scan: it visits a fragment once, under the root field and at the level it is first met, last
  root field first. Here the registry field of a fragment that two root fields share is attributed to the
  model version search alone, and no broad registry read is asked for; and a fragment met below the root is
  not scanned again at the root, so its root field is missed. The parser accepts both documents; whether a
  schema has a type that makes them valid is up to MLflow.
\<close>

definition scan_document :: "gql_definition list \<Rightarrow> gql_info" where
  "scan_document ds = fold (scan_definition (\<lambda>_ _. PNone) [] (fragment_definitions ds)) ds empty_info"

definition shared_fragment :: "gql_definition list" where
  "shared_fragment =
     [OperationDefinition (Some [Field ''mlflowSearchRuns'' [] (Some [FragmentSpread ''F'']),
        Field ''mlflowSearchModelVersions'' [] (Some [FragmentSpread ''F''])]),
      FragmentDefinition ''F'' (Some [Field ''modelVersions'' [] None])]"

definition shadowed_fragment :: "gql_definition list" where
  "shadowed_fragment =
     [OperationDefinition (Some [InlineFragment (Some [FragmentSpread ''F'']),
        Field ''mlflowSearchModelVersions'' [] (Some [FragmentSpread ''F''])]),
      FragmentDefinition ''F'' (Some [Field ''mlflowGetRun'' [] None])]"

lemma shared_fragment_attributed_once:
  "gql_nested (scan_document shared_fragment) \<and> \<not> needs_broad_registry_read (scan_document shared_fragment)"
  by code_simp

lemma shadowed_fragment_root_missed:
  "gql_root_fields (scan_document shadowed_fragment) = [''mlflowSearchModelVersions'']"
  by code_simp

end
