(* ===== verification/Resource_Names.thy ===== *)
theory Resource_Names
  imports Authorizer Rules Request_Context Graphql
begin

text \<open>
  \<open>auth/resource_names.py\<close>: which named objects a request refers to. Parameters come from the place
  MLflow reads them from, identifiers are resolved to names through the stores and the three name
  caches of the state, and every parser of \<open>RESOURCE_NAME_PARSERS\<close> is a definition of its own.
  \<open>ResolutionExc\<close> is \<open>ResourceNameResolutionError\<close>, \<open>ReferenceMissingExc\<close> its subclass
  \<open>ResourceReferenceNotPresentError\<close>.
\<close>

section \<open>Values of a request\<close>

definition normalize_string :: "pv \<Rightarrow> string option" where
  "normalize_string v = (case v of PStr s \<Rightarrow> nonempty (py_strip s) | _ \<Rightarrow> None)"

fun get_nested_mapping :: "pdict \<Rightarrow> string list \<Rightarrow> string \<Rightarrow> exc + pdict" where
  "get_nested_mapping m [] context = Inl (ResolutionExc (context @ '' is required for authorization.''))"
| "get_nested_mapping m (k # ks) context =
     (case dget m k of PDict d \<Rightarrow> Inr d | _ \<Rightarrow> get_nested_mapping m ks context)"

definition normalize_values :: "pv \<Rightarrow> string list" where
  "normalize_values v =
     (let raw = (case v of PList l \<Rightarrow> l | PNone \<Rightarrow> [] | x \<Rightarrow> [x])
      in concat (map (\<lambda>x. case normalize_string x of None \<Rightarrow> [] | Some s \<Rightarrow> [s]) raw))"

definition get_single_value :: "pdict \<Rightarrow> string \<Rightarrow> string option" where
  "get_single_value m k =
     (case dget m k of
        PList l \<Rightarrow> (case normalize_values (PList l) of
            [] \<Rightarrow> None
          | x # xs \<Rightarrow> if list_all (\<lambda>y. y = x) xs then Some x else None)
      | v \<Rightarrow> normalize_string v)"

definition json_dict :: "request \<Rightarrow> pdict option" where
  "json_dict rq = as_dict (rq_json_body rq)"

text \<open>The mapping a parameter is read from, by method; the body counts only when it is an object.\<close>

definition param_source :: "request \<Rightarrow> exc + pdict" where
  "param_source rq =
     (let m = py_upper (rq_method rq); body = (case json_dict rq of None \<Rightarrow> [] | Some d \<Rightarrow> d) in
      if m = ''GET'' then Inr (rq_query_params rq)
      else if m \<in> set [''POST'', ''PATCH'', ''PUT''] then Inr body
      else if m = ''DELETE''
      then Inr (if json_dict rq \<noteq> None then body else rq_query_params rq)
      else Inl (ResolutionExc (''Unsupported HTTP method '' @ rq_method rq @ '' for authorization parsing.'')))"

definition param_values_of :: "request \<Rightarrow> string \<Rightarrow> exc + string list" where
  "param_values_of rq param =
     (case param_source rq of
        Inl e \<Rightarrow> Inl e
      | Inr m \<Rightarrow> Inr (normalize_values (dget m param) @ normalize_values (dget (rq_path_params rq) param)))"

definition get_request_param_values :: "request \<Rightarrow> string \<Rightarrow> exc + string list" where
  "get_request_param_values rq param =
     (case param_values_of rq param of
        Inl e \<Rightarrow> Inl e
      | Inr vs \<Rightarrow> if vs = [] \<and> param = ''run_id'' then param_values_of rq ''run_uuid'' else Inr vs)"

definition is_explicit_empty_request_param_value :: "pv \<Rightarrow> bool" where
  "is_explicit_empty_request_param_value v =
     (case v of
        PStr s \<Rightarrow> s = []
      | PList l \<Rightarrow> l \<noteq> [] \<and> list_all (\<lambda>x. case x of PStr s \<Rightarrow> s = [] | _ \<Rightarrow> False) l
      | _ \<Rightarrow> False)"

record optional_param =
  op_value :: "string option"
  op_is_present :: bool
  op_is_explicitly_empty :: bool

definition optional_param_of :: "request \<Rightarrow> string \<Rightarrow> exc + optional_param" where
  "optional_param_of rq param =
     (case param_source rq of
        Inl e \<Rightarrow> Inl e
      | Inr m \<Rightarrow>
          let value = (case get_single_value m param of
                Some v \<Rightarrow> Some v | None \<Rightarrow> get_single_value (rq_path_params rq) param);
              mappings = filter (\<lambda>d. dhas d param)
                ([rq_path_params rq, rq_query_params rq] @
                 (case json_dict rq of None \<Rightarrow> [] | Some d \<Rightarrow> [d]))
          in Inr \<lparr>op_value = value, op_is_present = (mappings \<noteq> []),
                  op_is_explicitly_empty =
                    list_ex (\<lambda>d. is_explicit_empty_request_param_value (dget d param)) mappings\<rparr>)"

definition get_optional_request_param_result :: "request \<Rightarrow> string \<Rightarrow> exc + optional_param" where
  "get_optional_request_param_result rq param =
     (case optional_param_of rq param of
        Inl e \<Rightarrow> Inl e
      | Inr r \<Rightarrow>
          if op_value r = None \<and> param = ''run_id''
          then (case optional_param_of rq ''run_uuid'' of
                  Inl e \<Rightarrow> Inl e
                | Inr u \<Rightarrow> Inr (if op_value u \<noteq> None then u else r))
          else Inr r)"

definition get_optional_request_param :: "request \<Rightarrow> string \<Rightarrow> exc + string option" where
  "get_optional_request_param rq param = map_sum id op_value (get_optional_request_param_result rq param)"

definition get_request_param :: "request \<Rightarrow> string \<Rightarrow> exc + string" where
  "get_request_param rq param =
     (case get_optional_request_param rq param of
        Inl e \<Rightarrow> Inl e
      | Inr None \<Rightarrow>
          Inl (ResolutionExc (''Missing required parameter '' @ quoted param @ '' for authorization.''))
      | Inr (Some v) \<Rightarrow> Inr v)"

definition get_header :: "request \<Rightarrow> string \<Rightarrow> string option" where
  "get_header rq header_name =
     (case map_of (rq_headers rq) (py_lower header_name) of
        None \<Rightarrow> None | Some v \<Rightarrow> normalize_string (PStr v))"

section \<open>Caches and stores\<close>

datatype name_cache = ExperimentNames | RunExperiments

fun name_cache_of :: "name_cache \<Rightarrow> world \<Rightarrow> (string, string) ttl_cache" where
  "name_cache_of ExperimentNames w = experiment_name_cache w"
| "name_cache_of RunExperiments w = run_experiment_name_cache w"

fun set_name_cache :: "name_cache \<Rightarrow> (string, string) ttl_cache \<Rightarrow> world \<Rightarrow> world" where
  "set_name_cache ExperimentNames c w = w\<lparr>experiment_name_cache := c\<rparr>"
| "set_name_cache RunExperiments c w = w\<lparr>run_experiment_name_cache := c\<rparr>"

definition name_cache_get :: "env \<Rightarrow> name_cache \<Rightarrow> string \<Rightarrow> (world, string option) eff" where
  "name_cache_get env n k =
     andthen (ask (env_now env)) (\<lambda>now w.
       case lookup_get now k (name_cache_of n w) of (r, c) \<Rightarrow> (Inr r, set_name_cache n c w))"

definition name_cache_set :: "env \<Rightarrow> name_cache \<Rightarrow> string \<Rightarrow> string \<Rightarrow> (world, unit) eff" where
  "name_cache_set env n k v =
     andthen (ask (env_now env)) (\<lambda>now w.
       case cache_set now k v (name_cache_of n w) of
         Inl e \<Rightarrow> (Inl e, w)
       | Inr c \<Rightarrow> (Inr (), set_name_cache n c w))"

definition attr :: "pv \<Rightarrow> string \<Rightarrow> pv" where
  "attr e name = (case e of PDict d \<Rightarrow> dget d name | _ \<Rightarrow> PNone)"

text \<open>A store call: MLflow's own exception becomes a resolution error, any other one passes.\<close>

definition store_get :: "env \<Rightarrow> store_lookup \<Rightarrow> string \<Rightarrow> string \<Rightarrow> (world, pv) eff" where
  "store_get env kind key msg =
     handle (ask_res (\<lambda>t. env_lookup env t kind key))
       (\<lambda>e. raise (case e of MlflowExc _ _ \<Rightarrow> ResolutionExc msg | _ \<Rightarrow> e))"

definition store_attr ::
  "env \<Rightarrow> store_lookup \<Rightarrow> string \<Rightarrow> string \<Rightarrow> string \<Rightarrow> string \<Rightarrow> (world, string) eff" where
  "store_attr env kind key name msg missing =
     andthen (store_get env kind key msg) (\<lambda>e.
       case normalize_string (attr e name) of
         None \<Rightarrow> raise (ResolutionExc missing)
       | Some n \<Rightarrow> ret n)"

definition resolve_experiment_name_from_experiment_id :: "env \<Rightarrow> string \<Rightarrow> (world, string) eff" where
  "resolve_experiment_name_from_experiment_id env i =
     andthen (name_cache_get env ExperimentNames i) (\<lambda>cached.
       if cached \<noteq> None \<and> cached \<noteq> Some [] then ret (opt_text cached)
       else andthen (store_attr env LkExperiment i ''name''
              (''Could not resolve experiment for experiment_id '' @ quoted i @ ''.'')
              (''Could not resolve experiment name for experiment_id '' @ quoted i @ ''.'')) (\<lambda>n.
            andthen (name_cache_set env ExperimentNames i n) (\<lambda>_. ret n)))"

definition lookup_experiment_id_by_name :: "env \<Rightarrow> string \<Rightarrow> (world, string option) eff" where
  "lookup_experiment_id_by_name env name =
     andthen (store_get env LkExperimentByName name
       (''Could not resolve experiment named '' @ quoted name @ ''.'')) (\<lambda>e.
       if e = PNone then ret None
       else if attr e ''name'' \<noteq> PStr name
       then raise (ResolutionExc ''Experiment name lookup returned a different name.'')
       else case normalize_string (attr e ''experiment_id'') of
         None \<Rightarrow> raise (ResolutionExc ''Experiment name lookup returned no ID.'')
       | Some i \<Rightarrow> ret (Some i))"

text \<open>\<open>_ExperimentIdLookupCache.resolve\<close> around the store call.\<close>

definition id_cache_resolve :: "env \<Rightarrow> string option \<times> string \<Rightarrow> (world, string option) eff" where
  "id_cache_resolve env key =
     andthen (ask (env_now env)) (\<lambda>now.
     andthen (\<lambda>w. case id_begin now key (experiment_id_cache w) of
                (r, c) \<Rightarrow> (Inr r, w\<lparr>experiment_id_cache := c\<rparr>)) (\<lambda>begun.
       case begun of
         Inl i \<Rightarrow> ret (Some i)
       | Inr g \<Rightarrow>
           andthen (lookup_experiment_id_by_name env (snd key)) (\<lambda>found.
           andthen (ask (env_now env)) (\<lambda>now' w.
             case id_finish now' key g found (experiment_id_cache w) of
               Inl e \<Rightarrow> (Inl e, w)
             | Inr c \<Rightarrow> (Inr found, w\<lparr>experiment_id_cache := c\<rparr>)))))"

definition resolve_experiment_ids_from_names :: "env \<Rightarrow> string list \<Rightarrow> (world, string list) eff" where
  "resolve_experiment_ids_from_names env names =
     andthen (map_eff (\<lambda>n. id_cache_resolve env (env_request_workspace env, n)) (dedupe names))
       (\<lambda>found. ret (dedupe (concat (map (\<lambda>x. case x of None \<Rightarrow> [] | Some i \<Rightarrow> [i]) found))))"

definition resolve_experiment_name_from_run_id :: "env \<Rightarrow> string \<Rightarrow> (world, string) eff" where
  "resolve_experiment_name_from_run_id env run_id =
     andthen (name_cache_get env RunExperiments run_id) (\<lambda>cached.
       if cached \<noteq> None \<and> cached \<noteq> Some []
       then resolve_experiment_name_from_experiment_id env (opt_text cached)
       else andthen (store_get env LkRun run_id (''Could not resolve run_id '' @ quoted run_id @ ''.'')) (\<lambda>run.
         case normalize_string (attr (attr run ''info'') ''experiment_id'') of
           None \<Rightarrow> raise (ResolutionExc (''Could not resolve experiment_id for run_id '' @ quoted run_id @ ''.''))
         | Some i \<Rightarrow> andthen (name_cache_set env RunExperiments run_id i)
             (\<lambda>_. resolve_experiment_name_from_experiment_id env i)))"

definition resolve_dataset_name_from_dataset_id :: "env \<Rightarrow> string \<Rightarrow> (world, string) eff" where
  "resolve_dataset_name_from_dataset_id env i =
     store_attr env LkDataset i ''name'' (''Could not resolve dataset_id '' @ quoted i @ ''.'')
       (''Could not resolve dataset name for dataset_id '' @ quoted i @ ''.'')"

text \<open>An object of an experiment: its \<open>experiment_id\<close>, then the name of the experiment.\<close>

definition experiment_of :: "env \<Rightarrow> store_lookup \<Rightarrow> string \<Rightarrow> string \<Rightarrow> (world, string) eff" where
  "experiment_of env kind label i =
     andthen (store_attr env kind i ''experiment_id''
       (''Could not resolve '' @ label @ '' '' @ quoted i @ ''.'')
       (''Could not resolve experiment_id for '' @ label @ '' '' @ quoted i @ ''.''))
       (resolve_experiment_name_from_experiment_id env)"

definition resolve_experiment_name_from_model_id :: "env \<Rightarrow> string \<Rightarrow> (world, string) eff" where
  "resolve_experiment_name_from_model_id env i = experiment_of env LkLoggedModel ''model_id'' i"

definition resolve_experiment_name_from_job_id :: "env \<Rightarrow> string \<Rightarrow> (world, string) eff" where
  "resolve_experiment_name_from_job_id env i =
     andthen (store_get env LkJob i (''Could not resolve job_id '' @ quoted i @ ''.'')) (\<lambda>job.
       let v = attr job ''params'' in
       if truthy v \<and> as_str v = None then raise PyTypeError
       else case env_json_loads env (case v of PStr raw \<Rightarrow> if raw = [] then ''{}'' else raw | _ \<Rightarrow> ''{}'') of
         None \<Rightarrow> raise (ResolutionExc (''Could not decode job params for job_id '' @ quoted i @ ''.''))
       | Some (PDict params) \<Rightarrow>
           (case normalize_string (dget params ''experiment_id'') of
              None \<Rightarrow> raise (ResolutionExc (''Could not resolve experiment_id for job_id '' @ quoted i @ ''.''))
            | Some x \<Rightarrow> resolve_experiment_name_from_experiment_id env x)
       | Some _ \<Rightarrow> raise OtherExc)"

definition resolve_experiment_name_from_issue_id :: "env \<Rightarrow> string \<Rightarrow> (world, string) eff" where
  "resolve_experiment_name_from_issue_id env i =
     (if \<not> env_has_lookup env LkIssue
      then raise (ResolutionExc ''Issue lookup is unavailable in this MLflow version.'')
      else experiment_of env LkIssue ''issue_id'' i)"

definition resolve_experiment_name_from_trace_id :: "env \<Rightarrow> string \<Rightarrow> (world, string) eff" where
  "resolve_experiment_name_from_trace_id env i = experiment_of env LkTraceInfo ''trace_id'' i"

definition resolve_registered_model_name_from_webhook_id :: "env \<Rightarrow> string \<Rightarrow> (world, string) eff" where
  "resolve_registered_model_name_from_webhook_id env i =
     (if \<not> env_has_lookup env LkWebhook
      then raise (ResolutionExc ''Webhook lookup is unavailable in this MLflow version.'')
      else store_attr env LkWebhook i ''name'' (''Could not resolve webhook_id '' @ quoted i @ ''.'')
        (''Could not resolve registered model name for webhook_id '' @ quoted i @ ''.''))"

definition resolve_gateway_secret_name_from_secret_id :: "env \<Rightarrow> string \<Rightarrow> (world, string) eff" where
  "resolve_gateway_secret_name_from_secret_id env i =
     (if \<not> env_has_lookup env LkSecret
      then raise (ResolutionExc ''Gateway secret lookup is unavailable in this MLflow version.'')
      else store_attr env LkSecret i ''secret_name'' (''Could not resolve secret_id '' @ quoted i @ ''.'')
        (''Could not resolve gateway secret name for secret_id '' @ quoted i @ ''.''))"

definition resolve_gateway_endpoint_name_from_endpoint_id :: "env \<Rightarrow> string \<Rightarrow> (world, string) eff" where
  "resolve_gateway_endpoint_name_from_endpoint_id env i =
     store_attr env LkGatewayEndpoint i ''name'' (''Could not resolve endpoint_id '' @ quoted i @ ''.'')
       (''Could not resolve gateway endpoint name for endpoint_id '' @ quoted i @ ''.'')"

definition resolve_gateway_model_definition_name_from_id :: "env \<Rightarrow> string \<Rightarrow> (world, string) eff" where
  "resolve_gateway_model_definition_name_from_id env i =
     store_attr env LkGatewayModelDefinition i ''name''
       (''Could not resolve model_definition_id '' @ quoted i @ ''.'')
       (''Could not resolve gateway model definition name for model_definition_id '' @ quoted i @ ''.'')"

section \<open>Parsers\<close>

type_synonym name_parser = "env \<Rightarrow> request \<Rightarrow> (world, string list) eff"

text \<open>\<open>(f(_get_request_param(request_context, p)),)\<close>.\<close>

definition one_param :: "string \<Rightarrow> (env \<Rightarrow> string \<Rightarrow> (world, string) eff) \<Rightarrow> name_parser" where
  "one_param p f env rq =
     andthen (lift (get_request_param rq p)) (\<lambda>v. andthen (f env v) (\<lambda>n. ret [n]))"

definition as_is :: "env \<Rightarrow> string \<Rightarrow> (world, string) eff" where
  "as_is env s = ret s"

text \<open>A parser of an optional reference: a missing parameter is \<open>ReferenceMissingExc\<close>.\<close>

definition optional_one :: "string \<Rightarrow> string \<Rightarrow> (env \<Rightarrow> string \<Rightarrow> (world, string) eff) \<Rightarrow> name_parser" where
  "optional_one p msg f env rq =
     andthen (lift (get_optional_request_param rq p)) (\<lambda>v.
       case v of
         None \<Rightarrow> raise (ReferenceMissingExc msg)
       | Some x \<Rightarrow> andthen (f env x) (\<lambda>n. ret [n]))"

definition digits_prefix :: "string \<Rightarrow> string option" where
  "digits_prefix s =
     (let ds = takeWhile (\<lambda>c. c \<in> set ''0123456789'') s
      in if ds \<noteq> [] \<and> startswith (drop (length ds) s) ''/'' then Some ds else None)"

definition get_experiment_id_from_artifact_request :: "request \<Rightarrow> string option" where
  "get_experiment_id_from_artifact_request rq =
     (case get_single_value (rq_path_params rq) ''artifact_path'' of
        Some p \<Rightarrow> digits_prefix p
      | None \<Rightarrow> (case get_single_value (rq_query_params rq) ''path'' of
          Some p \<Rightarrow> digits_prefix p | None \<Rightarrow> None))"

definition parse_experiment_name :: name_parser where
  "parse_experiment_name = one_param ''experiment_name'' as_is"

definition parse_experiment_id_to_name :: name_parser where
  "parse_experiment_id_to_name env rq =
     andthen (lift (get_optional_request_param_result rq ''experiment_id'')) (\<lambda>r.
       case op_value r of
         None \<Rightarrow>
           if op_is_explicitly_empty r
           then raise (ReferenceMissingExc ''Request did not provide a usable experiment_id reference.'')
           else if op_is_present r
           then raise (ResolutionExc (''Missing required parameter '' @ quoted ''experiment_id'' @ '' for authorization.''))
           else raise (ReferenceMissingExc ''Request did not provide a usable experiment_id reference.'')
       | Some i \<Rightarrow> andthen (resolve_experiment_name_from_experiment_id env i) (\<lambda>n. ret [n]))"

definition parse_experiment_ids_to_names :: name_parser where
  "parse_experiment_ids_to_names env rq =
     andthen (lift (get_request_param_values rq ''experiment_ids'')) (\<lambda>is.
       if is = []
       then raise (ResolutionExc (''Missing required parameter '' @ quoted ''experiment_ids'' @ '' for authorization.''))
       else map_eff (resolve_experiment_name_from_experiment_id env) (dedupe is))"

definition parse_new_experiment_name :: name_parser where
  "parse_new_experiment_name = one_param ''new_name'' as_is"

definition parse_run_id_to_experiment_name :: name_parser where
  "parse_run_id_to_experiment_name env rq =
     andthen (lift (get_optional_request_param rq ''run_id'')) (\<lambda>v.
       let run_id = (case v of
             Some x \<Rightarrow> Some x
           | None \<Rightarrow> if rq_path rq = ''/ajax-api/2.0/mlflow/upload-artifact''
               then (case get_single_value (rq_query_params rq) ''run_id'' of
                       Some x \<Rightarrow> Some x
                     | None \<Rightarrow> get_single_value (rq_query_params rq) ''run_uuid'')
               else None)
       in case run_id of
         None \<Rightarrow> raise (ResolutionExc (''Missing required parameter '' @ quoted ''run_id'' @ '' for authorization.''))
       | Some i \<Rightarrow> andthen (resolve_experiment_name_from_run_id env i) (\<lambda>n. ret [n]))"

definition parse_dataset_id_to_name :: name_parser where
  "parse_dataset_id_to_name = one_param ''dataset_id'' resolve_dataset_name_from_dataset_id"

definition parse_model_id_to_experiment_name :: name_parser where
  "parse_model_id_to_experiment_name = one_param ''model_id'' resolve_experiment_name_from_model_id"

definition parse_registered_model_name :: name_parser where
  "parse_registered_model_name = one_param ''name'' as_is"

definition parse_new_registered_model_name :: name_parser where
  "parse_new_registered_model_name = one_param ''new_name'' as_is"

definition parse_webhook_id_to_registered_model_name :: name_parser where
  "parse_webhook_id_to_registered_model_name =
     one_param ''webhook_id'' resolve_registered_model_name_from_webhook_id"

definition parse_job_id_to_experiment_name :: name_parser where
  "parse_job_id_to_experiment_name = one_param ''job_id'' resolve_experiment_name_from_job_id"

definition parse_issue_id_to_experiment_name :: name_parser where
  "parse_issue_id_to_experiment_name = one_param ''issue_id'' resolve_experiment_name_from_issue_id"

definition parse_trace_request_id_to_experiment_name :: name_parser where
  "parse_trace_request_id_to_experiment_name = one_param ''request_id'' resolve_experiment_name_from_trace_id"

definition parse_trace_id_to_experiment_name :: name_parser where
  "parse_trace_id_to_experiment_name = one_param ''trace_id'' resolve_experiment_name_from_trace_id"

definition parse_optional_trace_ids_to_experiment_names :: name_parser where
  "parse_optional_trace_ids_to_experiment_names env rq =
     andthen (lift (get_request_param_values rq ''trace_ids'')) (\<lambda>is.
       if is = []
       then raise (ReferenceMissingExc ''Issue invocation request did not reference any trace IDs.'')
       else map_eff (resolve_experiment_name_from_trace_id env) (dedupe is))"

definition parse_trace_v3_experiment_id_to_name :: name_parser where
  "parse_trace_v3_experiment_id_to_name env rq =
     (case json_dict rq of
        None \<Rightarrow> raise (ResolutionExc ''StartTraceV3 request body is required for authorization.'')
      | Some body \<Rightarrow>
          andthen (lift (get_nested_mapping body [''trace''] ''StartTraceV3 trace payload'')) (\<lambda>trace.
          andthen (lift (get_nested_mapping trace [''trace_info'', ''traceInfo'']
                          ''StartTraceV3 trace_info payload'')) (\<lambda>trace_info.
          andthen (lift (get_nested_mapping trace_info [''trace_location'', ''traceLocation'']
                          ''StartTraceV3 trace location payload'')) (\<lambda>trace_location.
          andthen (lift (get_nested_mapping trace_location [''mlflow_experiment'', ''mlflowExperiment'']
                          ''StartTraceV3 MLflow experiment location'')) (\<lambda>mlflow_experiment.
          case normalize_string (py_or (dget mlflow_experiment ''experiment_id'')
                                  (dget mlflow_experiment ''experimentId'')) of
            None \<Rightarrow> raise (ResolutionExc ''StartTraceV3 request did not include an MLflow experiment ID.'')
          | Some i \<Rightarrow> andthen (resolve_experiment_name_from_experiment_id env i) (\<lambda>n. ret [n]))))))"

definition parse_artifact_experiment_id_to_name :: name_parser where
  "parse_artifact_experiment_id_to_name env rq =
     (case get_experiment_id_from_artifact_request rq of
        None \<Rightarrow> raise (ResolutionExc ''Artifact request did not contain an experiment-id-prefixed artifact path.'')
      | Some i \<Rightarrow> andthen (resolve_experiment_name_from_experiment_id env i) (\<lambda>n. ret [n]))"

definition parse_otel_experiment_id_header_to_name :: name_parser where
  "parse_otel_experiment_id_header_to_name env rq =
     (case get_header rq ''x-mlflow-experiment-id'' of
        None \<Rightarrow> raise (ResolutionExc ''Missing X-MLflow-Experiment-Id header.'')
      | Some i \<Rightarrow> andthen (resolve_experiment_name_from_experiment_id env i) (\<lambda>n. ret [n]))"

definition parse_mcp_server_name :: name_parser where
  "parse_mcp_server_name env rq =
     (case get_single_value (rq_path_params rq) ''name'' of
        Some n \<Rightarrow> ret [n]
      | None \<Rightarrow> andthen (lift (get_request_param rq ''name'')) (\<lambda>n. ret [n]))"

definition skill_resource_name :: "pv \<Rightarrow> pv \<Rightarrow> exc + string" where
  "skill_resource_name name organization =
     (case name of
        PStr n \<Rightarrow>
          if n = [] \<or> CHR ''/'' \<in> set n \<or> startswith n ''@''
          then Inl (ResolutionExc ''Invalid skill name.'')
          else (case organization of
            PStr org \<Rightarrow>
              if CHR ''/'' \<in> set org \<or> startswith org ''@''
              then Inl (ResolutionExc ''Invalid skill organization.'')
              else Inr (if org \<noteq> [] then ''@'' @ org @ ''/'' @ n else n)
          | _ \<Rightarrow> Inl (ResolutionExc ''Invalid skill organization.''))
      | _ \<Rightarrow> Inl (ResolutionExc ''Invalid skill name.''))"

definition opt_pv :: "string option \<Rightarrow> pv" where
  "opt_pv s = (case s of None \<Rightarrow> PNone | Some t \<Rightarrow> PStr t)"

definition parse_skill_name :: name_parser where
  "parse_skill_name env rq =
     andthen (lift (skill_resource_name (opt_pv (get_single_value (rq_path_params rq) ''name''))
       (if dhas (rq_path_params rq) ''organization'' then dget (rq_path_params rq) ''organization'' else PStr [])))
       (\<lambda>n. ret [n])"

text \<open>\<open>s.split("/", 2)\<close>.\<close>

definition split_slash_2 :: "string \<Rightarrow> string list" where
  "split_slash_2 s =
     (case py_partition CHR ''/'' s of
        (a, None) \<Rightarrow> [a]
      | (a, Some r) \<Rightarrow> (case py_partition CHR ''/'' r of
          (b, None) \<Rightarrow> [a, b] | (b, Some c) \<Rightarrow> [a, b, c]))"

definition skill_artifact_text :: "env \<Rightarrow> request \<Rightarrow> exc + pv" where
  "skill_artifact_text env rq =
     (if dhas (rq_path_params rq) ''artifact_path'' then Inr (dget (rq_path_params rq) ''artifact_path'')
      else if rq_method rq = ''GET'' \<and> rq_query_params rq \<noteq> [] then Inr (dget (rq_query_params rq) ''path'')
      else case (case rq_json_body rq of
                   PStr raw \<Rightarrow> (case env_json_loads env raw of
                     None \<Rightarrow> Inl (ResolutionExc ''Invalid artifact path.'') | Some b \<Rightarrow> Inr b)
                 | b \<Rightarrow> Inr b) of
          Inl e \<Rightarrow> Inl e
        | Inr (PDict d) \<Rightarrow> Inr (dget d ''path'')
        | Inr _ \<Rightarrow> Inr PNone)"

definition get_skill_artifact_path :: "env \<Rightarrow> request \<Rightarrow> exc + string option" where
  "get_skill_artifact_path env rq =
     (case skill_artifact_text env rq of
        Inl e \<Rightarrow> Inl e
      | Inr PNone \<Rightarrow> Inr None
      | Inr (PStr raw) \<Rightarrow>
          (case env_decode env raw of
             None \<Rightarrow> Inl (ResolutionExc ''Invalid artifact path.'')
           | Some path \<Rightarrow>
               (case env_is_file_uri env path of
                  None \<Rightarrow> Inl (ResolutionExc ''Invalid artifact path.'')
                | Some True \<Rightarrow> Inl (ResolutionExc ''File URIs are not allowed in artifact paths.'')
                | Some False \<Rightarrow>
                    let segments = split_slash_2 (strip_left_char CHR ''/'' path) in
                    if hd segments = ''workspaces'' \<and> 2 \<le> length segments
                    then (if segments ! 1 = [] \<or> Some (segments ! 1) \<noteq> rq_workspace rq
                          then Inl (ResolutionExc ''Artifact path targets a different workspace.'')
                          else Inr (Some (if length segments = 3 then segments ! 2 else [])))
                    else Inr (Some path)))
      | Inr _ \<Rightarrow> Inl (ResolutionExc ''Invalid artifact path.''))"

definition parse_skill_artifact_name :: name_parser where
  "parse_skill_artifact_name env rq =
     andthen (lift (get_skill_artifact_path env rq)) (\<lambda>p.
       case p of
         None \<Rightarrow> raise (ResolutionExc ''Invalid skill artifact path.'')
       | Some path \<Rightarrow>
           (case env_skill_identity env path of
              None \<Rightarrow> raise (ResolutionExc ''Invalid skill artifact path.'')
            | Some (n, org) \<Rightarrow> andthen (lift (skill_resource_name n org)) (\<lambda>x. ret [x])))"

definition parse_gateway_secret_id_to_name :: name_parser where
  "parse_gateway_secret_id_to_name = one_param ''secret_id'' resolve_gateway_secret_name_from_secret_id"

definition parse_optional_gateway_secret_id_to_name :: name_parser where
  "parse_optional_gateway_secret_id_to_name =
     optional_one ''secret_id'' ''Issue invocation request did not reference a gateway secret.''
       resolve_gateway_secret_name_from_secret_id"

definition parse_gateway_endpoint_id_to_name :: name_parser where
  "parse_gateway_endpoint_id_to_name = one_param ''endpoint_id'' resolve_gateway_endpoint_name_from_endpoint_id"

definition parse_gateway_endpoint_selector_to_name :: name_parser where
  "parse_gateway_endpoint_selector_to_name env rq =
     andthen (lift (get_optional_request_param rq ''endpoint_id'')) (\<lambda>endpoint_id.
     andthen (lift (get_optional_request_param rq ''name'')) (\<lambda>endpoint_name.
       case endpoint_id of
         Some i \<Rightarrow> andthen (resolve_gateway_endpoint_name_from_endpoint_id env i) (\<lambda>resolved.
           if endpoint_name \<noteq> None \<and> endpoint_name \<noteq> Some resolved
           then raise (ResolutionExc ''Conflicting endpoint selectors in endpoint_id and name.'')
           else ret [resolved])
       | None \<Rightarrow> (case endpoint_name of
           Some n \<Rightarrow> ret [n]
         | None \<Rightarrow> raise (ResolutionExc
             (''Missing required parameter '' @ quoted ''endpoint_id'' @ '' or '' @ quoted ''name'' @ '' for authorization.'')))))"

definition parse_optional_gateway_endpoint_name :: name_parser where
  "parse_optional_gateway_endpoint_name =
     optional_one ''endpoint_name'' ''Issue invocation request did not reference a gateway endpoint.'' as_is"

definition parse_optional_action_endpoint_id_to_name :: name_parser where
  "parse_optional_action_endpoint_id_to_name =
     optional_one ''action_endpoint_id'' ''Request did not reference an action endpoint.''
       resolve_gateway_endpoint_name_from_endpoint_id"

definition gateway_proxy_endpoint :: "string \<Rightarrow> string option" where
  "gateway_proxy_endpoint path =
     (case py_split ''/'' path of
        [a, name, b] \<Rightarrow> if a = ''gateway'' \<and> b = ''invocations'' \<and> name \<noteq> [] then Some name else None
      | _ \<Rightarrow> None)"

definition parse_gateway_proxy_endpoint_name :: name_parser where
  "parse_gateway_proxy_endpoint_name env rq =
     (case normalize_string (dget (rq_path_params rq) ''endpoint_name'') of
        Some n \<Rightarrow> ret [n]
      | None \<Rightarrow>
          andthen (lift (get_optional_request_param rq ''gateway_path'')) (\<lambda>gateway_path.
          andthen (lift (get_optional_request_param rq ''model'')) (\<lambda>model_name.
            case gateway_path of
              Some p \<Rightarrow>
                (let normalized = strip_right_char CHR ''/'' (strip_left_char CHR ''/'' p) in
                 case gateway_proxy_endpoint normalized of
                   Some n \<Rightarrow>
                     if model_name \<noteq> None \<and> model_name \<noteq> Some n
                     then raise (ResolutionExc ''Conflicting endpoint identifiers in gateway_path and model.'')
                     else ret [n]
                 | None \<Rightarrow> raise (ResolutionExc
                     (''Could not resolve endpoint name from gateway_path '' @ quoted normalized @ ''.'')))
            | None \<Rightarrow> (case model_name of
                Some n \<Rightarrow> ret [n]
              | None \<Rightarrow> raise (ResolutionExc
                  (''Missing required parameter '' @ quoted ''gateway_path'' @ '' for authorization.''))))))"

definition parse_gateway_model_definition_id_to_name :: name_parser where
  "parse_gateway_model_definition_id_to_name =
     one_param ''model_definition_id'' resolve_gateway_model_definition_name_from_id"

definition model_config_ids :: "pv \<Rightarrow> string list" where
  "model_config_ids c = (case c of PDict d \<Rightarrow> normalize_values (dget d ''model_definition_id'') | _ \<Rightarrow> [])"

definition resolve_gateway_model_definition_names_for_use :: name_parser where
  "resolve_gateway_model_definition_names_for_use env rq =
     andthen (lift (get_request_param_values rq ''model_definition_id'')) (\<lambda>is.
       let more = (case json_dict rq of
             None \<Rightarrow> []
           | Some body \<Rightarrow> model_config_ids (dget body ''model_config'') @
               (case dget body ''model_configs'' of
                  PList l \<Rightarrow> concat (map model_config_ids l) | _ \<Rightarrow> []))
       in map_eff (resolve_gateway_model_definition_name_from_id env) (dedupe (is @ more)))"

definition resolve_gateway_secret_names_for_use :: name_parser where
  "resolve_gateway_secret_names_for_use env rq =
     andthen (lift (get_request_param_values rq ''secret_id'')) (\<lambda>is.
       map_eff (resolve_gateway_secret_name_from_secret_id env) (dedupe is))"

subsection \<open>GraphQL parsers\<close>

fun graphql_input_payloads :: "gql_root_field list \<Rightarrow> exc + pdict list" where
  "graphql_input_payloads [] = Inr []"
| "graphql_input_payloads (f # fs) =
     (case dget (gf_args f) ''input'' of
        PDict d \<Rightarrow> map_sum id (Cons d) (graphql_input_payloads fs)
      | _ \<Rightarrow> Inl (ResolutionExc ''GraphQL authorization requires an input object.''))"

definition get_graphql_inputs :: "env \<Rightarrow> request \<Rightarrow> string list \<Rightarrow> exc + pdict list" where
  "get_graphql_inputs env rq allowed_fields =
     (case rq_graphql_payload rq of
        None \<Rightarrow> Inl (ResolutionExc ''GraphQL payload is required for authorization.'')
      | Some payload \<Rightarrow>
          (case dget payload ''query'' of
             PStr q \<Rightarrow>
               if py_strip q = [] then Inl (ResolutionExc ''GraphQL query is required for authorization.'')
               else (let info = extract_graphql_query_info env q (as_dict (dget payload ''variables''));
                         matching = filter (\<lambda>f. gf_name f \<in> set allowed_fields) (gql_inputs info)
                     in if matching = []
                        then Inl (ResolutionExc ''GraphQL authorization requires at least one supported root field.'')
                        else graphql_input_payloads matching)
           | _ \<Rightarrow> Inl (ResolutionExc ''GraphQL query is required for authorization.'')))"

definition parse_graphql_experiment_id_to_name :: name_parser where
  "parse_graphql_experiment_id_to_name env rq =
     andthen (lift (get_graphql_inputs env rq [''mlflowGetExperiment''])) (\<lambda>inputs.
       map_eff (\<lambda>input.
         case normalize_string (py_or (dget input ''experimentId'') (dget input ''experiment_id'')) of
           None \<Rightarrow> raise (ResolutionExc ''GraphQL experiment query did not include an experiment ID.'')
         | Some i \<Rightarrow> resolve_experiment_name_from_experiment_id env i) inputs)"

definition graphql_run_id :: "pdict \<Rightarrow> string option" where
  "graphql_run_id input =
     (case normalize_string (py_or (dget input ''runId'') (dget input ''run_id'')) of
        Some i \<Rightarrow> Some i
      | None \<Rightarrow> normalize_string (py_or (dget input ''runUuid'') (dget input ''run_uuid'')))"

definition parse_graphql_run_id_to_experiment_name :: name_parser where
  "parse_graphql_run_id_to_experiment_name env rq =
     andthen (lift (get_graphql_inputs env rq [''mlflowGetRun'', ''mlflowListArtifacts''])) (\<lambda>inputs.
       map_eff (\<lambda>input.
         case graphql_run_id input of
           None \<Rightarrow> raise (ResolutionExc ''GraphQL run query did not include a run ID.'')
         | Some i \<Rightarrow> resolve_experiment_name_from_run_id env i) inputs)"

definition graphql_input_run_names :: "env \<Rightarrow> pdict \<Rightarrow> (world, string list) eff" where
  "graphql_input_run_names env input =
     (case py_or (dget input ''runIds'') (dget input ''run_ids'') of
        PList l \<Rightarrow> map_eff (resolve_experiment_name_from_run_id env) (normalize_values (PList l))
      | _ \<Rightarrow> raise (ResolutionExc ''GraphQL metric history query did not include run IDs.''))"

definition parse_graphql_run_ids_to_experiment_names :: name_parser where
  "parse_graphql_run_ids_to_experiment_names env rq =
     andthen (lift (get_graphql_inputs env rq [''mlflowGetMetricHistoryBulkInterval''])) (\<lambda>inputs.
     andthen (map_eff (graphql_input_run_names env) inputs) (\<lambda>names.
       if concat names = []
       then raise (ResolutionExc ''GraphQL metric history query did not include any usable run IDs.'')
       else ret (dedupe (concat names))))"

section \<open>Resolution\<close>

fun resource_name_parser_of :: "resource_name_parser \<Rightarrow> name_parser" where
  "resource_name_parser_of RESOURCE_NAME_PARSER_EXPERIMENT_NAME = parse_experiment_name"
| "resource_name_parser_of RESOURCE_NAME_PARSER_EXPERIMENT_ID_TO_NAME = parse_experiment_id_to_name"
| "resource_name_parser_of RESOURCE_NAME_PARSER_EXPERIMENT_IDS_TO_NAMES = parse_experiment_ids_to_names"
| "resource_name_parser_of RESOURCE_NAME_PARSER_NEW_EXPERIMENT_NAME = parse_new_experiment_name"
| "resource_name_parser_of RESOURCE_NAME_PARSER_RUN_ID_TO_EXPERIMENT_NAME = parse_run_id_to_experiment_name"
| "resource_name_parser_of RESOURCE_NAME_PARSER_MODEL_ID_TO_EXPERIMENT_NAME = parse_model_id_to_experiment_name"
| "resource_name_parser_of RESOURCE_NAME_PARSER_DATASET_ID_TO_NAME = parse_dataset_id_to_name"
| "resource_name_parser_of RESOURCE_NAME_PARSER_REGISTERED_MODEL_NAME = parse_registered_model_name"
| "resource_name_parser_of RESOURCE_NAME_PARSER_NEW_REGISTERED_MODEL_NAME = parse_new_registered_model_name"
| "resource_name_parser_of RESOURCE_NAME_PARSER_WEBHOOK_ID_TO_REGISTERED_MODEL_NAME = parse_webhook_id_to_registered_model_name"
| "resource_name_parser_of RESOURCE_NAME_PARSER_JOB_ID_TO_EXPERIMENT_NAME = parse_job_id_to_experiment_name"
| "resource_name_parser_of RESOURCE_NAME_PARSER_ISSUE_ID_TO_EXPERIMENT_NAME = parse_issue_id_to_experiment_name"
| "resource_name_parser_of RESOURCE_NAME_PARSER_TRACE_REQUEST_ID_TO_EXPERIMENT_NAME = parse_trace_request_id_to_experiment_name"
| "resource_name_parser_of RESOURCE_NAME_PARSER_TRACE_ID_TO_EXPERIMENT_NAME = parse_trace_id_to_experiment_name"
| "resource_name_parser_of RESOURCE_NAME_PARSER_OPTIONAL_TRACE_IDS_TO_EXPERIMENT_NAMES = parse_optional_trace_ids_to_experiment_names"
| "resource_name_parser_of RESOURCE_NAME_PARSER_TRACE_V3_EXPERIMENT_ID_TO_NAME = parse_trace_v3_experiment_id_to_name"
| "resource_name_parser_of RESOURCE_NAME_PARSER_ARTIFACT_EXPERIMENT_ID_TO_NAME = parse_artifact_experiment_id_to_name"
| "resource_name_parser_of RESOURCE_NAME_PARSER_OTEL_EXPERIMENT_ID_HEADER_TO_NAME = parse_otel_experiment_id_header_to_name"
| "resource_name_parser_of RESOURCE_NAME_PARSER_MCP_SERVER_NAME = parse_mcp_server_name"
| "resource_name_parser_of RESOURCE_NAME_PARSER_SKILL_NAME = parse_skill_name"
| "resource_name_parser_of RESOURCE_NAME_PARSER_SKILL_ARTIFACT_NAME = parse_skill_artifact_name"
| "resource_name_parser_of RESOURCE_NAME_PARSER_GATEWAY_SECRET_ID_TO_NAME = parse_gateway_secret_id_to_name"
| "resource_name_parser_of RESOURCE_NAME_PARSER_OPTIONAL_GATEWAY_SECRET_ID_TO_NAME = parse_optional_gateway_secret_id_to_name"
| "resource_name_parser_of RESOURCE_NAME_PARSER_GATEWAY_ENDPOINT_ID_TO_NAME = parse_gateway_endpoint_id_to_name"
| "resource_name_parser_of RESOURCE_NAME_PARSER_GATEWAY_ENDPOINT_SELECTOR_TO_NAME = parse_gateway_endpoint_selector_to_name"
| "resource_name_parser_of RESOURCE_NAME_PARSER_GATEWAY_PROXY_ENDPOINT_NAME = parse_gateway_proxy_endpoint_name"
| "resource_name_parser_of RESOURCE_NAME_PARSER_OPTIONAL_GATEWAY_ENDPOINT_NAME = parse_optional_gateway_endpoint_name"
| "resource_name_parser_of RESOURCE_NAME_PARSER_OPTIONAL_ACTION_ENDPOINT_ID_TO_NAME = parse_optional_action_endpoint_id_to_name"
| "resource_name_parser_of RESOURCE_NAME_PARSER_GATEWAY_MODEL_DEFINITION_ID_TO_NAME = parse_gateway_model_definition_id_to_name"
| "resource_name_parser_of RESOURCE_NAME_PARSER_GRAPHQL_EXPERIMENT_ID_TO_NAME = parse_graphql_experiment_id_to_name"
| "resource_name_parser_of RESOURCE_NAME_PARSER_GRAPHQL_RUN_ID_TO_EXPERIMENT_NAME = parse_graphql_run_id_to_experiment_name"
| "resource_name_parser_of RESOURCE_NAME_PARSER_GRAPHQL_RUN_IDS_TO_EXPERIMENT_NAMES = parse_graphql_run_ids_to_experiment_names"

definition resolve_resource_names ::
  "env \<Rightarrow> request \<Rightarrow> resource_name_parser list \<Rightarrow> (world, string list) eff" where
  "resolve_resource_names env rq parser_ids =
     andthen (map_eff (\<lambda>p. resource_name_parser_of p env rq) parser_ids) (\<lambda>names.
       let usable = dedupe (normalize_values (PList (map PStr (concat names)))) in
       if usable = [] then raise (ResolutionExc ''No resource names could be resolved.'') else ret usable)"

section \<open>Cache updates after a response\<close>

definition clear_experiment_ids :: "(world, unit) eff" where
  "clear_experiment_ids = (\<lambda>w. (Inr (), w\<lparr>experiment_id_cache := id_clear (experiment_id_cache w)\<rparr>))"

definition invalidate_experiment_name :: "string \<Rightarrow> (world, unit) eff" where
  "invalidate_experiment_name i =
     (\<lambda>w. (Inr (), w\<lparr>experiment_name_cache := lookup_invalidate i (experiment_name_cache w)\<rparr>))"

definition clear_experiment_names :: "(world, unit) eff" where
  "clear_experiment_names =
     (\<lambda>w. (Inr (), w\<lparr>experiment_name_cache := lookup_clear (experiment_name_cache w)\<rparr>))"

definition update_experiment_name_cache :: "env \<Rightarrow> string \<Rightarrow> string \<Rightarrow> (world, unit) eff" where
  "update_experiment_name_cache env i n =
     andthen clear_experiment_ids (\<lambda>_.
       case (normalize_string (PStr i), normalize_string (PStr n)) of
         (Some i', Some n') \<Rightarrow> name_cache_set env ExperimentNames i' n'
       | _ \<Rightarrow> ret ())"

text \<open>\<open>except ResourceNameResolutionError\<close>, its subclass included.\<close>

definition on_unresolved :: "('s, 'a) eff \<Rightarrow> ('s, 'a) eff \<Rightarrow> ('s, 'a) eff" where
  "on_unresolved m h =
     handle m (\<lambda>e. case e of ResolutionExc _ \<Rightarrow> h | ReferenceMissingExc _ \<Rightarrow> h | _ \<Rightarrow> raise e)"

definition apply_response_cache_updates :: "env \<Rightarrow> request \<Rightarrow> rule list \<Rightarrow> int \<Rightarrow> (world, unit) eff" where
  "apply_response_cache_updates env rq rules status_code =
     (if 400 \<le> status_code then ret ()
      else
        andthen
          (if rq_path rq \<in> set [''/api/2.0/mlflow/experiments/delete'', ''/ajax-api/2.0/mlflow/experiments/delete'']
           then andthen clear_experiment_ids (\<lambda>_.
                  on_unresolved
                    (andthen (lift (get_request_param rq ''experiment_id'')) invalidate_experiment_name)
                    (ret ()))
           else ret ())
          (\<lambda>_.
            let parser_ids = concat (map resource_name_parsers rules) in
            if RESOURCE_NAME_PARSER_EXPERIMENT_ID_TO_NAME \<in> set parser_ids \<and>
               RESOURCE_NAME_PARSER_NEW_EXPERIMENT_NAME \<in> set parser_ids
            then on_unresolved
              (andthen (lift (get_request_param rq ''experiment_id'')) (\<lambda>i.
               andthen (lift (get_request_param rq ''new_name'')) (\<lambda>n.
                 update_experiment_name_cache env i n)))
              (andthen clear_experiment_ids (\<lambda>_. clear_experiment_names))
            else ret ()))"

section \<open>What resolution leaves alone\<close>

lemma safe_any [safe_intros]:
  "safe I m (\<lambda>_. True) \<Longrightarrow> (\<And>x. safe I (f x) R) \<Longrightarrow> safe I (andthen m f) R"
  by (rule safe_andthen)

lemma safe_handle_any [safe_intros]:
  "safe I m Q \<Longrightarrow> (\<And>e. safe I (h e) Q) \<Longrightarrow> safe I (handle m h) Q"
  by (rule safe_handle)

lemma safe_map_any [safe_intros]:
  "(\<And>x. safe I (f x) (\<lambda>_. True)) \<Longrightarrow> safe I (map_eff f xs) (\<lambda>_. True)"
  by (rule safe_weaken [OF safe_map_eff [where P = "\<lambda>_ _. True"]]) auto

lemma safe_on_unresolved [safe_intros]:
  "safe I m Q \<Longrightarrow> safe I h Q \<Longrightarrow> safe I (on_unresolved m h) Q"
  unfolding on_unresolved_def by (rule safe_handle) (auto intro: safe_intros split: exc.splits)

lemma set_name_cache_frame [simp]:
  "az (set_name_cache n c w) = az w" "tick (set_name_cache n c w) = tick w"
  by (cases n; simp)+

text \<open>
  An invariant of the state that store calls and the three cached lookups keep is kept by every parser and by
  resolution as a whole.
\<close>

locale resolution =
  fixes env :: env and I :: "world \<Rightarrow> bool"
  assumes keeps_store_get [safe_intros]: "safe I (store_get env kind k msg) (\<lambda>_. True)"
    and keeps_experiment [safe_intros]: "safe I (resolve_experiment_name_from_experiment_id env i) (\<lambda>_. True)"
    and keeps_run [safe_intros]: "safe I (resolve_experiment_name_from_run_id env i) (\<lambda>_. True)"
    and keeps_experiment_id [safe_intros]: "safe I (id_cache_resolve env key) (\<lambda>_. True)"
begin

lemma keeps_store_attr [safe_intros]:
  "safe I (store_attr env kind k n msg msg') (\<lambda>_. True)"
  unfolding store_attr_def by (auto intro!: safe_intros split: option.splits)

lemma keeps_experiment_of [safe_intros]:
  "safe I (experiment_of env kind l i) (\<lambda>_. True)"
  unfolding experiment_of_def by (intro safe_intros)

lemma keeps_resolve_job [safe_intros]:
  "safe I (resolve_experiment_name_from_job_id env i) (\<lambda>_. True)"
  unfolding resolve_experiment_name_from_job_id_def Let_def
  by (auto intro!: safe_intros split: option.splits pv.splits)

lemma keeps_resolvers [safe_intros]:
  "safe I (resolve_dataset_name_from_dataset_id env i) (\<lambda>_. True)"
  "safe I (resolve_experiment_name_from_model_id env i) (\<lambda>_. True)"
  "safe I (resolve_experiment_name_from_issue_id env i) (\<lambda>_. True)"
  "safe I (resolve_experiment_name_from_trace_id env i) (\<lambda>_. True)"
  "safe I (resolve_registered_model_name_from_webhook_id env i) (\<lambda>_. True)"
  "safe I (resolve_gateway_secret_name_from_secret_id env i) (\<lambda>_. True)"
  "safe I (resolve_gateway_endpoint_name_from_endpoint_id env i) (\<lambda>_. True)"
  "safe I (resolve_gateway_model_definition_name_from_id env i) (\<lambda>_. True)"
  "safe I (as_is env i) (\<lambda>_. True)"
  unfolding resolve_dataset_name_from_dataset_id_def resolve_experiment_name_from_model_id_def
    resolve_experiment_name_from_issue_id_def resolve_experiment_name_from_trace_id_def
    resolve_registered_model_name_from_webhook_id_def resolve_gateway_secret_name_from_secret_id_def
    resolve_gateway_endpoint_name_from_endpoint_id_def
    resolve_gateway_model_definition_name_from_id_def as_is_def
  by (intro safe_intros TrueI)+

lemma keeps_resolve_ids [safe_intros]:
  "safe I (resolve_experiment_ids_from_names env ns) (\<lambda>_. True)"
  unfolding resolve_experiment_ids_from_names_def by (intro safe_intros TrueI)

lemma keeps_one_param [safe_intros]:
  "(\<And>v. safe I (f env v) (\<lambda>_. True)) \<Longrightarrow>
   safe I (one_param p f env rq) (\<lambda>_. True)"
  unfolding one_param_def by (intro safe_intros TrueI)

lemma keeps_optional_one [safe_intros]:
  "(\<And>v. safe I (f env v) (\<lambda>_. True)) \<Longrightarrow>
   safe I (optional_one p msg f env rq) (\<lambda>_. True)"
  unfolding optional_one_def by (auto intro!: safe_intros split: option.splits)

lemma keeps_name_parser [safe_intros]:
  "safe I (resource_name_parser_of p env rq) (\<lambda>_. True)"
  by (cases p)
     (auto intro!: safe_intros split: option.splits prod.splits pv.splits simp: Let_def
        graphql_input_run_names_def
        parse_experiment_name_def parse_experiment_id_to_name_def parse_experiment_ids_to_names_def
        parse_new_experiment_name_def parse_run_id_to_experiment_name_def parse_dataset_id_to_name_def
        parse_model_id_to_experiment_name_def parse_registered_model_name_def
        parse_new_registered_model_name_def parse_webhook_id_to_registered_model_name_def
        parse_job_id_to_experiment_name_def parse_issue_id_to_experiment_name_def
        parse_trace_request_id_to_experiment_name_def parse_trace_id_to_experiment_name_def
        parse_optional_trace_ids_to_experiment_names_def parse_trace_v3_experiment_id_to_name_def
        parse_artifact_experiment_id_to_name_def parse_otel_experiment_id_header_to_name_def
        parse_mcp_server_name_def parse_skill_name_def parse_skill_artifact_name_def
        parse_gateway_secret_id_to_name_def parse_optional_gateway_secret_id_to_name_def
        parse_gateway_endpoint_id_to_name_def parse_gateway_endpoint_selector_to_name_def
        parse_optional_gateway_endpoint_name_def parse_optional_action_endpoint_id_to_name_def
        parse_gateway_proxy_endpoint_name_def parse_gateway_model_definition_id_to_name_def
        parse_graphql_experiment_id_to_name_def parse_graphql_run_id_to_experiment_name_def
        parse_graphql_run_ids_to_experiment_names_def)

lemma keeps_resolve_resource_names [safe_intros]:
  "safe I (resolve_resource_names env rq ps) (\<lambda>_. True)"
  unfolding resolve_resource_names_def Let_def by (intro safe_intros TrueI)

lemma keeps_names_for_use [safe_intros]:
  "safe I (resolve_gateway_model_definition_names_for_use env rq) (\<lambda>_. True)"
  "safe I (resolve_gateway_secret_names_for_use env rq) (\<lambda>_. True)"
  unfolding resolve_gateway_model_definition_names_for_use_def resolve_gateway_secret_names_for_use_def Let_def
  by (intro safe_intros TrueI)+

end

text \<open>The authorizer's invariant does not look at the name caches.\<close>

lemma safe_name_cache_get [safe_intros]:
  "safe (az_inv env g m ttl) (name_cache_get env n k) (\<lambda>_. True)"
  unfolding name_cache_get_def
  by (rule safe_andthen [OF safe_ask], rule TrueI)
     (auto simp: safe_def intro: az_inv_frame split: prod.splits)

lemma safe_name_cache_set [safe_intros]:
  "safe (az_inv env g m ttl) (name_cache_set env n k v) (\<lambda>_. True)"
  unfolding name_cache_set_def
  by (rule safe_andthen [OF safe_ask], rule TrueI)
     (auto simp: safe_def intro: az_inv_frame split: prod.splits sum.splits)

lemma safe_store_get [safe_intros]: "safe (az_inv env g m ttl) (store_get env kind k msg) (\<lambda>_. True)"
  unfolding store_get_def by (intro safe_intros TrueI)

lemma safe_id_begin [safe_intros]:
  "safe (az_inv env g m ttl) (\<lambda>w. case id_begin now key (experiment_id_cache w) of
     (r, c) \<Rightarrow> (Inr r, w\<lparr>experiment_id_cache := c\<rparr>)) (\<lambda>_. True)"
  by (auto simp: safe_def intro: az_inv_frame split: prod.splits)

lemma safe_id_finish [safe_intros]:
  "safe (az_inv env g m ttl) (\<lambda>w. case id_finish now key gen found (experiment_id_cache w) of
     Inl e \<Rightarrow> (Inl e, w) | Inr c \<Rightarrow> (Inr found, w\<lparr>experiment_id_cache := c\<rparr>)) (\<lambda>_. True)"
  by (auto simp: safe_def intro: az_inv_frame split: prod.splits sum.splits)

lemma az_keeps_experiment:
  "safe (az_inv env g m ttl) (resolve_experiment_name_from_experiment_id env i) (\<lambda>_. True)"
  unfolding resolve_experiment_name_from_experiment_id_def store_attr_def
  by (auto intro!: safe_intros split: option.splits)

lemma az_keeps_run:
  "safe (az_inv env g m ttl) (resolve_experiment_name_from_run_id env i) (\<lambda>_. True)"
  unfolding resolve_experiment_name_from_run_id_def
  by (auto intro!: safe_intros az_keeps_experiment split: option.splits)

lemma az_keeps_experiment_id:
  "safe (az_inv env g m ttl) (id_cache_resolve env key) (\<lambda>_. True)"
  unfolding id_cache_resolve_def lookup_experiment_id_by_name_def
  by (auto intro!: safe_intros split: sum.splits option.splits)

interpretation az_names: resolution env "az_inv env g m ttl" for env g m ttl
  by unfold_locales (fact safe_store_get az_keeps_experiment az_keeps_run az_keeps_experiment_id)+

section \<open>Properties\<close>

text \<open>A request for concrete runs.\<close>

definition sample_request :: request where
  "sample_request =
     \<lparr>rq_authorization_header = None, rq_forwarded_access_token = None, rq_remote_user = None,
      rq_remote_groups = None, rq_path = ''/api/2.0/mlflow/experiments/get'', rq_method = ''GET'',
      rq_workspace = Some ''ns'', rq_headers = [], rq_path_params = [],
      rq_query_params = [(''experiment_id'', PStr ''7'')], rq_json_body = PNone,
      rq_graphql_payload = None, rq_ensure_json_body = None\<rparr>"

lemma normalize_string_usable: "normalize_string v = Some n \<Longrightarrow> n \<noteq> [] \<and> py_strip n = n"
  by (auto simp: normalize_string_def nonempty_def split: pv.splits if_splits)

lemma normalize_values_usable: "n \<in> set (normalize_values v) \<Longrightarrow> n \<noteq> [] \<and> py_strip n = n"
proof -
  assume "n \<in> set (normalize_values v)"
  then obtain x where "normalize_string x = Some n"
    unfolding normalize_values_def Let_def by (auto split: option.splits)
  then show "n \<noteq> [] \<and> py_strip n = n" by (rule normalize_string_usable)
qed

text \<open>
  Resolved resource names are usable in a review. When \<open>resolve_resource_names\<close> returns, it returns
  at least one name, no name twice, and every name is non-empty and without surrounding blanks; so
  the check of all names is never vacuous.
\<close>

lemma resolve_resource_names_usable:
  assumes "resolve_resource_names env rq ps w = (Inr names, w')"
  shows "names \<noteq> [] \<and> distinct names \<and> list_all (\<lambda>n. n \<noteq> [] \<and> py_strip n = n) names"
proof -
  from assms obtain v where "names = dedupe (normalize_values v)" "names \<noteq> []"
    by (auto simp: resolve_resource_names_def Let_def eff_defs split: sum.splits prod.splits if_splits)
  then show ?thesis using normalize_values_usable by (auto simp: list_all_iff)
qed

lemma resolve_resource_names_usable_witness:
  "let rq = sample_request\<lparr>rq_path_params := [(''name'', PStr '' io.x/y '')]\<rparr>;
       names = resolve_resource_names (sample_env (\<lambda>a. True)) rq [RESOURCE_NAME_PARSER_MCP_SERVER_NAME]
                 (sample_world SELF_SUBJECT_ACCESS_REVIEW)
   in fst names = Inr [''io.x/y''] \<and> list_all (\<lambda>n. n \<noteq> [] \<and> py_strip n = n) [''io.x/y'']"
proof -
  let ?rq = "sample_request\<lparr>rq_path_params := [(''name'', PStr '' io.x/y '')]\<rparr>"
  have run: "resolve_resource_names (sample_env (\<lambda>a. True)) ?rq [RESOURCE_NAME_PARSER_MCP_SERVER_NAME]
      (sample_world SELF_SUBJECT_ACCESS_REVIEW) = (Inr [''io.x/y''], sample_world SELF_SUBJECT_ACCESS_REVIEW)"
    by (simp add: resolve_resource_names_def parse_mcp_server_name_def get_single_value_def dget_def
        normalize_string_def normalize_values_def nonempty_def eff_defs dedupe_def py_strip_def
        py_rstrip_def py_lstrip_def is_space_def Let_def)
  from resolve_resource_names_usable [OF run] run show ?thesis by (simp add: Let_def)
qed

lemma get_request_param_source:
  "get_request_param rq p =
     (case param_source rq of
        Inl e \<Rightarrow> Inl e
      | Inr m \<Rightarrow>
          (let find = (\<lambda>k. case get_single_value m k of
                Some v \<Rightarrow> Some v | None \<Rightarrow> get_single_value (rq_path_params rq) k);
               v = (if find p = None \<and> p = ''run_id'' then find ''run_uuid'' else find p)
           in case v of
                None \<Rightarrow> Inl (ResolutionExc (''Missing required parameter '' @ quoted p @ '' for authorization.''))
              | Some x \<Rightarrow> Inr x))"
  by (auto simp: get_request_param_def get_optional_request_param_def
      get_optional_request_param_result_def optional_param_of_def Let_def
      split: sum.splits option.splits)

lemma get_request_param_cong:
  "param_source a = param_source b \<Longrightarrow> rq_path_params a = rq_path_params b \<Longrightarrow>
   get_request_param a p = get_request_param b p"
  by (simp only: get_request_param_source)

text \<open>
  A parameter is read from one place. For a GET the body has no influence on a resolved parameter,
  and for a POST, PATCH or PUT the query string has none, so what is authorized cannot be swapped
  through the place MLflow does not read.
\<close>

lemma get_request_param_one_place:
  "(py_upper (rq_method rq) = ''GET'' \<longrightarrow>
      get_request_param (rq\<lparr>rq_json_body := body\<rparr>) p = get_request_param rq p) \<and>
   (py_upper (rq_method rq) \<in> set [''POST'', ''PATCH'', ''PUT''] \<longrightarrow>
      get_request_param (rq\<lparr>rq_query_params := query\<rparr>) p = get_request_param rq p)"
proof -
  have "param_source (rq\<lparr>rq_json_body := body\<rparr>) = param_source rq" if "py_upper (rq_method rq) = ''GET''"
    using that by (simp add: param_source_def Let_def)
  moreover have "param_source (rq\<lparr>rq_query_params := query\<rparr>) = param_source rq"
    if "py_upper (rq_method rq) \<in> set [''POST'', ''PATCH'', ''PUT'']"
    using that by (auto simp: param_source_def Let_def json_dict_def)
  ultimately show ?thesis by (auto intro!: get_request_param_cong)
qed

lemma get_request_param_one_place_witness:
  "get_request_param (sample_request\<lparr>rq_json_body := PDict [(''experiment_id'', PStr ''8'')]\<rparr>) ''experiment_id''
     = Inr ''7''"
proof -
  have get: "py_upper (rq_method sample_request) = ''GET''"
    by (simp add: sample_request_def py_upper_def ascii_upper_def)
  have "get_request_param sample_request ''experiment_id'' = Inr ''7''"
    by (simp add: get_request_param_source param_source_def sample_request_def get_single_value_def
        normalize_string_def nonempty_def dget_def py_upper_def ascii_upper_def py_strip_def
        py_rstrip_def py_lstrip_def is_space_def Let_def)
  with get_request_param_one_place [of sample_request "PDict [(''experiment_id'', PStr ''8'')]"
      "''experiment_id''" "[]"] get
  show ?thesis by simp
qed

text \<open>
  Two skills never share a resource name: the name of a skill determines its organization and its
  own name.
\<close>

lemma skill_resource_name_injective:
  assumes "skill_resource_name (PStr n) (PStr org) = Inr r"
    and "skill_resource_name (PStr n') (PStr org') = Inr r"
  shows "n = n' \<and> org = org'"
proof -
  from assms have r: "r = (if org \<noteq> [] then ''@'' @ org @ ''/'' @ n else n)"
    "r = (if org' \<noteq> [] then ''@'' @ org' @ ''/'' @ n' else n')"
    and n: "CHR ''/'' \<notin> set n" "\<not> startswith n ''@''" "CHR ''/'' \<notin> set n'" "\<not> startswith n' ''@''"
    and org: "CHR ''/'' \<notin> set org" "CHR ''/'' \<notin> set org'"
    by (auto simp: skill_resource_name_def split: if_splits)
  show ?thesis
  proof (cases "org = []"; cases "org' = []")
    assume "org \<noteq> []" "org' \<noteq> []"
    with r have "org @ CHR ''/'' # n = org' @ CHR ''/'' # n'" by simp
    from append_sep_eq [OF org this] show ?thesis by simp
  qed (use r n in \<open>auto simp: startswith_def\<close>)
qed

lemma skill_resource_name_injective_witness:
  "skill_resource_name (PStr ''s'') (PStr ''o'') = Inr ''@o/s'' \<and>
   skill_resource_name (PStr ''s'') (PStr []) \<noteq> Inr ''@o/s''"
proof -
  have "skill_resource_name (PStr ''s'') (PStr ''o'') = Inr ''@o/s''"
    by (simp add: skill_resource_name_def startswith_def)
  moreover from skill_resource_name_injective [OF this, of "''s''" "[]"]
  have "skill_resource_name (PStr ''s'') (PStr []) \<noteq> Inr ''@o/s''" by auto
  ultimately show ?thesis by blast
qed

text \<open>
  A successful delete of an experiment forgets it. The cache of identifiers is emptied and its
  generation raised, so that a lookup in flight is not stored, and the name of the experiment is
  dropped.
\<close>

lemma delete_forgets_experiment:
  assumes "rq_path rq = ''/api/2.0/mlflow/experiments/delete''" and "status_code < 400"
    and "RESOURCE_NAME_PARSER_NEW_EXPERIMENT_NAME \<notin> set (concat (map resource_name_parsers rules))"
    and "get_request_param rq ''experiment_id'' = Inr i"
    and "cache_inv (experiment_name_cache w)"
    and "apply_response_cache_updates env rq rules status_code w = (r, w')"
  shows "r = Inr () \<and> entries (id_entries (experiment_id_cache w')) = [] \<and>
    generation (experiment_id_cache w') = Suc (generation (experiment_id_cache w)) \<and>
    peek (experiment_name_cache w') i = None"
proof -
  have w': "r = Inr ()" "w' = w\<lparr>experiment_id_cache := id_clear (experiment_id_cache w),
      experiment_name_cache := lookup_invalidate i (experiment_name_cache w)\<rparr>"
    using assms(1-4,6)
    by (auto simp: apply_response_cache_updates_def Let_def eff_defs clear_experiment_ids_def
        invalidate_experiment_name_def on_unresolved_def)
  show ?thesis
    by (simp add: w' id_clear_def lookup_clear_def lookup_invalidate_def peek_def delete_conv')
qed

theorem delete_forgets_experiment_witness:
  "let rq = sample_request\<lparr>rq_path := ''/api/2.0/mlflow/experiments/delete'', rq_method := ''POST'',
         rq_json_body := PDict [(''experiment_id'', PStr ''7'')]\<rparr>;
       w = (sample_world SELF_SUBJECT_ACCESS_REVIEW)\<lparr>experiment_name_cache :=
         (new_cache 60 10)\<lparr>entries := [(''7'', (''exp'', 60))]\<rparr>\<rparr>
   in peek (experiment_name_cache w) ''7'' = Some (''exp'', 60) \<and>
      peek (experiment_name_cache (snd (apply_response_cache_updates (sample_env (\<lambda>a. True)) rq [] 200 w))) ''7'' = None"
proof -
  let ?rq = "sample_request\<lparr>rq_path := ''/api/2.0/mlflow/experiments/delete'', rq_method := ''POST'',
         rq_json_body := PDict [(''experiment_id'', PStr ''7'')]\<rparr>"
  let ?w = "(sample_world SELF_SUBJECT_ACCESS_REVIEW)\<lparr>experiment_name_cache :=
         (new_cache 60 10)\<lparr>entries := [(''7'', (''exp'', 60))]\<rparr>\<rparr>"
  obtain r w' where run: "apply_response_cache_updates (sample_env (\<lambda>a. True)) ?rq [] 200 ?w = (r, w')"
    by (cases "apply_response_cache_updates (sample_env (\<lambda>a. True)) ?rq [] 200 ?w")
  have param: "get_request_param ?rq ''experiment_id'' = Inr ''7''"
    by (simp add: get_request_param_source param_source_def json_dict_def sample_request_def
        get_single_value_def normalize_string_def nonempty_def dget_def py_upper_def ascii_upper_def
        py_strip_def py_rstrip_def py_lstrip_def is_space_def Let_def)
  have "peek (experiment_name_cache w') ''7'' = None"
    using delete_forgets_experiment [OF _ _ _ param _ run]
    by (simp add: cache_inv_def new_cache_def)
  with run show ?thesis by (simp add: Let_def peek_def)
qed

end
