(* ===== verification/Name_Caches.thy ===== *)
theory Name_Caches
  imports Resource_Names
begin

text \<open>
  How old a resolved name may be. The caches of experiment names and of the experiments of runs in
  \<open>auth/resource_names.py\<close> are module variables: every request reads and writes them. The invariant says
  that each entry is what the tracking store answered, or what a successful rename announced, one
  time-to-live before the entry expires; it holds in every state the operations on the caches reach.
\<close>

section \<open>Where a name comes from\<close>

definition store_name :: "env \<Rightarrow> nat \<Rightarrow> string \<Rightarrow> string \<Rightarrow> bool" where
  "store_name env t i n \<longleftrightarrow>
     (\<exists>d. env_lookup env t LkExperiment i = Inr d \<and> normalize_string (attr d ''name'') = Some n)"

definition store_run :: "env \<Rightarrow> nat \<Rightarrow> string \<Rightarrow> string \<Rightarrow> bool" where
  "store_run env t r i \<longleftrightarrow>
     (\<exists>d. env_lookup env t LkRun r = Inr d \<and> normalize_string (attr (attr d ''info'') ''experiment_id'') = Some i)"

text \<open>
  \<open>told env R t i n\<close>: when the clock was read at interaction \<open>t\<close>, the store had just answered that \<open>i\<close> is
  named \<open>n\<close>, or a rename in \<open>R\<close> had.
\<close>

type_synonym renames = "(nat \<times> string \<times> string) set"

definition told :: "env \<Rightarrow> renames \<Rightarrow> nat \<Rightarrow> string \<Rightarrow> string \<Rightarrow> bool" where
  "told env R t i n \<longleftrightarrow> (\<exists>s. Suc s = t \<and> store_name env s i n) \<or> (t, i, n) \<in> R"

definition told_run :: "env \<Rightarrow> nat \<Rightarrow> string \<Rightarrow> string \<Rightarrow> bool" where
  "told_run env t r i \<longleftrightarrow> (\<exists>s. Suc s = t \<and> store_run env s r i)"

text \<open>Learnt between two moments, or earlier and still within its time-to-live at one of them.\<close>

definition fresh :: "env \<Rightarrow> real \<Rightarrow> nat \<Rightarrow> nat \<Rightarrow> nat \<Rightarrow> bool" where
  "fresh env ttl a b t \<longleftrightarrow>
     t < b \<and> (a \<le> t \<or> (\<exists>u. a \<le> u \<and> u < b \<and> env_now env u < env_now env t + ttl))"

lemma fresh_widen: "fresh env ttl a b t \<Longrightarrow> a' \<le> a \<Longrightarrow> b \<le> b' \<Longrightarrow> fresh env ttl a' b' t"
  unfolding fresh_def by (meson le_trans less_le_trans)

section \<open>The invariant\<close>

definition backed ::
  "env \<Rightarrow> real \<Rightarrow> nat \<Rightarrow> (nat \<Rightarrow> string \<Rightarrow> string \<Rightarrow> bool) \<Rightarrow> (string, string) ttl_cache \<Rightarrow> bool" where
  "backed env ttl n T c \<longleftrightarrow>
     cache_at ttl c \<and> (\<forall>k v e. peek c k = Some (v, e) \<longrightarrow> (\<exists>t < n. T t k v \<and> e = env_now env t + ttl))"

definition names_inv :: "env \<Rightarrow> renames \<Rightarrow> real \<Rightarrow> world \<Rightarrow> bool" where
  "names_inv env R ttl w \<longleftrightarrow>
     backed env ttl (tick w) (told env R) (experiment_name_cache w) \<and>
     backed env ttl (tick w) (told_run env) (run_experiment_name_cache w)"

lemma backed_shrink:
  assumes "backed env ttl n T c" and "n \<le> n'" and "cache_at ttl c'"
    and "\<And>k x. peek c' k = Some x \<Longrightarrow> peek c k = Some x"
  shows "backed env ttl n' T c'"
  using assms unfolding backed_def by (meson less_le_trans)

lemma backed_cache: "backed env ttl n T c \<Longrightarrow> cache_at ttl c"
  by (simp add: backed_def)

lemma backed_mono: "backed env ttl n T c \<Longrightarrow> n \<le> n' \<Longrightarrow> backed env ttl n' T c"
  by (rule backed_shrink [of env ttl n T c n' c]) (auto dest: backed_cache)

lemma backed_weaken: "backed env ttl n T c \<Longrightarrow> (\<And>t k v. T t k v \<Longrightarrow> T' t k v) \<Longrightarrow> backed env ttl n T' c"
  unfolding backed_def by meson

lemma backed_get: "backed env ttl n T c \<Longrightarrow> n \<le> n' \<Longrightarrow> backed env ttl n' T (snd (lookup_get now k c))"
  by (rule backed_shrink [of env ttl n T c n'])
    (auto intro: cache_at_lookup_get peek_lookup_get dest: backed_cache)

lemma backed_hit:
  "backed env ttl n T c \<Longrightarrow> fst (lookup_get now k c) = Some v \<Longrightarrow> \<exists>t < n. T t k v \<and> now < env_now env t + ttl"
  unfolding lookup_get_Some backed_def by (elim conjE exE) (metis (no_types))

lemma backed_set:
  assumes c: "backed env ttl n T c" and "n \<le> n'" and t: "T t k v" "t < n'"
  obtains c' where "cache_set (env_now env t) k v c = Inr c'" "backed env ttl n' T c'"
proof -
  from c have "cache_at ttl c" by (simp add: backed_def)
  then obtain c' where set: "cache_set (env_now env t) k v c = Inr c'" "cache_at ttl c'"
    "peek c' k = Some (v, env_now env t + ttl)" "\<And>j x. j \<noteq> k \<Longrightarrow> peek c' j = Some x \<Longrightarrow> peek c j = Some x"
    by (rule cache_set_at [of ttl c "env_now env t" k v]) blast
  have "\<exists>t < n'. T t j x \<and> e = env_now env t + ttl" if "peek c' j = Some (x, e)" for j x e
  proof (cases "j = k")
    case True
    with that set(3) t show ?thesis by auto
  next
    case False
    with that set(4) c assms(2) show ?thesis unfolding backed_def by (meson less_le_trans)
  qed
  with set(1,2) that show ?thesis unfolding backed_def by blast
qed

lemma names_inv_mono:
  "names_inv env R ttl w \<Longrightarrow> experiment_name_cache w' = experiment_name_cache w \<Longrightarrow>
   run_experiment_name_cache w' = run_experiment_name_cache w \<Longrightarrow> tick w \<le> tick w' \<Longrightarrow> names_inv env R ttl w'"
  by (auto simp: names_inv_def intro: backed_mono)

text \<open>The environment of a request differs from that of the server in the workspace only.\<close>

definition same_store :: "env \<Rightarrow> env \<Rightarrow> bool" where
  "same_store env env' \<longleftrightarrow> env_now env' = env_now env \<and> env_lookup env' = env_lookup env"

section \<open>The cached lookups\<close>

definition known_name :: "env \<Rightarrow> renames \<Rightarrow> real \<Rightarrow> nat \<Rightarrow> nat \<Rightarrow> string \<Rightarrow> string \<Rightarrow> bool" where
  "known_name env R ttl a b i n \<longleftrightarrow> (\<exists>t. told env R t i n \<and> fresh env ttl a b t)"

definition known_run :: "env \<Rightarrow> real \<Rightarrow> nat \<Rightarrow> nat \<Rightarrow> string \<Rightarrow> string \<Rightarrow> bool" where
  "known_run env ttl a b r i \<longleftrightarrow> (\<exists>t. told_run env t r i \<and> fresh env ttl a b t)"

lemma known_widen:
  "known_name env R ttl a b i n \<Longrightarrow> a' \<le> a \<Longrightarrow> b \<le> b' \<Longrightarrow> known_name env R ttl a' b' i n"
  "known_run env ttl a b r i \<Longrightarrow> a' \<le> a \<Longrightarrow> b \<le> b' \<Longrightarrow> known_run env ttl a' b' r i"
  unfolding known_name_def known_run_def using fresh_widen by blast+

lemma known_hit:
  "t < a \<Longrightarrow> env_now env a < env_now env t + ttl \<Longrightarrow> a < b \<Longrightarrow> fresh env ttl a b t"
  by (auto simp: fresh_def)

lemma experiment_get_run:
  assumes "names_inv env R ttl w" "same_store env env'"
    and "name_cache_get env' ExperimentNames k w = (r, w')"
  shows "names_inv env R ttl w' \<and> tick w' = Suc (tick w) \<and>
    (\<exists>found. r = Inr found \<and> (\<forall>v. found = Some v \<longrightarrow> known_name env R ttl (tick w) (tick w') k v))"
proof -
  let ?g = "lookup_get (env_now env (tick w)) k (experiment_name_cache w)"
  have r: "r = Inr (fst ?g)" "w' = w\<lparr>tick := Suc (tick w), experiment_name_cache := snd ?g\<rparr>"
    using assms(2,3) by (auto simp: name_cache_get_def eff_defs world_eff_defs same_store_def split: prod.splits)
  have "known_name env R ttl (tick w) (Suc (tick w)) k v" if "fst ?g = Some v" for v
    using backed_hit [OF _ that] assms(1) known_hit unfolding names_inv_def known_name_def by blast
  with assms(1) show ?thesis by (auto simp: r names_inv_def intro: backed_get backed_mono)
qed

lemma run_get_run:
  assumes "names_inv env R ttl w" "same_store env env'"
    and "name_cache_get env' RunExperiments k w = (r, w')"
  shows "names_inv env R ttl w' \<and> tick w' = Suc (tick w) \<and>
    (\<exists>found. r = Inr found \<and> (\<forall>v. found = Some v \<longrightarrow> known_run env ttl (tick w) (tick w') k v))"
proof -
  let ?g = "lookup_get (env_now env (tick w)) k (run_experiment_name_cache w)"
  have r: "r = Inr (fst ?g)" "w' = w\<lparr>tick := Suc (tick w), run_experiment_name_cache := snd ?g\<rparr>"
    using assms(2,3) by (auto simp: name_cache_get_def eff_defs world_eff_defs same_store_def split: prod.splits)
  have "known_run env ttl (tick w) (Suc (tick w)) k v" if "fst ?g = Some v" for v
    using backed_hit [OF _ that] assms(1) known_hit unfolding names_inv_def known_run_def by blast
  with assms(1) show ?thesis by (auto simp: r names_inv_def intro: backed_get backed_mono)
qed

text \<open>Storing what was just learnt.\<close>

lemma experiment_set_run:
  assumes "names_inv env R ttl w" "same_store env env'" and "told env R (tick w) k v"
    and "name_cache_set env' ExperimentNames k v w = (r, w')"
  shows "names_inv env R ttl w' \<and> tick w' = Suc (tick w) \<and> r = Inr ()"
proof -
  obtain c' where "cache_set (env_now env (tick w)) k v (experiment_name_cache w) = Inr c'"
    "backed env ttl (Suc (tick w)) (told env R) c'"
    by (rule backed_set [of env ttl "tick w" "told env R" "experiment_name_cache w" "Suc (tick w)" "tick w" k v])
      (use assms(1,3) in \<open>auto simp: names_inv_def\<close>)
  with assms show ?thesis
    by (auto simp: name_cache_set_def eff_defs world_eff_defs same_store_def names_inv_def intro: backed_mono)
qed

lemma run_set_run:
  assumes "names_inv env R ttl w" "same_store env env'" and "told_run env (tick w) k v"
    and "name_cache_set env' RunExperiments k v w = (r, w')"
  shows "names_inv env R ttl w' \<and> tick w' = Suc (tick w) \<and> r = Inr ()"
proof -
  obtain c' where "cache_set (env_now env (tick w)) k v (run_experiment_name_cache w) = Inr c'"
    "backed env ttl (Suc (tick w)) (told_run env) c'"
    by (rule backed_set [of env ttl "tick w" "told_run env" "run_experiment_name_cache w" "Suc (tick w)" "tick w" k v])
      (use assms(1,3) in \<open>auto simp: names_inv_def\<close>)
  with assms show ?thesis
    by (auto simp: name_cache_set_def eff_defs world_eff_defs same_store_def names_inv_def intro: backed_mono)
qed

text \<open>A store call costs one interaction and leaves the caches alone.\<close>

lemma store_get_run:
  assumes "store_get env' kind k msg w = (r, w')" and "same_store env env'"
  shows "w' = w\<lparr>tick := Suc (tick w)\<rparr> \<and> (\<forall>d. r = Inr d \<longrightarrow> env_lookup env (tick w) kind k = Inr d)"
  using assms by (auto simp: store_get_def same_store_def eff_defs world_eff_defs split: sum.splits prod.splits)

lemma andthen_run:
  assumes "andthen m f w = (r, w')"
  obtains e where "m w = (Inl e, w')" "r = Inl e" | x w1 where "m w = (Inr x, w1)" "f x w1 = (r, w')"
  using assms by (auto simp: andthen_def split: prod.splits sum.splits)

lemma names_inv_tick: "names_inv env R ttl w \<Longrightarrow> names_inv env R ttl (w\<lparr>tick := Suc (tick w)\<rparr>)"
  by (rule names_inv_mono) auto

lemma store_attr_run:
  assumes inv: "names_inv env R ttl w" and same: "same_store env env'"
    and run: "store_attr env' LkExperiment i ''name'' msg missing w = (r, w')"
  shows "names_inv env R ttl w' \<and> tick w' = Suc (tick w) \<and> (\<forall>n. r = Inr n \<longrightarrow> told env R (tick w') i n)"
proof -
  obtain d w1 where get: "store_get env' LkExperiment i msg w = (d, w1)" by (cases "store_get env' LkExperiment i msg w")
  from store_get_run [OF get same] names_inv_tick [OF inv] run get show ?thesis
    by (auto simp: store_attr_def told_def store_name_def eff_defs split: sum.splits option.splits)
qed

lemma resolve_experiment_run:
  assumes inv: "names_inv env R ttl w" and same: "same_store env env'"
    and run: "resolve_experiment_name_from_experiment_id env' i w = (r, w')"
  shows "names_inv env R ttl w' \<and> tick w < tick w' \<and> (\<forall>n. r = Inr n \<longrightarrow> known_name env R ttl (tick w) (tick w') i n)"
proof -
  obtain found w1 where get: "name_cache_get env' ExperimentNames i w = (found, w1)"
    by (cases "name_cache_get env' ExperimentNames i w")
  from experiment_get_run [OF inv same get] obtain cached where
    w1: "names_inv env R ttl w1" "tick w1 = Suc (tick w)" "found = Inr cached"
    and hit: "\<And>v. cached = Some v \<Longrightarrow> known_name env R ttl (tick w) (tick w1) i v" by blast
  show ?thesis
  proof (cases "cached \<noteq> None \<and> cached \<noteq> Some []")
    case True
    with run get w1 have "r = Inr (opt_text cached)" "w' = w1"
      by (auto simp: resolve_experiment_name_from_experiment_id_def andthen_def ret_def)
    with True w1 hit show ?thesis by (auto simp: opt_text_def)
  next
    case False
    let ?m = "store_attr env' LkExperiment i ''name'' (''Could not resolve experiment for experiment_id '' @ quoted i @ ''.'')
        (''Could not resolve experiment name for experiment_id '' @ quoted i @ ''.'')"
    have "andthen ?m (\<lambda>n. andthen (name_cache_set env' ExperimentNames i n) (\<lambda>_. ret n)) w1 = (r, w')"
      using run get w1(3) False unfolding resolve_experiment_name_from_experiment_id_def
      by (simp add: andthen_def del: not_None_eq split: prod.splits sum.splits)
    then show ?thesis
    proof (cases rule: andthen_run)
      case (1 e)
      with store_attr_run [OF w1(1) same 1(1)] w1(2) show ?thesis by simp
    next
      case (2 n w2)
      note told = store_attr_run [OF w1(1) same 2(1)]
      obtain u w3 where set: "name_cache_set env' ExperimentNames i n w2 = (u, w3)"
        by (cases "name_cache_set env' ExperimentNames i n w2")
      have stored: "names_inv env R ttl w3 \<and> tick w3 = Suc (tick w2) \<and> u = Inr ()"
        by (rule experiment_set_run [OF _ same _ set]) (use told in auto)
      with 2(2) set have "r = Inr n" "w' = w3" by (auto simp: andthen_def ret_def)
      moreover have "known_name env R ttl (tick w) (tick w3) i n"
        unfolding known_name_def fresh_def using told stored w1(2)
        by (intro exI [of _ "tick w2"] conjI) (elim conjE, simp_all)
      ultimately show ?thesis using stored told w1(2) by simp
    qed
  qed
qed

text \<open>What a name learnt from now on says about a run whose experiment was learnt before.\<close>

lemma name_of_known_run:
  assumes "names_inv env R ttl w1" "tick w < tick w1" and same: "same_store env env'"
    and "known_run env ttl (tick w) (tick w1) run_id i"
    and "resolve_experiment_name_from_experiment_id env' i w1 = (r, w')"
  shows "names_inv env R ttl w' \<and> tick w < tick w' \<and>
    (\<forall>n. r = Inr n \<longrightarrow> (\<exists>i. known_run env ttl (tick w) (tick w') run_id i \<and>
       known_name env R ttl (tick w) (tick w') i n))"
proof -
  note name = resolve_experiment_run [OF assms(1) same assms(5)]
  then have "known_run env ttl (tick w) (tick w') run_id i"
    by (intro known_widen(2) [OF assms(4)]) simp_all
  moreover have "\<forall>n. r = Inr n \<longrightarrow> known_name env R ttl (tick w) (tick w') i n"
    using name assms(2) known_widen(1) [of env R ttl "tick w1" "tick w'" i] by simp
  ultimately show ?thesis using name assms(2) by auto
qed

text \<open>A run that is not cached: the store is asked, its answer stored, then the name is resolved.\<close>

definition learn_run :: "env \<Rightarrow> string \<Rightarrow> (world, string) eff" where
  "learn_run env run_id =
     andthen (store_get env LkRun run_id (''Could not resolve run_id '' @ quoted run_id @ ''.'')) (\<lambda>run.
       case normalize_string (attr (attr run ''info'') ''experiment_id'') of
         None \<Rightarrow> raise (ResolutionExc (''Could not resolve experiment_id for run_id '' @ quoted run_id @ ''.''))
       | Some i \<Rightarrow> andthen (name_cache_set env RunExperiments run_id i)
           (\<lambda>_. resolve_experiment_name_from_experiment_id env i))"

lemma learn_run_run:
  assumes inv: "names_inv env R ttl w" and same: "same_store env env'" and run: "learn_run env' run_id w = (r, w')"
  shows "names_inv env R ttl w' \<and> tick w < tick w' \<and>
    (\<forall>n. r = Inr n \<longrightarrow> (\<exists>i. known_run env ttl (tick w) (tick w') run_id i \<and>
       known_name env R ttl (tick w) (tick w') i n))"
  using run unfolding learn_run_def
proof (cases rule: andthen_run)
  case (1 e)
  with store_get_run [OF 1(1) same] names_inv_tick [OF inv] show ?thesis by simp
next
  case (2 d w1)
  note got = store_get_run [OF 2(1) same]
  then have w1: "names_inv env R ttl w1" "tick w1 = Suc (tick w)" using names_inv_tick [OF inv] by simp_all
  show ?thesis
  proof (cases "normalize_string (attr (attr d ''info'') ''experiment_id'')")
    case None
    with 2(2) w1 show ?thesis by (auto simp: raise_def)
  next
    case (Some i)
    obtain u w2 where set: "name_cache_set env' RunExperiments run_id i w1 = (u, w2)"
      by (cases "name_cache_set env' RunExperiments run_id i w1")
    have learnt: "told_run env (tick w1) run_id i" using got Some w1(2) by (auto simp: told_run_def store_run_def)
    note stored = run_set_run [OF w1(1) same learnt set]
    with 2(2) set Some have "resolve_experiment_name_from_experiment_id env' i w2 = (r, w')"
      by (auto simp: andthen_def)
    moreover have "known_run env ttl (tick w) (tick w2) run_id i"
      unfolding known_run_def fresh_def using learnt stored w1(2) by (intro exI [of _ "tick w1"]) simp
    ultimately show ?thesis using name_of_known_run [of env R ttl w2 w env' run_id i] same stored w1(2) by simp
  qed
qed

lemma resolve_run_run:
  assumes inv: "names_inv env R ttl w" and same: "same_store env env'"
    and run: "resolve_experiment_name_from_run_id env' run_id w = (r, w')"
  shows "names_inv env R ttl w' \<and> tick w < tick w' \<and>
    (\<forall>n. r = Inr n \<longrightarrow> (\<exists>i. known_run env ttl (tick w) (tick w') run_id i \<and>
       known_name env R ttl (tick w) (tick w') i n))"
proof -
  obtain found w1 where get: "name_cache_get env' RunExperiments run_id w = (found, w1)"
    by (cases "name_cache_get env' RunExperiments run_id w")
  from run_get_run [OF inv same get] obtain cached where
    w1: "names_inv env R ttl w1" "tick w1 = Suc (tick w)" "found = Inr cached"
    and hit: "\<And>v. cached = Some v \<Longrightarrow> known_run env ttl (tick w) (tick w1) run_id v" by blast
  show ?thesis
  proof (cases "cached \<noteq> None \<and> cached \<noteq> Some []")
    case True
    with run get w1 have "resolve_experiment_name_from_experiment_id env' (opt_text cached) w1 = (r, w')"
      by (auto simp: resolve_experiment_name_from_run_id_def andthen_def)
    with True w1 hit show ?thesis
      by (intro name_of_known_run [of env R ttl w1 w env' run_id "opt_text cached"] same) (auto simp: opt_text_def)
  next
    case False
    have "learn_run env' run_id w1 = (r, w')"
      using run get w1(3) False unfolding resolve_experiment_name_from_run_id_def learn_run_def
      by (simp add: andthen_def del: not_None_eq split: prod.splits sum.splits)
    from learn_run_run [OF w1(1) same this] w1(2) known_widen show ?thesis
      by (metis Suc_lessD le_refl less_imp_le lessI)
  qed
qed

section \<open>Resolution keeps the invariant\<close>

lemma lookup_id_frame:
  "lookup_experiment_id_by_name env' n w = (r, w') \<Longrightarrow> w' = w\<lparr>tick := Suc (tick w)\<rparr>"
  by (auto simp: lookup_experiment_id_by_name_def store_get_def eff_defs world_eff_defs
      split: sum.splits prod.splits if_splits option.splits)

lemma id_cache_frame:
  assumes "id_cache_resolve env' key w = (r, w')"
  shows "experiment_name_cache w' = experiment_name_cache w \<and>
    run_experiment_name_cache w' = run_experiment_name_cache w \<and> tick w \<le> tick w'"
  using assms
  by (auto simp: id_cache_resolve_def eff_defs world_eff_defs split: sum.splits prod.splits dest!: lookup_id_frame)

lemma safe_run:
  "(\<And>w r w'. I w \<Longrightarrow> m w = (r, w') \<Longrightarrow> I w') \<Longrightarrow> safe I m (\<lambda>_. True)"
  by (auto simp: safe_def split: prod.splits)

definition names_kept :: "env \<Rightarrow> renames \<Rightarrow> real \<Rightarrow> env \<Rightarrow> world \<Rightarrow> bool" where
  "names_kept env R ttl env' w \<longleftrightarrow> same_store env env' \<and> names_inv env R ttl w"

interpretation fresh_names: resolution env' "names_kept env R ttl env'" for env R ttl env'
proof (unfold_locales, goal_cases)
  case (1 kind k msg)
  show ?case by (rule safe_run) (auto simp: names_kept_def dest: store_get_run intro: names_inv_tick)
next
  case (2 i)
  show ?case by (rule safe_run) (auto simp: names_kept_def dest: resolve_experiment_run)
next
  case (3 i)
  show ?case by (rule safe_run) (auto simp: names_kept_def dest: resolve_run_run)
next
  case (4 key)
  show ?case by (rule safe_run) (auto simp: names_kept_def dest!: id_cache_frame intro: names_inv_mono)
qed

section \<open>Responses keep the invariant\<close>

text \<open>The renames a response announces: a successful request whose rules read the identifier and the new name.\<close>

definition renamed :: "request \<Rightarrow> rule list \<Rightarrow> int \<Rightarrow> nat \<Rightarrow> renames" where
  "renamed rq rules status t =
     {(t, i', n') | i n i' n'. status < 400 \<and>
        set [RESOURCE_NAME_PARSER_EXPERIMENT_ID_TO_NAME, RESOURCE_NAME_PARSER_NEW_EXPERIMENT_NAME]
          \<subseteq> set (concat (map resource_name_parsers rules)) \<and>
        get_request_param rq ''experiment_id'' = Inr i \<and> get_request_param rq ''new_name'' = Inr n \<and>
        normalize_string (PStr i) = Some i' \<and> normalize_string (PStr n) = Some n'}"

lemma names_inv_more:
  assumes "names_inv env R ttl w" and "R \<subseteq> R'"
  shows "names_inv env R' ttl w"
  using assms backed_weaken [of env ttl "tick w" "told env R" "experiment_name_cache w" "told env R'"]
  unfolding names_inv_def told_def by blast

lemma names_inv_ids: "names_inv env R ttl (w\<lparr>experiment_id_cache := c\<rparr>) = names_inv env R ttl w"
  by (simp add: names_inv_def)

lemma backed_invalidate: "backed env ttl n T c \<Longrightarrow> backed env ttl n T (lookup_invalidate k c)"
  unfolding lookup_invalidate_def
  by (rule backed_shrink [of env ttl n T c n]) (auto intro: cache_at_delete peek_delete backed_cache)

lemma backed_clear: "backed env ttl n T c \<Longrightarrow> backed env ttl n T (lookup_clear c)"
  by (rule backed_shrink [of env ttl n T c n])
    (auto intro: cache_at_clear backed_cache, simp add: lookup_clear_def peek_def)

lemma names_inv_drop:
  "names_inv env R ttl w \<Longrightarrow> names_inv env R ttl (w\<lparr>experiment_name_cache := lookup_invalidate i (experiment_name_cache w)\<rparr>)"
  "names_inv env R ttl w \<Longrightarrow> names_inv env R ttl (w\<lparr>experiment_name_cache := lookup_clear (experiment_name_cache w)\<rparr>)"
  unfolding names_inv_def by (simp_all add: backed_invalidate backed_clear)

lemma update_name_run:
  assumes inv: "names_inv env R ttl w" and same: "same_store env env'"
    and run: "update_experiment_name_cache env' i n w = (r, w')"
  shows "r = Inr () \<and> tick w \<le> tick w' \<and> names_inv env
    (R \<union> {(tick w, i', n') | i' n'. normalize_string (PStr i) = Some i' \<and> normalize_string (PStr n) = Some n'}) ttl w'"
    (is "_ \<and> _ \<and> names_inv _ ?R _ _")
proof -
  let ?w = "w\<lparr>experiment_id_cache := id_clear (experiment_id_cache w)\<rparr>"
  have inv': "names_inv env ?R ttl ?w" unfolding names_inv_ids by (rule names_inv_more [OF inv]) simp
  show ?thesis
  proof (cases "\<exists>i' n'. normalize_string (PStr i) = Some i' \<and> normalize_string (PStr n) = Some n'")
    case True
    then obtain i' n' where ok: "normalize_string (PStr i) = Some i'" "normalize_string (PStr n) = Some n'" by blast
    with run have "name_cache_set env' ExperimentNames i' n' ?w = (r, w')"
      by (simp add: update_experiment_name_cache_def clear_experiment_ids_def andthen_def)
    from experiment_set_run [OF inv' same _ this] ok show ?thesis by (simp add: told_def)
  next
    case False
    with run have "r = Inr ()" "w' = ?w"
      by (auto simp: update_experiment_name_cache_def clear_experiment_ids_def andthen_def ret_def split: option.splits)
    with inv' show ?thesis by simp
  qed
qed

text \<open>What a response does to the caches, case by case.\<close>

lemma lift_run: "andthen (lift v) f w = (case v of Inl e \<Rightarrow> (Inl e, w) | Inr x \<Rightarrow> f x w)"
  by (simp add: andthen_def lift_def split: sum.splits)

lemma deletion_run:
  assumes "names_inv env R ttl w"
    and "(if deleted then andthen clear_experiment_ids (\<lambda>_.
           on_unresolved (andthen (lift v) invalidate_experiment_name) (ret ())) else ret ()) w = (r, w1)"
  shows "tick w1 = tick w \<and> names_inv env R ttl w1"
  using assms names_inv_drop(1) [OF assms(1)]
  by (cases v) (auto simp: clear_experiment_ids_def on_unresolved_def invalidate_experiment_name_def eff_defs
      names_inv_ids names_inv_def split: if_splits exc.splits)

lemma forget_names_run:
  assumes "names_inv env R ttl w" and "andthen clear_experiment_ids (\<lambda>_. clear_experiment_names) w = (r, w')"
  shows "tick w' = tick w \<and> names_inv env R ttl w'"
  using assms(2) names_inv_drop(2) [OF assms(1)]
  by (auto simp: clear_experiment_ids_def clear_experiment_names_def eff_defs names_inv_def)

lemma renaming_run:
  assumes inv: "names_inv env R ttl w" and same: "same_store env env'" and "R \<subseteq> R'"
    and told: "\<And>i n i' n'. pid = Inr i \<Longrightarrow> pn = Inr n \<Longrightarrow> normalize_string (PStr i) = Some i' \<Longrightarrow>
        normalize_string (PStr n) = Some n' \<Longrightarrow> (tick w, i', n') \<in> R'"
    and run: "on_unresolved (andthen (lift pid) (\<lambda>i. andthen (lift pn) (\<lambda>n. update_experiment_name_cache env' i n)))
        (andthen clear_experiment_ids (\<lambda>_. clear_experiment_names)) w = (r, w')"
  shows "tick w \<le> tick w' \<and> names_inv env R' ttl w'"
proof (cases "\<exists>i n. pid = Inr i \<and> pn = Inr n")
  case True
  then obtain i n where ok: "pid = Inr i" "pn = Inr n" by blast
  obtain u w1 where up: "update_experiment_name_cache env' i n w = (u, w1)"
    by (cases "update_experiment_name_cache env' i n w")
  note upd = update_name_run [OF inv same up]
  with run ok up have "w' = w1" by (auto simp: on_unresolved_def handle_def lift_run)
  moreover have "names_inv env R' ttl w1"
    by (rule names_inv_more [OF conjunct2 [OF conjunct2 [OF upd]]]) (use told [OF ok] \<open>R \<subseteq> R'\<close> in blast)
  ultimately show ?thesis using upd by simp
next
  case False
  then obtain e where e: "andthen (lift pid) (\<lambda>i. andthen (lift pn) (\<lambda>n. update_experiment_name_cache env' i n)) w = (Inl e, w)"
    by (cases pid; cases pn) (auto simp: lift_run)
  have "w' = w \<or> andthen clear_experiment_ids (\<lambda>_. clear_experiment_names) w = (r, w')"
    using run unfolding on_unresolved_def handle_def e by (cases e) (simp_all add: raise_def)
  then have "tick w' = tick w \<and> names_inv env R ttl w'" using inv forget_names_run [OF inv] by metis
  then show ?thesis by (simp add: names_inv_more [OF _ \<open>R \<subseteq> R'\<close>])
qed

lemma response_run:
  assumes inv: "names_inv env R ttl w" and same: "same_store env env'"
    and run: "apply_response_cache_updates env' rq rules status w = (r, w')"
  shows "tick w \<le> tick w' \<and> names_inv env (R \<union> renamed rq rules status (tick w)) ttl w'"
proof (cases "400 \<le> status")
  case True
  with run inv show ?thesis by (auto simp: apply_response_cache_updates_def ret_def intro: names_inv_more)
next
  case False
  from run False show ?thesis
    unfolding apply_response_cache_updates_def if_not_P [OF False] Let_def
  proof (cases rule: andthen_run)
    case (1 e)
    from deletion_run [OF inv 1(1)] show ?thesis by (auto intro: names_inv_more)
  next
    case (2 x w1)
    note del = deletion_run [OF inv 2(1)]
    show ?thesis
    proof (cases "RESOURCE_NAME_PARSER_EXPERIMENT_ID_TO_NAME \<in> set (concat (map resource_name_parsers rules)) \<and>
        RESOURCE_NAME_PARSER_NEW_EXPERIMENT_NAME \<in> set (concat (map resource_name_parsers rules))")
      case no: False
      with 2(2) have "w' = w1" by (auto simp: ret_def)
      with del show ?thesis by (auto intro: names_inv_more)
    next
      case yes: True
      have "tick w1 \<le> tick w' \<and> names_inv env (R \<union> renamed rq rules status (tick w)) ttl w'"
        by (rule renaming_run [OF _ same _ _ 2(2) [unfolded if_P [OF yes]]])
          (use del yes False in \<open>auto simp: renamed_def\<close>)
      with del show ?thesis by simp
    qed
  qed
qed

section \<open>Reachable states\<close>

text \<open>
  What requests do to the caches of names, in any order: resolve identifiers, apply the effect of a response,
  and anything else that leaves the two caches alone. \<open>R\<close> collects the renames announced so far.
\<close>

inductive names_reachable :: "env \<Rightarrow> real \<Rightarrow> renames \<Rightarrow> world \<Rightarrow> bool" for env ttl where
  started: "0 < n \<Longrightarrow> experiment_name_cache w = new_cache ttl n \<Longrightarrow> 0 < m \<Longrightarrow>
    run_experiment_name_cache w = new_cache ttl m \<Longrightarrow> names_reachable env ttl {} w"
| resolved_names: "names_reachable env ttl R w \<Longrightarrow> same_store env env' \<Longrightarrow>
    names_reachable env ttl R (snd (resolve_resource_names env' rq parser_ids w))"
| resolved_run: "names_reachable env ttl R w \<Longrightarrow> same_store env env' \<Longrightarrow>
    names_reachable env ttl R (snd (resolve_experiment_name_from_run_id env' run_id w))"
| resolved_experiment: "names_reachable env ttl R w \<Longrightarrow> same_store env env' \<Longrightarrow>
    names_reachable env ttl R (snd (resolve_experiment_name_from_experiment_id env' i w))"
| resolved_ids: "names_reachable env ttl R w \<Longrightarrow> same_store env env' \<Longrightarrow>
    names_reachable env ttl R (snd (resolve_experiment_ids_from_names env' ns w))"
| responded: "names_reachable env ttl R w \<Longrightarrow> same_store env env' \<Longrightarrow>
    names_reachable env ttl (R \<union> renamed rq rules status (tick w))
      (snd (apply_response_cache_updates env' rq rules status w))"
| elsewhere: "names_reachable env ttl R w \<Longrightarrow> experiment_name_cache w' = experiment_name_cache w \<Longrightarrow>
    run_experiment_name_cache w' = run_experiment_name_cache w \<Longrightarrow> tick w \<le> tick w' \<Longrightarrow>
    names_reachable env ttl R w'"

lemma backed_new: "0 < n \<Longrightarrow> backed env ttl t T (new_cache ttl n)"
  by (simp add: backed_def cache_at_new peek_new)

lemma safe_snd: "safe I m Q \<Longrightarrow> I w \<Longrightarrow> I (snd (m w))"
  by (cases "m w") (auto simp: safe_def)

lemma names_reachable_inv: "names_reachable env ttl R w \<Longrightarrow> names_inv env R ttl w"
proof (induction rule: names_reachable.induct)
  case (started n w m)
  then show ?case by (simp add: names_inv_def backed_new)
next
  case (resolved_names R w env' rq parser_ids)
  then show ?case
    using safe_snd [OF fresh_names.keeps_resolve_resource_names] unfolding names_kept_def by metis
next
  case (resolved_run R w env' run_id)
  then show ?case by (metis prod.collapse resolve_run_run)
next
  case (resolved_experiment R w env' i)
  then show ?case by (metis prod.collapse resolve_experiment_run)
next
  case (resolved_ids R w env' ns)
  then show ?case using safe_snd [OF fresh_names.keeps_resolve_ids] unfolding names_kept_def by metis
next
  case (responded R w env' rq rules status)
  then show ?case by (metis prod.collapse response_run)
next
  case (elsewhere R w w')
  then show ?case by (auto intro: names_inv_mono)
qed

section \<open>Property\<close>

text \<open>
  C21: a name resolved for a run is a recent one. In every state that resolutions and responses reach, when
  a run is resolved to a name, there is an experiment such that the store named it as the run's, the store or a
  successful rename gave it this name, and both were learnt during this resolution or were less than the
  time-to-live old at one of its readings of the clock.
\<close>

theorem resolved_run_name_fresh:
  assumes "names_reachable env ttl R w" and "same_store env env'"
    and "resolve_experiment_name_from_run_id env' run_id w = (Inr name, w')"
  shows "\<exists>i t u. told_run env t run_id i \<and> fresh env ttl (tick w) (tick w') t \<and>
    told env R u i name \<and> fresh env ttl (tick w) (tick w') u"
  using resolve_run_run [OF names_reachable_inv [OF assms(1)] assms(2,3)]
  unfolding known_name_def known_run_def by blast

definition sample_store :: "nat \<Rightarrow> store_lookup \<Rightarrow> string \<Rightarrow> exc + pv" where
  "sample_store t kind key =
     (case kind of
        LkRun \<Rightarrow> Inr (PDict [(''info'', PDict [(''experiment_id'', PStr ''7'')])])
      | _ \<Rightarrow> Inr (PDict [(''name'', PStr ''exp'')]))"

theorem resolved_run_name_fresh_witness:
  "let env = (sample_env (\<lambda>a. True))\<lparr>env_lookup := sample_store\<rparr> in
   \<exists>w'. resolve_experiment_name_from_run_id env ''r'' (sample_world SELF_SUBJECT_ACCESS_REVIEW) = (Inr ''exp'', w') \<and>
     (\<exists>i t u. told_run env t ''r'' i \<and> fresh env 300 0 (tick w') t \<and>
        told env {} u i ''exp'' \<and> fresh env 300 0 (tick w') u)"
proof -
  let ?env = "(sample_env (\<lambda>a. True))\<lparr>env_lookup := sample_store\<rparr>" and ?w = "sample_world SELF_SUBJECT_ACCESS_REVIEW"
  have tick: "tick ?w = 0" by (simp add: sample_world_def)
  have reach: "names_reachable ?env 300 {} ?w"
    by (rule names_reachable.started [of 10 _ _ 10]) (simp_all add: sample_world_def)
  obtain w' where run: "resolve_experiment_name_from_run_id ?env ''r'' ?w = (Inr ''exp'', w')"
    by (simp add: resolve_experiment_name_from_run_id_def resolve_experiment_name_from_experiment_id_def
        name_cache_get_def name_cache_set_def store_attr_def store_get_def sample_store_def sample_env_def
        sample_world_def eff_defs world_eff_defs attr_def dget_def normalize_string_def nonempty_def py_strip_def
        py_rstrip_def py_lstrip_def is_space_def lookup_get_def cache_set_def reap_expired_def new_cache_def)
  from resolved_run_name_fresh [OF reach _ run] show ?thesis
    unfolding Let_def tick using run by (auto simp: same_store_def)
qed

end
