(* ===== verification/Compiler.thy ===== *)
theory Compiler
  imports Rules_Registry Graphql
begin

text \<open>
  \<open>auth/compiler.py\<close>: the rule tables compiled at startup against the routes of the server, the coverage
  checks that stop an incomplete plugin from starting, and the two lookups of a request: its path
  parameters and its rules. The routes of MLflow and FastAPI are the arguments \<open>flask_app\<close> and
  \<open>fastapi_routes\<close>; a handler is known by its name, and decorators wrap it.
\<close>

section \<open>The routes\<close>

datatype handler = Function string | Wrapped handler

primrec unwrap_handler :: "handler \<Rightarrow> string" where
  "unwrap_handler (Function f) = f"
| "unwrap_handler (Wrapped h) = unwrap_handler h"

text \<open>
  \<open>fk_requested\<close> are the request classes for which \<open>get_endpoints\<close> asks its callback, \<open>fk_get_handler\<close> is
  \<open>get_handler\<close>, \<open>fk_endpoints\<close> what \<open>get_endpoints\<close> returns; \<open>fk_url_rules\<close> is the URL map, each rule
  with its view function, if it has one, and its methods in the order they are iterated.
\<close>

record flask_app =
  fk_requested :: "string list"
  fk_get_handler :: "string \<Rightarrow> handler option"
  fk_endpoints :: "(string \<times> handler \<times> string list) list"
  fk_url_rules :: "(string \<times> handler option \<times> string list) list"

section \<open>The compiled tables\<close>

text \<open>The globals of the module.\<close>

record registry =
  auth_rules :: "((string \<times> string) \<times> rule list) list"
  auth_regex_rules :: "(piece list \<times> string \<times> rule list) list"
  handler_rules :: "(string \<times> rule list) list"
  path_param_patterns :: "(piece list \<times> string) list"
  rules_compiled :: bool

definition empty_registry :: registry where
  "empty_registry =
     \<lparr>auth_rules = [], auth_regex_rules = [], handler_rules = [], path_param_patterns = [],
      rules_compiled = False\<rparr>"

definition reset_compiled_rules :: "registry \<Rightarrow> registry" where
  "reset_compiled_rules r =
     r\<lparr>rules_compiled := False, auth_rules := [], auth_regex_rules := [], handler_rules := [],
       path_param_patterns := []\<rparr>"

text \<open>The local variables of \<open>_compile_authorization_rules\<close>.\<close>

record build =
  bd_exact :: "((string \<times> string) \<times> rule list) list"
  bd_regex :: "(piece list \<times> string \<times> rule list) list"
  bd_patterns :: "(piece list \<times> string) list"
  bd_seen :: "(string \<times> string) list"
  bd_uncovered :: "(string \<times> string) list"

definition empty_build :: build where
  "empty_build = \<lparr>bd_exact = [], bd_regex = [], bd_patterns = [], bd_seen = [], bd_uncovered = []\<rparr>"

definition templated :: "string \<Rightarrow> bool" where
  "templated path = (CHR ''<'' \<in> set path)"

definition canonical_route :: "string option \<Rightarrow> string \<Rightarrow> string" where
  "canonical_route static path = canonicalize_path static path None None None None"

definition register_path_param_pattern :: "string \<Rightarrow> string \<Rightarrow> build \<Rightarrow> build" where
  "register_path_param_pattern path m b =
     (if \<not> templated path then b
      else if (path, m) \<in> set (bd_seen b) then b
      else b\<lparr>bd_seen := (path, m) # bd_seen b,
             bd_patterns := bd_patterns b @ [(compile_template path, m)]\<rparr>)"

definition request_authorization_handler ::
  "flask_app \<Rightarrow> request_table \<Rightarrow> string \<Rightarrow> (string \<times> rule list) list \<Rightarrow> (string \<times> rule list) list" where
  "request_authorization_handler app req c hr =
     (case (fk_get_handler app c, map_of req c) of
        (Some h, Some v) \<Rightarrow> AList.update (unwrap_handler h) (normalize_rules v) hr
      | _ \<Rightarrow> hr)"

definition add_rules :: "string \<Rightarrow> rule list \<Rightarrow> string \<Rightarrow> build \<Rightarrow> build" where
  "add_rules path rules m b =
     (if templated path
      then register_path_param_pattern path m
             (b\<lparr>bd_regex := bd_regex b @ [(compile_template path, m, rules)]\<rparr>)
      else b\<lparr>bd_exact := AList.update (path, m) rules (bd_exact b)\<rparr>)"

definition compile_endpoint ::
  "string option \<Rightarrow> path_table \<Rightarrow> (string \<times> rule list) list \<Rightarrow> string \<times> handler \<times> string list \<Rightarrow> build \<Rightarrow> build" where
  "compile_endpoint static paths hr e b =
     (case e of (path, handler, methods) \<Rightarrow>
        if path = [] then b
        else (let canonical = canonical_route static path in
          if is_unprotected_path canonical then b
          else case map_of hr (unwrap_handler handler) of
            None \<Rightarrow>
              if list_all (\<lambda>m. map_of paths (canonical, m) \<noteq> None) methods then b
              else b\<lparr>bd_uncovered := bd_uncovered b @ map (Pair canonical) methods\<rparr>
          | Some rules \<Rightarrow> fold (add_rules canonical rules) methods b))"

definition compile_url_rule ::
  "string option \<Rightarrow> path_table \<Rightarrow> (string \<times> rule list) list \<Rightarrow> string \<times> handler option \<times> string list \<Rightarrow> build \<Rightarrow> build" where
  "compile_url_rule static paths hr u b =
     (case u of (path, view, methods) \<Rightarrow>
        (case view of
           None \<Rightarrow> b
         | Some handler \<Rightarrow>
             (let canonical = canonical_route static path in
              if is_unprotected_path canonical then b
              else if map_of hr (unwrap_handler handler) \<noteq> None then b
              else (let served = filter (\<lambda>m. m \<noteq> ''HEAD'' \<and> m \<noteq> ''OPTIONS'') methods;
                        missing = filter (\<lambda>m. map_of paths (canonical, m) = None) served
                    in fold (register_path_param_pattern canonical) served
                         (b\<lparr>bd_uncovered := bd_uncovered b @ map (Pair canonical) missing\<rparr>)))))"

definition compile_path_entry :: "(string \<times> string) \<times> rule_entry \<Rightarrow> build \<Rightarrow> build" where
  "compile_path_entry e b = (case e of ((path, m), v) \<Rightarrow> add_rules path (normalize_rules v) m b)"

definition uncovered_message :: "(string \<times> string) list \<Rightarrow> string" where
  "uncovered_message uncovered =
     ''Kubernetes auth plugin cannot determine authorization mapping for endpoints: '' @
     py_join '', '' (map (\<lambda>(path, m). m @ '' '' @ path) uncovered) @
     ''. Update the plugin allow list or verb mapping.''"

definition build_rules ::
  "string option \<Rightarrow> flask_app \<Rightarrow> path_table \<Rightarrow> (string \<times> rule list) list \<Rightarrow> build" where
  "build_rules static app paths hr =
     fold compile_path_entry paths
       (fold (compile_url_rule static paths hr) (fk_url_rules app)
         (fold (compile_endpoint static paths hr) (fk_endpoints app) empty_build))"

definition compile_authorization_rules ::
  "string option \<Rightarrow> flask_app \<Rightarrow> request_table \<Rightarrow> path_table \<Rightarrow> registry \<Rightarrow> (exc + unit) \<times> registry" where
  "compile_authorization_rules static app req paths r =
     (if rules_compiled r then (Inr (), r)
      else (let hr = fold (request_authorization_handler app req) (fk_requested app) [];
                b = build_rules static app paths hr;
                r1 = r\<lparr>handler_rules := hr\<rparr>
            in if bd_uncovered b \<noteq> [] then (Inl (MlflowExc INTERNAL_ERROR (uncovered_message (bd_uncovered b))), r1)
               else (Inr (), r1\<lparr>auth_rules := fold (\<lambda>(k, v). AList.update k v) (bd_exact b) (auth_rules r),
                                auth_regex_rules := auth_regex_rules r @ bd_regex b,
                                path_param_patterns := path_param_patterns r @ bd_patterns b,
                                rules_compiled := True\<rparr>)))"

section \<open>FastAPI routes\<close>

definition missing_route_methods ::
  "string option \<Rightarrow> path_table \<Rightarrow> string \<times> string list \<Rightarrow> (string \<times> string) list" where
  "missing_route_methods static paths route =
     (case route of (path, methods) \<Rightarrow>
        (let canonical = canonical_route static path in
         if canonical = [] \<or> is_unprotected_path canonical then []
         else map (\<lambda>m. (m, canonical))
           (filter (\<lambda>m. m \<noteq> ''HEAD'' \<and> m \<noteq> ''OPTIONS'' \<and>
              map_of paths (fastapi_path_to_template canonical, m) = None) methods)))"

definition validate_fastapi_route_authorization ::
  "string option \<Rightarrow> path_table \<Rightarrow> (string \<times> string list) list \<Rightarrow> exc + unit" where
  "validate_fastapi_route_authorization static paths routes =
     (let missing = concat (map (missing_route_methods static paths) routes) in
      if missing = [] then Inr ()
      else Inl (MlflowExc INTERNAL_ERROR
        (''Kubernetes auth plugin is missing authorization rules for FastAPI endpoints: '' @
         py_join '', '' (map (\<lambda>(m, path). m @ '' '' @ path) missing) @
         ''. Update PATH_AUTHORIZATION_RULES before enabling the plugin.'')))"

section \<open>Lookups of a request\<close>

fun extract_path_params_from :: "(piece list \<times> string) list \<Rightarrow> string \<Rightarrow> string \<Rightarrow> (string \<times> string) list" where
  "extract_path_params_from [] path m = []"
| "extract_path_params_from ((pattern, candidate_method) # rest) path m =
     (if candidate_method \<noteq> m then extract_path_params_from rest path m
      else case named_groups pattern path of
        None \<Rightarrow> extract_path_params_from rest path m
      | Some groups \<Rightarrow> groups)"

definition extract_path_params :: "registry \<Rightarrow> string \<Rightarrow> string \<Rightarrow> (string \<times> string) list" where
  "extract_path_params r path m = extract_path_params_from (path_param_patterns r) path m"

fun first_regex_rules :: "(piece list \<times> string \<times> rule list) list \<Rightarrow> string \<Rightarrow> string \<Rightarrow> rule list option" where
  "first_regex_rules [] path m = None"
| "first_regex_rules ((pattern, pattern_method, rules) # rest) path m =
     (if pattern_method = m \<and> full_match False pattern path then Some rules
      else first_regex_rules rest path m)"

text \<open>GraphQL: the rules come from the query, never from the operation name.\<close>

definition find_graphql_rules :: "env \<Rightarrow> pdict option \<Rightarrow> rule list option" where
  "find_graphql_rules env payload =
     (let d = (case payload of None \<Rightarrow> [] | Some p \<Rightarrow> p) in
      case (if dhas d ''query'' then dget d ''query'' else PStr []) of
        PStr q \<Rightarrow>
          if q = [] then None
          else (let info = extract_graphql_query_info env q (as_dict (dget d ''variables'')) in
            if gql_root_fields info = [] \<and> \<not> gql_nested info then None
            else determine_graphql_rules info)
      | _ \<Rightarrow> None)"

definition find_authorization_rules ::
  "env \<Rightarrow> string option \<Rightarrow> registry \<Rightarrow> string \<Rightarrow> string \<Rightarrow> pdict option \<Rightarrow> rule list option" where
  "find_authorization_rules env static r path m payload =
     (let canonical = canonical_route static path in
      case map_of (auth_rules r) (canonical, m) of
        Some rules \<Rightarrow> if endswith canonical ''/graphql'' then find_graphql_rules env payload else Some rules
      | None \<Rightarrow> first_regex_rules (auth_regex_rules r) canonical m)"

section \<open>What is compiled stays compiled\<close>

text \<open>A route with rules: an exact entry, or a pattern for a path with parameters.\<close>

definition covered :: "build \<Rightarrow> string \<Rightarrow> string \<Rightarrow> bool" where
  "covered b path m \<longleftrightarrow>
     (if templated path then \<exists>rules. (compile_template path, m, rules) \<in> set (bd_regex b)
      else map_of (bd_exact b) (path, m) \<noteq> None)"

text \<open>
  Where the rule lists of a build come from: \<open>T (Some path)\<close> for an exact entry, \<open>T None\<close> for a pattern.
\<close>

definition from_tables :: "(string option \<Rightarrow> rule list \<Rightarrow> bool) \<Rightarrow> build \<Rightarrow> bool" where
  "from_tables T b \<longleftrightarrow>
     (\<forall>p m rules. map_of (bd_exact b) (p, m) = Some rules \<longrightarrow> T (Some p) rules) \<and>
     (\<forall>pattern m rules. (pattern, m, rules) \<in> set (bd_regex b) \<longrightarrow> T None rules)"

lemma register_frame [simp]:
  "bd_exact (register_path_param_pattern path m b) = bd_exact b"
  "bd_regex (register_path_param_pattern path m b) = bd_regex b"
  "bd_uncovered (register_path_param_pattern path m b) = bd_uncovered b"
  by (simp_all add: register_path_param_pattern_def)

lemma add_rules_effects [simp]:
  "bd_uncovered (add_rules path rules m b) = bd_uncovered b"
  "covered (add_rules path rules m b) path m"
  "covered b p m' \<Longrightarrow> covered (add_rules path rules m b) p m'"
  by (auto simp: add_rules_def covered_def update_conv')

lemma add_rules_from:
  "from_tables T b \<Longrightarrow> T (if templated path then None else Some path) rules \<Longrightarrow>
   from_tables T (add_rules path rules m b)"
  by (auto simp: add_rules_def from_tables_def update_conv' split: if_splits)

lemma fold_keeps: "P b \<Longrightarrow> (\<And>x b. x \<in> set xs \<Longrightarrow> P b \<Longrightarrow> P (f x b)) \<Longrightarrow> P (fold f xs b)"
  by (induction xs arbitrary: b) auto

lemma fold_reaches:
  "x \<in> set xs \<Longrightarrow> (\<And>b. P (f x b)) \<Longrightarrow> (\<And>y b. y \<in> set xs \<Longrightarrow> P b \<Longrightarrow> P (f y b)) \<Longrightarrow> P (fold f xs b)"
proof (induction xs arbitrary: b)
  case (Cons y ys)
  then show ?case by (cases "x = y") (auto intro: fold_keeps)
qed simp

lemma fold_register_frame [simp]:
  "bd_exact (fold (register_path_param_pattern path) ms b) = bd_exact b"
  "bd_regex (fold (register_path_param_pattern path) ms b) = bd_regex b"
  "bd_uncovered (fold (register_path_param_pattern path) ms b) = bd_uncovered b"
  by (induction ms arbitrary: b) simp_all

lemma covered_frame:
  "bd_exact b = bd_exact b' \<Longrightarrow> bd_regex b = bd_regex b' \<Longrightarrow> covered b p m = covered b' p m"
  by (simp add: covered_def)

lemma covered_uncovered [simp]: "covered (b\<lparr>bd_uncovered := u\<rparr>) p m = covered b p m"
  by (rule covered_frame) simp_all

lemma covered_register [simp]:
  "covered (fold (register_path_param_pattern path) ms b) p m = covered b p m"
  by (rule covered_frame) simp_all

lemma from_tables_frame:
  "bd_exact b = bd_exact b' \<Longrightarrow> bd_regex b = bd_regex b' \<Longrightarrow> from_tables T b = from_tables T b'"
  by (simp add: from_tables_def)

lemma from_tables_simps [simp]:
  "from_tables T (b\<lparr>bd_uncovered := u\<rparr>) = from_tables T b"
  "from_tables T (fold (register_path_param_pattern path) ms b) = from_tables T b"
  by (rule from_tables_frame; simp)+

lemma compile_steps_keep:
  "covered b p m \<Longrightarrow> covered (compile_endpoint static paths hr e b) p m"
  "covered b p m \<Longrightarrow> covered (compile_url_rule static paths hr u b) p m"
  "covered b p m \<Longrightarrow> covered (compile_path_entry pe b) p m"
  by (auto simp: compile_endpoint_def compile_url_rule_def compile_path_entry_def Let_def
      intro!: fold_keeps [where P = "\<lambda>b. covered b p m"] split: prod.splits option.splits)

lemma uncovered_grows:
  "set (bd_uncovered b) \<subseteq> set (bd_uncovered (compile_endpoint static paths hr e b))"
  "set (bd_uncovered b) \<subseteq> set (bd_uncovered (compile_url_rule static paths hr u b))"
  "set (bd_uncovered b) \<subseteq> set (bd_uncovered (compile_path_entry pe b))"
proof -
  have "bd_uncovered (fold (add_rules path rules) ms b) = bd_uncovered b" for path rules ms
    by (induction ms arbitrary: b) simp_all
  then show "set (bd_uncovered b) \<subseteq> set (bd_uncovered (compile_endpoint static paths hr e b))"
    by (auto simp: compile_endpoint_def Let_def split: prod.splits option.splits)
qed (auto simp: compile_url_rule_def compile_path_entry_def Let_def split: prod.splits option.splits)

section \<open>A successful compilation\<close>

definition handler_table :: "flask_app \<Rightarrow> request_table \<Rightarrow> (string \<times> rule list) list" where
  "handler_table app req = fold (request_authorization_handler app req) (fk_requested app) []"

definition built :: "string option \<Rightarrow> flask_app \<Rightarrow> request_table \<Rightarrow> path_table \<Rightarrow> build" where
  "built static app req paths = build_rules static app paths (handler_table app req)"

lemma built_uncovered:
  assumes "e \<in> set (fk_endpoints app)"
    and "\<And>b. x \<in> set (bd_uncovered (compile_endpoint static paths (handler_table app req) e b))"
  shows "x \<in> set (bd_uncovered (built static app req paths))"
  unfolding built_def build_rules_def
  using uncovered_grows
  by (intro fold_keeps [where P = "\<lambda>b. x \<in> set (bd_uncovered b)"]
        fold_reaches [OF assms(1), where P = "\<lambda>b. x \<in> set (bd_uncovered b)"] assms(2)) blast+

lemma built_uncovered_url:
  assumes "u \<in> set (fk_url_rules app)"
    and "\<And>b. x \<in> set (bd_uncovered (compile_url_rule static paths (handler_table app req) u b))"
  shows "x \<in> set (bd_uncovered (built static app req paths))"
  unfolding built_def build_rules_def
  using uncovered_grows
  by (intro fold_keeps [where P = "\<lambda>b. x \<in> set (bd_uncovered b)" and f = compile_path_entry]
        fold_reaches [OF assms(1), where P = "\<lambda>b. x \<in> set (bd_uncovered b)"] assms(2)) blast+

lemma built_covers_paths:
  assumes "map_of paths (p, m) \<noteq> None"
  shows "covered (built static app req paths) p m"
proof -
  from assms obtain v where "((p, m), v) \<in> set paths" by (auto dest: map_of_SomeD)
  then show ?thesis
    unfolding built_def build_rules_def
    by (rule fold_reaches) (auto simp: compile_path_entry_def intro: compile_steps_keep)
qed

lemma built_covers_endpoints:
  assumes "(path, h, methods) \<in> set (fk_endpoints app)" and "m \<in> set methods" and "path \<noteq> []"
    and "\<not> is_unprotected_path (canonical_route static path)"
    and "bd_uncovered (built static app req paths) = []"
  shows "covered (built static app req paths) (canonical_route static path) m"
proof (cases "map_of (handler_table app req) (unwrap_handler h)")
  case None
  have "list_all (\<lambda>m. map_of paths (canonical_route static path, m) \<noteq> None) methods"
  proof (rule ccontr)
    assume not: "\<not> ?thesis"
    have "(canonical_route static path, m) \<in> set (bd_uncovered (built static app req paths))"
      by (rule built_uncovered [OF assms(1)]) (use None not assms(2-4) in \<open>auto simp: compile_endpoint_def Let_def\<close>)
    with assms(5) show False by simp
  qed
  with assms(2) show ?thesis by (intro built_covers_paths) (auto simp: list_all_iff)
next
  case (Some rules)
  have "covered (compile_endpoint static paths (handler_table app req) (path, h, methods) b)
      (canonical_route static path) m" for b
    using assms(2-4) Some
    by (auto simp: compile_endpoint_def Let_def
        intro!: fold_reaches [where P = "\<lambda>b. covered b (canonical_route static path) m"])
  then show ?thesis
    unfolding built_def build_rules_def
    by (rule fold_keeps [where P = "\<lambda>b. covered b (canonical_route static path) m", OF
          fold_keeps [where P = "\<lambda>b. covered b (canonical_route static path) m", OF
          fold_reaches [OF assms(1), where P = "\<lambda>b. covered b (canonical_route static path) m"]]])
       (auto intro: compile_steps_keep)
qed

lemma built_covers_url_rules:
  assumes "(path, Some h, methods) \<in> set (fk_url_rules app)" and "m \<in> set methods"
    and "m \<noteq> ''HEAD''" and "m \<noteq> ''OPTIONS''"
    and "map_of (handler_table app req) (unwrap_handler h) = None"
    and "\<not> is_unprotected_path (canonical_route static path)"
    and "bd_uncovered (built static app req paths) = []"
  shows "covered (built static app req paths) (canonical_route static path) m"
proof (rule built_covers_paths, rule notI)
  assume "map_of paths (canonical_route static path, m) = None"
  then have "(canonical_route static path, m) \<in> set (bd_uncovered (built static app req paths))"
    by (intro built_uncovered_url [OF assms(1)])
       (use assms(2-6) in \<open>auto simp: compile_url_rule_def Let_def\<close>)
  with assms(7) show False by simp
qed

definition exact_distinct :: "build \<Rightarrow> bool" where
  "exact_distinct b = distinct (map fst (bd_exact b))"

lemma exact_distinct_simps [simp]:
  "exact_distinct empty_build"
  "exact_distinct (b\<lparr>bd_uncovered := u\<rparr>) = exact_distinct b"
  "exact_distinct (fold (register_path_param_pattern path) ms b) = exact_distinct b"
  by (simp_all add: exact_distinct_def empty_build_def)

lemma exact_distinct_add: "exact_distinct b \<Longrightarrow> exact_distinct (add_rules path rules m b)"
  by (simp add: exact_distinct_def add_rules_def distinct_update)

lemma built_distinct: "exact_distinct (built static app req paths)"
  unfolding built_def build_rules_def
  by (intro fold_keeps [where P = exact_distinct])
     (auto simp: compile_endpoint_def compile_url_rule_def compile_path_entry_def Let_def
        intro!: exact_distinct_add fold_keeps [where P = exact_distinct] split: prod.splits option.splits)

lemma map_of_rev_distinct: "distinct (map fst d) \<Longrightarrow> map_of (rev d) = map_of d"
  by (rule map_of_inject_set [THEN iffD2]) (simp_all add: rev_map [symmetric])

lemma map_of_exact:
  "map_of (fold (\<lambda>(k, v). AList.update k v) (bd_exact (built static app req paths)) []) =
   map_of (bd_exact (built static app req paths))"
  using map_of_dict_update [of "bd_exact (built static app req paths)" "[]"] built_distinct [of static app req paths]
  by (auto simp: dict_update_def exact_distinct_def simp: map_of_rev_distinct)

definition table_rules :: "request_table \<Rightarrow> path_table \<Rightarrow> string option \<Rightarrow> rule list \<Rightarrow> bool" where
  "table_rules req paths k rules \<longleftrightarrow>
     (\<exists>v. rules = normalize_rules v \<and>
        (v \<in> snd ` set req \<or>
         (\<exists>p m. ((p, m), v) \<in> set paths \<and> k = (if templated p then None else Some p))))"

lemma request_table_rules: "map_of req c = Some v \<Longrightarrow> table_rules req paths k (normalize_rules v)"
  unfolding table_rules_def by (metis image_eqI map_of_SomeD snd_conv)

lemma handler_table_from:
  "map_of (handler_table app req) f = Some rules \<Longrightarrow> table_rules req paths k rules"
proof -
  have "\<forall>f rules. map_of (handler_table app req) f = Some rules \<longrightarrow> table_rules req paths k rules"
    unfolding handler_table_def
    by (rule fold_keeps)
       (auto simp: request_authorization_handler_def update_conv' request_table_rules
          split: option.splits if_splits)
  then show "map_of (handler_table app req) f = Some rules \<Longrightarrow> table_rules req paths k rules" by blast
qed

lemma built_from_tables: "from_tables (table_rules req paths) (built static app req paths)"
proof -
  let ?P = "from_tables (table_rules req paths)"
  have init: "?P empty_build" by (simp add: from_tables_def empty_build_def)
  have endpoint: "?P b \<Longrightarrow> ?P (compile_endpoint static paths (handler_table app req) e b)" for e b
    by (auto simp: compile_endpoint_def Let_def
        intro!: fold_keeps [where P = ?P] add_rules_from dest: handler_table_from split: prod.splits option.splits)
  have url: "?P b \<Longrightarrow> ?P (compile_url_rule static paths (handler_table app req) u b)" for u b
    by (auto simp: compile_url_rule_def Let_def split: prod.splits option.splits)
  have entry: "e \<in> set paths \<Longrightarrow> ?P b \<Longrightarrow> ?P (compile_path_entry e b)" for e b
    by (cases e) (fastforce simp: compile_path_entry_def table_rules_def intro!: add_rules_from)
  show ?thesis
    unfolding built_def build_rules_def
    by (intro fold_keeps [where P = ?P] init endpoint url entry)
qed

lemma compile_result:
  assumes "compile_authorization_rules static app req paths empty_registry = (Inr (), r)"
  shows "bd_uncovered (built static app req paths) = [] \<and>
    auth_rules r = fold (\<lambda>(k, v). AList.update k v) (bd_exact (built static app req paths)) [] \<and>
    auth_regex_rules r = bd_regex (built static app req paths) \<and>
    path_param_patterns r = bd_patterns (built static app req paths)"
  using assms
  by (auto simp: compile_authorization_rules_def empty_registry_def Let_def built_def handler_table_def
      split: if_splits)

lemma first_regex_found:
  "(pattern, m, rules) \<in> set rs \<Longrightarrow> full_match False pattern path \<Longrightarrow> first_regex_rules rs path m \<noteq> None"
  by (induction rs path m rule: first_regex_rules.induct) auto

lemma first_regex_from:
  "first_regex_rules rs path m = Some rules \<Longrightarrow> \<exists>pattern. (pattern, m, rules) \<in> set rs \<and> full_match False pattern path"
  by (induction rs path m rule: first_regex_rules.induct) (auto split: if_splits)

section \<open>Properties\<close>

text \<open>
  The routes the two startup checks are about: protobuf endpoints, Flask routes whose view is not the
  handler of a request class, FastAPI routes. The path of a route is canonical, for FastAPI as a template.
\<close>

definition protected_route ::
  "string option \<Rightarrow> flask_app \<Rightarrow> request_table \<Rightarrow> (string \<times> string list) list \<Rightarrow> string \<Rightarrow> string \<Rightarrow> bool" where
  "protected_route static app req routes template m \<longleftrightarrow>
     (\<exists>path h methods. template = canonical_route static path \<and> \<not> is_unprotected_path template \<and>
        m \<in> set methods \<and>
        ((path, h, methods) \<in> set (fk_endpoints app) \<and> path \<noteq> [] \<or>
         (path, Some h, methods) \<in> set (fk_url_rules app) \<and> m \<notin> {''HEAD'', ''OPTIONS''} \<and>
           map_of (handler_table app req) (unwrap_handler h) = None)) \<or>
     (\<exists>path methods. template = fastapi_path_to_template (canonical_route static path) \<and>
        (path, methods) \<in> set routes \<and> canonical_route static path \<noteq> [] \<and>
        \<not> is_unprotected_path (canonical_route static path) \<and> m \<in> set methods \<and> m \<notin> {''HEAD'', ''OPTIONS''})"

definition served_by :: "string \<Rightarrow> string \<Rightarrow> bool" where
  "served_by template path =
     (if templated template then full_match False (compile_template template) path else path = template)"

lemma protected_route_covered:
  assumes "protected_route static app req routes template m"
    and "validate_fastapi_route_authorization static paths routes = Inr ()"
    and "bd_uncovered (built static app req paths) = []"
  shows "covered (built static app req paths) template m"
proof -
  have "map_of paths (fastapi_path_to_template (canonical_route static path), m) \<noteq> None"
    if "(path, methods) \<in> set routes" "canonical_route static path \<noteq> []"
      "\<not> is_unprotected_path (canonical_route static path)" "m \<in> set methods" "m \<notin> {''HEAD'', ''OPTIONS''}"
    for path methods
    using assms(2) that
    by (fastforce simp: validate_fastapi_route_authorization_def Let_def missing_route_methods_def
        filter_empty_conv split: if_splits)
  with assms(1,3) show ?thesis
    unfolding protected_route_def
    by (auto intro: built_covers_paths built_covers_endpoints built_covers_url_rules)
qed


lemma found_table_rules:
  assumes "compile_authorization_rules static app req paths empty_registry = (Inr (), r)"
    and "find_authorization_rules env static r request_path m payload = Some rules"
    and "\<not> endswith (canonical_route static request_path) ''/graphql''"
  shows "table_rules req paths (Some (canonical_route static request_path)) rules \<or> table_rules req paths None rules"
proof -
  let ?b = "built static app req paths"
  note r = compile_result [OF assms(1)]
  show ?thesis
    using assms(2,3) r built_from_tables [of req paths static app]
    by (auto simp: find_authorization_rules_def Let_def map_of_exact from_tables_def
        split: option.splits dest: first_regex_from)
qed

lemma determine_graphql_rules_wf:
  assumes "determine_graphql_rules i = Some rules"
  shows "rules \<noteq> [] \<and> list_all wf_rule rules"
proof -
  from assms have rules: "rules = map (graphql_key_rule (graphql_rules_state i))
      (sort (map fst (gr_rules (graphql_rules_state i))))" "gr_rules (graphql_rules_state i) \<noteq> []"
    by (auto simp: determine_graphql_rules_def Let_def split: if_splits)
  moreover have "wf_rule (graphql_key_rule (graphql_rules_state i) k)"
    if "k \<in> set (map fst (gr_rules (graphql_rules_state i)))" for k
    using rules_state_keys_ok [of i] that by (auto intro: graphql_key_rule_wf)
  moreover have "sort (map fst (gr_rules (graphql_rules_state i))) \<noteq> []"
    using rules(2) by (metis Nil_is_map_conv set_empty set_sort)
  ultimately show ?thesis by (auto simp: list_all_iff)
qed

lemma find_graphql_rules_wf:
  "find_graphql_rules env payload = Some rules \<Longrightarrow> rules \<noteq> [] \<and> list_all wf_rule rules"
  by (auto simp: find_graphql_rules_def Let_def determine_graphql_rules_wf
      split: pv.splits if_splits dest: determine_graphql_rules_wf)

lemma wf_entry_rules: "wf_entry v \<Longrightarrow> normalize_rules v \<noteq> [] \<and> list_all wf_rule (normalize_rules v)"
  by (cases v) (auto simp: normalize_rules_def list_all_iff)

lemma found_rules_wf:
  assumes "authorization_tables otlp b = Inr (req, paths)"
    and "compile_authorization_rules static app req paths empty_registry = (Inr (), r)"
    and "find_authorization_rules env static r request_path m payload = Some rules"
    and "\<not> is_unprotected_path (canonical_route static request_path)"
  shows "rules \<noteq> [] \<and> list_all wf_rule rules"
proof (cases "endswith (canonical_route static request_path) ''/graphql'' \<and>
    map_of (auth_rules r) (canonical_route static request_path, m) \<noteq> None")
  case True
  with assms(3) have "find_graphql_rules env payload = Some rules"
    by (auto simp: find_authorization_rules_def Let_def)
  then show ?thesis by (rule find_graphql_rules_wf)
next
  case False
  let ?b = "built static app req paths"
  note r = compile_result [OF assms(2)]
  have "table_rules req paths (Some (canonical_route static request_path)) rules \<or> table_rules req paths None rules"
    using assms(3) False r built_from_tables [of req paths static app]
    by (auto simp: find_authorization_rules_def Let_def map_of_exact from_tables_def
        split: option.splits dest: first_regex_from)
  then obtain v where rules: "rules = normalize_rules v"
    and v: "v \<in> snd ` set req \<or>
      (\<exists>p m. ((p, m), v) \<in> set paths \<and> (templated p \<or> p = canonical_route static request_path))"
    unfolding table_rules_def by (metis option.distinct(1) option.inject)
  have "wf_entry v"
    using v authorization_tables_entries [OF assms(1)] assms(4)
    by (fastforce simp: list_all_iff request_entry_ok_def path_entry_ok_def wf_path_entry_def templated_def)
  then show ?thesis unfolding rules by (rule wf_entry_rules)
qed

text \<open>
  The rules a request finds are rules of the tables. A request that is not GraphQL gets the rules of
  one entry of the two tables: one of a request class, one of its own path, or one of a template.
\<close>

lemma found_rules_are_table_rules:
  assumes "compile_authorization_rules static app req paths empty_registry = (Inr (), r)"
    and "find_authorization_rules env static r request_path m payload = Some rules"
    and "\<not> endswith (canonical_route static request_path) ''/graphql''"
  shows "\<exists>v. rules = normalize_rules v \<and>
    (v \<in> snd ` set req \<or>
     (\<exists>p m'. ((p, m'), v) \<in> set paths \<and> (templated p \<or> p = canonical_route static request_path)))"
  using found_table_rules [OF assms] unfolding table_rules_def by (metis option.distinct(1) option.inject)

section \<open>A small server\<close>

definition demo_app :: flask_app where
  "demo_app =
     \<lparr>fk_requested = [''GetTraceInfoV3''],
      fk_get_handler = (\<lambda>c. if c = ''GetTraceInfoV3'' then Some (Wrapped (Function ''get_trace'')) else None),
      fk_endpoints = [(''/t/<id>'', Wrapped (Function ''get_trace''), [''GET''])],
      fk_url_rules = [(''/u'', Some (Function ''upload''), [''POST'', ''OPTIONS''])]\<rparr>"

definition demo_requests :: request_table where
  "demo_requests = [(''GetTraceInfoV3'', One (experiments_rule (Some ''get'')))]"

definition demo_paths :: path_table where
  "demo_paths =
     [((''/u'', ''POST''), One (experiments_rule (Some ''update''))),
      ((''/t/<id>'', ''GET''), One (experiments_rule (Some ''update'')))]"

definition demo_registry :: registry where
  "demo_registry = snd (compile_authorization_rules None demo_app demo_requests demo_paths empty_registry)"

lemma demo_compiles:
  "compile_authorization_rules None demo_app demo_requests demo_paths empty_registry = (Inr (), demo_registry)"
proof -
  have "case fst (compile_authorization_rules None demo_app demo_requests demo_paths empty_registry) of
      Inl e \<Rightarrow> False | Inr u \<Rightarrow> True"
    by code_simp
  then show ?thesis unfolding demo_registry_def by (auto simp: prod_eq_iff split: sum.splits)
qed


lemma found_rules_are_table_rules_witness:
  "\<forall>env. find_authorization_rules env None demo_registry ''/u'' ''POST'' None = Some [experiments_rule (Some ''update'')] \<and>
     (\<exists>v. [experiments_rule (Some ''update'')] = normalize_rules v \<and>
        (v \<in> snd ` set demo_requests \<or>
         (\<exists>p m'. ((p, m'), v) \<in> set demo_paths \<and> (templated p \<or> p = ''/u''))))"
proof
  fix env
  have canonical: "canonical_route None ''/u'' = ''/u''" by code_simp
  have "map_of (auth_rules demo_registry) (''/u'', ''POST'') = Some [experiments_rule (Some ''update'')]"
    unfolding demo_registry_def by code_simp
  then have found: "find_authorization_rules env None demo_registry ''/u'' ''POST'' None =
      Some [experiments_rule (Some ''update'')]"
    by (simp add: find_authorization_rules_def Let_def canonical endswith_def)
  from found_rules_are_table_rules [OF demo_compiles found] found canonical
  show "find_authorization_rules env None demo_registry ''/u'' ''POST'' None = Some [experiments_rule (Some ''update'')] \<and>
     (\<exists>v. [experiments_rule (Some ''update'')] = normalize_rules v \<and>
        (v \<in> snd ` set demo_requests \<or>
         (\<exists>p m'. ((p, m'), v) \<in> set demo_paths \<and> (templated p \<or> p = ''/u''))))"
    by (simp add: endswith_def)
qed

text \<open>
  An entry of the path table with parameters does not win over a protobuf route of the same template:
  its pattern stands behind the route's, and the first pattern that matches decides.
\<close>

lemma templated_path_entry_loses:
  "find_authorization_rules env None demo_registry ''/t/1'' ''GET'' None = Some [experiments_rule (Some ''get'')]"
  "map_of demo_paths (''/t/<id>'', ''GET'') = Some (One (experiments_rule (Some ''update'')))"
proof -
  have canonical: "canonical_route None ''/t/1'' = ''/t/1''" by code_simp
  have "map_of (auth_rules demo_registry) (''/t/1'', ''GET'') = None"
    "first_regex_rules (auth_regex_rules demo_registry) ''/t/1'' ''GET'' = Some [experiments_rule (Some ''get'')]"
    unfolding demo_registry_def by code_simp+
  then show "find_authorization_rules env None demo_registry ''/t/1'' ''GET'' None = Some [experiments_rule (Some ''get'')]"
    by (simp add: find_authorization_rules_def Let_def canonical)
qed (simp add: demo_paths_def)

end
