(* ===== verification/Skill_Artifacts.thy ===== *)
theory Skill_Artifacts
  imports Resource_Names
begin

text \<open>
  \<open>skill_artifact_rules\<close> of \<open>auth/rules_skill_registry.py\<close>: artifact requests whose path reaches the
  skill namespace get the rule of the skill instead of the rule of the experiment, however the path is
  spelled. \<open>py_normpath\<close> is \<open>posixpath.normpath\<close>.
\<close>

section \<open>Path normalization\<close>

text \<open>One component of the loop of \<open>normpath\<close>; \<open>absolute\<close> says whether the path starts with a slash.\<close>

definition norm_step :: "bool \<Rightarrow> string \<Rightarrow> string list \<Rightarrow> string list" where
  "norm_step absolute part parts =
     (if part = [] \<or> part = ''.'' then parts
      else if part \<noteq> ''..'' \<or> (\<not> absolute \<and> parts = []) \<or> (parts \<noteq> [] \<and> last parts = ''..'')
      then parts @ [part]
      else butlast parts)"

definition initial_slashes :: "string \<Rightarrow> nat" where
  "initial_slashes p =
     (if startswith p ''//'' \<and> \<not> startswith p ''///'' then 2 else if startswith p ''/'' then 1 else 0)"

definition py_normpath :: "string \<Rightarrow> string" where
  "py_normpath p =
     (if p = [] then ''.''
      else (let parts = fold (norm_step (0 < initial_slashes p)) (py_split ''/'' p) [];
                path = replicate (initial_slashes p) CHR ''/'' @ py_join ''/'' parts
            in if path = [] then ''.'' else path))"

section \<open>The rules of an artifact request\<close>

definition deny_with :: "string \<Rightarrow> rule list" where
  "deny_with msg = [(authorization_rule None)\<lparr>deny := True, deny_message := Some msg\<rparr>]"

definition skill_read_rule :: rule where
  "skill_read_rule =
     (skills_rule (Some ''get''))\<lparr>resource_name_parsers := [RESOURCE_NAME_PARSER_SKILL_ARTIFACT_NAME]\<rparr>"

text \<open>
  The path a candidate spells behind its workspace prefix, \<open>None\<close> when it names another workspace.
\<close>

definition candidate_segments :: "request \<Rightarrow> string \<Rightarrow> string list option" where
  "candidate_segments rq candidate =
     (let segments = py_split ''/'' (strip_right_char CHR ''/'' (strip_left_char CHR ''/'' candidate)) in
      if py_lower (hd segments) = ''workspaces'' \<and> 2 \<le> length segments
      then (if Some (segments ! 1) \<noteq> rq_workspace rq then None else Some (drop 2 segments))
      else Some segments)"

fun candidate_paths :: "request \<Rightarrow> string list \<Rightarrow> string list option" where
  "candidate_paths rq [] = Some []"
| "candidate_paths rq (c # cs) =
     (case candidate_segments rq c of
        None \<Rightarrow> None
      | Some segments \<Rightarrow> map_option (Cons (py_join ''/'' segments)) (candidate_paths rq cs))"

definition resolution_message :: "exc \<Rightarrow> string" where
  "resolution_message e = (case e of ResolutionExc m \<Rightarrow> m | ReferenceMissingExc m \<Rightarrow> m | _ \<Rightarrow> [])"

definition skill_path_rules :: "env \<Rightarrow> request \<Rightarrow> rule list \<Rightarrow> string \<Rightarrow> rule list" where
  "skill_path_rules env rq original decoded =
     (case candidate_paths rq [decoded, py_normpath decoded] of
        None \<Rightarrow> deny_with ''Skill artifacts: invalid workspace.''
      | Some paths \<Rightarrow>
          if rq_method rq = ''DELETE'' \<and> list_ex (\<lambda>p. p \<in> set [[], ''.'', ''..'', ''workspaces'']) paths
          then deny_with ''Artifact root deletion is denied.''
          else if \<not> list_ex (\<lambda>p. py_lower (hd (py_split ''/'' p)) = ''skills'') paths then original
          else if env_skill_identity env decoded = None \<or> startswith decoded ''/'' \<or> rq_method rq \<noteq> ''GET''
          then deny_with (''Skill artifacts require a valid skill path and are read-only; '' @
                 ''register a new version to upload content.'')
          else [skill_read_rule])"

definition skill_artifact_rules :: "env \<Rightarrow> request \<Rightarrow> rule list \<Rightarrow> rule list" where
  "skill_artifact_rules env rq original =
     (case get_skill_artifact_path env rq of
        Inl e \<Rightarrow> deny_with (''Skill artifacts: '' @ resolution_message e)
      | Inr None \<Rightarrow>
          if rq_method rq \<noteq> ''DELETE'' then original else skill_path_rules env rq original []
      | Inr (Some decoded) \<Rightarrow> skill_path_rules env rq original decoded)"

section \<open>Splitting and joining\<close>

lemma startswith_single [simp]: "startswith (x # xs) [c] \<longleftrightarrow> x = c"
  by (simp add: startswith_def)

lemma split_go_no_sep: "t \<in> set (split_go [c] 0 acc s) \<Longrightarrow> c \<notin> set acc \<Longrightarrow> c \<notin> set t"
proof (induction s arbitrary: acc)
  case Nil
  then show ?case by simp
next
  case (Cons x xs)
  show ?case
  proof (cases "x = c")
    case True
    with Cons.prems have "t = rev acc \<or> t \<in> set (split_go [c] 0 [] xs)" by simp
    with Cons.IH [of "[]"] Cons.prems(2) show ?thesis by auto
  next
    case False
    with Cons.prems have "t \<in> set (split_go [c] 0 (x # acc) xs)" by simp
    with Cons.IH [of "x # acc"] Cons.prems(2) False show ?thesis by auto
  qed
qed

lemma py_split_no_sep: "t \<in> set (py_split [c] s) \<Longrightarrow> c \<notin> set t"
  unfolding py_split_def by (rule split_go_no_sep) auto

lemma split_go_append:
  "c \<notin> set s \<Longrightarrow> split_go [c] 0 acc (s @ t) = split_go [c] 0 (rev s @ acc) t"
  by (induction s arbitrary: acc) (auto simp: startswith_def)

lemma py_split_join:
  assumes "xs \<noteq> []" and "\<forall>x \<in> set xs. c \<notin> set x"
  shows "py_split [c] (py_join [c] xs) = xs"
  using assms unfolding py_split_def
proof (induction "[c]" xs rule: py_join.induct)
  case (2 x)
  then show ?case using split_go_append [of c x "[]" "[]"] by simp
next
  case (3 x y zs)
  then show ?case using split_go_append [of c x "[]" "c # py_join [c] (y # zs)"]
    by (simp add: startswith_def)
qed simp

section \<open>Where a path leads\<close>

text \<open>
  Walking a path from the artifact root: the directories passed so far, \<open>None\<close> when the path leaves the
  root.
\<close>

fun walk :: "string list \<Rightarrow> string list \<Rightarrow> string list option" where
  "walk st [] = Some st"
| "walk st (s # ss) =
     (if s = [] \<or> s = ''.'' then walk st ss
      else if s = ''..'' then (if st = [] then None else walk (butlast st) ss)
      else walk (st @ [s]) ss)"

definition leads_to :: "string \<Rightarrow> string list option" where
  "leads_to p = walk [] (py_split ''/'' p)"

definition in_skills :: "string list \<Rightarrow> bool" where
  "in_skills segments =
     (case segments of
        [] \<Rightarrow> False
      | s # rest \<Rightarrow>
          if py_lower s = ''workspaces'' \<and> rest \<noteq> []
          then (case tl rest of [] \<Rightarrow> False | x # _ \<Rightarrow> py_lower x = ''skills'')
          else py_lower s = ''skills'')"

definition is_artifact_root :: "string list \<Rightarrow> bool" where
  "is_artifact_root segments =
     (segments = [] \<or> length segments = 2 \<and> py_lower (hd segments) = ''workspaces'')"

definition proper_segment :: "string \<Rightarrow> bool" where
  "proper_segment s \<longleftrightarrow> s \<noteq> [] \<and> s \<noteq> ''.'' \<and> s \<noteq> ''..'' \<and> CHR ''/'' \<notin> set s"

lemma walk_proper:
  "walk st ss = Some segs \<Longrightarrow> list_all proper_segment st \<Longrightarrow> \<forall>s \<in> set ss. CHR ''/'' \<notin> set s \<Longrightarrow>
   list_all proper_segment segs"
proof (induction ss arbitrary: st)
  case Nil
  then show ?case by simp
next
  case (Cons s ss)
  have "list_all proper_segment (butlast st)"
    using Cons.prems(2) by (meson list_all_iff in_set_butlastD)
  moreover have "list_all proper_segment (st @ [s])" if "s \<noteq> []" "s \<noteq> ''.''" "s \<noteq> ''..''"
    using Cons.prems(2,3) that by (simp, simp add: proper_segment_def)
  ultimately show ?case using Cons.IH Cons.prems by (auto split: if_splits)
qed

lemma walk_norm_step:
  "walk st ss = Some segs \<Longrightarrow> ''..'' \<notin> set st \<Longrightarrow> fold (norm_step absolute) ss st = segs"
proof (induction ss arbitrary: st)
  case Nil
  then show ?case by simp
next
  case (Cons s ss)
  have "''..'' \<notin> set (butlast st)" using Cons.prems(2) by (auto dest: in_set_butlastD)
  moreover have "st \<noteq> [] \<Longrightarrow> last st \<noteq> ''..''" using Cons.prems(2) by (metis last_in_set)
  ultimately show ?case using Cons by (auto simp: norm_step_def split: if_splits)
qed

lemma leads_to_proper: "leads_to p = Some segs \<Longrightarrow> list_all proper_segment segs"
  unfolding leads_to_def by (rule walk_proper) (auto dest: py_split_no_sep)

lemma leads_to_normpath:
  assumes "leads_to p = Some segs"
  shows "py_normpath p = (if p = [] \<or> (segs = [] \<and> initial_slashes p = 0) then ''.''
     else replicate (initial_slashes p) CHR ''/'' @ py_join ''/'' segs)"
proof -
  have "fold (norm_step (0 < initial_slashes p)) (py_split ''/'' p) [] = segs"
    using assms unfolding leads_to_def by (rule walk_norm_step) simp
  moreover have "py_join ''/'' segs = [] \<longleftrightarrow> segs = []"
    using leads_to_proper [OF assms] by (cases "(''/'', segs)" rule: py_join.cases) (auto simp: proper_segment_def)
  ultimately show ?thesis by (auto simp: py_normpath_def Let_def)
qed

lemma py_join_ends:
  "xs \<noteq> [] \<Longrightarrow> list_all (\<lambda>x. x \<noteq> []) xs \<Longrightarrow>
   py_join sep xs \<noteq> [] \<and> hd (py_join sep xs) = hd (hd xs) \<and> last (py_join sep xs) = last (last xs)"
  by (induction sep xs rule: py_join.induct) auto

lemma dropWhile_keep: "xs \<noteq> [] \<Longrightarrow> \<not> P (hd xs) \<Longrightarrow> dropWhile P xs = xs"
  by (cases xs) auto

lemma strip_slashes_join:
  assumes "segs \<noteq> []" and "list_all proper_segment segs"
  shows "strip_right_char CHR ''/'' (strip_left_char CHR ''/'' (replicate n CHR ''/'' @ py_join ''/'' segs)) =
    py_join ''/'' segs"
proof -
  let ?j = "py_join ''/'' segs"
  have ends: "?j \<noteq> []" "hd ?j = hd (hd segs)" "last ?j = last (last segs)"
    using py_join_ends [OF assms(1), of "''/''"] assms(2) by (auto simp: list_all_iff proper_segment_def)
  have "proper_segment (hd segs)" "proper_segment (last segs)"
    using assms by (auto simp: list_all_iff)
  then have "hd ?j \<noteq> CHR ''/''" "last ?j \<noteq> CHR ''/''"
    unfolding ends proper_segment_def by (metis hd_in_set, metis last_in_set)
  then have "dropWhile (\<lambda>c. c = CHR ''/'') ?j = ?j" "dropWhile (\<lambda>c. c = CHR ''/'') (rev ?j) = rev ?j"
    using ends(1) by (simp_all add: dropWhile_keep hd_rev)
  moreover have "dropWhile (\<lambda>c. c = CHR ''/'') (replicate n CHR ''/'' @ ?j) = dropWhile (\<lambda>c. c = CHR ''/'') ?j"
    by (induction n) auto
  ultimately show ?thesis by (simp add: strip_right_char_def strip_left_char_def)
qed

lemma candidate_of_walk:
  assumes "leads_to p = Some segs" and "segs \<noteq> []"
  shows "candidate_segments rq (py_normpath p) =
     (if py_lower (hd segs) = ''workspaces'' \<and> 2 \<le> length segs
      then (if Some (segs ! 1) \<noteq> rq_workspace rq then None else Some (drop 2 segs))
      else Some segs)"
proof -
  note proper = leads_to_proper [OF assms(1)]
  have "p \<noteq> []" using assms by (auto simp: leads_to_def py_split_def)
  with leads_to_normpath [OF assms(1)] assms(2)
  have norm: "py_normpath p = replicate (initial_slashes p) CHR ''/'' @ py_join ''/'' segs" by simp
  have "py_split ''/'' (py_join ''/'' segs) = segs"
    by (rule py_split_join [OF assms(2)]) (use proper in \<open>auto simp: list_all_iff proper_segment_def\<close>)
  then show ?thesis
    by (simp add: candidate_segments_def Let_def norm strip_slashes_join [OF assms(2) proper])
qed

lemma candidate_of_root:
  assumes "leads_to p = Some []"
  shows "candidate_segments rq (py_normpath p) = Some [[]] \<or> candidate_segments rq (py_normpath p) = Some [''.'']"
proof -
  have "strip_left_char CHR ''/'' (replicate n CHR ''/'') = []" for n
    by (induction n) (auto simp: strip_left_char_def)
  with leads_to_normpath [OF assms] show ?thesis
    by (auto simp: candidate_segments_def Let_def strip_left_char_def strip_right_char_def py_split_def
        py_lower_def)
qed

section \<open>Properties\<close>

lemma list_all_deny_with [simp]: "list_all deny (deny_with m)"
  by (simp add: deny_with_def)

lemma skill_path_rules_in_skills:
  assumes lead: "leads_to p = Some segs" and "in_skills segs"
  shows "list_all deny (skill_path_rules env rq rs p) \<or>
    (rq_method rq = ''GET'' \<and> skill_path_rules env rq rs p = [skill_read_rule])"
proof -
  note proper = leads_to_proper [OF lead]
  have ne: "segs \<noteq> []" using assms(2) by (auto simp: in_skills_def)
  have "case candidate_paths rq [p, py_normpath p] of None \<Rightarrow> True
      | Some paths \<Rightarrow> list_ex (\<lambda>p. py_lower (hd (py_split ''/'' p)) = ''skills'') paths"
  proof (cases "candidate_segments rq (py_normpath p)")
    case (Some ss)
    have "ss \<noteq> [] \<and> py_lower (hd ss) = ''skills'' \<and> set ss \<subseteq> set segs"
      using Some assms(2) set_drop_subset [of 2 segs] unfolding candidate_of_walk [OF lead ne]
      by (cases segs; cases "tl segs"; cases "tl (tl segs)")
         (auto simp: in_skills_def py_lower_def split: if_splits)
    moreover from this have "py_split ''/'' (py_join ''/'' ss) = ss"
      using proper by (intro py_split_join) (auto simp: list_all_iff proper_segment_def)
    ultimately show ?thesis by (auto simp: Some split: option.splits)
  qed (auto split: option.splits)
  then show ?thesis
    unfolding skill_path_rules_def by (cases "candidate_paths rq [p, py_normpath p]") auto
qed

text \<open>
  C12: no spelling of a path reaches the skill namespace with the rules of an experiment. When the path of
  an artifact request, walked from the artifact root, leads into the skills of the root or of a
  workspace, the request is denied, or it is a GET and gets the one rule that reviews the skill by name;
  dots, doubled slashes, a leading slash and the case of the segment make no difference.
\<close>

theorem skill_namespace_guarded:
  assumes "get_skill_artifact_path env rq = Inr (Some p)" and "leads_to p = Some segs" and "in_skills segs"
  shows "list_all deny (skill_artifact_rules env rq rs) \<or>
    (rq_method rq = ''GET'' \<and> skill_artifact_rules env rq rs = [skill_read_rule])"
  using skill_path_rules_in_skills [OF assms(2,3), of env rq rs] assms(1) by (simp add: skill_artifact_rules_def)

definition artifact_request :: "string \<Rightarrow> string \<Rightarrow> request" where
  "artifact_request m p =
     sample_request\<lparr>rq_method := m, rq_path_params := [(''artifact_path'', PStr p)]\<rparr>"

theorem skill_namespace_guarded_witness:
  "list_all deny (skill_artifact_rules (sample_env (\<lambda>a. True))
     (artifact_request ''PUT'' ''/7/../workspaces/ns//Skills/s'') [experiments_rule (Some ''update'')])"
proof -
  let ?p = "''/7/../workspaces/ns//Skills/s''" and ?env = "sample_env (\<lambda>a. True)"
  have path: "get_skill_artifact_path ?env (artifact_request ''PUT'' ?p) = Inr (Some ?p)"
    by (simp add: get_skill_artifact_path_def skill_artifact_text_def artifact_request_def sample_request_def
        sample_env_def dget_def dhas_def split_slash_2_def py_partition_def strip_left_char_def Let_def)
  have lead: "leads_to ?p = Some [''workspaces'', ''ns'', ''Skills'', ''s'']" by code_simp
  have skills: "in_skills [''workspaces'', ''ns'', ''Skills'', ''s'']" by code_simp
  from skill_namespace_guarded [OF path lead skills, of "[experiments_rule (Some ''update'')]"]
  show ?thesis by (simp add: artifact_request_def)
qed

text \<open>
  The root of the artifacts cannot be deleted. A DELETE without a path, or whose path leads to the
  artifact root or to the root of a workspace, is denied.
\<close>

lemma artifact_root_kept:
  assumes "get_skill_artifact_path env rq = Inr d" and "leads_to (opt_text d) = Some segs"
    and "is_artifact_root segs" and "rq_method rq = ''DELETE''"
  shows "list_all deny (skill_artifact_rules env rq rs)"
proof -
  let ?p = "opt_text d"
  have "\<exists>x \<in> {[], ''.''}. candidate_segments rq (py_normpath ?p) = None \<or>
      map_option (py_join ''/'') (candidate_segments rq (py_normpath ?p)) = Some x"
  proof (cases "segs = []")
    case True
    with candidate_of_root [of ?p rq] assms(2) show ?thesis by auto
  next
    case False
    with assms(3) candidate_of_walk [OF assms(2) False, of rq] show ?thesis
      by (auto simp: is_artifact_root_def)
  qed
  then have "list_all deny (skill_path_rules env rq rs ?p)"
    by (auto simp: skill_path_rules_def assms(4) split: option.splits)
  then show ?thesis using assms(1,4) by (cases d) (simp_all add: skill_artifact_rules_def opt_text_def)
qed

lemma artifact_root_kept_witness:
  "list_all deny (skill_artifact_rules (sample_env (\<lambda>a. True)) (artifact_request ''DELETE'' ''./7/..'')
     [experiments_rule (Some ''delete'')])"
proof (rule artifact_root_kept [where d = "Some ''./7/..''" and segs = "[]"])
  show "get_skill_artifact_path (sample_env (\<lambda>a. True)) (artifact_request ''DELETE'' ''./7/..'') =
      Inr (Some ''./7/..'')"
    by (simp add: get_skill_artifact_path_def skill_artifact_text_def artifact_request_def sample_request_def
        sample_env_def dget_def dhas_def split_slash_2_def py_partition_def strip_left_char_def Let_def)
  show "leads_to (opt_text (Some ''./7/..'')) = Some []" by code_simp
qed (simp_all add: is_artifact_root_def artifact_request_def)

end
