(* ===== verification/Collection_Filters.thy ===== *)
theory Collection_Filters
  imports Resource_Names
begin

text \<open>
  \<open>auth/collection_filters.py\<close>: narrowing a collection request to what the caller may read. A filter
  returns the request it leaves and whether it applied. The search filters of MLflow and the protobuf
  messages are parameters: \<open>env_parse_filter\<close> parses a filter text into clauses, \<open>env_message_fields\<close>
  lists the fields of a message with their JSON names, \<open>env_parse_dict\<close> parses a body into a message.
\<close>

section \<open>Policies\<close>

fun collection_request_message :: "collection_policy_id \<Rightarrow> string option" where
  "collection_request_message COLLECTION_POLICY_REQUEST_AUTHORIZED_EXPERIMENT_IDS = Some ''SearchTraces''"
| "collection_request_message COLLECTION_POLICY_REQUEST_BATCH_GET_TRACE_INFOS = Some ''BatchGetTraceInfos''"
| "collection_request_message COLLECTION_POLICY_REQUEST_BATCH_GET_TRACES = Some ''BatchGetTraces''"
| "collection_request_message COLLECTION_POLICY_REQUEST_LIST_SCORERS = Some ''ListScorers''"
| "collection_request_message COLLECTION_POLICY_REQUEST_SEARCH_DATASETS = Some ''SearchEvaluationDatasets''"
| "collection_request_message COLLECTION_POLICY_REQUEST_SEARCH_EXPERIMENTS = Some ''SearchExperiments''"
| "collection_request_message COLLECTION_POLICY_REQUEST_SEARCH_REGISTERED_MODELS = Some ''SearchRegisteredModels''"
| "collection_request_message COLLECTION_POLICY_REQUEST_SEARCH_MODEL_VERSIONS = Some ''SearchModelVersions''"
| "collection_request_message _ = None"

definition REQUEST_FILTER_POLICIES :: "collection_policy_id list" where
  "REQUEST_FILTER_POLICIES =
     [COLLECTION_POLICY_REQUEST_EXPERIMENT_IDS, COLLECTION_POLICY_REQUEST_EXPERIMENT_ID,
      COLLECTION_POLICY_REQUEST_RUN_IDS, COLLECTION_POLICY_REQUEST_TRACE_LOCATIONS,
      COLLECTION_POLICY_REQUEST_AUTHORIZED_EXPERIMENT_IDS, COLLECTION_POLICY_REQUEST_SEARCH_EXPERIMENTS,
      COLLECTION_POLICY_REQUEST_SEARCH_REGISTERED_MODELS, COLLECTION_POLICY_REQUEST_SEARCH_MODEL_VERSIONS,
      COLLECTION_POLICY_REQUEST_BATCH_GET_TRACES, COLLECTION_POLICY_REQUEST_BATCH_GET_TRACE_INFOS,
      COLLECTION_POLICY_REQUEST_LIST_SCORERS, COLLECTION_POLICY_REQUEST_SEARCH_DATASETS,
      COLLECTION_POLICY_REQUEST_SEARCH_MCP_SERVERS, COLLECTION_POLICY_REQUEST_SEARCH_MCP_ACCESS_ENDPOINTS]"

definition is_request_filter_policy :: "collection_policy_id option \<Rightarrow> bool" where
  "is_request_filter_policy p = (case p of None \<Rightarrow> False | Some x \<Rightarrow> x \<in> set REQUEST_FILTER_POLICIES)"

definition is_graphql_collection_policy :: "collection_policy_id option \<Rightarrow> bool" where
  "is_graphql_collection_policy p = (p = Some COLLECTION_POLICY_GRAPHQL_FILTER)"

section \<open>Readable identifiers\<close>

type_synonym filter_result = "request \<times> bool"

fun first_present_value :: "pdict \<Rightarrow> string list \<Rightarrow> pv" where
  "first_present_value m [] = PNone"
| "first_present_value m (k # ks) = (if dhas m k then dget m k else first_present_value m ks)"

definition is_allowed_named_resource ::
  "env \<Rightarrow> identity \<Rightarrow> string \<Rightarrow> string \<times> string \<Rightarrow> string \<Rightarrow> (world, bool) eff" where
  "is_allowed_named_resource env i ns permission name =
     (case permission of (res, verb) \<Rightarrow> is_allowed env i res verb ns None (Some name))"

definition can_read_named ::
  "env \<Rightarrow> identity \<Rightarrow> string \<Rightarrow> (world, string) eff \<Rightarrow> (world, bool) eff" where
  "can_read_named env i ns resolve =
     andthen (on_unresolved (andthen resolve (\<lambda>n. ret (Some n))) (ret None)) (\<lambda>name.
       case name of
         None \<Rightarrow> ret False
       | Some n \<Rightarrow> is_allowed_named_resource env i ns (RESOURCE_EXPERIMENTS, ''get'') n)"

definition can_read_experiment_id :: "env \<Rightarrow> identity \<Rightarrow> string \<Rightarrow> string \<Rightarrow> (world, bool) eff" where
  "can_read_experiment_id env i ns x = can_read_named env i ns (resolve_experiment_name_from_experiment_id env x)"

definition can_read_run_id :: "env \<Rightarrow> identity \<Rightarrow> string \<Rightarrow> string \<Rightarrow> (world, bool) eff" where
  "can_read_run_id env i ns x = can_read_named env i ns (resolve_experiment_name_from_run_id env x)"

definition filter_readable_experiment_ids ::
  "env \<Rightarrow> identity \<Rightarrow> string \<Rightarrow> string list \<Rightarrow> (world, string list) eff" where
  "filter_readable_experiment_ids env i ns xs =
     filter_eff (can_read_experiment_id env i ns) (normalize_values (PList (map PStr xs)))"

definition filter_readable_run_ids ::
  "env \<Rightarrow> identity \<Rightarrow> string \<Rightarrow> string list \<Rightarrow> (world, string list) eff" where
  "filter_readable_run_ids env i ns xs =
     filter_eff (can_read_run_id env i ns) (normalize_values (PList (map PStr xs)))"

definition normalize_request_value :: "pv \<Rightarrow> string option" where
  "normalize_request_value v =
     (case normalize_values v of
        [] \<Rightarrow> None | x # xs \<Rightarrow> if list_all (\<lambda>y. y = x) xs then Some x else None)"

text \<open>
  The two filters over a list of identifiers, \<open>experiment_ids\<close> and \<open>run_ids\<close>, differ in the key and in
  how an identifier is checked.
\<close>

definition replace_id_lists :: "string \<Rightarrow> string list \<Rightarrow> string list \<Rightarrow> request \<Rightarrow> request" where
  "replace_id_lists key body_ids query_ids rq =
     (let rq1 =
        (case json_dict rq of
           None \<Rightarrow> rq
         | Some body \<Rightarrow>
             if dhas body key
             then rq\<lparr>rq_json_body := PDict (AList.update key (PList (map PStr body_ids)) body)\<rparr>
             else rq)
      in if dhas (rq_query_params rq) key
         then rq1\<lparr>rq_query_params :=
           (if query_ids \<noteq> [] then AList.update key (PList (map PStr query_ids)) (rq_query_params rq)
            else AList.delete key (rq_query_params rq))\<rparr>
         else rq1)"

definition filter_request_id_list ::
  "string \<Rightarrow> (string list \<Rightarrow> (world, string list) eff) \<Rightarrow> request \<Rightarrow> (world, filter_result) eff" where
  "filter_request_id_list key readable_ids rq =
     (let body = json_dict rq;
          body_has = (case body of None \<Rightarrow> False | Some d \<Rightarrow> dhas d key);
          query_has = dhas (rq_query_params rq) key in
      if \<not> body_has \<and> \<not> query_has then ret (rq, False)
      else
        andthen (readable_ids (if body_has then normalize_values (dget (the body) key) else [])) (\<lambda>body_ids.
        andthen (readable_ids (if query_has then normalize_values (dget (rq_query_params rq) key) else []))
          (\<lambda>query_ids.
          if body_ids = [] \<and> query_ids = [] then ret (rq, False)
          else ret (replace_id_lists key body_ids query_ids rq, True))))"

definition filter_request_experiment_ids ::
  "env \<Rightarrow> identity \<Rightarrow> string \<Rightarrow> request \<Rightarrow> (world, filter_result) eff" where
  "filter_request_experiment_ids env i ns =
     filter_request_id_list ''experiment_ids'' (filter_readable_experiment_ids env i ns)"

definition filter_request_run_ids ::
  "env \<Rightarrow> identity \<Rightarrow> string \<Rightarrow> request \<Rightarrow> (world, filter_result) eff" where
  "filter_request_run_ids env i ns = filter_request_id_list ''run_ids'' (filter_readable_run_ids env i ns)"

definition single_id_readable ::
  "env \<Rightarrow> identity \<Rightarrow> string \<Rightarrow> bool \<Rightarrow> string option \<Rightarrow> (world, bool) eff" where
  "single_id_readable env i ns has x =
     (if \<not> has then ret True
      else case x of None \<Rightarrow> ret False | Some y \<Rightarrow> can_read_experiment_id env i ns y)"

definition filter_request_single_experiment_id ::
  "env \<Rightarrow> identity \<Rightarrow> string \<Rightarrow> request \<Rightarrow> (world, filter_result) eff" where
  "filter_request_single_experiment_id env i ns rq =
     (let body = json_dict rq;
          body_has = (case body of None \<Rightarrow> False | Some d \<Rightarrow> dhas d ''experiment_id'');
          query_has = dhas (rq_query_params rq) ''experiment_id'' in
      if \<not> body_has \<and> \<not> query_has then ret (rq, False)
      else
        andthen (single_id_readable env i ns body_has
                   (if body_has then normalize_request_value (dget (the body) ''experiment_id'') else None)) (\<lambda>b.
          if \<not> b then ret (rq, False)
          else andthen (single_id_readable env i ns query_has
                   (if query_has then normalize_request_value (dget (rq_query_params rq) ''experiment_id'') else None))
                 (\<lambda>q. ret (rq, q))))"

text \<open>The experiment a trace location names, if it is a location of an MLflow experiment.\<close>

definition location_experiment_id :: "pv \<Rightarrow> string option" where
  "location_experiment_id l =
     (case l of
        PDict d \<Rightarrow>
          (case first_present_value d [''mlflow_experiment'', ''mlflowExperiment''] of
             PDict e \<Rightarrow> normalize_string (first_present_value e [''experiment_id'', ''experimentId''])
           | _ \<Rightarrow> None)
      | _ \<Rightarrow> None)"

definition filter_request_trace_locations ::
  "env \<Rightarrow> identity \<Rightarrow> string \<Rightarrow> request \<Rightarrow> (world, filter_result) eff" where
  "filter_request_trace_locations env i ns rq =
     (case json_dict rq of
        None \<Rightarrow> ret (rq, False)
      | Some body \<Rightarrow>
          (case dget body ''locations'' of
             PList raw \<Rightarrow>
               andthen (filter_eff (\<lambda>l. case location_experiment_id l of
                          None \<Rightarrow> ret False | Some x \<Rightarrow> can_read_experiment_id env i ns x) raw) (\<lambda>locations.
                 if locations = [] then ret (rq, False)
                 else ret (rq\<lparr>rq_json_body := PDict (AList.update ''locations'' (PList locations) body)\<rparr>, True))
           | _ \<Rightarrow> ret (rq, False)))"

section \<open>Scopes by name\<close>

fun all_texts :: "pv list \<Rightarrow> string list option" where
  "all_texts [] = Some []"
| "all_texts (PStr s # vs) = (if s = [] then None else map_option (Cons s) (all_texts vs))"
| "all_texts _ = None"

definition request_ids :: "bool \<Rightarrow> pv \<Rightarrow> string list option" where
  "request_ids allow_scalar v =
     (case v of
        PStr s \<Rightarrow> if allow_scalar \<and> s \<noteq> [] then Some [s] else None
      | PList l \<Rightarrow> if l = [] then None else all_texts l
      | _ \<Rightarrow> None)"

text \<open>\<open>selected_ids &= request_ids(mapping[key])\<close> for the keys a mapping has.\<close>

fun select_ids :: "bool \<Rightarrow> pdict \<Rightarrow> string list \<Rightarrow> string list \<Rightarrow> string list option" where
  "select_ids scalar m [] selected = Some selected"
| "select_ids scalar m (k # ks) selected =
     (if \<not> dhas m k then select_ids scalar m ks selected
      else case request_ids scalar (dget m k) of
        None \<Rightarrow> None
      | Some ids \<Rightarrow> select_ids scalar m ks (filter (\<lambda>x. x \<in> set ids) selected))"

definition without :: "string list \<Rightarrow> pdict \<Rightarrow> pdict" where
  "without ks d = filter (\<lambda>(k, v). k \<notin> set ks) d"

definition BODY_ID_KEYS :: "string list" where
  "BODY_ID_KEYS = [''experiment_ids'', ''experimentIds'']"

definition place_ids :: "string list \<Rightarrow> request \<Rightarrow> filter_result" where
  "place_ids ids rq =
     (let narrowed = PList (map PStr ids); post = (py_upper (rq_method rq) = ''POST'');
          query_narrowed = AList.update ''experiment_ids'' narrowed (without [''experiment_ids''] (rq_query_params rq));
          has_query_key = dhas (rq_query_params rq) ''experiment_ids''
      in case json_dict rq of
           None \<Rightarrow> if post then (rq, False) else (rq\<lparr>rq_query_params := query_narrowed\<rparr>, True)
         | Some body \<Rightarrow>
             let rq1 = (if list_ex (dhas body) BODY_ID_KEYS \<or> post
                   then rq\<lparr>rq_json_body := PDict (AList.update ''experiment_ids'' narrowed (without BODY_ID_KEYS body))\<rparr>
                   else rq)
             in (if has_query_key \<or> \<not> post then rq1\<lparr>rq_query_params := query_narrowed\<rparr> else rq1, True))"

definition selected_ids :: "string list \<Rightarrow> request \<Rightarrow> string list option" where
  "selected_ids allowed rq =
     (case select_ids False (case json_dict rq of None \<Rightarrow> [] | Some d \<Rightarrow> d) BODY_ID_KEYS allowed of
        None \<Rightarrow> None
      | Some s \<Rightarrow> select_ids True (rq_query_params rq) [''experiment_ids''] s)"

definition narrow_to_ids :: "string list \<Rightarrow> request \<Rightarrow> filter_result" where
  "narrow_to_ids allowed rq =
     (case selected_ids allowed rq of
        None \<Rightarrow> (rq, False)
      | Some ids \<Rightarrow> if ids = [] then (rq, False) else place_ids (sort (remdups ids)) rq)"

definition filter_request_authorized_experiment_ids ::
  "env \<Rightarrow> identity \<Rightarrow> string \<Rightarrow> collection_scope option \<Rightarrow> request \<Rightarrow> (world, filter_result) eff" where
  "filter_request_authorized_experiment_ids env i ns scope rq =
     andthen (case scope of
                None \<Rightarrow> discover_collection_scope env i RESOURCE_EXPERIMENTS ns None | Some s \<Rightarrow> ret s) (\<lambda>scope.
       if scope_broad scope then ret (rq, True)
       else if scope_names scope = [] then ret (rq, False)
       else andthen (on_unresolved (resolve_experiment_ids_from_names env (scope_names scope)) (ret [])) (\<lambda>allowed.
         if allowed = [] then ret (rq, False) else ret (narrow_to_ids allowed rq)))"

text \<open>
  What \<open>_filter_request_list_scorers\<close> and the batch trace policies of the dispatch do with a scope they
  discover themselves.
\<close>

definition filter_request_broad_or_authorized ::
  "env \<Rightarrow> identity \<Rightarrow> string \<Rightarrow> request \<Rightarrow> (world, filter_result) eff" where
  "filter_request_broad_or_authorized env i ns rq =
     andthen (discover_collection_scope env i RESOURCE_EXPERIMENTS ns None) (\<lambda>scope.
       if scope_broad scope then ret (rq, True)
       else filter_request_authorized_experiment_ids env i ns (Some scope) rq)"

definition filter_request_list_scorers ::
  "env \<Rightarrow> identity \<Rightarrow> string \<Rightarrow> request \<Rightarrow> (world, filter_result) eff" where
  "filter_request_list_scorers env i ns rq =
     (let query = rq_query_params rq in
      if py_upper (rq_method rq) \<noteq> ''GET'' then ret (rq, False)
      else if dhas query ''experiment_id'' \<and> dhas query ''experiment_ids'' then ret (rq, False)
      else if dhas query ''experiment_id''
      then (case normalize_string (dget query ''experiment_id'') of
              None \<Rightarrow> ret (rq, False)
            | Some x \<Rightarrow> andthen (can_read_experiment_id env i ns x) (\<lambda>b. ret (rq, b)))
      else filter_request_broad_or_authorized env i ns rq)"

section \<open>Scopes by search filter\<close>

definition SQ :: char where "SQ = CHR 0x27"
definition DQ :: char where "DQ = CHR 0x22"
definition BACKSLASH :: char where "BACKSLASH = CHR 0x5C"

definition quote_filter_literal :: "string \<Rightarrow> exc + string" where
  "quote_filter_literal v =
     (if SQ \<notin> set v then Inr ([SQ] @ v @ [SQ])
      else if DQ \<notin> set v then Inr ([DQ] @ v @ [DQ])
      else Inl PyValueError)"

text \<open>\<open>repr\<close> of a text of code points below 256.\<close>

definition hex_digit :: "nat \<Rightarrow> char" where
  "hex_digit n = ''0123456789abcdef'' ! n"

definition repr_char :: "char \<Rightarrow> char \<Rightarrow> string" where
  "repr_char q c =
     (let n = (of_char c :: nat) in
      if c = q \<or> c = BACKSLASH then [BACKSLASH, c]
      else if n = 9 then [BACKSLASH, CHR ''t'']
      else if n = 10 then [BACKSLASH, CHR ''n'']
      else if n = 13 then [BACKSLASH, CHR ''r'']
      else if n < 32 \<or> (127 \<le> n \<and> n \<le> 160) \<or> n = 173
      then [BACKSLASH, CHR ''x'', hex_digit (n div 16), hex_digit (n mod 16)]
      else [c])"

definition py_repr :: "string \<Rightarrow> string" where
  "py_repr s =
     (let q = (if SQ \<in> set s \<and> DQ \<notin> set s then DQ else SQ)
      in [q] @ concat (map (repr_char q) s) @ [q])"

text \<open>The clause a scope adds: an equality for one name, an \<open>IN\<close> list for more.\<close>

definition name_scope_clause :: "string \<Rightarrow> string list \<Rightarrow> exc + (string \<times> clause)" where
  "name_scope_clause key names =
     (case names of
        [n] \<Rightarrow> map_sum id (\<lambda>q. (key @ '' = '' @ q,
                 \<lparr>cl_type = ''attribute'', cl_key = key, cl_comparator = ''='', cl_value = ClauseStr n\<rparr>))
               (quote_filter_literal n)
      | _ \<Rightarrow> Inr (key @ '' IN ('' @ py_join '', '' (map py_repr names) @ '')'',
                 \<lparr>cl_type = ''attribute'', cl_key = key, cl_comparator = ''IN'', cl_value = ClauseTuple names\<rparr>))"

text \<open>
  The filter texts of the caller, in the order of the sources; \<open>None\<close> when one is not a text.
\<close>

fun caller_filters :: "string \<Rightarrow> pdict list \<Rightarrow> string list option" where
  "caller_filters key [] = Some []"
| "caller_filters key (d # ds) =
     (if \<not> dhas d key then caller_filters key ds
      else case dget d key of
        PStr s \<Rightarrow>
          if py_strip s = [] then caller_filters key ds
          else map_option (Cons (py_strip s)) (caller_filters key ds)
      | _ \<Rightarrow> None)"

text \<open>Whether MLflow parses the narrowed text with the scope as its last clause.\<close>

definition scope_survives :: "env \<Rightarrow> search_kind \<Rightarrow> string \<Rightarrow> clause \<Rightarrow> bool" where
  "scope_survives env kind narrowed expected =
     (case env_parse_filter env kind narrowed of
        Inl e \<Rightarrow> False
      | Inr parsed \<Rightarrow> parsed \<noteq> [] \<and> last parsed = expected)"

text \<open>
  Narrowing by a filter field: the scope goes behind the caller's own filters, and the result is used
  only if it parses as intended. A POST changes the body, any other method the query.
\<close>

definition narrow_by_filter ::
  "env \<Rightarrow> search_kind \<Rightarrow> string \<Rightarrow> pdict option \<Rightarrow> string \<times> clause \<Rightarrow> request \<Rightarrow> filter_result" where
  "narrow_by_filter env kind field body scope rq =
     (case caller_filters field ((case body of None \<Rightarrow> [] | Some d \<Rightarrow> [d]) @ [rq_query_params rq]) of
        None \<Rightarrow> (rq, False)
      | Some fs \<Rightarrow>
          let narrowed = py_join '' AND '' (fs @ [fst scope]) in
          if \<not> scope_survives env kind narrowed (snd scope) then (rq, False)
          else if py_upper (rq_method rq) = ''POST''
          then (rq\<lparr>rq_json_body := PDict (AList.update field (PStr narrowed) (the body))\<rparr>, True)
          else (rq\<lparr>rq_query_params := AList.update field (PStr narrowed) (rq_query_params rq)\<rparr>, True))"

definition filter_request_search_datasets ::
  "env \<Rightarrow> identity \<Rightarrow> string \<Rightarrow> request \<Rightarrow> (world, filter_result) eff" where
  "filter_request_search_datasets env i ns rq =
     andthen (discover_collection_scope env i RESOURCE_DATASETS ns None) (\<lambda>scope.
       let method = py_upper (rq_method rq); body = json_dict rq in
       if scope_broad scope then ret (rq, True)
       else if scope_names scope = [] then ret (rq, False)
       else if method \<notin> set [''GET'', ''POST''] \<or> (method = ''POST'' \<and> body = None) then ret (rq, False)
       else if method = ''POST'' \<and> dhas (the body) ''filterString'' \<and> dhas (the body) ''filter_string''
       then ret (rq, False)
       else
         (let body = (if method = ''POST'' \<and> dhas (the body) ''filterString''
                then Some (AList.update ''filter_string'' (dget (the body) ''filterString'')
                            (AList.delete ''filterString'' (the body)))
                else body)
          in case name_scope_clause ''name'' (scope_names scope) of
               Inl e \<Rightarrow> ret (rq, False)
             | Inr c \<Rightarrow> ret (narrow_by_filter env SearchDatasets ''filter_string'' body c rq)))"

text \<open>
  Narrowing a GET by the filter of its query alone, for MCP servers and registered models.
\<close>

definition narrow_query_filter ::
  "env \<Rightarrow> search_kind \<Rightarrow> string \<Rightarrow> string \<times> clause \<Rightarrow> request \<Rightarrow> filter_result" where
  "narrow_query_filter env kind field scope rq =
     (case (if dhas (rq_query_params rq) field then dget (rq_query_params rq) field else PStr []) of
        PStr existing \<Rightarrow>
          let existing = py_strip existing;
              narrowed = (if existing \<noteq> [] then existing @ '' AND '' @ fst scope else fst scope) in
          if \<not> scope_survives env kind narrowed (snd scope) then (rq, False)
          else (rq\<lparr>rq_query_params := AList.update field (PStr narrowed) (rq_query_params rq)\<rparr>, True)
      | _ \<Rightarrow> (rq, False))"

definition filter_request_named_search ::
  "env \<Rightarrow> identity \<Rightarrow> string \<Rightarrow> string \<Rightarrow> search_kind \<Rightarrow> string \<Rightarrow> string \<Rightarrow> request \<Rightarrow> (world, filter_result) eff" where
  "filter_request_named_search env i ns res kind key field rq =
     andthen (discover_collection_scope env i res ns None) (\<lambda>scope.
       if scope_broad scope then ret (rq, True)
       else if scope_names scope = [] \<or> py_upper (rq_method rq) \<noteq> ''GET'' then ret (rq, False)
       else case name_scope_clause key (scope_names scope) of
         Inl e \<Rightarrow> ret (rq, False)
       | Inr c \<Rightarrow> ret (narrow_query_filter env kind field c rq))"

definition filter_request_search_mcp ::
  "env \<Rightarrow> identity \<Rightarrow> string \<Rightarrow> bool \<Rightarrow> request \<Rightarrow> (world, filter_result) eff" where
  "filter_request_search_mcp env i ns access_endpoints =
     filter_request_named_search env i ns RESOURCE_MCP_SERVERS
       (if access_endpoints then SearchMcpAccessEndpoints else SearchMcpServers)
       (if access_endpoints then ''server_name'' else ''name'') ''filter_string''"

definition filter_request_registered_model_search ::
  "env \<Rightarrow> identity \<Rightarrow> string \<Rightarrow> bool \<Rightarrow> request \<Rightarrow> (world, filter_result) eff" where
  "filter_request_registered_model_search env i ns model_versions =
     filter_request_named_search env i ns RESOURCE_REGISTERED_MODELS
       (if model_versions then SearchModelVersionsK else SearchModels) ''name'' ''filter''"

definition decimal_text :: "string \<Rightarrow> bool" where
  "decimal_text s = (s \<noteq> [] \<and> list_all (\<lambda>c. c \<in> set ''0123456789'') s)"

definition experiment_scope_clause ::
  "env \<Rightarrow> string list \<Rightarrow> (world, (string \<times> clause) option) eff" where
  "experiment_scope_clause env names =
     (case names of
        [n] \<Rightarrow> (case name_scope_clause ''name'' [n] of Inl e \<Rightarrow> ret None | Inr c \<Rightarrow> ret (Some c))
      | _ \<Rightarrow>
         andthen (on_unresolved (resolve_experiment_ids_from_names env names) (ret [])) (\<lambda>found.
           let ids = sort (remdups found) in
           if ids = [] \<or> \<not> list_all decimal_text ids then ret None
           else ret (Some (''experiment_id IN ('' @ py_join '', '' (map (\<lambda>x. [SQ] @ x @ [SQ]) ids) @ '')'',
             \<lparr>cl_type = ''attribute'', cl_key = ''experiment_id'', cl_comparator = ''IN'',
              cl_value = ClauseTuple ids\<rparr>))))"

definition filter_request_search_experiments ::
  "env \<Rightarrow> identity \<Rightarrow> string \<Rightarrow> request \<Rightarrow> (world, filter_result) eff" where
  "filter_request_search_experiments env i ns rq =
     andthen (discover_collection_scope env i RESOURCE_EXPERIMENTS ns None) (\<lambda>scope.
       if scope_broad scope then ret (rq, True)
       else if scope_names scope = [] then ret (rq, False)
       else andthen (experiment_scope_clause env (scope_names scope)) (\<lambda>c.
         let method = py_upper (rq_method rq); body = json_dict rq in
         case c of
           None \<Rightarrow> ret (rq, False)
         | Some c \<Rightarrow>
             if method \<notin> set [''GET'', ''POST''] \<or> (method = ''POST'' \<and> body = None) then ret (rq, False)
             else ret (narrow_by_filter env SearchExperimentsK ''filter'' body c rq)))"

section \<open>Canonical inputs and dispatch\<close>

text \<open>The body as \<open>normalize_collection_request\<close> first decodes it: \<open>None\<close> when the request is refused.\<close>

definition decode_collection_body :: "env \<Rightarrow> request \<Rightarrow> request option" where
  "decode_collection_body env rq =
     (case rq_json_body rq of
        PStr raw \<Rightarrow>
          (case env_json_loads env raw of
             Some PNone \<Rightarrow> Some (rq\<lparr>rq_json_body := PDict []\<rparr>)
           | Some (PDict d) \<Rightarrow> Some (rq\<lparr>rq_json_body := PDict d\<rparr>)
           | _ \<Rightarrow> None)
      | _ \<Rightarrow> Some rq)"

definition collection_query_of ::
  "(string \<times> string) list \<Rightarrow> pdict \<Rightarrow> pdict \<Rightarrow> pdict" where
  "collection_query_of message_fields body message =
     fold (\<lambda>(name, json_name) q.
       if dhas body name \<or> dhas body json_name then AList.update name (dget message name) q else q)
       message_fields []"

definition normalize_collection_request ::
  "env \<Rightarrow> request \<Rightarrow> collection_policy_id \<Rightarrow> exc + filter_result" where
  "normalize_collection_request env rq0 policy =
     (case decode_collection_body env rq0 of
        None \<Rightarrow> Inr (rq0, False)
      | Some rq \<Rightarrow>
          (case json_dict rq of
             None \<Rightarrow> Inr (rq, True)
           | Some body \<Rightarrow>
               if py_upper (rq_method rq) \<noteq> ''GET'' \<or> rq_query_params rq \<noteq> [] then Inr (rq, True)
               else (case collection_request_message policy of
                 None \<Rightarrow> Inl PyKeyError
               | Some msg \<Rightarrow>
                   let fs = env_message_fields env msg in
                   if list_ex (\<lambda>(name, json_name). name \<noteq> json_name \<and> dhas body name \<and> dhas body json_name) fs
                   then Inr (rq, False)
                   else (case env_parse_dict env msg body of
                     None \<Rightarrow> Inr (rq, False)
                   | Some message \<Rightarrow>
                       Inr (rq\<lparr>rq_json_body := PNone,
                               rq_query_params := collection_query_of fs body message\<rparr>, True)))))"

definition dispatch_collection_filter ::
  "env \<Rightarrow> identity \<Rightarrow> string \<Rightarrow> collection_policy_id \<Rightarrow> request \<Rightarrow> (world, filter_result) eff" where
  "dispatch_collection_filter env i ns policy rq =
     (case policy of
        COLLECTION_POLICY_REQUEST_EXPERIMENT_IDS \<Rightarrow> filter_request_experiment_ids env i ns rq
      | COLLECTION_POLICY_REQUEST_EXPERIMENT_ID \<Rightarrow> filter_request_single_experiment_id env i ns rq
      | COLLECTION_POLICY_REQUEST_RUN_IDS \<Rightarrow> filter_request_run_ids env i ns rq
      | COLLECTION_POLICY_REQUEST_TRACE_LOCATIONS \<Rightarrow> filter_request_trace_locations env i ns rq
      | COLLECTION_POLICY_REQUEST_AUTHORIZED_EXPERIMENT_IDS \<Rightarrow>
          filter_request_authorized_experiment_ids env i ns None rq
      | COLLECTION_POLICY_REQUEST_BATCH_GET_TRACES \<Rightarrow> filter_request_broad_or_authorized env i ns rq
      | COLLECTION_POLICY_REQUEST_BATCH_GET_TRACE_INFOS \<Rightarrow> filter_request_broad_or_authorized env i ns rq
      | COLLECTION_POLICY_REQUEST_LIST_SCORERS \<Rightarrow> filter_request_list_scorers env i ns rq
      | COLLECTION_POLICY_REQUEST_SEARCH_DATASETS \<Rightarrow> filter_request_search_datasets env i ns rq
      | COLLECTION_POLICY_REQUEST_SEARCH_MCP_SERVERS \<Rightarrow> filter_request_search_mcp env i ns False rq
      | COLLECTION_POLICY_REQUEST_SEARCH_MCP_ACCESS_ENDPOINTS \<Rightarrow> filter_request_search_mcp env i ns True rq
      | COLLECTION_POLICY_REQUEST_SEARCH_EXPERIMENTS \<Rightarrow> filter_request_search_experiments env i ns rq
      | COLLECTION_POLICY_REQUEST_SEARCH_REGISTERED_MODELS \<Rightarrow>
          filter_request_registered_model_search env i ns False rq
      | COLLECTION_POLICY_REQUEST_SEARCH_MODEL_VERSIONS \<Rightarrow>
          filter_request_registered_model_search env i ns True rq
      | _ \<Rightarrow> ret (rq, False))"

definition apply_request_collection_filter ::
  "env \<Rightarrow> identity \<Rightarrow> string \<Rightarrow> collection_policy_id option \<Rightarrow> request \<Rightarrow> (world, filter_result) eff" where
  "apply_request_collection_filter env i ns policy rq =
     (case policy of
        None \<Rightarrow> ret (rq, False)
      | Some p \<Rightarrow>
          if collection_request_message p \<noteq> None
          then andthen (lift (normalize_collection_request env rq p)) (\<lambda>(rq', normalized).
                 if \<not> normalized then ret (rq', False) else dispatch_collection_filter env i ns p rq')
          else dispatch_collection_filter env i ns p rq)"

definition filter_graphql_experiment_ids ::
  "env \<Rightarrow> identity \<Rightarrow> string \<Rightarrow> string list \<Rightarrow> (world, string list) eff" where
  "filter_graphql_experiment_ids env i ns xs = filter_readable_experiment_ids env i ns xs"

section \<open>What a filter that applied leaves\<close>

text \<open>
  An identifier is readable when it resolved to the name of an experiment the caller may get. Names are
  resolved at some moment of the run, so the worlds before and after are not fixed.
\<close>

definition readable ::
  "env \<Rightarrow> string \<Rightarrow> auth_mode \<Rightarrow> identity \<Rightarrow> string \<Rightarrow> (string \<Rightarrow> (world, string) eff) \<Rightarrow> string \<Rightarrow> bool" where
  "readable env g m i ns resolve x \<longleftrightarrow>
     (\<exists>n w1 w2. resolve x w1 = (Inr n, w2) \<and>
        approved env g m i RESOURCE_EXPERIMENTS ''get'' ns None (Some n))"

abbreviation experiment_readable where
  "experiment_readable env g m i ns \<equiv> readable env g m i ns (resolve_experiment_name_from_experiment_id env)"

abbreviation run_readable where
  "run_readable env g m i ns \<equiv> readable env g m i ns (resolve_experiment_name_from_run_id env)"

lemma safe_origin: "safe I m (\<lambda>_. True) \<Longrightarrow> safe I m (\<lambda>x. \<exists>w1 w2. m w1 = (Inr x, w2))"
  by (auto simp: safe_def split: prod.splits)

lemma on_unresolved_none:
  "on_unresolved (andthen r (\<lambda>n. ret (Some n))) (ret None) w1 = (Inr (Some n), w2) \<Longrightarrow> \<exists>w2. r w1 = (Inr n, w2)"
  by (auto simp: on_unresolved_def eff_defs split: prod.splits sum.splits exc.splits)

lemma safe_can_read_named:
  assumes "safe (az_inv env g m ttl) (resolve x) (\<lambda>_. True)"
  shows "safe (az_inv env g m ttl) (can_read_named env i ns (resolve x)) (\<lambda>b. b \<longrightarrow> readable env g m i ns resolve x)"
  unfolding can_read_named_def is_allowed_named_resource_def
proof (rule safe_andthen [OF safe_origin])
  show "safe (az_inv env g m ttl) (on_unresolved (andthen (resolve x) (\<lambda>n. ret (Some n))) (ret None)) (\<lambda>_. True)"
    using assms by (intro safe_intros TrueI)
next
  fix v
  assume "\<exists>w1 w2. on_unresolved (andthen (resolve x) (\<lambda>n. ret (Some n))) (ret None) w1 = (Inr v, w2)"
  then have v: "\<forall>n. v = Some n \<longrightarrow> (\<exists>w1 w2. resolve x w1 = (Inr n, w2))"
    by (auto dest!: on_unresolved_none)
  show "safe (az_inv env g m ttl)
     (case v of None \<Rightarrow> ret False
      | Some n \<Rightarrow> case (RESOURCE_EXPERIMENTS, ''get'') of (res, verb) \<Rightarrow> is_allowed env i res verb ns None (Some n))
     (\<lambda>b. b \<longrightarrow> readable env g m i ns resolve x)"
  proof (cases v)
    case None
    then show ?thesis by (simp add: safe_ret)
  next
    case (Some n)
    with v show ?thesis
      by (auto simp: readable_def intro!: safe_weaken [OF safe_is_allowed])
  qed
qed

lemma safe_can_read [safe_intros]:
  "safe (az_inv env g m ttl) (can_read_experiment_id env i ns x) (\<lambda>b. b \<longrightarrow> experiment_readable env g m i ns x)"
  "safe (az_inv env g m ttl) (can_read_run_id env i ns x) (\<lambda>b. b \<longrightarrow> run_readable env g m i ns x)"
  unfolding can_read_experiment_id_def can_read_run_id_def
  by (rule safe_can_read_named, intro safe_intros)+

lemma normalize_string_usable_id: "x \<noteq> [] \<Longrightarrow> py_strip x = x \<Longrightarrow> normalize_string (PStr x) = Some x"
  by (simp add: normalize_string_def nonempty_def)

lemma normalize_values_usable_ids:
  "\<forall>y \<in> set ys. y \<noteq> [] \<and> py_strip y = y \<Longrightarrow> normalize_values (PList (map PStr ys)) = ys"
  by (induction ys) (auto simp: normalize_values_def normalize_string_usable_id)

lemma normalize_values_idem: "normalize_values (PList (map PStr (normalize_values v))) = normalize_values v"
  by (rule normalize_values_usable_ids) (blast dest: normalize_values_usable)

text \<open>The identifiers a request lists under a key, and requests that differ in that key only.\<close>

definition listed :: "string \<Rightarrow> request \<Rightarrow> string list" where
  "listed key rq =
     (case json_dict rq of None \<Rightarrow> [] | Some d \<Rightarrow> normalize_values (dget d key)) @
     normalize_values (dget (rq_query_params rq) key)"

definition same_but :: "string \<Rightarrow> pdict \<Rightarrow> pdict \<Rightarrow> bool" where
  "same_but key d d' \<longleftrightarrow> (\<forall>k. k \<noteq> key \<longrightarrow> map_of d' k = map_of d k)"

definition only_key_changed :: "string \<Rightarrow> request \<Rightarrow> request \<Rightarrow> bool" where
  "only_key_changed key rq rq' \<longleftrightarrow>
     rq' = rq\<lparr>rq_json_body := rq_json_body rq', rq_query_params := rq_query_params rq'\<rparr> \<and>
     same_but key (rq_query_params rq) (rq_query_params rq') \<and>
     (case json_dict rq of
        None \<Rightarrow> rq_json_body rq' = rq_json_body rq
      | Some d \<Rightarrow> (case json_dict rq' of None \<Rightarrow> False | Some d' \<Rightarrow> same_but key d d'))"

lemma same_but_simps [simp]:
  "same_but key d d" "same_but key d (AList.update key v d)" "same_but key d (AList.delete key d)"
  by (auto simp: same_but_def update_conv' delete_conv')

lemma only_key_changed_refl [simp]: "only_key_changed key rq rq"
  by (cases rq) (auto simp: only_key_changed_def split: option.splits)

lemma normalize_values_none [simp]: "normalize_values PNone = []"
  by (simp add: normalize_values_def)

lemma request_self_update [simp]:
  "rq\<lparr>rq_json_body := rq_json_body rq\<rparr> = rq" "rq\<lparr>rq_query_params := rq_query_params rq\<rparr> = rq"
  "rq\<lparr>rq_query_params := rq_query_params rq, rq_json_body := b\<rparr> = rq\<lparr>rq_json_body := b\<rparr>"
  "rq\<lparr>rq_query_params := q, rq_json_body := rq_json_body rq\<rparr> = rq\<lparr>rq_query_params := q\<rparr>"
  by (cases rq; simp)+

lemma dget_delete: "dget (AList.delete k d) k = PNone"
  by (simp add: dget_def delete_conv')

lemma normalize_values_sub:
  "set ys \<subseteq> set (normalize_values v) \<Longrightarrow> normalize_values (PList (map PStr ys)) = ys"
  by (rule normalize_values_usable_ids) (blast dest: normalize_values_usable)

text \<open>
  The contract of the two identifier lists: what is left under the key was asked for and passed the
  check of a single identifier, and nothing else changed.
\<close>

definition id_list_narrowed :: "string \<Rightarrow> (string \<Rightarrow> bool) \<Rightarrow> request \<Rightarrow> filter_result \<Rightarrow> bool" where
  "id_list_narrowed key ok rq res \<longleftrightarrow>
     (case res of (rq', applied) \<Rightarrow>
        if applied
        then only_key_changed key rq rq' \<and> list_all (\<lambda>x. ok x \<and> x \<in> set (listed key rq)) (listed key rq')
        else rq' = rq)"

lemma replace_id_lists_narrowed:
  assumes bs: "(\<forall>y \<in> set bs. ok y) \<and>
      set bs \<subseteq> set (normalize_values (case json_dict rq of None \<Rightarrow> PNone | Some d \<Rightarrow> dget d key))"
    and qs: "(\<forall>y \<in> set qs. ok y) \<and> set qs \<subseteq> set (normalize_values (dget (rq_query_params rq) key))"
  shows "id_list_narrowed key ok rq (replace_id_lists key bs qs rq, True)"
proof -
  have "normalize_values (PList (map PStr bs)) = bs" "normalize_values (PList (map PStr qs)) = qs"
    using bs qs by (auto intro: normalize_values_sub)
  with bs qs show ?thesis
    by (cases "rq_json_body rq"; cases "dhas (rq_query_params rq) key"; cases "qs = []")
       (auto simp: replace_id_lists_def id_list_narrowed_def only_key_changed_def listed_def
          list_all_iff dget_delete dget_not_dhas json_dict_def)
qed

lemma safe_filter_request_id_list:
  assumes read: "\<And>v. safe I (read (normalize_values v))
      (\<lambda>ys. (\<forall>y \<in> set ys. ok y) \<and> set ys \<subseteq> set (normalize_values v))"
  shows "safe I (filter_request_id_list key read rq) (id_list_narrowed key ok rq)"
proof -
  let ?b = "case json_dict rq of None \<Rightarrow> PNone | Some d \<Rightarrow> dget d key"
  have b: "(if case json_dict rq of None \<Rightarrow> False | Some d \<Rightarrow> dhas d key
      then normalize_values (dget (the (json_dict rq)) key) else []) = normalize_values ?b"
    by (auto split: option.splits simp: dget_not_dhas)
  have q: "(if dhas (rq_query_params rq) key then normalize_values (dget (rq_query_params rq) key) else []) =
      normalize_values (dget (rq_query_params rq) key)"
    by (simp add: dget_not_dhas)
  show ?thesis
    unfolding filter_request_id_list_def Let_def b q
    by (rule safe_if [OF safe_ret], simp add: id_list_narrowed_def,
        rule safe_andthen [OF read], rule safe_andthen [OF read],
        rule safe_if [OF safe_ret], simp add: id_list_narrowed_def,
        rule safe_ret, rule replace_id_lists_narrowed)
qed

lemma safe_filter_readable_ids:
  "safe (az_inv env g m ttl) (filter_readable_experiment_ids env i ns (normalize_values v))
     (\<lambda>ys. (\<forall>y \<in> set ys. experiment_readable env g m i ns y) \<and> set ys \<subseteq> set (normalize_values v))"
  "safe (az_inv env g m ttl) (filter_readable_run_ids env i ns (normalize_values v))
     (\<lambda>ys. (\<forall>y \<in> set ys. run_readable env g m i ns y) \<and> set ys \<subseteq> set (normalize_values v))"
  unfolding filter_readable_experiment_ids_def filter_readable_run_ids_def normalize_values_idem
  by (rule safe_filter_eff, rule safe_can_read)+

lemma safe_filter_ids:
  "safe (az_inv env g m ttl) (filter_request_experiment_ids env i ns rq)
     (id_list_narrowed ''experiment_ids'' (experiment_readable env g m i ns) rq)"
  "safe (az_inv env g m ttl) (filter_request_run_ids env i ns rq)
     (id_list_narrowed ''run_ids'' (run_readable env g m i ns) rq)"
  unfolding filter_request_experiment_ids_def filter_request_run_ids_def
  by (rule safe_filter_request_id_list, rule safe_filter_readable_ids)+

section \<open>Single identifiers and locations\<close>

definition single_id_checked :: "string \<Rightarrow> (string \<Rightarrow> bool) \<Rightarrow> request \<Rightarrow> filter_result \<Rightarrow> bool" where
  "single_id_checked key ok rq res \<longleftrightarrow>
     fst res = rq \<and> (if snd res then listed key rq \<noteq> [] \<and> list_all ok (listed key rq) else True)"

lemma normalize_request_value_all:
  "normalize_request_value v = Some x \<Longrightarrow> normalize_values v \<noteq> [] \<and> (\<forall>y \<in> set (normalize_values v). y = x)"
  by (auto simp: normalize_request_value_def list_all_iff split: list.splits if_splits)

lemma safe_single_id_readable:
  "safe (az_inv env g m ttl)
     (single_id_readable env i ns has (if has then normalize_request_value v else None))
     (\<lambda>b. b \<longrightarrow> has \<longrightarrow> normalize_values v \<noteq> [] \<and> (\<forall>y \<in> set (normalize_values v). experiment_readable env g m i ns y))"
proof (cases "normalize_request_value v")
  case None
  then show ?thesis by (auto simp: single_id_readable_def intro!: safe_ret)
next
  case (Some x)
  from normalize_request_value_all [OF this] Some show ?thesis
    by (auto simp: single_id_readable_def intro!: safe_ret safe_weaken [OF safe_can_read(1)])
qed

lemma safe_filter_single_id:
  "safe (az_inv env g m ttl) (filter_request_single_experiment_id env i ns rq)
     (single_id_checked ''experiment_id'' (experiment_readable env g m i ns) rq)"
  unfolding filter_request_single_experiment_id_def Let_def
proof (rule safe_if [OF safe_ret], simp add: single_id_checked_def,
    rule safe_andthen [OF safe_single_id_readable], rule safe_if [OF safe_ret], simp add: single_id_checked_def,
    rule safe_andthen [OF safe_single_id_readable], rule safe_ret)
  fix b q
  let ?bh = "case json_dict rq of None \<Rightarrow> False | Some d \<Rightarrow> dhas d ''experiment_id''"
  let ?qh = "dhas (rq_query_params rq) ''experiment_id''"
  let ?ok = "\<lambda>v. normalize_values v \<noteq> [] \<and> (\<forall>y \<in> set (normalize_values v). experiment_readable env g m i ns y)"
  assume "\<not> (\<not> ?bh \<and> \<not> ?qh)" and "b \<longrightarrow> ?bh \<longrightarrow> ?ok (dget (the (json_dict rq)) ''experiment_id'')" and "\<not> \<not> b"
    and "q \<longrightarrow> ?qh \<longrightarrow> ?ok (dget (rq_query_params rq) ''experiment_id'')"
  then show "single_id_checked ''experiment_id'' (experiment_readable env g m i ns) rq (rq, q)"
    by (cases "json_dict rq"; cases "?bh"; cases "?qh")
       (auto simp: single_id_checked_def listed_def list_all_iff dget_not_dhas)
qed

text \<open>What is left of the locations was asked for and is a readable experiment's.\<close>

definition locations_narrowed :: "(string \<Rightarrow> bool) \<Rightarrow> request \<Rightarrow> filter_result \<Rightarrow> bool" where
  "locations_narrowed ok rq res \<longleftrightarrow>
     (if snd res
      then \<exists>d asked kept. json_dict rq = Some d \<and> dget d ''locations'' = PList asked \<and> kept \<noteq> [] \<and>
        fst res = rq\<lparr>rq_json_body := PDict (AList.update ''locations'' (PList kept) d)\<rparr> \<and>
        list_all (\<lambda>l. l \<in> set asked \<and> (case location_experiment_id l of None \<Rightarrow> False | Some x \<Rightarrow> ok x)) kept
      else fst res = rq)"

lemma safe_location_readable:
  "safe (az_inv env g m ttl)
     (case location_experiment_id l of None \<Rightarrow> ret False | Some x \<Rightarrow> can_read_experiment_id env i ns x)
     (\<lambda>b. b \<longrightarrow> (case location_experiment_id l of None \<Rightarrow> False | Some x \<Rightarrow> experiment_readable env g m i ns x))"
  by (cases "location_experiment_id l") (auto intro: safe_ret safe_can_read)

lemma safe_filter_trace_locations:
  "safe (az_inv env g m ttl) (filter_request_trace_locations env i ns rq)
     (locations_narrowed (experiment_readable env g m i ns) rq)"
proof (cases "json_dict rq")
  case None
  then show ?thesis by (simp add: filter_request_trace_locations_def locations_narrowed_def safe_ret)
next
  case (Some d)
  show ?thesis
  proof (cases "\<exists>asked. dget d ''locations'' = PList asked")
    case False
    with Some show ?thesis
      by (auto simp: filter_request_trace_locations_def locations_narrowed_def intro: safe_ret split: pv.splits)
  next
    case True
    then obtain asked where asked: "dget d ''locations'' = PList asked" ..
    show ?thesis
      unfolding filter_request_trace_locations_def Some asked option.case pv.case
      by (rule safe_andthen [OF safe_filter_eff [OF safe_location_readable]],
          rule safe_if [OF safe_ret], simp add: locations_narrowed_def, rule safe_ret)
         (auto simp: locations_narrowed_def Some asked list_all_iff)
  qed
qed

section \<open>Identifiers of a scope\<close>

text \<open>
  The identifiers a mapping requests under a key: \<open>None\<close> when the key is missing, the empty list when
  the value is not a usable list.
\<close>

definition asked_ids :: "bool \<Rightarrow> pdict \<Rightarrow> string \<Rightarrow> string list option" where
  "asked_ids scalar d k =
     (if dhas d k then Some (case request_ids scalar (dget d k) of None \<Rightarrow> [] | Some ids \<Rightarrow> ids) else None)"

definition inside :: "string list \<Rightarrow> string list option \<Rightarrow> bool" where
  "inside ids asked = (case asked of None \<Rightarrow> True | Some a \<Rightarrow> set ids \<subseteq> set a)"

lemma inside_mono: "set xs \<subseteq> set ys \<Longrightarrow> inside ys asked \<Longrightarrow> inside xs asked"
  by (auto simp: inside_def split: option.splits)

lemma select_ids_sub:
  "select_ids scalar m ks selected = Some ids \<Longrightarrow>
   set ids \<subseteq> set selected \<and> (\<forall>k \<in> set ks. inside ids (asked_ids scalar m k))"
proof (induction ks arbitrary: selected)
  case Nil
  then show ?case by simp
next
  case (Cons k ks)
  show ?case
  proof (cases "dhas m k")
    case False
    with Cons show ?thesis by (auto simp: asked_ids_def inside_def)
  next
    case True
    then obtain a where a: "request_ids scalar (dget m k) = Some a"
      using Cons.prems by (auto split: option.splits)
    with True Cons.prems have "select_ids scalar m ks (filter (\<lambda>x. x \<in> set a) selected) = Some ids" by simp
    from Cons.IH [OF this] True a show ?thesis by (auto simp: asked_ids_def inside_def)
  qed
qed

lemma map_of_without: "map_of (without ks d) k = (if k \<in> set ks then None else map_of d k)"
  by (induction d) (auto simp: without_def)

lemma dget_without [simp]: "dget (without ks d) k = (if k \<in> set ks then PNone else dget d k)"
  by (simp add: dget_def map_of_without)

lemma dhas_without [simp]: "dhas (without ks d) k = (k \<notin> set ks \<and> dhas d k)"
  by (auto simp: dhas_def without_def)

text \<open>
  The contract of the narrowing: one non-empty list of allowed identifiers, all of them requested
  wherever the request restricts identifiers, stands in the place MLflow reads and in every other place
  that had such a list.
\<close>

definition ids_placed :: "string list \<Rightarrow> request \<Rightarrow> request \<Rightarrow> bool" where
  "ids_placed ids rq rq' \<longleftrightarrow>
     rq' = rq\<lparr>rq_json_body := rq_json_body rq', rq_query_params := rq_query_params rq'\<rparr> \<and>
     (case json_dict rq' of
        None \<Rightarrow> True
      | Some d \<Rightarrow> \<not> dhas d ''experimentIds'' \<and>
          (dhas d ''experiment_ids'' \<longrightarrow> dget d ''experiment_ids'' = PList (map PStr ids))) \<and>
     (dhas (rq_query_params rq') ''experiment_ids'' \<longrightarrow>
        dget (rq_query_params rq') ''experiment_ids'' = PList (map PStr ids)) \<and>
     (if py_upper (rq_method rq) = ''POST''
      then (case json_dict rq' of None \<Rightarrow> False | Some d \<Rightarrow> dhas d ''experiment_ids'')
      else dhas (rq_query_params rq') ''experiment_ids'')"

definition ids_narrowed :: "string list \<Rightarrow> request \<Rightarrow> request \<Rightarrow> bool" where
  "ids_narrowed allowed rq rq' \<longleftrightarrow>
     (\<exists>ids. ids \<noteq> [] \<and> sorted ids \<and> distinct ids \<and> set ids \<subseteq> set allowed \<and>
       list_all (\<lambda>k. inside ids (asked_ids False (case json_dict rq of None \<Rightarrow> [] | Some d \<Rightarrow> d) k))
         BODY_ID_KEYS \<and>
       inside ids (asked_ids True (rq_query_params rq) ''experiment_ids'') \<and>
       ids_placed ids rq rq')"

lemma place_ids_placed:
  assumes "place_ids ids rq = (rq', True)" shows "ids_placed ids rq rq'"
proof (cases "json_dict rq")
  case None
  with assms show ?thesis
    by (auto simp: place_ids_def ids_placed_def json_dict_def Let_def split: if_splits)
next
  case (Some d)
  then have "rq_json_body rq = PDict d" by (cases "rq_json_body rq") (auto simp: json_dict_def)
  with assms Some show ?thesis
    by (cases "py_upper (rq_method rq) = ''POST''"; cases "list_ex (dhas d) BODY_ID_KEYS")
       (auto simp: place_ids_def ids_placed_def json_dict_def Let_def BODY_ID_KEYS_def split: if_splits)
qed

lemma narrow_to_ids_narrowed:
  assumes run: "narrow_to_ids allowed rq = (rq', True)" shows "ids_narrowed allowed rq rq'"
proof -
  let ?d = "case json_dict rq of None \<Rightarrow> [] | Some d \<Rightarrow> d"
  obtain s1 sel where s1: "select_ids False ?d BODY_ID_KEYS allowed = Some s1"
    and sel: "select_ids True (rq_query_params rq) [''experiment_ids''] s1 = Some sel"
    and ne: "sel \<noteq> []" and placed: "place_ids (sort (remdups sel)) rq = (rq', True)"
    using run unfolding narrow_to_ids_def selected_ids_def
    by (cases "select_ids False ?d BODY_ID_KEYS allowed")
       (auto simp del: select_ids.simps split: option.splits if_splits)
  let ?ids = "sort (remdups sel)"
  note in1 = select_ids_sub [OF s1] and in2 = select_ids_sub [OF sel]
  have "set ?ids \<subseteq> set allowed" using in1 in2 by auto
  moreover have "inside ?ids a" if "inside s1 a \<or> inside sel a" for a
    using that in2 inside_mono [of ?ids s1 a] inside_mono [of ?ids sel a] by auto
  then have "list_all (\<lambda>k. inside ?ids (asked_ids False ?d k)) BODY_ID_KEYS"
    "inside ?ids (asked_ids True (rq_query_params rq) ''experiment_ids'')"
    using in1 in2 by (auto simp: list_all_iff)
  moreover have "?ids \<noteq> []" using ne by (metis remdups_eq_nil_iff set_empty set_sort)
  ultimately show ?thesis
    unfolding ids_narrowed_def using place_ids_placed [OF placed] by (intro exI [of _ ?ids]) simp
qed

text \<open>
  The contract of a filter that works with a collection scope: when it applied, the caller may read the
  whole collection and the request is unchanged, or every name of the scope was approved by name and the
  request was narrowed to these names.
\<close>

definition scope_narrowed ::
  "env \<Rightarrow> string \<Rightarrow> auth_mode \<Rightarrow> identity \<Rightarrow> string \<Rightarrow> string \<Rightarrow>
   (string list \<Rightarrow> request \<Rightarrow> request \<Rightarrow> bool) \<Rightarrow> request \<Rightarrow> filter_result \<Rightarrow> bool" where
  "scope_narrowed env g m i ns res narrow rq result \<longleftrightarrow>
     (case result of (rq', applied) \<Rightarrow>
        if applied
        then (rq' = rq \<and> approved env g m i res ''get'' ns None None) \<or>
             (\<exists>names. names \<noteq> [] \<and> list_all (\<lambda>n. approved env g m i res ''get'' ns None (Some n)) names \<and>
                narrow names rq rq')
        else rq' = rq)"

definition narrowed_to_experiments :: "env \<Rightarrow> string list \<Rightarrow> request \<Rightarrow> request \<Rightarrow> bool" where
  "narrowed_to_experiments env names rq rq' \<longleftrightarrow>
     (\<exists>allowed w1 w2. resolve_experiment_ids_from_names env names w1 = (Inr allowed, w2) \<and>
        ids_narrowed allowed rq rq')"

lemma narrow_to_ids_unchanged: "narrow_to_ids allowed rq = (rq', False) \<Longrightarrow> rq' = rq"
  by (auto simp: narrow_to_ids_def place_ids_def Let_def split: option.splits if_splits)

lemma on_unresolved_result:
  "on_unresolved m (ret d) w1 = (Inr x, w2) \<Longrightarrow> x \<noteq> d \<Longrightarrow> \<exists>w2. m w1 = (Inr x, w2)"
  by (auto simp: on_unresolved_def eff_defs split: prod.splits sum.splits exc.splits)

lemma scope_narrowed_simps:
  "scope_narrowed env g m i ns res narrow rq (rq, False)"
  "scope_approved env g m i res ns None scope \<Longrightarrow> scope_broad scope \<Longrightarrow>
   scope_narrowed env g m i ns res narrow rq (rq, True)"
  by (auto simp: scope_narrowed_def scope_approved_def)

lemma scope_narrowed_names:
  assumes "scope_approved env g m i res ns None scope" and "scope_names scope \<noteq> []"
    and "narrow (scope_names scope) rq rq'"
  shows "scope_narrowed env g m i ns res narrow rq (rq', True)"
  using assms unfolding scope_narrowed_def scope_approved_def list_all_iff by auto

lemma scope_narrowed_ids:
  assumes "scope_approved env g m i RESOURCE_EXPERIMENTS ns None scope" and "scope_names scope \<noteq> []"
    and "resolve_experiment_ids_from_names env (scope_names scope) w1 = (Inr allowed, w2)"
  shows "scope_narrowed env g m i ns RESOURCE_EXPERIMENTS (narrowed_to_experiments env) rq (narrow_to_ids allowed rq)"
proof (cases "narrow_to_ids allowed rq")
  case (Pair rq' applied)
  show ?thesis
  proof (cases applied)
    case True
    with Pair have "narrow_to_ids allowed rq = (rq', True)" by simp
    from narrow_to_ids_narrowed [OF this] assms(3) have "narrowed_to_experiments env (scope_names scope) rq rq'"
      unfolding narrowed_to_experiments_def by blast
    from scope_narrowed_names [where narrow = "narrowed_to_experiments env", OF assms(1,2) this] Pair True
    show ?thesis by simp
  next
    case False
    with Pair narrow_to_ids_unchanged [of allowed rq rq'] show ?thesis by (simp add: scope_narrowed_def)
  qed
qed

lemma safe_filter_scope_ids:
  assumes "scope_approved env g m i RESOURCE_EXPERIMENTS ns None scope"
  shows "safe (az_inv env g m ttl) (filter_request_authorized_experiment_ids env i ns (Some scope) rq)
     (scope_narrowed env g m i ns RESOURCE_EXPERIMENTS (narrowed_to_experiments env) rq)"
  unfolding filter_request_authorized_experiment_ids_def option.case
  apply (rule safe_andthen [OF safe_ret [where Q = "\<lambda>x. x = scope"]], rule refl, simp only:)
  apply (rule safe_if [OF safe_ret], rule scope_narrowed_simps, rule assms, assumption)
  apply (rule safe_if [OF safe_ret], rule scope_narrowed_simps)
  apply (rule safe_andthen [OF safe_origin], rule safe_on_unresolved, rule az_names.keeps_resolve_ids,
      rule safe_ret, rule TrueI)
  apply (rule safe_if [OF safe_ret], rule scope_narrowed_simps)
  apply (rule safe_ret)
  apply (auto dest!: on_unresolved_result intro: scope_narrowed_ids [OF assms])
  done

lemma safe_filter_authorized_ids:
  "safe (az_inv env g m ttl) (filter_request_authorized_experiment_ids env i ns None rq)
     (scope_narrowed env g m i ns RESOURCE_EXPERIMENTS (narrowed_to_experiments env) rq)"
  "safe (az_inv env g m ttl) (filter_request_broad_or_authorized env i ns rq)
     (scope_narrowed env g m i ns RESOURCE_EXPERIMENTS (narrowed_to_experiments env) rq)"
proof -
  have "filter_request_authorized_experiment_ids env i ns None rq =
      andthen (discover_collection_scope env i RESOURCE_EXPERIMENTS ns None)
        (\<lambda>scope. filter_request_authorized_experiment_ids env i ns (Some scope) rq)"
    by (simp add: filter_request_authorized_experiment_ids_def eff_defs)
  then show "safe (az_inv env g m ttl) (filter_request_authorized_experiment_ids env i ns None rq)
     (scope_narrowed env g m i ns RESOURCE_EXPERIMENTS (narrowed_to_experiments env) rq)"
    by (simp add: safe_andthen [OF safe_discover_collection_scope] safe_filter_scope_ids)
  show "safe (az_inv env g m ttl) (filter_request_broad_or_authorized env i ns rq)
     (scope_narrowed env g m i ns RESOURCE_EXPERIMENTS (narrowed_to_experiments env) rq)"
    unfolding filter_request_broad_or_authorized_def
    by (rule safe_andthen [OF safe_discover_collection_scope], rule safe_if [OF safe_ret],
        rule scope_narrowed_simps, assumption+, rule safe_filter_scope_ids)
qed

section \<open>Scopes by search filter\<close>

text \<open>
  A request narrowed by a filter: in the place MLflow reads for the method stands one text, the caller's
  own filters joined with the text of the scope as the last conjunct, and MLflow's parser gives the clause
  of the scope as its last clause. The other place is as it was.
\<close>

definition search_input :: "request \<Rightarrow> pdict" where
  "search_input rq =
     (if py_upper (rq_method rq) = ''POST'' then (case json_dict rq of None \<Rightarrow> [] | Some d \<Rightarrow> d)
      else rq_query_params rq)"

definition filter_scoped :: "env \<Rightarrow> search_kind \<Rightarrow> string \<Rightarrow> string \<times> clause \<Rightarrow> request \<Rightarrow> request \<Rightarrow> bool" where
  "filter_scoped env kind field scope rq rq' \<longleftrightarrow>
     (\<exists>fs. dget (search_input rq') field = PStr (py_join '' AND '' (fs @ [fst scope])) \<and>
        scope_survives env kind (py_join '' AND '' (fs @ [fst scope])) (snd scope)) \<and>
     rq' = (if py_upper (rq_method rq) = ''POST'' then rq\<lparr>rq_json_body := rq_json_body rq'\<rparr>
            else rq\<lparr>rq_query_params := rq_query_params rq'\<rparr>)"

lemma narrow_by_filter_scoped:
  assumes "narrow_by_filter env kind field body scope rq = (rq', True)"
  shows "filter_scoped env kind field scope rq rq'"
proof -
  obtain fs where fs: "caller_filters field
      ((case body of None \<Rightarrow> [] | Some d \<Rightarrow> [d]) @ [rq_query_params rq]) = Some fs"
    using assms unfolding narrow_by_filter_def by (auto split: option.splits)
  let ?t = "py_join '' AND '' (fs @ [fst scope])"
  have "scope_survives env kind ?t (snd scope)"
    and "rq' = (if py_upper (rq_method rq) = ''POST''
      then rq\<lparr>rq_json_body := PDict (AList.update field (PStr ?t) (the body))\<rparr>
      else rq\<lparr>rq_query_params := AList.update field (PStr ?t) (rq_query_params rq)\<rparr>)"
    using assms unfolding narrow_by_filter_def fs Let_def by (auto split: if_splits)
  then show ?thesis
    by (auto simp: filter_scoped_def search_input_def json_dict_def intro!: exI [of _ fs])
qed

lemma narrow_by_filter_unchanged:
  "narrow_by_filter env kind field body scope rq = (rq', False) \<Longrightarrow> rq' = rq"
  by (auto simp: narrow_by_filter_def Let_def split: option.splits if_splits)

lemma narrow_query_filter_scoped:
  assumes "narrow_query_filter env kind field scope rq = (rq', True)" and "py_upper (rq_method rq) = ''GET''"
  shows "filter_scoped env kind field scope rq rq'"
proof -
  obtain existing where ex: "(if dhas (rq_query_params rq) field then dget (rq_query_params rq) field else PStr []) =
      PStr existing"
    using assms(1) unfolding narrow_query_filter_def by (auto split: pv.splits)
  let ?t = "if py_strip existing \<noteq> [] then py_strip existing @ '' AND '' @ fst scope else fst scope"
  have t: "scope_survives env kind ?t (snd scope)"
    and rq': "rq' = rq\<lparr>rq_query_params := AList.update field (PStr ?t) (rq_query_params rq)\<rparr>"
    using assms(1) unfolding narrow_query_filter_def ex Let_def pv.case by (simp_all split: if_splits)
  let ?fs = "if py_strip existing \<noteq> [] then [py_strip existing] else []"
  have join: "?t = py_join '' AND '' (?fs @ [fst scope])" by simp
  show ?thesis
    unfolding filter_scoped_def
  proof (rule conjI, rule exI [of _ ?fs])
    show "dget (search_input rq') field = PStr (py_join '' AND '' (?fs @ [fst scope])) \<and>
        scope_survives env kind (py_join '' AND '' (?fs @ [fst scope])) (snd scope)"
      using t unfolding join by (simp add: search_input_def rq' assms(2))
  qed (simp add: rq' assms(2))
qed

lemma narrow_query_filter_unchanged:
  "narrow_query_filter env kind field scope rq = (rq', False) \<Longrightarrow> rq' = rq"
  by (auto simp: narrow_query_filter_def Let_def split: pv.splits if_splits)

definition narrowed_by_name ::
  "env \<Rightarrow> search_kind \<Rightarrow> string \<Rightarrow> string \<Rightarrow> string list \<Rightarrow> request \<Rightarrow> request \<Rightarrow> bool" where
  "narrowed_by_name env kind key field names rq rq' \<longleftrightarrow>
     (\<exists>c. name_scope_clause key names = Inr c \<and> filter_scoped env kind field c rq rq')"

lemma scope_narrowed_result:
  assumes "scope_approved env g m i res ns None scope" and "scope_names scope \<noteq> []"
    and "\<And>rq'. result = (rq', True) \<Longrightarrow> narrow (scope_names scope) rq rq'"
    and "\<And>rq'. result = (rq', False) \<Longrightarrow> rq' = rq"
  shows "scope_narrowed env g m i ns res narrow rq result"
proof (cases result)
  case (Pair rq' applied)
  show ?thesis
  proof (cases applied)
    case True
    with Pair have result: "result = (rq', True)" by simp
    show ?thesis unfolding result by (rule scope_narrowed_names [where narrow = narrow, OF assms(1,2) assms(3) [OF result]])
  next
    case False
    with Pair assms(4) show ?thesis by (simp add: scope_narrowed_def)
  qed
qed

lemma safe_filter_search_datasets:
  "safe (az_inv env g m ttl) (filter_request_search_datasets env i ns rq)
     (scope_narrowed env g m i ns RESOURCE_DATASETS (narrowed_by_name env SearchDatasets ''name'' ''filter_string'') rq)"
  unfolding filter_request_search_datasets_def Let_def
  by (rule safe_andthen [OF safe_discover_collection_scope])
     (auto intro!: safe_if safe_ret scope_narrowed_simps scope_narrowed_result split: sum.splits
        simp: narrowed_by_name_def dest: narrow_by_filter_unchanged narrow_by_filter_scoped)

lemma safe_filter_named_search:
  "safe (az_inv env g m ttl) (filter_request_named_search env i ns res kind key field rq)
     (scope_narrowed env g m i ns res (narrowed_by_name env kind key field) rq)"
  unfolding filter_request_named_search_def Let_def
  by (rule safe_andthen [OF safe_discover_collection_scope])
     (auto intro!: safe_if safe_ret scope_narrowed_simps scope_narrowed_result split: sum.splits
        simp: narrowed_by_name_def dest: narrow_query_filter_unchanged narrow_query_filter_scoped)

definition narrowed_by_experiment :: "env \<Rightarrow> string list \<Rightarrow> request \<Rightarrow> request \<Rightarrow> bool" where
  "narrowed_by_experiment env names rq rq' \<longleftrightarrow>
     (\<exists>c w1 w2. experiment_scope_clause env names w1 = (Inr (Some c), w2) \<and>
        filter_scoped env SearchExperimentsK ''filter'' c rq rq')"

lemma safe_experiment_scope_clause [safe_intros]:
  "safe (az_inv env g m ttl) (experiment_scope_clause env names) (\<lambda>_. True)"
  unfolding experiment_scope_clause_def Let_def by (auto intro!: safe_intros split: list.splits sum.splits)

lemma narrow_by_experiment_result:
  assumes "scope_approved env g m i RESOURCE_EXPERIMENTS ns None scope" and "scope_names scope \<noteq> []"
    and "experiment_scope_clause env (scope_names scope) w1 = (Inr (Some c), w2)"
  shows "scope_narrowed env g m i ns RESOURCE_EXPERIMENTS (narrowed_by_experiment env) rq
     (narrow_by_filter env SearchExperimentsK ''filter'' body c rq)"
proof (rule scope_narrowed_result [OF assms(1,2)])
  fix rq'
  assume "narrow_by_filter env SearchExperimentsK ''filter'' body c rq = (rq', True)"
  from narrow_by_filter_scoped [OF this] assms(3)
  show "narrowed_by_experiment env (scope_names scope) rq rq'" unfolding narrowed_by_experiment_def by blast
qed (rule narrow_by_filter_unchanged)

lemma safe_filter_search_experiments:
  "safe (az_inv env g m ttl) (filter_request_search_experiments env i ns rq)
     (scope_narrowed env g m i ns RESOURCE_EXPERIMENTS (narrowed_by_experiment env) rq)"
  unfolding filter_request_search_experiments_def Let_def
  apply (rule safe_andthen [OF safe_discover_collection_scope])
  apply (rule safe_if [OF safe_ret], rule scope_narrowed_simps, assumption+)
  apply (rule safe_if [OF safe_ret], rule scope_narrowed_simps)
  apply (rule safe_andthen [OF safe_origin], rule safe_experiment_scope_clause)
  apply (auto intro!: safe_if safe_ret scope_narrowed_simps narrow_by_experiment_result split: option.splits)
  done

section \<open>The whole filter\<close>

text \<open>What a filter policy promises about the request it leaves.\<close>

definition collection_justified ::
  "env \<Rightarrow> string \<Rightarrow> auth_mode \<Rightarrow> identity \<Rightarrow> string \<Rightarrow> collection_policy_id \<Rightarrow> request \<Rightarrow> filter_result \<Rightarrow> bool" where
  "collection_justified env g m i ns policy rq result =
     (case policy of
        COLLECTION_POLICY_REQUEST_EXPERIMENT_IDS \<Rightarrow>
          id_list_narrowed ''experiment_ids'' (experiment_readable env g m i ns) rq result
      | COLLECTION_POLICY_REQUEST_RUN_IDS \<Rightarrow>
          id_list_narrowed ''run_ids'' (run_readable env g m i ns) rq result
      | COLLECTION_POLICY_REQUEST_EXPERIMENT_ID \<Rightarrow>
          single_id_checked ''experiment_id'' (experiment_readable env g m i ns) rq result
      | COLLECTION_POLICY_REQUEST_TRACE_LOCATIONS \<Rightarrow>
          locations_narrowed (experiment_readable env g m i ns) rq result
      | COLLECTION_POLICY_REQUEST_AUTHORIZED_EXPERIMENT_IDS \<Rightarrow>
          scope_narrowed env g m i ns RESOURCE_EXPERIMENTS (narrowed_to_experiments env) rq result
      | COLLECTION_POLICY_REQUEST_BATCH_GET_TRACES \<Rightarrow>
          scope_narrowed env g m i ns RESOURCE_EXPERIMENTS (narrowed_to_experiments env) rq result
      | COLLECTION_POLICY_REQUEST_BATCH_GET_TRACE_INFOS \<Rightarrow>
          scope_narrowed env g m i ns RESOURCE_EXPERIMENTS (narrowed_to_experiments env) rq result
      | COLLECTION_POLICY_REQUEST_LIST_SCORERS \<Rightarrow>
          scope_narrowed env g m i ns RESOURCE_EXPERIMENTS (narrowed_to_experiments env) rq result \<or>
          (\<exists>x. normalize_string (dget (rq_query_params rq) ''experiment_id'') = Some x \<and>
             result = (rq, True) \<and> experiment_readable env g m i ns x)
      | COLLECTION_POLICY_REQUEST_SEARCH_DATASETS \<Rightarrow>
          scope_narrowed env g m i ns RESOURCE_DATASETS
            (narrowed_by_name env SearchDatasets ''name'' ''filter_string'') rq result
      | COLLECTION_POLICY_REQUEST_SEARCH_MCP_SERVERS \<Rightarrow>
          scope_narrowed env g m i ns RESOURCE_MCP_SERVERS
            (narrowed_by_name env SearchMcpServers ''name'' ''filter_string'') rq result
      | COLLECTION_POLICY_REQUEST_SEARCH_MCP_ACCESS_ENDPOINTS \<Rightarrow>
          scope_narrowed env g m i ns RESOURCE_MCP_SERVERS
            (narrowed_by_name env SearchMcpAccessEndpoints ''server_name'' ''filter_string'') rq result
      | COLLECTION_POLICY_REQUEST_SEARCH_EXPERIMENTS \<Rightarrow>
          scope_narrowed env g m i ns RESOURCE_EXPERIMENTS (narrowed_by_experiment env) rq result
      | COLLECTION_POLICY_REQUEST_SEARCH_REGISTERED_MODELS \<Rightarrow>
          scope_narrowed env g m i ns RESOURCE_REGISTERED_MODELS
            (narrowed_by_name env SearchModels ''name'' ''filter'') rq result
      | COLLECTION_POLICY_REQUEST_SEARCH_MODEL_VERSIONS \<Rightarrow>
          scope_narrowed env g m i ns RESOURCE_REGISTERED_MODELS
            (narrowed_by_name env SearchModelVersionsK ''name'' ''filter'') rq result
      | _ \<Rightarrow> result = (rq, False))"

lemma safe_filter_list_scorers:
  "safe (az_inv env g m ttl) (filter_request_list_scorers env i ns rq)
     (collection_justified env g m i ns COLLECTION_POLICY_REQUEST_LIST_SCORERS rq)"
  unfolding filter_request_list_scorers_def Let_def collection_justified_def collection_policy_id.case
  apply (rule safe_if [OF safe_ret], simp add: scope_narrowed_simps)
  apply (rule safe_if [OF safe_ret], simp add: scope_narrowed_simps)
  apply (rule safe_if)
   apply (cases "normalize_string (dget (rq_query_params rq) ''experiment_id'')")
    apply (simp add: safe_ret scope_narrowed_simps)
   apply simp
   apply (rule safe_andthen [OF safe_can_read(1)], rule safe_ret)
  subgoal for x b by (cases b) (auto simp: scope_narrowed_simps)
  apply (rule safe_weaken [OF safe_filter_authorized_ids(2)], simp)
  done

lemma safe_dispatch:
  "safe (az_inv env g m ttl) (dispatch_collection_filter env i ns policy rq) (collection_justified env g m i ns policy rq)"
proof (cases "policy = COLLECTION_POLICY_REQUEST_LIST_SCORERS")
  case True
  then show ?thesis by (simp add: dispatch_collection_filter_def safe_filter_list_scorers)
next
  case False
  then show ?thesis
    by (cases policy)
       (simp_all add: dispatch_collection_filter_def collection_justified_def [abs_def]
          filter_request_search_mcp_def
          filter_request_registered_model_search_def safe_ret safe_filter_ids safe_filter_single_id
          safe_filter_trace_locations safe_filter_authorized_ids safe_filter_search_datasets
          safe_filter_named_search safe_filter_search_experiments)
qed

text \<open>
  The request a policy's filter works on: as it came for the policies that have no message, otherwise in
  the canonical form \<open>normalize_collection_request\<close> gives.
\<close>

definition filter_input :: "env \<Rightarrow> collection_policy_id \<Rightarrow> request \<Rightarrow> request \<Rightarrow> bool" where
  "filter_input env policy rq rq0 \<longleftrightarrow>
     (if collection_request_message policy = None then rq0 = rq
      else normalize_collection_request env rq policy = Inr (rq0, True))"

definition filter_justified ::
  "env \<Rightarrow> string \<Rightarrow> auth_mode \<Rightarrow> identity \<Rightarrow> string \<Rightarrow> collection_policy_id option \<Rightarrow> request \<Rightarrow> request \<Rightarrow> bool" where
  "filter_justified env g m i ns policy rq rq' \<longleftrightarrow>
     (case policy of
        None \<Rightarrow> False
      | Some p \<Rightarrow> \<exists>rq0. filter_input env p rq rq0 \<and> collection_justified env g m i ns p rq0 (rq', True))"

lemma safe_apply_collection_filter:
  "safe (az_inv env g m ttl) (apply_request_collection_filter env i ns policy rq)
     (\<lambda>(rq', applied). applied \<longrightarrow> filter_justified env g m i ns policy rq rq')"
proof (cases policy)
  case None
  then show ?thesis by (simp add: apply_request_collection_filter_def safe_ret)
next
  case (Some p)
  show ?thesis
  proof (cases "collection_request_message p = None")
    case True
    then show ?thesis
      by (auto simp: apply_request_collection_filter_def Some filter_justified_def filter_input_def
          intro!: safe_weaken [OF safe_dispatch])
  next
    case False
    have "safe (az_inv env g m ttl)
        (andthen (lift (normalize_collection_request env rq p)) (\<lambda>(rq', normalized).
           if \<not> normalized then ret (rq', False) else dispatch_collection_filter env i ns p rq'))
        (\<lambda>(rq', applied). applied \<longrightarrow> filter_justified env g m i ns policy rq rq')"
    proof (rule safe_andthen [OF safe_lift [where Q = "\<lambda>x. normalize_collection_request env rq p = Inr x"]],
        assumption)
      fix x
      assume x: "normalize_collection_request env rq p = Inr x"
      show "safe (az_inv env g m ttl)
        (case x of (rq', normalized) \<Rightarrow>
           if \<not> normalized then ret (rq', False) else dispatch_collection_filter env i ns p rq')
        (\<lambda>(rq', applied). applied \<longrightarrow> filter_justified env g m i ns policy rq rq')"
        using x False
        by (cases x) (auto simp: Some filter_justified_def filter_input_def
            intro!: safe_if safe_ret safe_weaken [OF safe_dispatch])
    qed
    with False show ?thesis by (simp add: apply_request_collection_filter_def Some)
  qed
qed

section \<open>Properties\<close>


definition sample_filter_env :: env where
  "sample_filter_env = (sample_env (\<lambda>a. ra_name a = Some ''e7''))
     \<lparr>env_lookup := \<lambda>n k s. Inr (PDict [(''name'', PStr (CHR ''e'' # s)), (''workspace'', PStr ''ns'')])\<rparr>"


text \<open>
  C38: narrowing to the identifiers of a scope only narrows. The narrowed request carries one sorted
  list of identifiers, all allowed, all contained in every list of identifiers the caller sent in the
  body (under either spelling) or in the query, in the place MLflow reads for the method; the alias
  \<open>experimentIds\<close> is gone from the body. When it does not apply, the request is unchanged.
\<close>

theorem narrow_to_ids_sound:
  "case narrow_to_ids allowed rq of (rq', applied) \<Rightarrow> if applied then ids_narrowed allowed rq rq' else rq' = rq"
proof (cases "narrow_to_ids allowed rq")
  case (Pair rq' applied)
  then show ?thesis
    using narrow_to_ids_narrowed [of allowed rq rq'] narrow_to_ids_unchanged [of allowed rq rq']
    by (cases applied) auto
qed

text \<open>
  The scope is the last conjunct of a narrowed filter. The text MLflow reads is the caller's own
  filters followed by the scope, MLflow parses it with the clause of the scope as its last clause, and
  nothing but that filter changed; otherwise the request is unchanged and the filter did not apply.
\<close>

lemma narrow_by_filter_sound:
  "case narrow_by_filter env kind field body scope rq of
     (rq', applied) \<Rightarrow> if applied then filter_scoped env kind field scope rq rq' else rq' = rq"
proof (cases "narrow_by_filter env kind field body scope rq")
  case (Pair rq' applied)
  then show ?thesis
    using narrow_by_filter_scoped [of env kind field body scope rq rq']
      narrow_by_filter_unchanged [of env kind field body scope rq rq'] by (cases applied) auto
qed

text \<open>
  A quoted name is read back as that name. The literal is the name between two equal delimiters that
  do not occur in it, and quoting fails only for a name with both delimiters.
\<close>

lemma quote_filter_literal_delimits:
  "case quote_filter_literal v of
     Inl e \<Rightarrow> e = PyValueError \<and> SQ \<in> set v \<and> DQ \<in> set v
   | Inr q \<Rightarrow> \<exists>d. d \<in> {SQ, DQ} \<and> q = d # v @ [d] \<and> takeWhile (\<lambda>c. c \<noteq> d) (tl q) = v"
proof -
  have "takeWhile (\<lambda>c. c \<noteq> d) (v @ [d]) = v" if "d \<notin> set v" for d
    using that by (subst takeWhile_append2) auto
  then show ?thesis by (auto simp: quote_filter_literal_def)
qed

section \<open>Python literals\<close>

text \<open>How Python reads a text literal of the escapes \<open>repr\<close> writes.\<close>

definition hex_value :: "char \<Rightarrow> nat" where
  "hex_value c = (let n = (of_char c :: nat) in if n < 58 then n - 48 else n - 87)"

fun literal_chars :: "char \<Rightarrow> string \<Rightarrow> string option" where
  "literal_chars q [] = None"
| "literal_chars q (c # cs) =
     (if c = q then (if cs = [] then Some [] else None)
      else if c \<noteq> BACKSLASH then map_option (Cons c) (literal_chars q cs)
      else case cs of
        [] \<Rightarrow> None
      | e # rest \<Rightarrow>
          if e = CHR ''x''
          then (case rest of
                  h # l # rest' \<Rightarrow>
                    map_option (Cons (char_of (16 * hex_value h + hex_value l))) (literal_chars q rest')
                | _ \<Rightarrow> None)
          else map_option (Cons (if e = CHR ''t'' then char_of (9 :: nat) else if e = CHR ''n'' then char_of (10 :: nat)
                 else if e = CHR ''r'' then char_of (13 :: nat) else e)) (literal_chars q rest))"

definition py_literal :: "string \<Rightarrow> string option" where
  "py_literal s = (case s of q # rest \<Rightarrow> if q \<in> {SQ, DQ} then literal_chars q rest else None | [] \<Rightarrow> None)"

lemma hex_value_digit: "n < 16 \<Longrightarrow> hex_value (hex_digit n) = n"
  by (simp add: numeral_eq_Suc less_Suc_eq, elim disjE)
     (simp_all add: hex_value_def hex_digit_def of_char_def)

lemma char_of_hex: "char_of (16 * hex_value (hex_digit (of_char c div 16)) + hex_value (hex_digit (of_char c mod 16))) = c"
proof -
  have "(of_char c :: nat) div 16 < 16" by (simp add: less_mult_imp_div_less nat_of_char_less_256)
  then show ?thesis by (simp add: hex_value_digit)
qed

lemma literal_chars_repr_char:
  assumes "q \<in> {SQ, DQ}"
  shows "literal_chars q (repr_char q c @ r) = map_option (Cons c) (literal_chars q r)"
proof -
  let ?n = "of_char c :: nat"
  have q: "q \<noteq> BACKSLASH" "q \<noteq> CHR ''x''" "q \<noteq> CHR ''t''" "q \<noteq> CHR ''n''" "q \<noteq> CHR ''r''"
    "BACKSLASH \<noteq> CHR ''x''" "BACKSLASH \<noteq> CHR ''t''" "BACKSLASH \<noteq> CHR ''n''" "BACKSLASH \<noteq> CHR ''r''"
    using assms by (auto simp: SQ_def DQ_def BACKSLASH_def)
  have eq: "c = char_of n" if "?n = n" for n using that by (metis char_of_char)
  consider (escaped) "c = q \<or> c = BACKSLASH"
    | (t) "?n = 9" | (n) "?n = 10" | (r) "?n = 13"
    | (hex) "c \<noteq> q" "c \<noteq> BACKSLASH" "?n \<noteq> 9" "?n \<noteq> 10" "?n \<noteq> 13"
        "?n < 32 \<or> (127 \<le> ?n \<and> ?n \<le> 160) \<or> ?n = 173"
    | (plain) "c \<noteq> q" "c \<noteq> BACKSLASH" "?n \<noteq> 9" "?n \<noteq> 10" "?n \<noteq> 13"
        "\<not> (?n < 32 \<or> (127 \<le> ?n \<and> ?n \<le> 160) \<or> ?n = 173)" by blast
  then show ?thesis
  proof cases
    case escaped
    then show ?thesis using q by (auto simp: repr_char_def)
  next
    case t
    with eq [OF t] assms q show ?thesis by (auto simp: repr_char_def SQ_def DQ_def BACKSLASH_def)
  next
    case n
    with eq [OF n] assms q show ?thesis by (auto simp: repr_char_def SQ_def DQ_def BACKSLASH_def)
  next
    case r
    with eq [OF r] assms q show ?thesis by (auto simp: repr_char_def SQ_def DQ_def BACKSLASH_def)
  next
    case hex
    then show ?thesis using q by (simp add: repr_char_def Let_def char_of_hex del: of_char_eq_iff)
  next
    case plain
    then show ?thesis by (auto simp: repr_char_def Let_def)
  qed
qed


section \<open>Canonical requests\<close>

lemma collection_query_fold:
  "dget (fold (\<lambda>(name, json_name) q.
       if dhas body name \<or> dhas body json_name then AList.update name (dget message name) q else q) fs q0) n =
   (if list_ex (\<lambda>(name, json_name). name = n \<and> (dhas body name \<or> dhas body json_name)) fs
    then dget message n else dget q0 n)"
  by (induction fs arbitrary: q0) (auto split: if_splits)

lemma same_request_body [simp]:
  "same_request rq (rq\<lparr>rq_json_body := b\<rparr>)"
  "same_request rq (rq\<lparr>rq_json_body := b, rq_query_params := q\<rparr>)"
  by (simp_all add: same_request_def)

lemma decode_collection_body_same:
  "decode_collection_body env rq = Some rq1 \<Longrightarrow>
   \<exists>b. rq1 = rq\<lparr>rq_json_body := b\<rparr>"
  by (cases "rq_json_body rq")
     (auto simp: decode_collection_body_def split: option.splits pv.splits intro: exI [of _ "rq_json_body rq"])


end
