(* ===== verification/Auth_Config.thy ===== *)
theory Auth_Config
  imports World
begin

text \<open>
  \<open>KubernetesAuthConfig\<close> of \<open>auth/authorizer.py\<close>: the configuration read from the environment. \<open>environ\<close>
  is the environment, \<open>parse_float\<close> Python's \<open>float\<close> on a text, \<open>None\<close> when it raises.
\<close>

text \<open>Python floats as far as the comparison with zero needs them.\<close>

datatype py_float = Finite real | PosInf | NegInf | NotANumber

definition float_le_zero :: "py_float \<Rightarrow> bool" where
  "float_le_zero x = (case x of Finite r \<Rightarrow> r \<le> 0 | NegInf \<Rightarrow> True | PosInf \<Rightarrow> False | NotANumber \<Rightarrow> False)"

record auth_config =
  cf_cache_ttl_seconds :: py_float
  cf_username_claim :: string
  cf_authorization_mode :: auth_mode
  cf_user_header :: string
  cf_groups_header :: string
  cf_groups_separator :: string
  cf_workspaces_enabled :: bool
  cf_namespace :: "string option"

definition DEFAULT_CACHE_TTL_SECONDS :: py_float where "DEFAULT_CACHE_TTL_SECONDS = Finite 300"
definition DEFAULT_USERNAME_CLAIM :: string where "DEFAULT_USERNAME_CLAIM = ''sub''"
definition DEFAULT_REMOTE_USER_HEADER :: string where "DEFAULT_REMOTE_USER_HEADER = ''x-remote-user''"
definition DEFAULT_REMOTE_GROUPS_HEADER :: string where "DEFAULT_REMOTE_GROUPS_HEADER = ''x-remote-groups''"
definition DEFAULT_REMOTE_GROUPS_SEPARATOR :: string where "DEFAULT_REMOTE_GROUPS_SEPARATOR = ''|''"
definition DEFAULT_WORKSPACES_ENABLED :: bool where "DEFAULT_WORKSPACES_ENABLED = True"

definition CACHE_TTL_ENV :: string where "CACHE_TTL_ENV = ''MLFLOW_K8S_AUTH_CACHE_TTL_SECONDS''"
definition USERNAME_CLAIM_ENV :: string where "USERNAME_CLAIM_ENV = ''MLFLOW_K8S_AUTH_USERNAME_CLAIM''"
definition AUTHORIZATION_MODE_ENV :: string where "AUTHORIZATION_MODE_ENV = ''MLFLOW_K8S_AUTH_AUTHORIZATION_MODE''"
definition REMOTE_USER_HEADER_ENV :: string where "REMOTE_USER_HEADER_ENV = ''MLFLOW_K8S_AUTH_REMOTE_USER_HEADER''"
definition REMOTE_GROUPS_HEADER_ENV :: string where "REMOTE_GROUPS_HEADER_ENV = ''MLFLOW_K8S_AUTH_REMOTE_GROUPS_HEADER''"
definition REMOTE_GROUPS_SEPARATOR_ENV :: string where "REMOTE_GROUPS_SEPARATOR_ENV = ''MLFLOW_K8S_AUTH_REMOTE_GROUPS_SEPARATOR''"
definition WORKSPACES_ENABLED_ENV :: string where "WORKSPACES_ENABLED_ENV = ''MLFLOW_K8S_AUTH_WORKSPACES_ENABLED''"
definition NAMESPACE_ENV :: string where "NAMESPACE_ENV = ''MLFLOW_K8S_AUTH_NAMESPACE''"

lemmas env_name_defs = CACHE_TTL_ENV_def USERNAME_CLAIM_ENV_def AUTHORIZATION_MODE_ENV_def
  REMOTE_USER_HEADER_ENV_def REMOTE_GROUPS_HEADER_ENV_def REMOTE_GROUPS_SEPARATOR_ENV_def
  WORKSPACES_ENABLED_ENV_def NAMESPACE_ENV_def

definition invalid_variable :: "string \<Rightarrow> string \<Rightarrow> exc" where
  "invalid_variable name what = MlflowExc INVALID_PARAMETER_VALUE (''Environment variable '' @ name @ what)"

definition parse_bool_env :: "string \<Rightarrow> string option \<Rightarrow> bool \<Rightarrow> exc + bool" where
  "parse_bool_env name value fallback =
     (case value of
        None \<Rightarrow> Inr fallback
      | Some v \<Rightarrow>
          (let n = py_lower (py_strip v) in
           if n \<in> set [''1'', ''true'', ''yes'', ''on''] then Inr True
           else if n \<in> set [''0'', ''false'', ''no'', ''off''] then Inr False
           else Inl (invalid_variable name '' must be a boolean value if set'')))"

definition env_or :: "(string \<Rightarrow> string option) \<Rightarrow> string \<Rightarrow> string \<Rightarrow> string" where
  "env_or environ name fallback = (case environ name of None \<Rightarrow> fallback | Some v \<Rightarrow> v)"

definition parse_ttl :: "(string \<Rightarrow> py_float option) \<Rightarrow> string option \<Rightarrow> exc + py_float" where
  "parse_ttl parse_float ttl_env =
     (case ttl_env of
        None \<Rightarrow> Inr DEFAULT_CACHE_TTL_SECONDS
      | Some t \<Rightarrow>
          if t = [] then Inr DEFAULT_CACHE_TTL_SECONDS
          else (case parse_float t of
              None \<Rightarrow> Inl (invalid_variable CACHE_TTL_ENV '' must be a positive number if set'')
            | Some x \<Rightarrow>
                if float_le_zero x
                then Inl (invalid_variable CACHE_TTL_ENV '' must be a positive number if set'')
                else Inr x))"

text \<open>\<open>AuthorizationMode(value)\<close> looks a member up by its value; the message lists the members.\<close>

definition parse_mode :: "string \<Rightarrow> exc + auth_mode" where
  "parse_mode text =
     (case find (\<lambda>m. mode_value m = py_lower (py_strip text)) Enum.enum of
        Some m \<Rightarrow> Inr m
      | None \<Rightarrow> Inl (invalid_variable AUTHORIZATION_MODE_ENV
          ('' must be one of: '' @ py_join '', '' (map mode_value Enum.enum))))"

definition finish_config ::
  "(string \<Rightarrow> string option) \<Rightarrow> bool \<Rightarrow> py_float \<Rightarrow> auth_mode \<Rightarrow> exc + auth_config" where
  "finish_config environ workspaces_enabled ttl m =
     (let user_header = py_strip (env_or environ REMOTE_USER_HEADER_ENV DEFAULT_REMOTE_USER_HEADER);
          groups_header = py_strip (env_or environ REMOTE_GROUPS_HEADER_ENV DEFAULT_REMOTE_GROUPS_HEADER);
          separator = env_or environ REMOTE_GROUPS_SEPARATOR_ENV DEFAULT_REMOTE_GROUPS_SEPARATOR;
          ns = (case environ NAMESPACE_ENV of None \<Rightarrow> None | Some n \<Rightarrow> nonempty (py_strip n)) in
      if user_header = [] then Inl (invalid_variable REMOTE_USER_HEADER_ENV '' cannot be empty'')
      else if groups_header = [] then Inl (invalid_variable REMOTE_GROUPS_HEADER_ENV '' cannot be empty'')
      else if \<not> workspaces_enabled \<and> ns = None
      then Inl (invalid_variable NAMESPACE_ENV ('' must be set when '' @ WORKSPACES_ENABLED_ENV @ ''=false''))
      else Inr
        \<lparr>cf_cache_ttl_seconds = ttl,
         cf_username_claim = env_or environ USERNAME_CLAIM_ENV DEFAULT_USERNAME_CLAIM,
         cf_authorization_mode = m, cf_user_header = user_header, cf_groups_header = groups_header,
         cf_groups_separator = (if separator = [] then DEFAULT_REMOTE_GROUPS_SEPARATOR else separator),
         cf_workspaces_enabled = workspaces_enabled, cf_namespace = ns\<rparr>)"

definition from_env :: "(string \<Rightarrow> py_float option) \<Rightarrow> (string \<Rightarrow> string option) \<Rightarrow> exc + auth_config" where
  "from_env parse_float environ =
     (case parse_bool_env WORKSPACES_ENABLED_ENV (environ WORKSPACES_ENABLED_ENV) DEFAULT_WORKSPACES_ENABLED of
        Inl e \<Rightarrow> Inl e
      | Inr workspaces_enabled \<Rightarrow>
          (case parse_ttl parse_float (environ CACHE_TTL_ENV) of
             Inl e \<Rightarrow> Inl e
           | Inr ttl \<Rightarrow>
               (case parse_mode (env_or environ AUTHORIZATION_MODE_ENV ''self_subject_access_review'') of
                  Inl e \<Rightarrow> Inl e
                | Inr m \<Rightarrow> finish_config environ workspaces_enabled ttl m)))"

section \<open>Properties\<close>

text \<open>Every mode can be configured, by its value in any case and with blanks around it, and nothing else is a mode.\<close>

lemma parse_mode_iff: "parse_mode text = Inr m \<longleftrightarrow> py_lower (py_strip text) = mode_value m"
  by (cases m) (auto simp: parse_mode_def enum_auth_mode_def)

text \<open>A usable configuration: what the authorization code relies on.\<close>

definition config_ok :: "auth_config \<Rightarrow> bool" where
  "config_ok c \<longleftrightarrow>
     cf_user_header c \<noteq> [] \<and> py_strip (cf_user_header c) = cf_user_header c \<and>
     cf_groups_header c \<noteq> [] \<and> py_strip (cf_groups_header c) = cf_groups_header c \<and>
     cf_groups_separator c \<noteq> [] \<and> \<not> float_le_zero (cf_cache_ttl_seconds c) \<and>
     (cf_workspaces_enabled c \<or> cf_namespace c \<noteq> None) \<and> cf_namespace c \<noteq> Some []"

lemma parse_ttl_ok: "parse_ttl pf t = Inr x \<Longrightarrow> \<not> float_le_zero x"
  by (auto simp: parse_ttl_def DEFAULT_CACHE_TTL_SECONDS_def float_le_zero_def split: option.splits if_splits)


end
