(* ===== verification/Core.thy ===== *)
theory Core
  imports Compiler Skill_Artifacts Collection_Filters Auth_Config
begin

text \<open>
  \<open>_authorize_request_async\<close> of \<open>auth/core.py\<close> and what it calls: who the caller is, which rules the
  request has, and rule by rule whether Kubernetes allows it. The request is threaded through the rules,
  since filters narrow it and its body is loaded on demand. Every early return is an exception value.
\<close>

section \<open>The server\<close>

text \<open>
  The configuration, the compiled rules, the static prefix, and the decoding of the claims of a token
  (Base64 and JSON).
\<close>

record server =
  sv_config :: auth_config
  sv_registry :: registry
  sv_static :: "string option"
  sv_claims :: "string \<Rightarrow> pv option"

record authorization_result =
  ar_identity :: identity
  ar_rules :: "rule list"
  ar_request :: request
  ar_username :: "string option"

definition permission_denied :: "string \<Rightarrow> exc" where
  "permission_denied msg = MlflowExc PERMISSION_DENIED msg"

definition REQUIRING_REQUEST_BODY :: "collection_policy_id list" where
  "REQUIRING_REQUEST_BODY =
     [COLLECTION_POLICY_REQUEST_AUTHORIZED_EXPERIMENT_IDS, COLLECTION_POLICY_REQUEST_BATCH_GET_TRACE_INFOS,
      COLLECTION_POLICY_REQUEST_BATCH_GET_TRACES, COLLECTION_POLICY_REQUEST_LIST_SCORERS,
      COLLECTION_POLICY_REQUEST_SEARCH_EXPERIMENTS, COLLECTION_POLICY_REQUEST_SEARCH_DATASETS,
      COLLECTION_POLICY_REQUEST_SEARCH_MODEL_VERSIONS, COLLECTION_POLICY_REQUEST_SEARCH_REGISTERED_MODELS]"

section \<open>The workspace of a request\<close>

definition extract_workspace_scope_from_request :: "request \<Rightarrow> rule \<Rightarrow> string option" where
  "extract_workspace_scope_from_request rq rule =
     (case normalize_string (dget (rq_path_params rq) ''workspace_name'') of
        Some n \<Rightarrow> Some n
      | None \<Rightarrow>
          if \<not> workspace_access_check rule then None
          else if py_upper (rq_method rq) = ''POST''
          then (case json_dict rq of None \<Rightarrow> None | Some d \<Rightarrow> normalize_string (dget d ''name''))
          else None)"

section \<open>Gateway dependencies\<close>

fun first_normalized :: "pdict \<Rightarrow> string list \<Rightarrow> string option" where
  "first_normalized d [] = None"
| "first_normalized d (k # ks) =
     (case normalize_string (dget d k) of None \<Rightarrow> first_normalized d ks | Some v \<Rightarrow> Some v)"

definition get_request_mapping_value :: "request \<Rightarrow> string list \<Rightarrow> string option" where
  "get_request_mapping_value rq ks =
     (case (case json_dict rq of None \<Rightarrow> None | Some d \<Rightarrow> first_normalized d ks) of
        Some v \<Rightarrow> Some v
      | None \<Rightarrow> first_normalized (rq_path_params rq) ks)"

text \<open>A store call whose \<open>MlflowException\<close> means that there is nothing to find.\<close>

definition lookup_or_none :: "env \<Rightarrow> store_lookup \<Rightarrow> string \<Rightarrow> (world, pv) eff" where
  "lookup_or_none env kind key =
     handle (ask_res (\<lambda>t. env_lookup env t kind key))
       (\<lambda>e. case e of MlflowExc _ _ \<Rightarrow> ret PNone | _ \<Rightarrow> raise e)"

definition model_mapping_names :: "pv \<Rightarrow> string list" where
  "model_mapping_names endpoint =
     (case attr endpoint ''model_mappings'' of
        PList l \<Rightarrow> concat (map (\<lambda>mapping.
          case normalize_string (attr (attr mapping ''model_definition'') ''name'') of
            None \<Rightarrow> [] | Some n \<Rightarrow> [n]) l)
      | _ \<Rightarrow> [])"

definition resolve_existing_gateway_model_definition_names_for_use ::
  "env \<Rightarrow> request \<Rightarrow> (world, string list) eff" where
  "resolve_existing_gateway_model_definition_names_for_use env rq =
     (case get_request_mapping_value rq [''endpoint_id'', ''endpointId''] of
        None \<Rightarrow> ret []
      | Some i \<Rightarrow>
          andthen (lookup_or_none env LkGatewayEndpoint i) (\<lambda>endpoint.
            ret (dedupe (model_mapping_names endpoint))))"

definition should_resolve_existing_gateway_model_definitions_for_use :: "request \<Rightarrow> bool" where
  "should_resolve_existing_gateway_model_definitions_for_use rq =
     (rq_path rq = ''/api/2.0/mlflow/gateway/endpoints/update'')"

definition resolve_existing_gateway_secret_names_for_use :: "env \<Rightarrow> request \<Rightarrow> (world, string list) eff" where
  "resolve_existing_gateway_secret_names_for_use env rq =
     (case get_request_mapping_value rq [''model_definition_id'', ''modelDefinitionId''] of
        None \<Rightarrow> ret []
      | Some i \<Rightarrow>
          andthen (lookup_or_none env LkGatewayModelDefinition i) (\<lambda>d.
            ret (case normalize_string (attr d ''secret_name'') of None \<Rightarrow> [] | Some n \<Rightarrow> [n])))"

text \<open>
  Names for use, read once from the request as it is and, when there are none, once more with its body.
\<close>

definition names_with_body ::
  "env \<Rightarrow> (request \<Rightarrow> (world, string list) eff) \<Rightarrow> request \<Rightarrow> (world, string list \<times> request) eff" where
  "names_with_body env resolve rq =
     andthen (on_unresolved (resolve rq) (ret [])) (\<lambda>names.
       if names \<noteq> [] then ret (names, rq)
       else andthen (ensure_request_context_json_body env False rq) (\<lambda>rq'.
            andthen (on_unresolved (resolve rq') (ret [])) (\<lambda>names'. ret (names', rq'))))"

definition use_allowed :: "env \<Rightarrow> identity \<Rightarrow> string \<Rightarrow> string \<Rightarrow> string option \<Rightarrow> (world, bool) eff" where
  "use_allowed env i ns res name = is_allowed env i res ''create'' ns (Some ''use'') name"

definition named_use_allowed ::
  "env \<Rightarrow> identity \<Rightarrow> string \<Rightarrow> string \<Rightarrow> string list \<Rightarrow> (world, bool) eff" where
  "named_use_allowed env i ns res names =
     (if names = [] then ret False else all_eff (\<lambda>n. use_allowed env i ns res (Some n)) names)"

definition enforce_endpoint_dependencies ::
  "env \<Rightarrow> identity \<Rightarrow> string \<Rightarrow> bool \<Rightarrow> request \<Rightarrow> (world, request) eff" where
  "enforce_endpoint_dependencies env i ns creates rq =
     andthen (names_with_body env (resolve_gateway_model_definition_names_for_use env) rq) (\<lambda>(names, rq1).
     andthen (if names = [] \<and> \<not> creates \<and> should_resolve_existing_gateway_model_definitions_for_use rq1
              then resolve_existing_gateway_model_definition_names_for_use env rq1 else ret names) (\<lambda>names.
       if \<not> creates \<and> names = [] then ret rq1
       else andthen (use_allowed env i ns RESOURCE_GATEWAY_MODEL_DEFINITIONS None) (\<lambda>broad.
         if broad then ret rq1
         else andthen (named_use_allowed env i ns RESOURCE_GATEWAY_MODEL_DEFINITIONS names) (\<lambda>named.
           if named then ret rq1
           else raise (permission_denied (''Permission denied: creating or updating a gateway endpoint '' @
             ''requires 'use' permission on gateway model definitions.''))))))"

definition enforce_model_definition_dependencies ::
  "env \<Rightarrow> identity \<Rightarrow> string \<Rightarrow> bool \<Rightarrow> request \<Rightarrow> (world, request) eff" where
  "enforce_model_definition_dependencies env i ns creates rq =
     andthen (use_allowed env i ns RESOURCE_GATEWAY_SECRETS None) (\<lambda>broad.
       if broad then ret rq
       else
         andthen (names_with_body env (resolve_gateway_secret_names_for_use env) rq) (\<lambda>(names, rq1).
         andthen (if names = [] \<and> \<not> creates then resolve_existing_gateway_secret_names_for_use env rq1
                  else ret names) (\<lambda>names.
         andthen (named_use_allowed env i ns RESOURCE_GATEWAY_SECRETS names) (\<lambda>named.
           if named then ret rq1
           else raise (permission_denied (''Permission denied: creating or updating a gateway model definition '' @
             ''requires 'use' permission on gateway secrets.''))))))"

definition enforce_gateway_dependency_permissions ::
  "env \<Rightarrow> identity \<Rightarrow> request \<Rightarrow> string option \<Rightarrow> rule \<Rightarrow> (world, request) eff" where
  "enforce_gateway_dependency_permissions env i rq ws rule =
     (case ws of
        None \<Rightarrow> ret rq
      | Some ns \<Rightarrow>
          if skip_gateway_dependency_permissions rule then ret rq
          else if rule_subresource rule = Some ''use'' \<or> rule_verb rule \<notin> {Some ''create'', Some ''update''}
          then ret rq
          else if rule_resource rule = Some RESOURCE_GATEWAY_ENDPOINTS
          then enforce_endpoint_dependencies env i ns (rule_verb rule = Some ''create'') rq
          else if rule_resource rule = Some RESOURCE_GATEWAY_MODEL_DEFINITIONS
          then enforce_model_definition_dependencies env i ns (rule_verb rule = Some ''create'') rq
          else ret rq)"

section \<open>Gateway budgets\<close>

text \<open>
  \<open>str.isdigit\<close> and \<open>int\<close> on code points below 256: the superscripts one, two and three are digits for
  the first and an error for the second.
\<close>

definition decimal_digit :: "char \<Rightarrow> bool" where
  "decimal_digit c = (let n = (of_char c :: nat) in 48 \<le> n \<and> n \<le> 57)"

definition py_isdigit :: "string \<Rightarrow> bool" where
  "py_isdigit s =
     (s \<noteq> [] \<and> list_all (\<lambda>c. decimal_digit c \<or> (of_char c :: nat) \<in> {178, 179, 185}) s)"

definition py_int :: "string \<Rightarrow> exc + nat" where
  "py_int s =
     (if s \<noteq> [] \<and> list_all decimal_digit s
      then Inr (fold (\<lambda>c n. 10 * n + (of_char c - 48)) s 0) else Inl PyValueError)"

text \<open>Whether a target scope is in \<open>{1, "GLOBAL"}\<close>; lists and dictionaries cannot be looked up in a set.\<close>

definition is_global_scope :: "pv \<Rightarrow> exc + bool" where
  "is_global_scope v =
     (case v of
        PStr raw \<Rightarrow>
          (let s = py_strip raw in
           if py_isdigit s then (case py_int s of Inl e \<Rightarrow> Inl e | Inr n \<Rightarrow> Inr (n = 1))
           else Inr (py_upper s = ''GLOBAL''))
      | PBool b \<Rightarrow> Inr b
      | PInt i \<Rightarrow> Inr (i = 1)
      | PFloat r \<Rightarrow> Inr (r = 1)
      | PNone \<Rightarrow> Inr False
      | _ \<Rightarrow> Inl PyTypeError)"

definition global_scope_error :: exc where
  "global_scope_error = MlflowExc INVALID_PARAMETER_VALUE
     (''Gateway budget policies must remain workspace-scoped. '' @
      ''GLOBAL target_scope is not supported by the Kubernetes auth plugin.'')"

definition reject_global_scope :: "pv \<Rightarrow> exc + unit" where
  "reject_global_scope v =
     (case is_global_scope v of
        Inl e \<Rightarrow> Inl e | Inr True \<Rightarrow> Inl global_scope_error | Inr False \<Rightarrow> Inr ())"

definition enforce_gateway_budget_scope :: "env \<Rightarrow> request \<Rightarrow> rule \<Rightarrow> (world, request) eff" where
  "enforce_gateway_budget_scope env rq rule =
     (if rule_resource rule \<noteq> Some RESOURCE_GATEWAY_BUDGETS \<or>
         rule_verb rule \<notin> {Some ''create'', Some ''update''}
      then ret rq
      else
        andthen (ensure_request_context_json_body env False rq) (\<lambda>rq1.
          case json_dict rq1 of
            None \<Rightarrow> raise (MlflowExc INVALID_PARAMETER_VALUE
              ''Gateway budget policy requests must use a JSON object body.'')
          | Some payload \<Rightarrow>
              andthen (lift (reject_global_scope (dget payload ''target_scope''))) (\<lambda>_.
              andthen (lift (reject_global_scope (dget payload ''targetScope''))) (\<lambda>_. ret rq1))))"

section \<open>Authentication\<close>

definition authenticate :: "server \<Rightarrow> request \<Rightarrow> exc + (identity \<times> string option)" where
  "authenticate srv rq =
     (let cfg = sv_config srv in
      case cf_authorization_mode cfg of
        SELF_SUBJECT_ACCESS_REVIEW \<Rightarrow>
          (case resolve_bearer_token (rq_authorization_header rq) (rq_forwarded_access_token rq) of
             Inl e \<Rightarrow> Inl e
           | Inr token \<Rightarrow>
               Inr (\<lparr>id_token = Some token, id_user = None, id_groups = []\<rparr>,
                    parse_jwt_subject (sv_claims srv) token (cf_username_claim cfg)))
      | SUBJECT_ACCESS_REVIEW \<Rightarrow>
          (let user = py_strip (opt_text (rq_remote_user rq)) in
           if user = []
           then Inl (MlflowExc UNAUTHENTICATED (''Missing required '' @ quoted (cf_user_header cfg) @
                  '' header for SubjectAccessReview mode.''))
           else Inr (\<lparr>id_token = None, id_user = Some user,
                      id_groups = parse_remote_groups (rq_remote_groups rq) (cf_groups_separator cfg)\<rparr>,
                     Some user)))"

section \<open>One rule\<close>

text \<open>
  The access decision of a rule so far: the request, whether permission is granted, whether the broad
  review granted it, whether the request named no resource, and whether the rule is skipped.
\<close>

record access =
  ac_request :: request
  ac_granted :: bool
  ac_broad :: bool
  ac_missing :: bool
  ac_skip :: bool

definition misconfigured :: "request \<Rightarrow> string \<Rightarrow> exc" where
  "misconfigured rq what = MlflowExc INTERNAL_ERROR
     (''Authorization rule for '' @ quoted (rq_method rq @ '' '' @ rq_path rq) @ '' '' @ what)"

text \<open>
  A caller who may read all scorers still has the selector of a GET body moved to the query, as MLflow's
  handler looks for \<open>experiment_ids\<close> there.
\<close>

definition preserve_scorer_selector :: "env \<Rightarrow> rule \<Rightarrow> bool \<Rightarrow> request \<Rightarrow> (world, request) eff" where
  "preserve_scorer_selector env rule granted rq =
     (if \<not> (granted \<and> collection_policy rule = Some COLLECTION_POLICY_REQUEST_LIST_SCORERS \<and>
            rq_query_params rq = [])
      then ret rq
      else
        andthen (ensure_request_context_json_body env True rq) (\<lambda>rq1.
        andthen (lift (normalize_collection_request env rq1 COLLECTION_POLICY_REQUEST_LIST_SCORERS))
          (\<lambda>(rq2, normalized).
          if \<not> normalized \<or> dget (rq_query_params rq2) ''experiment_ids'' = PList []
          then raise (MlflowExc INVALID_PARAMETER_VALUE
            ''Invalid scorer collection input; experiment_ids must be nonempty if set.'')
          else ret rq2)))"

definition hybrid_rule :: "rule \<Rightarrow> bool" where
  "hybrid_rule rule =
     (resource_name_parsers rule \<noteq> [] \<and>
      fallback_to_collection_policy_on_missing_resource_reference rule \<and>
      is_graphql_collection_policy (collection_policy rule))"

text \<open>The names a request refers to: none when they cannot be resolved, \<open>None\<close> when it names nothing.\<close>

definition try_resource_names :: "env \<Rightarrow> request \<Rightarrow> rule \<Rightarrow> (world, string list option) eff" where
  "try_resource_names env rq rule =
     handle (andthen (resolve_resource_names env rq (resource_name_parsers rule)) (\<lambda>names. ret (Some names)))
       (\<lambda>e. case e of ReferenceMissingExc _ \<Rightarrow> ret None | ResolutionExc _ \<Rightarrow> ret (Some []) | _ \<Rightarrow> raise e)"

definition named_access ::
  "env \<Rightarrow> identity \<Rightarrow> string \<Rightarrow> string \<Rightarrow> string \<Rightarrow> rule \<Rightarrow> access \<Rightarrow> (world, access) eff" where
  "named_access env i ns res verb rule a =
     (if ac_granted a \<or> resource_name_parsers rule = [] then ret a
      else
        andthen (ensure_request_context_json_body env False (ac_request a)) (\<lambda>rq.
        andthen (try_resource_names env rq rule) (\<lambda>names.
          case names of
            None \<Rightarrow>
              ret (a\<lparr>ac_request := rq, ac_missing := True,
                     ac_skip := allow_if_resource_reference_missing rule\<rparr>)
          | Some ns' \<Rightarrow>
              if ns' = [] then ret (a\<lparr>ac_request := rq\<rparr>)
              else andthen (all_eff (\<lambda>n. is_allowed env i res verb ns (rule_subresource rule) (Some n)) ns')
                     (\<lambda>granted. ret (a\<lparr>ac_request := rq, ac_granted := granted\<rparr>)))))"

definition note_missing_reference :: "env \<Rightarrow> rule \<Rightarrow> access \<Rightarrow> (world, access) eff" where
  "note_missing_reference env rule a =
     (if \<not> (ac_broad a \<and> hybrid_rule rule) then ret a
      else
        andthen (ensure_request_context_json_body env False (ac_request a)) (\<lambda>rq.
        andthen (try_resource_names env rq rule) (\<lambda>names.
          ret (a\<lparr>ac_request := rq, ac_missing := (names = None \<or> ac_missing a)\<rparr>))))"

definition collection_access ::
  "env \<Rightarrow> identity \<Rightarrow> string \<Rightarrow> rule \<Rightarrow> access \<Rightarrow> (world, access) eff" where
  "collection_access env i ns rule a =
     (case collection_policy rule of
        None \<Rightarrow> ret a
      | Some p \<Rightarrow>
          if ac_granted a \<or> p = COLLECTION_POLICY_BROAD_ONLY then ret a
          else
            andthen (if p \<in> set REQUIRING_REQUEST_BODY
                     then ensure_request_context_json_body env True (ac_request a)
                     else ret (ac_request a)) (\<lambda>rq.
            andthen (apply_request_collection_filter env i ns (Some p) rq) (\<lambda>(rq1, applied1).
            andthen (if applied1 then ret (rq1, True)
                     else andthen (ensure_request_context_json_body env False rq1)
                            (apply_request_collection_filter env i ns (Some p))) (\<lambda>(rq2, applied).
              ret (a\<lparr>ac_request := rq2,
                     ac_granted := (applied \<or> (is_graphql_collection_policy (Some p) \<and>
                        (\<not> hybrid_rule rule \<or> ac_missing a)))\<rparr>)))))"

text \<open>
  The part of the loop body for a rule with a verb, behind the workspace checks: first the decision for a
  known resource, from the broad review to the dependencies of gateway objects.
\<close>

definition finish_access :: "env \<Rightarrow> identity \<Rightarrow> string \<Rightarrow> rule \<Rightarrow> access \<Rightarrow> (world, request) eff" where
  "finish_access env i ns rule a =
     (if ac_skip a then ret (ac_request a)
      else
        andthen (note_missing_reference env rule a) (\<lambda>a.
        andthen (collection_access env i ns rule a) (\<lambda>a.
          if \<not> ac_granted a then raise (permission_denied ''Permission denied for requested operation.'')
          else enforce_gateway_dependency_permissions env i (ac_request a) (Some ns) rule)))"

definition authorize_resource ::
  "env \<Rightarrow> identity \<Rightarrow> string \<Rightarrow> rule \<Rightarrow> string \<Rightarrow> string \<Rightarrow> request \<Rightarrow> (world, request) eff" where
  "authorize_resource env i ns rule res verb rq =
     andthen (is_allowed env i res verb ns (rule_subresource rule) None) (\<lambda>broad.
     andthen (preserve_scorer_selector env rule broad rq) (\<lambda>rq1.
     andthen (named_access env i ns res verb rule
                \<lparr>ac_request = rq1, ac_granted = broad, ac_broad = broad, ac_missing = False, ac_skip = False\<rparr>)
       (finish_access env i ns rule)))"

definition authorize_verb ::
  "env \<Rightarrow> identity \<Rightarrow> request \<Rightarrow> string \<Rightarrow> rule \<Rightarrow> string \<Rightarrow> request \<Rightarrow> (world, request) eff" where
  "authorize_verb env i rq0 ns rule verb rq =
     andthen (if rule_resource rule = Some RESOURCE_GATEWAY_BUDGETS \<and> verb \<in> {''create'', ''update''}
              then enforce_gateway_budget_scope env rq rule else ret rq) (\<lambda>rq1.
       case rule_resource rule of
         None \<Rightarrow> raise (misconfigured rq0 ''is missing an RBAC resource mapping.'')
       | Some res \<Rightarrow>
           if res = [] then raise (misconfigured rq0 ''is missing an RBAC resource mapping.'')
           else authorize_resource env i ns rule res verb rq1)"

definition workspace_required :: exc where
  "workspace_required = MlflowExc INVALID_PARAMETER_VALUE WORKSPACE_REQUIRED_ERROR_MESSAGE"

definition authorize_rule ::
  "env \<Rightarrow> identity \<Rightarrow> request \<Rightarrow> string option \<Rightarrow> rule \<Rightarrow> request \<Rightarrow> (world, request) eff" where
  "authorize_rule env i rq0 ws rule rq =
     (if deny rule
      then (case deny_message rule of
              None \<Rightarrow> raise (misconfigured rq0 ''is missing a deny_message.'')
            | Some m \<Rightarrow> raise (permission_denied m))
      else if requires_workspace rule \<and> ws = None then raise workspace_required
      else case rule_verb rule of
        Some verb \<Rightarrow>
          (case ws of None \<Rightarrow> raise workspace_required | Some ns \<Rightarrow> authorize_verb env i rq0 ns rule verb rq)
      | None \<Rightarrow>
          if workspace_access_check rule \<and> \<not> apply_workspace_filter rule
          then (case ws of
                  None \<Rightarrow> raise workspace_required
                | Some ns \<Rightarrow>
                    andthen (can_access_workspace env i ns ''get'') (\<lambda>ok.
                      if ok then ret rq
                      else raise (permission_denied ''Permission denied for requested operation.'')))
          else if apply_workspace_filter rule then ret rq
          else raise (misconfigured rq0 ''is missing a verb or other required configuration.''))"

fun authorize_rules ::
  "env \<Rightarrow> identity \<Rightarrow> request \<Rightarrow> string option \<Rightarrow> rule list \<Rightarrow> request \<Rightarrow> (world, request) eff" where
  "authorize_rules env i rq0 ws [] rq = ret rq"
| "authorize_rules env i rq0 ws (r # rs) rq =
     andthen (authorize_rule env i rq0 ws r rq) (authorize_rules env i rq0 ws rs)"

section \<open>The whole request\<close>

definition workspace_api_path :: "string \<Rightarrow> bool" where
  "workspace_api_path path =
     (path \<in> set [''/api/3.0/mlflow/workspaces'', ''/ajax-api/3.0/mlflow/workspaces''] \<or>
      startswith path ''/api/3.0/mlflow/workspaces/'' \<or> startswith path ''/ajax-api/3.0/mlflow/workspaces/'')"

text \<open>The rules of a request and the request they were found for.\<close>

definition request_rules :: "server \<Rightarrow> env \<Rightarrow> request \<Rightarrow> (world, request \<times> rule list) eff" where
  "request_rules srv env rq0 =
     andthen (if endswith (rq_path rq0) ''/graphql'' \<and> rq_graphql_payload rq0 = None
              then ensure_request_context_json_body env False rq0 else ret rq0) (\<lambda>rq1.
       case find_authorization_rules env (sv_static srv) (sv_registry srv) (rq_path rq1) (rq_method rq1)
              (rq_graphql_payload rq1) of
         None \<Rightarrow> raise (MlflowExc ENDPOINT_NOT_FOUND ''Endpoint not found.'')
       | Some rules \<Rightarrow>
           if rules = [] then raise (MlflowExc ENDPOINT_NOT_FOUND ''Endpoint not found.'')
           else if \<not> list_ex check_skill_artifact_permissions rules then ret (rq1, rules)
           else
             andthen (if \<not> dhas (rq_path_params rq1) ''artifact_path'' \<and>
                         \<not> (rq_method rq1 = ''GET'' \<and> rq_query_params rq1 \<noteq> [])
                      then ensure_request_context_json_body env True rq1 else ret rq1) (\<lambda>rq2.
               ret (rq2, skill_artifact_rules env rq2 rules)))"

definition resolve_workspace :: "request \<Rightarrow> rule \<Rightarrow> request \<Rightarrow> string option \<times> request" where
  "resolve_workspace rq0 first_rule rq =
     (case nonempty (py_strip (opt_text (rq_workspace rq0))) of
        Some ns \<Rightarrow> (Some ns, rq)
      | None \<Rightarrow>
          (case extract_workspace_scope_from_request rq first_rule of
             None \<Rightarrow> (None, rq)
           | Some ns \<Rightarrow> (Some ns, rq\<lparr>rq_workspace := Some ns\<rparr>)))"

definition authorize_request :: "server \<Rightarrow> env \<Rightarrow> request \<Rightarrow> (world, authorization_result) eff" where
  "authorize_request srv env rq0 =
     andthen (lift (authenticate srv rq0)) (\<lambda>(i, username).
     andthen (request_rules srv env rq0) (\<lambda>(rq1, rules).
       case resolve_workspace rq0 (hd rules) rq1 of
         (ws, rq2) \<Rightarrow>
           if \<not> cf_workspaces_enabled (sv_config srv) \<and> workspace_api_path (rq_path rq2)
           then raise (permission_denied WORKSPACE_APIS_DISABLED_ERROR_MESSAGE)
           else
             andthen (authorize_rules env i rq0 ws rules rq2) (\<lambda>rq3.
             andthen (if list_ex override_run_user rules
                      then ensure_request_context_json_body env False rq3 else ret rq3) (\<lambda>rq4.
               ret \<lparr>ar_identity = i, ar_rules = rules, ar_request = rq4, ar_username = username\<rparr>))))"

end
