(* ===== verification/Core_Safety.thy ===== *)
theory Core_Safety
  imports Core
begin

text \<open>
  What an authorized request means. For every rule the specification names the evidence that lets it
  pass: approved reviews, names resolved from the request, a filter that narrowed it. The lemmas follow
  the steps of the authorization and show that each leaves such evidence, whatever the clock, the
  cluster, the stores and the earlier requests did.
\<close>

section \<open>Requests during authorization\<close>

text \<open>Loading a body changes nothing else, and nothing when there is a body.\<close>

definition loads :: "request \<Rightarrow> request \<Rightarrow> bool" where
  "loads rq rq' \<longleftrightarrow>
     rq' = rq \<or>
     (rq_json_body rq = PNone \<and>
      rq' = rq\<lparr>rq_json_body := rq_json_body rq', rq_graphql_payload := rq_graphql_payload rq',
               rq_ensure_json_body := None\<rparr>)"

text \<open>The body is at hand, or there is none that MLflow would read.\<close>

definition body_read :: "bool \<Rightarrow> request \<Rightarrow> bool" where
  "body_read allow_get rq \<longleftrightarrow>
     rq_json_body rq \<noteq> PNone \<or> rq_ensure_json_body rq = None \<or>
     (\<not> allow_get \<and> py_upper (rq_method rq) = ''GET'' \<and> rq_query_params rq \<noteq> [])"

lemma loads_refl [simp]: "loads rq rq"
  by (simp add: loads_def)

lemma loads_same: "loads rq rq' \<Longrightarrow> same_request rq rq'"
  by (cases rq; cases rq') (auto simp: loads_def same_request_def)

lemma loads_trans: "loads a b \<Longrightarrow> loads b c \<Longrightarrow> loads a c"
  by (cases a; cases b; cases c) (auto simp: loads_def)

lemma safe_ensure_loads:
  "safe I (ensure_request_context_json_body env b rq) (\<lambda>rq'. loads rq rq' \<and> body_read b rq')"
proof (cases "rq_json_body rq = PNone")
  case False
  then show ?thesis
    by (simp add: ensure_request_context_json_body_def safe_ret body_read_def)
next
  case True
  then show ?thesis
    by (auto simp: ensure_request_context_json_body_def loads_def body_read_def
        intro!: safe_intros safe_andthen [where Q = "\<lambda>_. True"] split: option.splits)
qed

lemma normalize_same:
  assumes run: "normalize_collection_request env rq p = Inr (rq', ok)"
  shows "same_request rq rq'"
proof (cases "decode_collection_body env rq")
  case None
  with run show ?thesis by (simp add: normalize_collection_request_def)
next
  case (Some rq1)
  from decode_collection_body_same [OF Some] obtain b where "rq1 = rq\<lparr>rq_json_body := b\<rparr>" ..
  with run Some show ?thesis
    by (auto simp: normalize_collection_request_def Let_def same_request_def split: option.splits if_splits)
qed

lemma same_request_rest:
  "rq' = rq\<lparr>rq_json_body := b, rq_query_params := q\<rparr> \<Longrightarrow> same_request rq rq'"
  "rq' = rq\<lparr>rq_json_body := b\<rparr> \<Longrightarrow> same_request rq rq'"
  "rq' = rq\<lparr>rq_query_params := q\<rparr> \<Longrightarrow> same_request rq rq'"
  by (simp_all add: same_request_def)

lemma filter_scoped_same: "filter_scoped env kind field c rq rq' \<Longrightarrow> same_request rq rq'"
  unfolding filter_scoped_def by (cases "py_upper (rq_method rq) = ''POST''") (auto intro: same_request_rest)

lemma ids_narrowed_same: "ids_narrowed allowed rq rq' \<Longrightarrow> same_request rq rq'"
  unfolding ids_narrowed_def ids_placed_def by (auto intro: same_request_rest)

lemma scope_narrowed_same:
  assumes "scope_narrowed env g m i ns res narrow rq r"
    and "\<And>names. narrow names rq (fst r) \<Longrightarrow> same_request rq (fst r)"
  shows "same_request rq (fst r)"
  using assms unfolding scope_narrowed_def by (cases r) (auto split: if_splits)

lemma narrowed_same:
  "narrowed_to_experiments env names rq rq' \<Longrightarrow> same_request rq rq'"
  "narrowed_by_name env kind key field names rq rq' \<Longrightarrow> same_request rq rq'"
  "narrowed_by_experiment env names rq rq' \<Longrightarrow> same_request rq rq'"
  by (auto simp: narrowed_to_experiments_def narrowed_by_name_def narrowed_by_experiment_def
      dest: filter_scoped_same ids_narrowed_same)

lemma only_key_changed_same: "only_key_changed key rq rq' \<Longrightarrow> same_request rq rq'"
  unfolding only_key_changed_def by (blast intro: same_request_rest(1))

lemma id_contracts_same:
  "id_list_narrowed key ok rq r \<Longrightarrow> same_request rq (fst r)"
  "single_id_checked key ok rq r \<Longrightarrow> same_request rq (fst r)"
  "locations_narrowed ok rq r \<Longrightarrow> same_request rq (fst r)"
  by (cases r, auto simp: id_list_narrowed_def split: if_splits dest: only_key_changed_same)
     (auto simp: single_id_checked_def locations_narrowed_def split: if_splits)

lemma collection_justified_same: "collection_justified env g m i ns p rq r \<Longrightarrow> same_request rq (fst r)"
  by (cases p) (auto simp: collection_justified_def intro: id_contracts_same
      scope_narrowed_same dest: narrowed_same)

text \<open>The filter keeps the rest of the request whether or not it applied.\<close>

lemma safe_apply_filter_same:
  "safe (az_inv env g m ttl) (apply_request_collection_filter env i ns policy rq) (\<lambda>r. same_request rq (fst r))"
proof (cases policy)
  case None
  then show ?thesis by (simp add: apply_request_collection_filter_def safe_ret)
next
  case (Some p)
  have dispatch: "safe (az_inv env g m ttl) (dispatch_collection_filter env i ns p rq1) (\<lambda>r. same_request rq (fst r))"
    if "same_request rq rq1" for rq1
    using that by (auto intro!: safe_weaken [OF safe_dispatch] dest!: collection_justified_same intro: same_request_trans)
  show ?thesis
    by (auto simp: apply_request_collection_filter_def Some split: prod.splits
        intro!: dispatch safe_ret safe_andthen [OF safe_lift [where Q = "\<lambda>r. same_request rq (fst r)"]]
        intro: normalize_same)
qed

lemma safe_both: "safe I m P \<Longrightarrow> safe I m Q \<Longrightarrow> safe I m (\<lambda>x. P x \<and> Q x)"
  by (auto simp: safe_def split: prod.splits)

lemmas safe_filter_step = safe_both [OF safe_apply_filter_same safe_apply_collection_filter]

section \<open>The evidence for one rule\<close>

text \<open>The request names none of the resources its rule is about.\<close>

definition missing_reference :: "env \<Rightarrow> rule \<Rightarrow> request \<Rightarrow> bool" where
  "missing_reference env rule rq \<longleftrightarrow>
     (\<exists>rqx w1 w2 msg. same_request rq rqx \<and> body_read False rqx \<and>
        resolve_resource_names env rqx (resource_name_parsers rule) w1 = (Inl (ReferenceMissingExc msg), w2))"

text \<open>Every resource the request names was approved by its name.\<close>

definition names_approved ::
  "env \<Rightarrow> string \<Rightarrow> auth_mode \<Rightarrow> identity \<Rightarrow> string \<Rightarrow> string \<Rightarrow> string \<Rightarrow> rule \<Rightarrow> request \<Rightarrow> bool" where
  "names_approved env g m i ns res verb rule rq \<longleftrightarrow>
     (\<exists>names w1 w2. body_read False rq \<and> names \<noteq> [] \<and>
        resolve_resource_names env rq (resource_name_parsers rule) w1 = (Inr names, w2) \<and>
        list_all (\<lambda>n. approved env g m i res verb ns (rule_subresource rule) (Some n)) names)"

text \<open>
  Why the resource of a rule may be touched: the whole resource was approved, or every name in the request
  as it now is, or a collection filter applied and gave that request, or the rule is one of those whose
  GraphQL fields are authorized field by field.
\<close>

definition access_justified ::
  "env \<Rightarrow> string \<Rightarrow> auth_mode \<Rightarrow> identity \<Rightarrow> string \<Rightarrow> string \<Rightarrow> string \<Rightarrow> rule \<Rightarrow> request \<Rightarrow> request \<Rightarrow> bool" where
  "access_justified env g m i ns res verb rule rq rqc \<longleftrightarrow>
     approved env g m i res verb ns (rule_subresource rule) None \<or>
     names_approved env g m i ns res verb rule rqc \<or>
     (\<exists>p rqx. collection_policy rule = Some p \<and> same_request rq rqx \<and>
        filter_justified env g m i ns (Some p) rqx rqc) \<or>
     (is_graphql_collection_policy (collection_policy rule) \<and>
        (\<not> hybrid_rule rule \<or> missing_reference env rule rq))"

text \<open>
  The approvals for using what a gateway endpoint or model definition refers to: all of the resource, or
  each name found in the request, or, for an update, each name of the stored object.
\<close>

definition use_approved ::
  "env \<Rightarrow> string \<Rightarrow> auth_mode \<Rightarrow> identity \<Rightarrow> string \<Rightarrow> string \<Rightarrow> string list \<Rightarrow> bool" where
  "use_approved env g m i ns res names \<longleftrightarrow>
     approved env g m i res ''create'' ns (Some ''use'') None \<or>
     (names \<noteq> [] \<and> list_all (\<lambda>n. approved env g m i res ''create'' ns (Some ''use'') (Some n)) names)"

definition found_names ::
  "(request \<Rightarrow> (world, string list) eff) \<Rightarrow> (request \<Rightarrow> (world, string list) eff) \<Rightarrow> bool \<Rightarrow>
   request \<Rightarrow> request \<Rightarrow> string list \<Rightarrow> bool" where
  "found_names resolve existing updates rq rq' names \<longleftrightarrow>
     (\<exists>w1 w2. resolve rq w1 = (Inr names, w2) \<or> resolve rq' w1 = (Inr names, w2) \<or>
        (updates \<and> existing rq' w1 = (Inr names, w2)))"

text \<open>Endpoints: the definitions named in the request, or for an update those of the stored endpoint.\<close>

definition endpoint_justified ::
  "env \<Rightarrow> string \<Rightarrow> auth_mode \<Rightarrow> identity \<Rightarrow> string \<Rightarrow> bool \<Rightarrow> request \<Rightarrow> request \<Rightarrow> bool" where
  "endpoint_justified env g m i ns creates rq rq' \<longleftrightarrow>
     (\<exists>names. (names = [] \<or> found_names (resolve_gateway_model_definition_names_for_use env)
         (resolve_existing_gateway_model_definition_names_for_use env) (\<not> creates) rq rq' names) \<and>
       ((\<not> creates \<and> names = [] \<and> body_read False rq' \<and>
           (\<exists>w1 w2. on_unresolved (resolve_gateway_model_definition_names_for_use env rq') (ret []) w1 = (Inr [], w2))) \<or>
        use_approved env g m i ns RESOURCE_GATEWAY_MODEL_DEFINITIONS names))"

text \<open>Model definitions: the secret named in the request, or for an update that of the stored definition.\<close>

definition definition_justified ::
  "env \<Rightarrow> string \<Rightarrow> auth_mode \<Rightarrow> identity \<Rightarrow> string \<Rightarrow> bool \<Rightarrow> request \<Rightarrow> request \<Rightarrow> bool" where
  "definition_justified env g m i ns creates rq rq' \<longleftrightarrow>
     (\<exists>names. (names = [] \<or> found_names (resolve_gateway_secret_names_for_use env)
         (resolve_existing_gateway_secret_names_for_use env) (\<not> creates) rq rq' names) \<and>
       use_approved env g m i ns RESOURCE_GATEWAY_SECRETS names)"

definition dependency_justified ::
  "env \<Rightarrow> string \<Rightarrow> auth_mode \<Rightarrow> identity \<Rightarrow> string \<Rightarrow> rule \<Rightarrow> request \<Rightarrow> request \<Rightarrow> bool" where
  "dependency_justified env g m i ns rule rq rq' \<longleftrightarrow>
     (skip_gateway_dependency_permissions rule \<or> rule_subresource rule = Some ''use'' \<or>
      rule_verb rule \<notin> {Some ''create'', Some ''update''}) \<or>
     ((rule_resource rule = Some RESOURCE_GATEWAY_ENDPOINTS \<longrightarrow>
         endpoint_justified env g m i ns (rule_verb rule = Some ''create'') rq rq') \<and>
      (rule_resource rule = Some RESOURCE_GATEWAY_MODEL_DEFINITIONS \<longrightarrow>
         definition_justified env g m i ns (rule_verb rule = Some ''create'') rq rq'))"

text \<open>Why a rule lets the request \<open>rq\<close> through and leaves \<open>rq'\<close>.\<close>

definition rule_justified ::
  "env \<Rightarrow> string \<Rightarrow> auth_mode \<Rightarrow> identity \<Rightarrow> string option \<Rightarrow> rule \<Rightarrow> request \<Rightarrow> request \<Rightarrow> bool" where
  "rule_justified env g m i ws rule rq rq' \<longleftrightarrow>
     \<not> deny rule \<and> (requires_workspace rule \<longrightarrow> ws \<noteq> None) \<and>
     (case rule_verb rule of
        Some verb \<Rightarrow>
          (\<exists>ns res. ws = Some ns \<and> rule_resource rule = Some res \<and> res \<noteq> [] \<and>
             ((allow_if_resource_reference_missing rule \<and> missing_reference env rule rq \<and> same_request rq rq') \<or>
              (\<exists>rqc. same_request rq rqc \<and> access_justified env g m i ns res verb rule rq rqc \<and>
                 loads rqc rq' \<and> dependency_justified env g m i ns rule rqc rq')))
      | None \<Rightarrow>
          rq' = rq \<and>
          (apply_workspace_filter rule \<or>
           (workspace_access_check rule \<and>
            (\<exists>ns. ws = Some ns \<and> workspace_listed env g m i ''get'' ns))))"

fun rules_justified ::
  "env \<Rightarrow> string \<Rightarrow> auth_mode \<Rightarrow> identity \<Rightarrow> string option \<Rightarrow> rule list \<Rightarrow> request \<Rightarrow> request \<Rightarrow> bool" where
  "rules_justified env g m i ws [] rq rq' = (rq' = rq)"
| "rules_justified env g m i ws (r # rs) rq rq' =
     (\<exists>rq1. rule_justified env g m i ws r rq rq1 \<and> rules_justified env g m i ws rs rq1 rq')"

section \<open>Gateway dependencies leave their evidence\<close>

lemma safe_lookup_or_none: "safe (az_inv env g m ttl) (lookup_or_none env k x) (\<lambda>_. True)"
  unfolding lookup_or_none_def by (rule safe_handle) (auto intro!: safe_intros split: exc.splits)

lemma safe_existing_names:
  "safe (az_inv env g m ttl) (resolve_existing_gateway_model_definition_names_for_use env rq) (\<lambda>_. True)"
  "safe (az_inv env g m ttl) (resolve_existing_gateway_secret_names_for_use env rq) (\<lambda>_. True)"
  unfolding resolve_existing_gateway_model_definition_names_for_use_def
    resolve_existing_gateway_secret_names_for_use_def
  by (auto intro!: safe_ret safe_andthen [OF safe_lookup_or_none] split: option.splits)

lemma on_unresolved_names:
  "\<exists>w1 w2. on_unresolved m (ret []) w1 = (Inr names, w2) \<Longrightarrow> names \<noteq> [] \<Longrightarrow> \<exists>w1 w2. m w1 = (Inr names, w2)"
  by (metis on_unresolved_result)

text \<open>What \<open>names_with_body\<close> returns was resolved from one of the two requests.\<close>

lemma safe_names_with_body:
  assumes "\<And>rq. safe (az_inv env g m ttl) (resolve rq) (\<lambda>_. True)"
  shows "safe (az_inv env g m ttl) (names_with_body env resolve rq)
    (\<lambda>(names, rq'). loads rq rq' \<and>
       (if names = [] then body_read False rq' \<and> (\<exists>w1 w2. on_unresolved (resolve rq') (ret []) w1 = (Inr [], w2))
        else \<exists>w1 w2. resolve rq w1 = (Inr names, w2) \<or> resolve rq' w1 = (Inr names, w2)))"
proof -
  have origin: "safe (az_inv env g m ttl) (on_unresolved (resolve rq1) (ret []))
      (\<lambda>names. (\<exists>w1 w2. on_unresolved (resolve rq1) (ret []) w1 = (Inr names, w2)) \<and>
         (names \<noteq> [] \<longrightarrow> (\<exists>w1 w2. resolve rq1 w1 = (Inr names, w2))))" for rq1
    by (rule safe_weaken [OF safe_origin [OF safe_on_unresolved [OF assms safe_ret]]])
       (simp_all add: on_unresolved_names)
  show ?thesis
    unfolding names_with_body_def
    by (rule safe_andthen [OF origin], rule safe_if, rule safe_ret, auto)
       (rule safe_andthen [OF safe_ensure_loads], rule safe_andthen [OF origin], rule safe_ret, auto)
qed

lemma safe_use_allowed:
  "safe (az_inv env g m ttl) (use_allowed env i ns res name)
     (\<lambda>b. b \<longrightarrow> approved env g m i res ''create'' ns (Some ''use'') name)"
  unfolding use_allowed_def by (rule safe_is_allowed)

lemma safe_named_use_allowed:
  "safe (az_inv env g m ttl) (named_use_allowed env i ns res names)
     (\<lambda>b. b \<longrightarrow> use_approved env g m i ns res names)"
  unfolding named_use_allowed_def
  by (rule safe_if, rule safe_ret, simp, rule safe_weaken [OF safe_all_eff [OF safe_use_allowed]])
     (simp add: use_approved_def list_all_iff)

lemma found_names_step:
  "\<exists>w1 w2. resolve rq w1 = (Inr names, w2) \<or> resolve rq' w1 = (Inr names, w2) \<Longrightarrow>
   found_names resolve existing updates rq rq' names"
  unfolding found_names_def by blast

lemma safe_enforce_model_definition:
  "safe (az_inv env g m ttl) (enforce_model_definition_dependencies env i ns creates rq)
     (\<lambda>rq'. loads rq rq' \<and> definition_justified env g m i ns creates rq rq')"
  unfolding enforce_model_definition_dependencies_def
proof (rule safe_andthen [OF safe_use_allowed], rule safe_if, rule safe_ret)
  show "loads rq rq \<and> definition_justified env g m i ns creates rq rq"
    if "broad" "broad \<longrightarrow> approved env g m i RESOURCE_GATEWAY_SECRETS ''create'' ns (Some ''use'') None" for broad
    using that unfolding definition_justified_def use_approved_def by auto
next
  let ?new = "resolve_gateway_secret_names_for_use env"
  let ?old = "resolve_existing_gateway_secret_names_for_use env"
  let ?denied = "permission_denied (''Permission denied: creating or updating a gateway model definition '' @
             ''requires 'use' permission on gateway secrets.'')"
  show "safe (az_inv env g m ttl)
     (andthen (names_with_body env ?new rq) (\<lambda>(names, rq1).
       andthen (if names = [] \<and> \<not> creates then ?old rq1 else ret names) (\<lambda>names.
       andthen (named_use_allowed env i ns RESOURCE_GATEWAY_SECRETS names) (\<lambda>named.
         if named then ret rq1 else raise ?denied))))
     (\<lambda>rq'. loads rq rq' \<and> definition_justified env g m i ns creates rq rq')"
  proof (rule safe_andthen [OF safe_names_with_body], rule az_names.keeps_names_for_use, clarify)
    fix found rq1
    assume loads: "loads rq rq1" and found: "if found = [] then body_read False rq1 \<and>
        (\<exists>w1 w2. on_unresolved (?new rq1) (ret []) w1 = (Inr [], w2))
      else \<exists>w1 w2. ?new rq w1 = (Inr found, w2) \<or> ?new rq1 w1 = (Inr found, w2)"
    have names: "safe (az_inv env g m ttl) (if found = [] \<and> \<not> creates then ?old rq1 else ret found)
        (\<lambda>names. names = [] \<or> found_names ?new ?old (\<not> creates) rq rq1 names)"
      using found by (auto intro!: safe_ret safe_weaken [OF safe_origin [OF safe_existing_names(2)]]
          intro: found_names_step simp: found_names_def split: if_splits)
    show "safe (az_inv env g m ttl)
       (andthen (if found = [] \<and> \<not> creates then ?old rq1 else ret found) (\<lambda>names.
        andthen (named_use_allowed env i ns RESOURCE_GATEWAY_SECRETS names) (\<lambda>named.
          if named then ret rq1 else raise ?denied)))
       (\<lambda>rq'. loads rq rq' \<and> definition_justified env g m i ns creates rq rq')"
      by (rule safe_andthen [OF names], rule safe_andthen [OF safe_named_use_allowed], rule safe_if, rule safe_ret)
         (auto intro: safe_raise simp: loads definition_justified_def)
  qed
qed

lemma safe_endpoint_use_check:
  assumes loads: "loads rq rq1"
    and names: "names \<noteq> [] \<longrightarrow> found_names (resolve_gateway_model_definition_names_for_use env)
        (resolve_existing_gateway_model_definition_names_for_use env) (\<not> creates) rq rq1 names"
    and none: "names = [] \<longrightarrow> body_read False rq1 \<and>
        (\<exists>w1 w2. on_unresolved (resolve_gateway_model_definition_names_for_use env rq1) (ret []) w1 = (Inr [], w2))"
  shows "safe (az_inv env g m ttl)
       (andthen (use_allowed env i ns RESOURCE_GATEWAY_MODEL_DEFINITIONS None) (\<lambda>broad.
         if broad then ret rq1
         else andthen (named_use_allowed env i ns RESOURCE_GATEWAY_MODEL_DEFINITIONS names) (\<lambda>named.
           if named then ret rq1
           else raise (permission_denied (''Permission denied: creating or updating a gateway endpoint '' @
             ''requires 'use' permission on gateway model definitions.'')))))
     (\<lambda>rq'. loads rq rq' \<and> endpoint_justified env g m i ns creates rq rq')"
proof (rule safe_andthen [OF safe_use_allowed], rule safe_if, rule safe_ret)
  show "loads rq rq1 \<and> endpoint_justified env g m i ns creates rq rq1"
    if "broad" "broad \<longrightarrow> approved env g m i RESOURCE_GATEWAY_MODEL_DEFINITIONS ''create'' ns (Some ''use'') None"
    for broad
    using that loads unfolding endpoint_justified_def use_approved_def by blast
next
  show "safe (az_inv env g m ttl)
     (andthen (named_use_allowed env i ns RESOURCE_GATEWAY_MODEL_DEFINITIONS names) (\<lambda>named.
         if named then ret rq1
         else raise (permission_denied (''Permission denied: creating or updating a gateway endpoint '' @
           ''requires 'use' permission on gateway model definitions.''))))
     (\<lambda>rq'. loads rq rq' \<and> endpoint_justified env g m i ns creates rq rq')"
    using names none by (auto intro!: safe_andthen [OF safe_named_use_allowed] safe_intros loads
        simp: endpoint_justified_def)
qed

lemma safe_enforce_endpoint:
  "safe (az_inv env g m ttl) (enforce_endpoint_dependencies env i ns creates rq)
     (\<lambda>rq'. loads rq rq' \<and> endpoint_justified env g m i ns creates rq rq')"
  unfolding enforce_endpoint_dependencies_def
proof (rule safe_andthen [OF safe_names_with_body], rule az_names.keeps_names_for_use, clarify)
  fix found rq1
  let ?new = "resolve_gateway_model_definition_names_for_use env"
  let ?old = "resolve_existing_gateway_model_definition_names_for_use env"
  let ?none = "body_read False rq1 \<and> (\<exists>w1 w2. on_unresolved (?new rq1) (ret []) w1 = (Inr [], w2))"
  assume loads: "loads rq rq1" and found: "if found = [] then ?none
      else \<exists>w1 w2. ?new rq w1 = (Inr found, w2) \<or> ?new rq1 w1 = (Inr found, w2)"
  have names: "safe (az_inv env g m ttl)
      (if found = [] \<and> \<not> creates \<and> should_resolve_existing_gateway_model_definitions_for_use rq1
       then ?old rq1 else ret found)
      (\<lambda>names. (names = [] \<or> found_names ?new ?old (\<not> creates) rq rq1 names) \<and> (names = [] \<longrightarrow> ?none))"
    using found by (auto intro!: safe_ret safe_weaken [OF safe_origin [OF safe_existing_names(1)]]
        intro: found_names_step simp: found_names_def split: if_splits)
  show "safe (az_inv env g m ttl)
     (andthen (if found = [] \<and> \<not> creates \<and> should_resolve_existing_gateway_model_definitions_for_use rq1
        then ?old rq1 else ret found) (\<lambda>names.
       if \<not> creates \<and> names = [] then ret rq1
       else andthen (use_allowed env i ns RESOURCE_GATEWAY_MODEL_DEFINITIONS None) (\<lambda>broad.
         if broad then ret rq1
         else andthen (named_use_allowed env i ns RESOURCE_GATEWAY_MODEL_DEFINITIONS names) (\<lambda>named.
           if named then ret rq1
           else raise (permission_denied (''Permission denied: creating or updating a gateway endpoint '' @
             ''requires 'use' permission on gateway model definitions.''))))))
     (\<lambda>rq'. loads rq rq' \<and> endpoint_justified env g m i ns creates rq rq')"
  proof (rule safe_andthen [OF names], rule safe_if, rule safe_ret)
    show "loads rq rq1 \<and> endpoint_justified env g m i ns creates rq rq1"
      if "(names = [] \<or> found_names ?new ?old (\<not> creates) rq rq1 names) \<and> (names = [] \<longrightarrow> ?none)"
        "\<not> creates \<and> names = []" for names
      using that loads unfolding endpoint_justified_def by blast
  qed (rule safe_endpoint_use_check [OF loads], blast+)
qed

lemma safe_enforce_gateway:
  "safe (az_inv env g m ttl) (enforce_gateway_dependency_permissions env i rq (Some ns) rule)
     (\<lambda>rq'. loads rq rq' \<and> dependency_justified env g m i ns rule rq rq')"
  unfolding enforce_gateway_dependency_permissions_def option.case
proof (intro safe_if safe_weaken [OF safe_enforce_endpoint] safe_weaken [OF safe_enforce_model_definition] safe_ret)
qed (auto simp: dependency_justified_def resource_defs)

section \<open>The steps of one rule\<close>

lemma safe_preserve_scorer:
  "safe (az_inv env g m ttl) (preserve_scorer_selector env rule granted rq) (same_request rq)"
  unfolding preserve_scorer_selector_def
proof (rule safe_if, rule safe_ret, simp, rule safe_andthen [OF safe_ensure_loads])
  fix rq1
  assume "loads rq rq1 \<and> body_read True rq1"
  then have rq1: "same_request rq rq1" by (simp add: loads_same)
  show "safe (az_inv env g m ttl)
     (andthen (lift (normalize_collection_request env rq1 COLLECTION_POLICY_REQUEST_LIST_SCORERS)) (\<lambda>(rq2, normalized).
        if \<not> normalized \<or> dget (rq_query_params rq2) ''experiment_ids'' = PList []
        then raise (MlflowExc INVALID_PARAMETER_VALUE
          ''Invalid scorer collection input; experiment_ids must be nonempty if set.'')
        else ret rq2)) (same_request rq)"
    by (rule safe_andthen [OF safe_lift [where Q = "\<lambda>r. same_request rq (fst r)"]])
       (auto intro!: safe_intros dest!: normalize_same intro: same_request_trans [OF rq1] split: prod.splits)
qed

text \<open>The names of a request, or that it has none, come from its resolution.\<close>

lemma try_resource_names_result:
  "try_resource_names env rq rule w1 = (Inr (Some names), w2) \<Longrightarrow> names \<noteq> [] \<Longrightarrow>
   \<exists>w2. resolve_resource_names env rq (resource_name_parsers rule) w1 = (Inr names, w2)"
  "try_resource_names env rq rule w1 = (Inr None, w2) \<Longrightarrow>
   \<exists>msg w2. resolve_resource_names env rq (resource_name_parsers rule) w1 = (Inl (ReferenceMissingExc msg), w2)"
  by (auto simp: try_resource_names_def eff_defs split: prod.splits sum.splits exc.splits)

lemma safe_try_names:
  "safe (az_inv env g m ttl) (try_resource_names env rq rule)
     (\<lambda>r. \<exists>w1 w2. try_resource_names env rq rule w1 = (Inr r, w2))"
  unfolding try_resource_names_def
  by (rule safe_origin, rule safe_handle, rule safe_andthen [OF az_names.keeps_resolve_resource_names])
     (auto intro!: safe_intros split: exc.splits)

lemma missing_referenceI:
  assumes "same_request rq rq1" and "body_read False rq1" and "try_resource_names env rq1 rule w1 = (Inr None, w2)"
  shows "missing_reference env rule rq"
  using try_resource_names_result(2) [OF assms(3)] assms(1,2) unfolding missing_reference_def by blast

text \<open>What is known of the decision of a rule between its steps.\<close>

definition evidence ::
  "env \<Rightarrow> string \<Rightarrow> auth_mode \<Rightarrow> identity \<Rightarrow> string \<Rightarrow> string \<Rightarrow> string \<Rightarrow> rule \<Rightarrow> request \<Rightarrow> access \<Rightarrow> bool" where
  "evidence env g m i ns res verb rule rq a \<longleftrightarrow>
     same_request rq (ac_request a) \<and>
     (ac_broad a \<longrightarrow> approved env g m i res verb ns (rule_subresource rule) None) \<and>
     (ac_granted a \<longrightarrow> ac_broad a \<or> names_approved env g m i ns res verb rule (ac_request a)) \<and>
     (ac_missing a \<longrightarrow> missing_reference env rule rq) \<and>
     (ac_skip a \<longrightarrow> allow_if_resource_reference_missing rule \<and> missing_reference env rule rq)"

lemma safe_named_access:
  assumes ev: "evidence env g m i ns res verb rule rq a"
  shows "safe (az_inv env g m ttl) (named_access env i ns res verb rule a) (evidence env g m i ns res verb rule rq)"
  unfolding named_access_def
proof (rule safe_if, rule safe_ret, rule ev, rule safe_andthen [OF safe_ensure_loads],
    rule safe_andthen [OF safe_try_names], elim exE conjE)
  fix rq1 names w1 w2
  assume "loads (ac_request a) rq1" and read: "body_read False rq1" and ungranted: "\<not> (ac_granted a \<or> resource_name_parsers rule = [])"
    and names: "try_resource_names env rq1 rule w1 = (Inr names, w2)"
  then have same: "same_request rq rq1"
    using ev unfolding evidence_def by (blast intro: loads_same same_request_trans)
  show "safe (az_inv env g m ttl)
     (case names of
        None \<Rightarrow> ret (a\<lparr>ac_request := rq1, ac_missing := True, ac_skip := allow_if_resource_reference_missing rule\<rparr>)
      | Some ns' \<Rightarrow>
          if ns' = [] then ret (a\<lparr>ac_request := rq1\<rparr>)
          else andthen (all_eff (\<lambda>n. is_allowed env i res verb ns (rule_subresource rule) (Some n)) ns')
                 (\<lambda>granted. ret (a\<lparr>ac_request := rq1, ac_granted := granted\<rparr>)))
     (evidence env g m i ns res verb rule rq)"
  proof (cases names)
    case None
    with names have "missing_reference env rule rq" by (blast intro: missing_referenceI [OF same read])
    with None ev same ungranted show ?thesis by (auto simp: evidence_def intro!: safe_ret)
  next
    case (Some ns')
    show ?thesis
    proof (cases "ns' = []")
      case True
      with Some ev same ungranted show ?thesis by (auto simp: evidence_def intro!: safe_ret)
    next
      case False
      with names Some try_resource_names_result(1) obtain w3 where
        "resolve_resource_names env rq1 (resource_name_parsers rule) w1 = (Inr ns', w3)" by blast
      with False read have "names_approved env g m i ns res verb rule rq1"
        if "\<forall>n \<in> set ns'. approved env g m i res verb ns (rule_subresource rule) (Some n)"
        using that unfolding names_approved_def list_all_iff by blast
      with False Some ev same ungranted show ?thesis
        by (auto simp: evidence_def intro!: safe_ret safe_andthen [OF safe_all_allowed])
    qed
  qed
qed

lemma safe_note_missing:
  assumes ev: "evidence env g m i ns res verb rule rq a"
  shows "safe (az_inv env g m ttl) (note_missing_reference env rule a) (evidence env g m i ns res verb rule rq)"
  unfolding note_missing_reference_def
proof (rule safe_if, rule safe_ret, rule ev, rule safe_andthen [OF safe_ensure_loads],
    rule safe_andthen [OF safe_try_names], elim exE conjE, rule safe_ret)
  fix rq1 names w1 w2
  assume broad: "\<not> \<not> (ac_broad a \<and> hybrid_rule rule)" and "loads (ac_request a) rq1" and read: "body_read False rq1"
    and names: "try_resource_names env rq1 rule w1 = (Inr names, w2)"
  then have same: "same_request rq rq1"
    using ev unfolding evidence_def by (blast intro: loads_same same_request_trans)
  have "names = None \<Longrightarrow> missing_reference env rule rq"
    using names by (blast intro: missing_referenceI [OF same read])
  with same broad ev show "evidence env g m i ns res verb rule rq
      (a\<lparr>ac_request := rq1, ac_missing := (names = None \<or> ac_missing a)\<rparr>)"
    by (auto simp: evidence_def)
qed

text \<open>The filter, and once more with the body loaded if it did not apply.\<close>

lemma safe_filter_retry:
  assumes rq1: "same_request rq rq1"
  shows "safe (az_inv env g m ttl)
    (andthen (apply_request_collection_filter env i ns (Some p) rq1) (\<lambda>(rq1, applied1).
       if applied1 then ret (rq1, True)
       else andthen (ensure_request_context_json_body env False rq1)
              (apply_request_collection_filter env i ns (Some p))))
    (\<lambda>r. same_request rq (fst r) \<and>
       (snd r \<longrightarrow> (\<exists>rqx. same_request rq rqx \<and> filter_justified env g m i ns (Some p) rqx (fst r))))"
    (is "safe ?I _ ?Q")
proof -
  let ?f = "apply_request_collection_filter env i ns (Some p)"
  have f: "safe ?I (?f rq2) ?Q" if "same_request rq rq2" for rq2
    using that by (auto intro!: safe_weaken [OF safe_filter_step] intro: same_request_trans)
  have load: "safe ?I (ensure_request_context_json_body env False rq2) (same_request rq)"
    if "same_request rq rq2" for rq2
    using that by (auto intro!: safe_weaken [OF safe_ensure_loads] intro: same_request_trans dest: loads_same)
  show ?thesis
    by (rule safe_andthen [OF f [OF rq1]]) (clarsimp, intro conjI impI safe_ret safe_andthen [OF load f], auto)
qed

lemma andthen_pair_assoc:
  "andthen m (\<lambda>(x, y). andthen (f x y) k) = andthen (andthen m (\<lambda>(x, y). f x y)) k"
  by (auto simp: andthen_def fun_eq_iff split: prod.splits sum.splits)

lemma safe_collection_access:
  assumes ev: "evidence env g m i ns res verb rule rq a"
  shows "safe (az_inv env g m ttl) (collection_access env i ns rule a)
    (\<lambda>a'. same_request rq (ac_request a') \<and>
       (ac_granted a' \<longrightarrow> access_justified env g m i ns res verb rule rq (ac_request a')))"
    (is "safe ?I _ ?R")
proof -
  have kept: "safe ?I (ret a) ?R"
    using ev by (auto simp: evidence_def access_justified_def intro!: safe_ret)
  show ?thesis
  proof (cases "collection_policy rule")
    case None
    then show ?thesis by (simp add: collection_access_def kept)
  next
    case (Some p)
    have rq: "same_request rq (ac_request a)" and missing: "ac_missing a \<Longrightarrow> missing_reference env rule rq"
      using ev by (simp_all add: evidence_def)
    have load: "safe ?I (if p \<in> set REQUIRING_REQUEST_BODY
        then ensure_request_context_json_body env True (ac_request a) else ret (ac_request a)) (same_request rq)"
      by (auto intro!: safe_weaken [OF safe_ensure_loads] safe_ret rq
          intro: same_request_trans [OF rq] dest: loads_same)
    show ?thesis
      unfolding collection_access_def Some option.case andthen_pair_assoc
      by (rule safe_if, rule kept, rule safe_andthen [OF load], rule safe_andthen [OF safe_filter_retry], assumption)
        (use missing in \<open>auto simp: access_justified_def Some intro!: safe_ret\<close>)
  qed
qed

lemma safe_budget_scope:
  "safe (az_inv env g m ttl) (enforce_gateway_budget_scope env rq rule) (same_request rq)"
  unfolding enforce_gateway_budget_scope_def
  by (rule safe_if, rule safe_ret, simp, rule safe_andthen [OF safe_ensure_loads])
     (auto intro!: safe_intros safe_andthen [OF safe_lift [where Q = "\<lambda>_. True"]] dest: loads_same split: option.splits)

lemma safe_finish_access:
  assumes verb: "rule_verb rule = Some verb" "\<not> deny rule" "rule_resource rule = Some res" "res \<noteq> []"
    and ev: "evidence env g m i ns res verb rule rq a"
  shows "safe (az_inv env g m ttl) (finish_access env i ns rule a) (rule_justified env g m i (Some ns) rule rq)"
  unfolding finish_access_def
proof (rule safe_if, rule safe_ret)
  show "rule_justified env g m i (Some ns) rule rq (ac_request a)" if "ac_skip a"
    using that assms by (auto simp: rule_justified_def evidence_def)
next
  show "safe (az_inv env g m ttl)
     (andthen (note_missing_reference env rule a) (\<lambda>a.
      andthen (collection_access env i ns rule a) (\<lambda>a.
        if \<not> ac_granted a then raise (permission_denied ''Permission denied for requested operation.'')
        else enforce_gateway_dependency_permissions env i (ac_request a) (Some ns) rule)))
     (rule_justified env g m i (Some ns) rule rq)"
    by (rule safe_andthen [OF safe_note_missing [OF ev]], rule safe_andthen [OF safe_collection_access],
        assumption, rule safe_if [OF safe_raise], rule safe_weaken [OF safe_enforce_gateway])
       (use verb in \<open>auto simp: rule_justified_def\<close>)
qed

lemma safe_authorize_resource:
  assumes verb: "rule_verb rule = Some verb" "\<not> deny rule" "rule_resource rule = Some res" "res \<noteq> []"
    and same: "same_request rq rq1"
  shows "safe (az_inv env g m ttl) (authorize_resource env i ns rule res verb rq1)
     (rule_justified env g m i (Some ns) rule rq)"
  unfolding authorize_resource_def
proof (rule safe_andthen [OF safe_is_allowed], rule safe_andthen [OF safe_preserve_scorer],
    rule safe_andthen [OF safe_named_access [where g = g and m = m and rq = rq]])
  fix broad rq2
  assume "broad \<longrightarrow> approved env g m i res verb ns (rule_subresource rule) None" and "same_request rq1 rq2"
  with same show "evidence env g m i ns res verb rule rq
      \<lparr>ac_request = rq2, ac_granted = broad, ac_broad = broad, ac_missing = False, ac_skip = False\<rparr>"
    by (auto simp: evidence_def intro: same_request_trans)
qed (rule safe_finish_access [OF verb])

lemma safe_authorize_verb:
  assumes "rule_verb rule = Some verb" "\<not> deny rule"
  shows "safe (az_inv env g m ttl) (authorize_verb env i rq0 ns rule verb rq) (rule_justified env g m i (Some ns) rule rq)"
  unfolding authorize_verb_def
  by (rule safe_andthen [where Q = "same_request rq"], rule safe_if [OF safe_budget_scope safe_ret], simp)
     (auto intro: safe_raise safe_authorize_resource [OF assms] split: option.splits)

lemma safe_authorize_rule:
  "safe (az_inv env g m ttl) (authorize_rule env i rq0 ws rule rq) (rule_justified env g m i ws rule rq)"
proof (cases "deny rule")
  case True
  then show ?thesis by (auto simp: authorize_rule_def intro: safe_raise split: option.splits)
next
  case deny: False
  show ?thesis
  proof (cases "rule_verb rule")
    case (Some verb)
    with deny show ?thesis
      by (auto simp: authorize_rule_def intro!: safe_raise safe_authorize_verb split: option.splits)
  next
    case None
    with deny show ?thesis
      by (auto simp: authorize_rule_def rule_justified_def intro!: safe_raise safe_ret
          safe_andthen [OF safe_can_access_workspace] split: option.splits)
  qed
qed

lemma safe_authorize_rules:
  "safe (az_inv env g m ttl) (authorize_rules env i rq0 ws rules rq) (rules_justified env g m i ws rules rq)"
proof (induction rules arbitrary: rq)
  case Nil
  show ?case by (simp add: safe_ret)
next
  case (Cons r rs)
  show ?case
    by (auto intro!: safe_andthen [OF safe_authorize_rule] safe_weaken [OF Cons.IH])
qed

section \<open>The whole request\<close>

text \<open>The rules a request is checked against were found for it, and are not empty.\<close>

definition rules_of_request :: "server \<Rightarrow> env \<Rightarrow> request \<Rightarrow> request \<Rightarrow> rule list \<Rightarrow> bool" where
  "rules_of_request srv env rq rq1 rules \<longleftrightarrow>
     (\<exists>rqf found. loads rq rqf \<and> loads rqf rq1 \<and> found \<noteq> [] \<and>
        find_authorization_rules env (sv_static srv) (sv_registry srv) (rq_path rqf) (rq_method rqf)
          (rq_graphql_payload rqf) = Some found \<and>
        rules = (if list_ex check_skill_artifact_permissions found then skill_artifact_rules env rq1 found
                 else found))"

lemma safe_request_rules:
  "safe (az_inv env g m ttl) (request_rules srv env rq) (\<lambda>(rq1, rules). rules_of_request srv env rq rq1 rules)"
  unfolding request_rules_def
proof (rule safe_andthen [where Q = "loads rq"])
  show "safe (az_inv env g m ttl) (if endswith (rq_path rq) ''/graphql'' \<and> rq_graphql_payload rq = None
      then ensure_request_context_json_body env False rq else ret rq) (loads rq)"
    by (rule safe_if [OF safe_weaken [OF safe_ensure_loads] safe_ret]) simp_all
next
  fix rq1
  assume rq1: "loads rq rq1"
  have skill: "safe (az_inv env g m ttl)
      (andthen (if \<not> dhas (rq_path_params rq1) ''artifact_path'' \<and>
                   \<not> (rq_method rq1 = ''GET'' \<and> rq_query_params rq1 \<noteq> [])
                then ensure_request_context_json_body env True rq1 else ret rq1) (\<lambda>rq2.
         ret (rq2, skill_artifact_rules env rq2 rules)))
      (\<lambda>(rq2, rs). loads rq1 rq2 \<and> rs = skill_artifact_rules env rq2 rules)" for rules
    by (rule safe_andthen [where Q = "loads rq1"])
       (auto intro!: safe_ret safe_weaken [OF safe_ensure_loads])
  show "safe (az_inv env g m ttl)
     (case find_authorization_rules env (sv_static srv) (sv_registry srv) (rq_path rq1) (rq_method rq1)
              (rq_graphql_payload rq1) of
         None \<Rightarrow> raise (MlflowExc ENDPOINT_NOT_FOUND ''Endpoint not found.'')
       | Some rules \<Rightarrow>
           if rules = [] then raise (MlflowExc ENDPOINT_NOT_FOUND ''Endpoint not found.'')
           else if \<not> list_ex check_skill_artifact_permissions rules then ret (rq1, rules)
           else
             andthen (if \<not> dhas (rq_path_params rq1) ''artifact_path'' \<and>
                         \<not> (rq_method rq1 = ''GET'' \<and> rq_query_params rq1 \<noteq> [])
                      then ensure_request_context_json_body env True rq1 else ret rq1) (\<lambda>rq2.
               ret (rq2, skill_artifact_rules env rq2 rules)))
     (\<lambda>(rq1, rules). rules_of_request srv env rq rq1 rules)"
  proof (cases "find_authorization_rules env (sv_static srv) (sv_registry srv) (rq_path rq1) (rq_method rq1)
      (rq_graphql_payload rq1)")
    case None
    then show ?thesis by (simp add: safe_raise)
  next
    case (Some found)
    have of: "rules_of_request srv env rq rq2 rules"
      if "found \<noteq> []" "loads rq1 rq2" "rules = (if list_ex check_skill_artifact_permissions found
        then skill_artifact_rules env rq2 found else found)" for rq2 rules
      unfolding rules_of_request_def using that rq1 Some by blast
    show ?thesis
      unfolding Some option.case
      by (rule safe_if [OF safe_raise], rule safe_if, rule safe_ret, simp add: of, rule safe_weaken [OF skill])
         (auto simp: of)
  qed
qed

text \<open>
  What an authorized request is: the caller is the one the credentials name, the rules are those found for
  the request, and every rule lets the request through, one after the other.
\<close>

definition request_authorized ::
  "server \<Rightarrow> env \<Rightarrow> string \<Rightarrow> auth_mode \<Rightarrow> request \<Rightarrow> authorization_result \<Rightarrow> bool" where
  "request_authorized srv env g m rq result \<longleftrightarrow>
     authenticate srv rq = Inr (ar_identity result, ar_username result) \<and>
     (\<exists>rq1 ws rq2 rq3. rules_of_request srv env rq rq1 (ar_rules result) \<and>
        resolve_workspace rq (hd (ar_rules result)) rq1 = (ws, rq2) \<and>
        (cf_workspaces_enabled (sv_config srv) \<or> \<not> workspace_api_path (rq_path rq2)) \<and>
        rules_justified env g m (ar_identity result) ws (ar_rules result) rq2 rq3 \<and>
        loads rq3 (ar_request result))"

lemma safe_authorize_request:
  "safe (az_inv env g m ttl) (authorize_request srv env rq) (request_authorized srv env g m rq)"
proof -
  have load: "safe (az_inv env g m ttl) (if b then ensure_request_context_json_body env False rq3 else ret rq3)
      (loads rq3)" for b rq3
    by (rule safe_if [OF safe_weaken [OF safe_ensure_loads] safe_ret]) simp_all
  show ?thesis
    unfolding authorize_request_def request_authorized_def
    by (rule safe_andthen [OF safe_lift [where Q = "\<lambda>r. authenticate srv rq = Inr r"]], assumption, clarify,
        rule safe_andthen [OF safe_request_rules])
       (auto split: prod.splits intro!: safe_raise safe_ret safe_andthen [OF safe_authorize_rules]
          safe_andthen [OF load], blast+)
qed

text \<open>
  C2: an authorized request is justified, whatever the clock, the cluster, the stores and earlier requests
  did. The caller is the one the credentials name; the rules are those found for the request, at least
  one; and every rule lets the request through for a reason: none is a denial, and each asks for a review
  of its resource in the request's workspace that Kubernetes approved, or reviews of every name the
  request refers to, or applied a filter that narrowed the request, or the request names nothing the rule
  protects; gateway objects come with approved reviews of what they use. Each rule works on the request
  the rule before left, and the handler gets the last one.
\<close>

theorem authorize_request_sound:
  assumes "az_inv env g m ttl w" and "authorize_request srv env rq w = (Inr result, w')"
  shows "authenticate srv rq = Inr (ar_identity result, ar_username result) \<and>
    (\<exists>rq1 ws rq2 rq3. rules_of_request srv env rq rq1 (ar_rules result) \<and>
       resolve_workspace rq (hd (ar_rules result)) rq1 = (ws, rq2) \<and>
       (cf_workspaces_enabled (sv_config srv) \<or> \<not> workspace_api_path (rq_path rq2)) \<and>
       rules_justified env g m (ar_identity result) ws (ar_rules result) rq2 rq3 \<and>
       loads rq3 (ar_request result))"
  using safeD [OF safe_authorize_request assms] by (simp add: request_authorized_def)

text \<open>A server with one route, and a caller with a token whom the cluster lets list experiments.\<close>

definition sample_rule :: rule where
  "sample_rule = experiments_rule (Some ''list'')"

definition sample_server :: server where
  "sample_server =
     \<lparr>sv_config = \<lparr>cf_cache_ttl_seconds = DEFAULT_CACHE_TTL_SECONDS, cf_username_claim = ''sub'',
        cf_authorization_mode = SELF_SUBJECT_ACCESS_REVIEW, cf_user_header = ''x-remote-user'',
        cf_groups_header = ''x-remote-groups'', cf_groups_separator = ''|'', cf_workspaces_enabled = True,
        cf_namespace = None\<rparr>,
      sv_registry = empty_registry\<lparr>auth_rules := [((''/e'', ''GET''), [sample_rule])], rules_compiled := True\<rparr>,
      sv_static = None, sv_claims = (\<lambda>s. None)\<rparr>"

definition sample_call :: request where
  "sample_call = sample_request\<lparr>rq_path := ''/e'', rq_forwarded_access_token := Some ''t''\<rparr>"

definition sample_caller :: identity where
  "sample_caller = \<lparr>id_token = Some ''t'', id_user = None, id_groups = []\<rparr>"

lemma sample_rule_simps [simp]:
  "rule_verb sample_rule = Some ''list''" "rule_resource sample_rule = Some RESOURCE_EXPERIMENTS"
  "rule_subresource sample_rule = None" "resource_name_parsers sample_rule = []"
  "collection_policy sample_rule = None" "override_run_user sample_rule = False"
  "requires_workspace sample_rule = True" "deny sample_rule = False"
  "allow_if_resource_reference_missing sample_rule = False"
  "check_skill_artifact_permissions sample_rule = False"
  by (simp_all add: sample_rule_def rule_defs)

lemma sample_authenticate: "authenticate sample_server sample_call = Inr (sample_caller, None)"
  by code_simp

lemma sample_request_rules: "request_rules sample_server env sample_call w = (Inr (sample_call, [sample_rule]), w)"
proof -
  have canonical: "canonical_route None ''/e'' = ''/e''" by code_simp
  show ?thesis
    by (simp add: request_rules_def sample_call_def sample_server_def sample_request_def endswith_def
        find_authorization_rules_def canonical Let_def eff_defs empty_registry_def)
qed

lemma sample_workspace: "resolve_workspace sample_call r rq = (Some ''ns'', rq)"
  by (simp add: resolve_workspace_def sample_call_def sample_request_def nonempty_def py_strip_def
      py_rstrip_def py_lstrip_def is_space_def opt_text_def)

lemma sample_authorize_rule:
  "fst (authorize_rule (sample_env (\<lambda>a. ra_verb a = ''list'')) sample_caller rq0 (Some ''ns'') sample_rule
      sample_call (sample_world SELF_SUBJECT_ACCESS_REVIEW)) = Inr sample_call"
  by (simp add: authorize_rule_def authorize_verb_def authorize_resource_def finish_access_def
      preserve_scorer_selector_def named_access_def note_missing_reference_def hybrid_rule_def
      collection_access_def enforce_gateway_dependency_permissions_def sample_caller_def resource_defs
      run_defs Let_def eff_defs world_eff_defs subject_hash_def decision_key_def key_attrs_def
      opt_text_def sample_env_def sample_world_def sample_authorizer_def effective_resource_name_def
      normalize_resource_type_def)

theorem authorize_request_sound_witness:
  "approved (sample_env (\<lambda>a. ra_verb a = ''list'')) DEFAULT_AUTH_GROUP SELF_SUBJECT_ACCESS_REVIEW sample_caller
     RESOURCE_EXPERIMENTS ''list'' ''ns'' None None"
proof -
  let ?env = "sample_env (\<lambda>a. ra_verb a = ''list'')" and ?w = "sample_world SELF_SUBJECT_ACCESS_REVIEW"
  obtain w' where rule: "authorize_rule ?env sample_caller sample_call (Some ''ns'') sample_rule sample_call ?w =
      (Inr sample_call, w')"
    using sample_authorize_rule [of sample_call] by (metis prod.collapse)
  have enabled: "cf_workspaces_enabled (sv_config sample_server)" by (simp add: sample_server_def)
  have "authorize_request sample_server ?env sample_call ?w =
      (Inr \<lparr>ar_identity = sample_caller, ar_rules = [sample_rule], ar_request = sample_call, ar_username = None\<rparr>, w')"
    by (simp add: authorize_request_def eff_defs sample_authenticate sample_request_rules sample_workspace
        enabled rule)
  from authorize_request_sound [OF az_inv_sample this]
  obtain rq1 rqc where "access_justified ?env DEFAULT_AUTH_GROUP SELF_SUBJECT_ACCESS_REVIEW sample_caller ''ns''
      RESOURCE_EXPERIMENTS ''list'' sample_rule rq1 rqc"
    by (auto simp: sample_workspace rule_justified_def)
  moreover have "\<not> names_approved ?env g m i ns res verb sample_rule rqc" for g m i ns res verb
    by (simp add: names_approved_def resolve_resource_names_def eff_defs Let_def normalize_values_def dedupe_def)
  ultimately show ?thesis
    by (auto simp: access_justified_def is_graphql_collection_policy_def)
qed

section \<open>Budgets\<close>

text \<open>
  C17: a budget policy that passes is not global. When a create or update of a gateway budget passes the
  scope check, the request has a body, and its target scope under neither spelling is the number one,
  text for it, or \<open>GLOBAL\<close> in any case and with any white space around it. The check fails closed: a
  scope that is a list or an object, and a text of superscript digits, raise a Python error instead.
\<close>

theorem budget_scope_checked:
  "(\<forall>rq' w'. enforce_gateway_budget_scope env rq rule w = (Inr rq', w') \<longrightarrow>
      rule_resource rule = Some RESOURCE_GATEWAY_BUDGETS \<longrightarrow> rule_verb rule \<in> {Some ''create'', Some ''update''} \<longrightarrow>
      (\<exists>d. json_dict rq' = Some d \<and>
         list_all (\<lambda>k. is_global_scope (dget d k) = Inr False) [''target_scope'', ''targetScope''])) \<and>
   is_global_scope (PInt 1) = Inr True \<and> is_global_scope (PStr '' 01 '') = Inr True \<and>
   is_global_scope (PStr '' Global'') = Inr True \<and> is_global_scope (PStr ''WORKSPACE'') = Inr False \<and>
   is_global_scope (PList l) = Inl PyTypeError \<and> is_global_scope (PStr [CHR 0xB2]) = Inl PyValueError"
proof (intro conjI)
  show "\<forall>rq' w'. enforce_gateway_budget_scope env rq rule w = (Inr rq', w') \<longrightarrow>
      rule_resource rule = Some RESOURCE_GATEWAY_BUDGETS \<longrightarrow> rule_verb rule \<in> {Some ''create'', Some ''update''} \<longrightarrow>
      (\<exists>d. json_dict rq' = Some d \<and>
         list_all (\<lambda>k. is_global_scope (dget d k) = Inr False) [''target_scope'', ''targetScope''])"
    by (auto simp: enforce_gateway_budget_scope_def reject_global_scope_def eff_defs
        split: prod.splits sum.splits option.splits bool.splits)
  show "is_global_scope (PStr '' 01 '') = Inr True" "is_global_scope (PStr '' Global'') = Inr True"
    "is_global_scope (PStr ''WORKSPACE'') = Inr False" "is_global_scope (PStr [CHR 0xB2]) = Inl PyValueError"
    by code_simp+
qed (simp_all add: is_global_scope_def)

theorem budget_scope_checked_witness:
  "json_dict (sample_call\<lparr>rq_json_body := PDict [(''target_scope'', PStr ''WORKSPACE'')]\<rparr>) =
     Some [(''target_scope'', PStr ''WORKSPACE'')] \<and>
   is_global_scope (PStr ''WORKSPACE'') = Inr False"
proof -
  let ?rule = "gateway_budgets_rule (Some ''create'')"
  let ?rq = "sample_call\<lparr>rq_json_body := PDict [(''target_scope'', PStr ''WORKSPACE'')]\<rparr>"
  have "is_global_scope (PStr ''WORKSPACE'') = Inr False" "is_global_scope PNone = Inr False" by code_simp+
  then have run: "enforce_gateway_budget_scope env ?rq ?rule w = (Inr ?rq, w)" for env w
    by (simp add: enforce_gateway_budget_scope_def rule_defs resource_defs
        ensure_request_context_json_body_def eff_defs json_dict_def reject_global_scope_def dget_def)
  have rule: "rule_resource ?rule = Some RESOURCE_GATEWAY_BUDGETS" "rule_verb ?rule = Some ''create''"
    by (simp_all add: rule_defs)
  have "\<exists>d. json_dict ?rq = Some d \<and>
      list_all (\<lambda>k. is_global_scope (dget d k) = Inr False) [''target_scope'', ''targetScope'']"
    using budget_scope_checked [of undefined ?rq ?rule undefined] run rule by blast
  then show ?thesis by (auto simp: json_dict_def dget_def)
qed

end
