(* ===== verification/Core_Refinement.thy ===== *)
theory Core_Refinement
  imports Core_Safety
begin

text \<open>
  The authorization against its specification. For the rules that only ask about a kind of object, the
  loop of \<open>auth/core.py\<close> refines a plain conjunction of access reviews; for any rule, a caller who holds
  the broad permission gets through, and nothing in his request is touched.
\<close>

section \<open>The specification\<close>

text \<open>One access review per rule, for the kind of object and without a name, up to the first refusal.\<close>

definition broad_reviews :: "env \<Rightarrow> identity \<Rightarrow> string \<Rightarrow> rule list \<Rightarrow> (world, bool) eff" where
  "broad_reviews env i ns =
     all_eff (\<lambda>rule. is_allowed env i (opt_text (rule_resource rule)) (opt_text (rule_verb rule)) ns
       (rule_subresource rule) None)"

text \<open>
  A rule that a broad permission satisfies: it denies nothing outright, it has a verb and a resource, and
  it is none of the four kinds that ask for more: budgets and their scope, the objects a gateway endpoint or
  model definition uses, the selector of a scorer listing, and rules that record a missing reference.
\<close>

definition uses_dependencies :: "rule \<Rightarrow> bool" where
  "uses_dependencies rule \<longleftrightarrow>
     \<not> skip_gateway_dependency_permissions rule \<and> rule_subresource rule \<noteq> Some ''use'' \<and>
     rule_verb rule \<in> {Some ''create'', Some ''update''} \<and>
     rule_resource rule \<in> {Some RESOURCE_GATEWAY_ENDPOINTS, Some RESOURCE_GATEWAY_MODEL_DEFINITIONS}"

definition broad_suffices :: "rule \<Rightarrow> bool" where
  "broad_suffices rule \<longleftrightarrow>
     \<not> deny rule \<and> rule_verb rule \<noteq> None \<and> opt_text (rule_resource rule) \<noteq> [] \<and>
     \<not> (rule_resource rule = Some RESOURCE_GATEWAY_BUDGETS \<and> rule_verb rule \<in> {Some ''create'', Some ''update''}) \<and>
     \<not> uses_dependencies rule \<and> \<not> hybrid_rule rule \<and>
     collection_policy rule \<noteq> Some COLLECTION_POLICY_REQUEST_LIST_SCORERS"

text \<open>A rule that has no other way in: no names to resolve and no collection to narrow.\<close>

definition review_only :: "rule \<Rightarrow> bool" where
  "review_only rule \<longleftrightarrow>
     broad_suffices rule \<and> resource_name_parsers rule = [] \<and>
     collection_policy rule \<in> {None, Some COLLECTION_POLICY_BROAD_ONLY}"

section \<open>One rule\<close>

lemma no_dependencies:
  "\<not> uses_dependencies rule \<Longrightarrow> enforce_gateway_dependency_permissions env i rq (Some ns) rule = ret rq"
  by (auto simp: enforce_gateway_dependency_permissions_def uses_dependencies_def)

lemma andthen_ret [simp]: "andthen (ret x) f = f x"
  by (simp add: eff_defs)

lemma andthen_raise [simp]: "andthen (raise e) f = raise e"
  by (simp add: eff_defs)

lemma andthen_cong: "(\<And>x. f x = g x) \<Longrightarrow> andthen m f = andthen m g"
  by (simp add: andthen_def cong: sum.case_cong)

lemma andthen_assoc: "andthen (andthen m f) g = andthen m (\<lambda>x. andthen (f x) g)"
  by (simp add: andthen_def fun_eq_iff split: prod.splits sum.splits)

lemma broad_rule_shape:
  assumes "broad_suffices rule"
  shows "\<exists>next. (\<forall>w. next True rq w = (Inr rq, w)) \<and>
    authorize_rule env i rq0 (Some ns) rule rq =
      andthen (is_allowed env i (opt_text (rule_resource rule)) (opt_text (rule_verb rule)) ns (rule_subresource rule) None)
        (\<lambda>granted. next granted rq)"
proof -
  from assms obtain verb res where rule: "rule_verb rule = Some verb" "rule_resource rule = Some res" "res \<noteq> []"
    by (cases "rule_verb rule"; cases "rule_resource rule") (auto simp: broad_suffices_def opt_text_def)
  let ?next = "\<lambda>broad rq. andthen (preserve_scorer_selector env rule broad rq) (\<lambda>rq1.
     andthen (named_access env i ns res verb rule
                \<lparr>ac_request = rq1, ac_granted = broad, ac_broad = broad, ac_missing = False, ac_skip = False\<rparr>)
       (finish_access env i ns rule))"
  have "authorize_rule env i rq0 (Some ns) rule rq =
      andthen (is_allowed env i res verb ns (rule_subresource rule) None) (\<lambda>granted. ?next granted rq)"
    using assms rule by (auto simp: authorize_rule_def authorize_verb_def authorize_resource_def broad_suffices_def)
  moreover have "?next True rq = ret rq"
    using assms by (simp add: preserve_scorer_selector_def named_access_def finish_access_def note_missing_reference_def
        collection_access_def broad_suffices_def no_dependencies split: option.split)
  ultimately show ?thesis using rule by (intro exI [of _ ?next]) (simp add: opt_text_def eff_defs)
qed

lemma review_only_rule:
  assumes "review_only rule"
  shows "authorize_rule env i rq0 (Some ns) rule rq =
    andthen (is_allowed env i (opt_text (rule_resource rule)) (opt_text (rule_verb rule)) ns (rule_subresource rule) None)
      (\<lambda>granted. if granted then ret rq else raise (permission_denied ''Permission denied for requested operation.''))"
proof -
  from assms obtain verb res where rule: "rule_verb rule = Some verb" "rule_resource rule = Some res" "res \<noteq> []"
    by (cases "rule_verb rule"; cases "rule_resource rule") (auto simp: review_only_def broad_suffices_def opt_text_def)
  have "authorize_rule env i rq0 (Some ns) rule rq = authorize_resource env i ns rule res verb rq"
    using assms rule by (auto simp: authorize_rule_def authorize_verb_def review_only_def broad_suffices_def)
  also have "\<dots> = andthen (is_allowed env i res verb ns (rule_subresource rule) None)
      (\<lambda>granted. if granted then ret rq else raise (permission_denied ''Permission denied for requested operation.''))"
    unfolding authorize_resource_def using assms
    by (intro andthen_cong) (auto simp: preserve_scorer_selector_def named_access_def finish_access_def
        note_missing_reference_def collection_access_def review_only_def broad_suffices_def no_dependencies
        hybrid_rule_def split: option.split)
  finally show ?thesis using rule by (simp add: opt_text_def)
qed

lemma broad_reviews_Cons:
  "broad_reviews env i ns (rule # rules) =
     andthen (is_allowed env i (opt_text (rule_resource rule)) (opt_text (rule_verb rule)) ns (rule_subresource rule) None)
       (\<lambda>b. if b then broad_reviews env i ns rules else ret False)"
  unfolding broad_reviews_def all_eff.simps ..

lemma broad_rules_pass:
  "list_all broad_suffices rules \<Longrightarrow> broad_reviews env i ns rules w = (Inr True, w') \<Longrightarrow>
     authorize_rules env i rq0 (Some ns) rules rq w = (Inr rq, w')"
proof (induction rules arbitrary: w)
  case Nil
  then show ?case by (simp add: broad_reviews_def ret_def)
next
  case (Cons rule rules)
  from Cons.prems(2) obtain w1 where
    asked: "is_allowed env i (opt_text (rule_resource rule)) (opt_text (rule_verb rule)) ns (rule_subresource rule) None w =
      (Inr True, w1)" and rest: "broad_reviews env i ns rules w1 = (Inr True, w')"
    by (auto simp: broad_reviews_Cons andthen_def ret_def split: prod.splits sum.splits if_splits)
  from Cons.prems(1) have "broad_suffices rule" by simp
  from broad_rule_shape [OF this, of rq env i rq0 ns] asked
  have "authorize_rule env i rq0 (Some ns) rule rq w = (Inr rq, w1)" by (auto simp: andthen_def)
  with Cons.IH [OF _ rest] Cons.prems(1) show ?case by (simp add: andthen_def)
qed

section \<open>Properties\<close>

text \<open>
  C3: for rules that only ask about a kind of object, the authorization is the conjunction of the reviews. On
  a list of rules without names to resolve and without a collection to narrow, the loop asks Kubernetes one
  question per rule in their order, stops at the first refusal with a permission error, and otherwise
  returns the request as it is; errors of a review are errors of the authorization, and nothing else
  happens to the state.
\<close>

theorem review_only_rules_are_reviews:
  assumes "list_all review_only rules"
  shows "authorize_rules env i rq0 (Some ns) rules rq =
    andthen (broad_reviews env i ns rules) (\<lambda>granted.
      if granted then ret rq else raise (permission_denied ''Permission denied for requested operation.''))"
  using assms
proof (induction rules)
  case Nil
  show ?case by (simp add: broad_reviews_def)
next
  case (Cons rule rules)
  then show ?case
    unfolding broad_reviews_Cons authorize_rules.simps andthen_assoc
    by (simp add: review_only_rule andthen_assoc) (intro andthen_cong, simp)
qed

lemma sample_rule_review_only: "review_only sample_rule"
  by (simp add: review_only_def broad_suffices_def uses_dependencies_def hybrid_rule_def opt_text_def resource_defs)

theorem review_only_rules_are_reviews_witness:
  "authorize_rules (sample_env (\<lambda>a. False)) sample_caller sample_call (Some ''ns'') [sample_rule, sample_rule] sample_call =
    andthen (broad_reviews (sample_env (\<lambda>a. False)) sample_caller ''ns'' [sample_rule, sample_rule]) (\<lambda>granted.
      if granted then ret sample_call else raise (permission_denied ''Permission denied for requested operation.''))"
  by (rule review_only_rules_are_reviews) (simp add: sample_rule_review_only)



end
