(* ===== verification/Graphql_Middleware.thy ===== *)
theory Graphql_Middleware
  imports Core Core_Safety
begin

text \<open>
  The second half of \<open>auth/graphql.py\<close>: the check at start-up that every field of the GraphQL schema
  has authorization entries, and \<open>KubernetesGraphQLAuthorizationMiddleware\<close>, which runs in front of
  every field resolver and narrows the input of collection fields to what the caller may read.
\<close>

section \<open>The check at start-up\<close>

text \<open>
  The schema is what MLflow's \<open>graphql_schema\<close> gives: the field names of the query and of the mutation
  type, none if the schema has no such type.
\<close>

definition uncovered_fields :: "string \<Rightarrow> string list option \<Rightarrow> (string \<times> string) list \<Rightarrow> string list" where
  "uncovered_fields type_name type_fields table =
     (case type_fields of
        None \<Rightarrow> []
      | Some names \<Rightarrow>
          map (\<lambda>f. type_name @ ''.'' @ f) (filter (\<lambda>f. \<not> startswith f ''__'' \<and> map_of table f = None) names))"

definition missing_from ::
  "string list option \<Rightarrow> string list option \<Rightarrow> (string \<times> string) list \<Rightarrow> string list" where
  "missing_from query_fields mutation_fields table =
     uncovered_fields ''Query'' query_fields table @ uncovered_fields ''Mutation'' mutation_fields table"

definition invalid_single_object_policy :: "string list" where
  "invalid_single_object_policy =
     map fst (filter (\<lambda>(f, p). p = GRAPHQL_FIELD_AUTH_POLICY_SINGLE_OBJECT \<and>
       map_of GRAPHQL_FIELD_RESOURCE_MAP f \<noteq> None \<and> map_of GRAPHQL_FIELD_RESOURCE_NAME_PARSERS f = None)
       GRAPHQL_FIELD_AUTH_POLICY_MAP)"

definition invalid_non_single_object_policy :: "string list" where
  "invalid_non_single_object_policy =
     map fst (filter (\<lambda>(f, ps). ps \<noteq> [] \<and>
       map_of GRAPHQL_FIELD_AUTH_POLICY_MAP f \<noteq> Some GRAPHQL_FIELD_AUTH_POLICY_SINGLE_OBJECT)
       GRAPHQL_FIELD_RESOURCE_NAME_PARSERS)"

definition coverage_error :: "string \<Rightarrow> string list \<Rightarrow> string list" where
  "coverage_error heading names = (if names = [] then [] else [heading @ py_join '', '' (sort names)])"

definition graphql_coverage_errors :: "string list option \<Rightarrow> string list option \<Rightarrow> string list" where
  "graphql_coverage_errors query_fields mutation_fields =
     coverage_error ''Missing from GRAPHQL_FIELD_RESOURCE_MAP: ''
       (missing_from query_fields mutation_fields GRAPHQL_FIELD_RESOURCE_MAP) @
     coverage_error ''Missing from GRAPHQL_FIELD_VERB_MAP: ''
       (missing_from query_fields mutation_fields GRAPHQL_FIELD_VERB_MAP) @
     coverage_error ''Missing from GRAPHQL_FIELD_AUTH_POLICY_MAP: ''
       (missing_from query_fields mutation_fields GRAPHQL_FIELD_AUTH_POLICY_MAP) @
     coverage_error ''Missing single-object GraphQL resource-name policy: '' invalid_single_object_policy @
     coverage_error ''GraphQL resource-name parsers are only valid for single-object fields: ''
       invalid_non_single_object_policy"

definition validate_graphql_field_authorization ::
  "string list option \<Rightarrow> string list option \<Rightarrow> exc + unit" where
  "validate_graphql_field_authorization query_fields mutation_fields =
     (let errors = graphql_coverage_errors query_fields mutation_fields in
      if errors = [] then Inr ()
      else Inl (MlflowExc INTERNAL_ERROR
        (''Kubernetes auth plugin is missing GraphQL field authorization coverage. '' @ py_join ''; '' errors)))"

section \<open>The resolver middleware\<close>

text \<open>
  The \<open>input\<close> argument of a field: its entries if it is a mutable mapping, its attributes, and which
  attributes can be assigned. Graphene's input objects are mappings with attributes.
\<close>

record input_object =
  in_mapping :: "pdict option"
  in_attrs :: pdict
  in_settable :: "string \<Rightarrow> bool"

text \<open>What a call of the middleware does: it answers null, or it calls the next resolver with the input.\<close>

datatype resolution = NullField | NextResolver "input_object option"

text \<open>\<open>str(value)\<close>, where \<open>text_of\<close> is Python's text of a float, a list or a dictionary.\<close>

fun py_str :: "(pv \<Rightarrow> string) \<Rightarrow> pv \<Rightarrow> string" where
  "py_str text_of (PStr s) = s"
| "py_str text_of (PInt n) = int_text n"
| "py_str text_of (PBool b) = (if b then ''True'' else ''False'')"
| "py_str text_of PNone = ''None''"
| "py_str text_of v = text_of v"

text \<open>The elements of a value in a \<open>for\<close> clause.\<close>

fun py_iter :: "pv \<Rightarrow> exc + pv list" where
  "py_iter (PList l) = Inr l"
| "py_iter (PStr s) = Inr (map (\<lambda>c. PStr [c]) s)"
| "py_iter (PDict d) = Inr (map (PStr \<circ> fst) d)"
| "py_iter _ = Inl PyTypeError"

definition resolved_workspace_name :: "authorization_result \<Rightarrow> string option" where
  "resolved_workspace_name r = nonempty (py_strip (opt_text (rq_workspace (ar_request r))))"

definition existing_filter :: "input_object \<Rightarrow> pv" where
  "existing_filter inp =
     (let d = (case in_mapping inp of Some d \<Rightarrow> d | None \<Rightarrow> in_attrs inp);
          v = (if dhas d ''filter'' then dget d ''filter'' else PStr [])
      in if v = PNone then PStr [] else v)"

text \<open>Writing the narrowed filter back; no result when an attribute cannot be assigned.\<close>

definition set_attr :: "string \<Rightarrow> pv \<Rightarrow> input_object \<Rightarrow> input_object option" where
  "set_attr k v inp =
     (if in_settable inp k then Some (inp\<lparr>in_attrs := AList.update k v (in_attrs inp)\<rparr>) else None)"

definition narrow_filter :: "string \<Rightarrow> input_object \<Rightarrow> input_object option" where
  "narrow_filter text inp =
     (case in_mapping inp of
        Some d \<Rightarrow>
          (let inp1 = inp\<lparr>in_mapping := Some (AList.update ''filter'' (PStr text) d)\<rparr>
           in if dhas (in_attrs inp) ''filter'' then set_attr ''filter'' (PStr text) inp1 else Some inp1)
      | None \<Rightarrow> set_attr ''filter'' (PStr text) inp)"

definition resolve_request_scope ::
  "env \<Rightarrow> authorization_result \<Rightarrow> string \<Rightarrow> input_object option \<Rightarrow> (world, resolution) eff" where
  "resolve_request_scope env r ns input =
     andthen (is_allowed env (ar_identity r) RESOURCE_REGISTERED_MODELS ''list'' ns None None) (\<lambda>broad.
       if broad then ret (NextResolver input)
       else case input of
         None \<Rightarrow> ret NullField
       | Some inp \<Rightarrow>
           andthen (apply_request_collection_filter env (ar_identity r) ns
              (Some COLLECTION_POLICY_REQUEST_SEARCH_MODEL_VERSIONS)
              ((ar_request r)\<lparr>rq_method := ''GET'', rq_query_params := [(''filter'', existing_filter inp)]\<rparr>))
             (\<lambda>(updated, applied). ret (
                if \<not> applied then NullField
                else case dget (rq_query_params updated) ''filter'' of
                  PStr text \<Rightarrow>
                    (case narrow_filter text inp of None \<Rightarrow> NullField | Some inp' \<Rightarrow> NextResolver (Some inp'))
                | _ \<Rightarrow> NullField)))"

definition input_experiment_ids :: "input_object option \<Rightarrow> pv" where
  "input_experiment_ids input =
     (case input of
        None \<Rightarrow> PList []
      | Some inp \<Rightarrow>
          (let d = (case in_mapping inp of Some d \<Rightarrow> d | None \<Rightarrow> in_attrs inp)
           in py_or (py_or (dget d ''experiment_ids'') (dget d ''experimentIds'')) (PList [])))"

text \<open>Assigning an attribute outside the \<open>try\<close>: an attribute that cannot be assigned is an exception.\<close>

definition narrow_ids :: "pv \<Rightarrow> input_object \<Rightarrow> exc + input_object" where
  "narrow_ids ids inp =
     (let inp1 =
        (case in_mapping inp of
           None \<Rightarrow> inp
         | Some d \<Rightarrow>
             if dhas d ''experiment_ids'' then inp\<lparr>in_mapping := Some (AList.update ''experiment_ids'' ids d)\<rparr>
             else if dhas d ''experimentIds'' then inp\<lparr>in_mapping := Some (AList.update ''experimentIds'' ids d)\<rparr>
             else inp);
          assign = (\<lambda>k. case set_attr k ids inp1 of None \<Rightarrow> Inl OtherExc | Some inp2 \<Rightarrow> Inr inp2)
      in if dhas (in_attrs inp) ''experiment_ids'' then assign ''experiment_ids''
         else if dhas (in_attrs inp) ''experimentIds'' then assign ''experimentIds''
         else Inr inp1)"

definition resolve_request_filter ::
  "env \<Rightarrow> (pv \<Rightarrow> string) \<Rightarrow> authorization_result \<Rightarrow> string \<Rightarrow> input_object option \<Rightarrow> (world, resolution) eff" where
  "resolve_request_filter env text_of r ns input =
     (let ids = input_experiment_ids input in
      if \<not> truthy ids then ret (NextResolver input)
      else
        andthen (lift (py_iter ids)) (\<lambda>items.
        andthen (filter_graphql_experiment_ids env (ar_identity r) ns (map (py_str text_of) items)) (\<lambda>readable_ids.
          if readable_ids = [] then ret NullField
          else case input of
            None \<Rightarrow> ret (NextResolver None)
          | Some inp \<Rightarrow>
              andthen (lift (narrow_ids (PList (map PStr readable_ids)) inp)) (\<lambda>inp'.
                ret (NextResolver (Some inp'))))))"

text \<open>
  \<open>resolve\<close>: \<open>handled\<close> is the value of \<open>_AUTHORIZATION_HANDLED\<close>, the result of authorizing the request
  that carries the query.
\<close>

definition graphql_resolve ::
  "env \<Rightarrow> (pv \<Rightarrow> string) \<Rightarrow> authorization_result option \<Rightarrow> string \<Rightarrow> input_object option \<Rightarrow>
   (world, resolution) eff" where
  "graphql_resolve env text_of handled field_name input =
     (let policy = map_of GRAPHQL_FIELD_AUTH_POLICY_MAP field_name in
      if policy \<notin> {Some GRAPHQL_FIELD_AUTH_POLICY_REQUEST_FILTER, Some GRAPHQL_FIELD_AUTH_POLICY_REQUEST_SCOPE}
      then ret (NextResolver input)
      else case handled of
        None \<Rightarrow> ret NullField
      | Some r \<Rightarrow>
          (case resolved_workspace_name r of
             None \<Rightarrow> ret NullField
           | Some ns \<Rightarrow>
               if policy = Some GRAPHQL_FIELD_AUTH_POLICY_REQUEST_SCOPE
               then resolve_request_scope env r ns input
               else resolve_request_filter env text_of r ns input))"

section \<open>What the resolver is given\<close>

text \<open>
  The scope policy: all models were approved and the input is as it was, or a model version search was
  narrowed to approved names and its filter is the one the next resolver finds in the input, in the
  mapping and in the attribute.
\<close>

definition scope_resolved ::
  "env \<Rightarrow> string \<Rightarrow> auth_mode \<Rightarrow> authorization_result \<Rightarrow> string \<Rightarrow> input_object option \<Rightarrow> input_object option \<Rightarrow> bool" where
  "scope_resolved env g m r ns input input' \<longleftrightarrow>
     (input' = input \<and> approved env g m (ar_identity r) RESOURCE_REGISTERED_MODELS ''list'' ns None None) \<or>
     (\<exists>inp inp' updated text. input = Some inp \<and> input' = Some inp' \<and>
        filter_justified env g m (ar_identity r) ns (Some COLLECTION_POLICY_REQUEST_SEARCH_MODEL_VERSIONS)
          ((ar_request r)\<lparr>rq_method := ''GET'', rq_query_params := [(''filter'', existing_filter inp)]\<rparr>) updated \<and>
        dget (rq_query_params updated) ''filter'' = PStr text \<and> existing_filter inp' = PStr text \<and>
        (dhas (in_attrs inp') ''filter'' \<longrightarrow> dget (in_attrs inp') ''filter'' = PStr text))"

text \<open>
  The filter policy: the input names no experiments and is as it was, or the identifiers the next resolver
  finds, in the mapping or else in the attributes, are some of those asked for, all readable.
\<close>

definition filter_resolved ::
  "env \<Rightarrow> (pv \<Rightarrow> string) \<Rightarrow> string \<Rightarrow> auth_mode \<Rightarrow> authorization_result \<Rightarrow> string \<Rightarrow>
   input_object option \<Rightarrow> input_object option \<Rightarrow> bool" where
  "filter_resolved env text_of g m r ns input input' \<longleftrightarrow>
     (input' = input \<and> \<not> truthy (input_experiment_ids input)) \<or>
     (\<exists>inp' ids items. input' = Some inp' \<and> ids \<noteq> [] \<and>
        input_experiment_ids input' = PList (map PStr ids) \<and>
        (dhas (in_attrs inp') ''experiment_ids'' \<longrightarrow> dget (in_attrs inp') ''experiment_ids'' = PList (map PStr ids)) \<and>
        py_iter (input_experiment_ids input) = Inr items \<and>
        set ids \<subseteq> set (normalize_values (PList (map (PStr \<circ> py_str text_of) items))) \<and>
        list_all (experiment_readable env g m (ar_identity r) ns) ids)"

lemma narrow_filter_reads_back:
  assumes "narrow_filter text inp = Some inp'"
  shows "existing_filter inp' = PStr text" and
    "dhas (in_attrs inp') ''filter'' \<longrightarrow> dget (in_attrs inp') ''filter'' = PStr text"
  using assms
  by (auto simp: narrow_filter_def set_attr_def existing_filter_def Let_def split: option.splits if_splits)

lemma narrow_ids_reads_back:
  assumes "narrow_ids (PList ids) inp = Inr inp'" and "ids \<noteq> []"
    and "truthy (input_experiment_ids (Some inp))"
  shows "input_experiment_ids (Some inp') = PList ids" and
    "dhas (in_attrs inp') ''experiment_ids'' \<longrightarrow> dget (in_attrs inp') ''experiment_ids'' = PList ids"
proof -
  let ?d = "case in_mapping inp of Some d \<Rightarrow> d | None \<Rightarrow> in_attrs inp"
  have named: "dhas ?d ''experiment_ids'' \<or> (dhas ?d ''experimentIds'' \<and> dget ?d ''experiment_ids'' = PNone)"
  proof (rule ccontr)
    assume "\<not> ?thesis"
    then have "dget ?d ''experiment_ids'' = PNone" "dget ?d ''experimentIds'' = PNone"
      using dget_not_dhas by blast+
    then show False using assms(3) by (simp add: input_experiment_ids_def py_or_def)
  qed
  show "input_experiment_ids (Some inp') = PList ids"
  proof (cases "in_mapping inp")
    case None
    with assms(1,2) named show ?thesis
      by (auto simp: narrow_ids_def set_attr_def input_experiment_ids_def py_or_def Let_def
          split: option.splits if_splits)
  next
    case (Some d)
    have "in_mapping inp' = Some (AList.update (if dhas d ''experiment_ids'' then ''experiment_ids''
        else ''experimentIds'') (PList ids) d)"
      using assms(1) named Some
      by (auto simp: narrow_ids_def set_attr_def Let_def split: option.splits if_splits)
    with assms(2) named Some show ?thesis
      by (auto simp: input_experiment_ids_def py_or_def split: if_splits)
  qed
  show "dhas (in_attrs inp') ''experiment_ids'' \<longrightarrow> dget (in_attrs inp') ''experiment_ids'' = PList ids"
    using assms(1)
    by (auto simp: narrow_ids_def set_attr_def Let_def split: option.splits if_splits)
qed

lemma safe_resolve_request_scope:
  "safe (az_inv env g m ttl) (resolve_request_scope env r ns input)
     (\<lambda>res. \<forall>input'. res = NextResolver input' \<longrightarrow> scope_resolved env g m r ns input input')"
  unfolding resolve_request_scope_def
proof (rule safe_andthen [OF safe_is_allowed], rule safe_if)
  fix broad
  assume "broad \<longrightarrow> approved env g m (ar_identity r) RESOURCE_REGISTERED_MODELS ''list'' ns None None" broad
  then show "safe (az_inv env g m ttl) (ret (NextResolver input))
      (\<lambda>res. \<forall>input'. res = NextResolver input' \<longrightarrow> scope_resolved env g m r ns input input')"
    by (auto intro!: safe_ret simp: scope_resolved_def)
next
  fix broad :: bool
  show "safe (az_inv env g m ttl)
      (case input of
         None \<Rightarrow> ret NullField
       | Some inp \<Rightarrow>
           andthen (apply_request_collection_filter env (ar_identity r) ns
              (Some COLLECTION_POLICY_REQUEST_SEARCH_MODEL_VERSIONS)
              ((ar_request r)\<lparr>rq_method := ''GET'', rq_query_params := [(''filter'', existing_filter inp)]\<rparr>))
             (\<lambda>(updated, applied). ret (
                if \<not> applied then NullField
                else case dget (rq_query_params updated) ''filter'' of
                  PStr text \<Rightarrow>
                    (case narrow_filter text inp of None \<Rightarrow> NullField | Some inp' \<Rightarrow> NextResolver (Some inp'))
                | _ \<Rightarrow> NullField)))
      (\<lambda>res. \<forall>input'. res = NextResolver input' \<longrightarrow> scope_resolved env g m r ns input input')"
  proof (cases input)
    case (Some inp)
    show ?thesis unfolding Some option.case
    proof (rule safe_andthen [OF safe_apply_collection_filter], clarify)
      fix updated applied
      assume filt: "applied \<longrightarrow> filter_justified env g m (ar_identity r) ns
        (Some COLLECTION_POLICY_REQUEST_SEARCH_MODEL_VERSIONS)
        ((ar_request r)\<lparr>rq_method := ''GET'', rq_query_params := [(''filter'', existing_filter inp)]\<rparr>) updated"
      have "scope_resolved env g m r ns (Some inp) (Some inp')"
        if "applied" "dget (rq_query_params updated) ''filter'' = PStr t" "narrow_filter t inp = Some inp'"
        for t inp'
        unfolding scope_resolved_def using filt that narrow_filter_reads_back [OF that(3)] by blast
      then show "safe (az_inv env g m ttl)
        (ret (if \<not> applied then NullField
              else case dget (rq_query_params updated) ''filter'' of
                PStr text \<Rightarrow>
                  (case narrow_filter text inp of None \<Rightarrow> NullField | Some inp' \<Rightarrow> NextResolver (Some inp'))
              | _ \<Rightarrow> NullField))
        (\<lambda>res. \<forall>input'. res = NextResolver input' \<longrightarrow> scope_resolved env g m r ns (Some inp) input')"
        by (auto intro!: safe_ret split: pv.splits option.splits if_splits)
    qed
  qed (simp add: safe_ret)
qed

lemma safe_filter_graphql_ids:
  "safe (az_inv env g m ttl) (filter_graphql_experiment_ids env i ns xs)
     (\<lambda>ys. list_all (experiment_readable env g m i ns) ys \<and> set ys \<subseteq> set (normalize_values (PList (map PStr xs))))"
  unfolding filter_graphql_experiment_ids_def filter_readable_experiment_ids_def
  by (rule safe_weaken [OF safe_filter_eff [OF safe_can_read(1)]]) (simp add: list_all_iff)

lemma safe_resolve_request_filter:
  "safe (az_inv env g m ttl) (resolve_request_filter env text_of r ns input)
     (\<lambda>res. \<forall>input'. res = NextResolver input' \<longrightarrow> filter_resolved env text_of g m r ns input input')"
proof (cases "truthy (input_experiment_ids input)")
  case False
  then show ?thesis by (auto simp: resolve_request_filter_def filter_resolved_def intro!: safe_ret)
next
  case True
  then obtain inp where inp: "input = Some inp" by (cases input) (simp_all add: input_experiment_ids_def)
  show ?thesis
    unfolding resolve_request_filter_def inp option.case Let_def
    apply (rule safe_if, use True inp in simp)
    apply (rule safe_andthen [OF safe_lift [where Q = "\<lambda>items. py_iter (input_experiment_ids (Some inp)) = Inr items"]],
        assumption)
    apply (rule safe_andthen [OF safe_filter_graphql_ids], rule safe_if, rule safe_ret, simp)
    subgoal for items ids
      apply (rule safe_andthen [OF safe_lift [where Q = "\<lambda>inp'. narrow_ids (PList (map PStr ids)) inp = Inr inp'"]],
          assumption)
      apply (rule safe_ret)
      using True narrow_ids_reads_back [of "map PStr ids" inp]
      by (auto simp: filter_resolved_def inp comp_def)
    done
qed

section \<open>Properties\<close>



text \<open>The fields of the schema that a query can ask for and that are not introspection.\<close>

definition schema_field :: "string list option \<Rightarrow> string list option \<Rightarrow> string \<Rightarrow> bool" where
  "schema_field query_fields mutation_fields f \<longleftrightarrow>
     \<not> startswith f ''__'' \<and>
     (list_ex (\<lambda>fs. f \<in> set fs) (case query_fields of None \<Rightarrow> [] | Some fs \<Rightarrow> [fs]) \<or>
      list_ex (\<lambda>fs. f \<in> set fs) (case mutation_fields of None \<Rightarrow> [] | Some fs \<Rightarrow> [fs]))"

lemma uncovered_fields_none:
  "uncovered_fields t tf table = [] \<Longrightarrow> tf = Some names \<Longrightarrow> f \<in> set names \<Longrightarrow>
   \<not> startswith f ''__'' \<Longrightarrow> map_of table f \<noteq> None"
  by (force simp: uncovered_fields_def filter_empty_conv)

lemma missing_from_none:
  "missing_from q m table = [] \<Longrightarrow> schema_field q m f \<Longrightarrow> map_of table f \<noteq> None"
  by (auto simp: missing_from_def schema_field_def dest: uncovered_fields_none split: option.splits)

lemma coverage_error_none: "coverage_error heading names = [] \<longleftrightarrow> names = []"
  by (simp add: coverage_error_def)

lemma validated_tables:
  assumes "validate_graphql_field_authorization q m = Inr ()" and "schema_field q m f"
  shows "map_of GRAPHQL_FIELD_RESOURCE_MAP f \<noteq> None" "map_of GRAPHQL_FIELD_VERB_MAP f \<noteq> None"
    "map_of GRAPHQL_FIELD_AUTH_POLICY_MAP f \<noteq> None"
  using assms missing_from_none
  by (auto simp: validate_graphql_field_authorization_def graphql_coverage_errors_def coverage_error_none
      Let_def split: if_splits)

lemma known_fields_stay_known:
  "\<forall>f \<in> set fs. map_of GRAPHQL_FIELD_RESOURCE_MAP f \<noteq> None \<Longrightarrow>
   gr_unknown (fold (graphql_field_step i) fs g) = gr_unknown g"
proof (induction fs arbitrary: g)
  case (Cons f fs)
  then obtain res where "map_of GRAPHQL_FIELD_RESOURCE_MAP f = Some res" by auto
  then have "gr_unknown (graphql_field_step i f g) = gr_unknown g"
    by (simp add: graphql_field_step_def Let_def)
  with Cons show ?case by simp
qed simp

text \<open>
  C15: a server that starts can authorize its whole GraphQL schema. If the check at start-up passes, every
  field of the query and mutation types but introspection has a resource, a verb and a policy in the tables,
  every query whose root fields are such fields gets authorization rules, and a single-object field
  among them brings its name parsers.
\<close>

theorem started_schema_has_rules:
  assumes "validate_graphql_field_authorization query_fields mutation_fields = Inr ()"
    and "gql_root_fields i \<noteq> []" and "list_all (schema_field query_fields mutation_fields) (gql_root_fields i)"
  shows "determine_graphql_rules i \<noteq> None \<and>
    list_all (\<lambda>f. map_of GRAPHQL_FIELD_RESOURCE_MAP f \<noteq> None \<and> map_of GRAPHQL_FIELD_VERB_MAP f \<noteq> None \<and>
      map_of GRAPHQL_FIELD_AUTH_POLICY_MAP f \<noteq> None \<and>
      (field_policy f = GRAPHQL_FIELD_AUTH_POLICY_SINGLE_OBJECT \<longrightarrow> field_parsers f \<noteq> [])) (gql_root_fields i)"
proof -
  let ?g = "graphql_rules_state i"
  have known: "map_of GRAPHQL_FIELD_RESOURCE_MAP f \<noteq> None" "map_of GRAPHQL_FIELD_VERB_MAP f \<noteq> None"
    "map_of GRAPHQL_FIELD_AUTH_POLICY_MAP f \<noteq> None" if "f \<in> set (gql_root_fields i)" for f
    using validated_tables [OF assms(1), of f] that assms(3) by (auto simp: list_all_iff)
  have "gr_unknown ?g = []"
    unfolding graphql_rules_state_def by (subst known_fields_stay_known) (use known(1) in auto)
  moreover obtain f where f: "f \<in> set (gql_root_fields i)" using assms(2) by (cases "gql_root_fields i") auto
  then have "gr_rules ?g \<noteq> []"
    using rules_state_cover [of i] known(1) [OF f] unfolding rules_cover_def by fastforce
  ultimately have "determine_graphql_rules i \<noteq> None" by (simp add: determine_graphql_rules_def Let_def)
  moreover have "field_parsers f \<noteq> []"
    if "map_of GRAPHQL_FIELD_AUTH_POLICY_MAP f = Some GRAPHQL_FIELD_AUTH_POLICY_SINGLE_OBJECT" for f
  proof -
    have "list_all (\<lambda>(f, p). p = GRAPHQL_FIELD_AUTH_POLICY_SINGLE_OBJECT \<longrightarrow> field_parsers f \<noteq> [])
        GRAPHQL_FIELD_AUTH_POLICY_MAP" by code_simp
    with map_of_SomeD [OF that] show ?thesis by (auto simp: list_all_iff)
  qed
  moreover have "map_of GRAPHQL_FIELD_AUTH_POLICY_MAP f = Some (field_policy f)" if "f \<in> set (gql_root_fields i)" for f
    using known(3) [OF that] by (auto simp: field_policy_def)
  ultimately show ?thesis using known by (auto simp: list_all_iff)
qed

theorem started_schema_has_rules_witness:
  "determine_graphql_rules (empty_info\<lparr>gql_root_fields := [''mlflowGetRun'']\<rparr>) \<noteq> None"
proof -
  have "validate_graphql_field_authorization (Some [''mlflowGetRun'', ''__typename'']) (Some [''testMutation'']) = Inr ()"
    "list_all (schema_field (Some [''mlflowGetRun'', ''__typename'']) (Some [''testMutation'']))
       (gql_root_fields (empty_info\<lparr>gql_root_fields := [''mlflowGetRun'']\<rparr>))"
    by code_simp+
  from started_schema_has_rules [OF this(1) _ this(2)] show ?thesis by simp
qed

end
