(* ===== verification/Middleware.thy ===== *)
theory Middleware
  imports Graphql_Middleware
begin

text \<open>
  \<open>auth/middleware.py\<close>: \<open>KubernetesAuthMiddleware\<close>, through which every request of the server passes.
  A request is authorized, what authorization narrowed is written back into the request, the handler
  runs, and the answer is filtered. The handler is a parameter.
\<close>

section \<open>Requests and responses\<close>

text \<open>
  The ASGI request: the scope, the body as \<open>await request.body()\<close> gives it, and the three entries the
  middleware keeps in the state of the scope. ASGI gives header names in lower case.
\<close>

record http_request =
  hq_method :: string
  hq_url_path :: string
  hq_scope_path :: "string option"
  hq_root_path :: "string option"
  hq_has_app :: bool
  hq_headers :: "(string \<times> string) list"
  hq_query_string :: string
  hq_path_params :: pdict
  hq_body :: "exc + string"
  hq_raw :: string
  hq_json :: pv
  hq_loaded :: bool

record http_response =
  hr_status :: int
  hr_headers :: "(string \<times> string) list"
  hr_body :: string

text \<open>
  The libraries: JSON of a body (bytes, with the encoding detected), of a response (decoded as UTF-8),
  and back; query strings; MLflow's workspace header and \<open>resolve_workspace_from_header\<close>; \<open>str\<close> of a number or container.
\<close>

record http_lib =
  lib_loads :: "string \<Rightarrow> pv option"
  lib_loads_utf8 :: "string \<Rightarrow> pv option"
  lib_dumps :: "pdict \<Rightarrow> string"
  lib_urlencode :: "(string \<times> string) list \<Rightarrow> string"
  lib_parse_query :: "string \<Rightarrow> (string \<times> string) list"
  lib_workspace_header :: string
  lib_workspace_of_header :: "string option \<Rightarrow> exc + string option"
  lib_text_of :: "pv \<Rightarrow> string"

text \<open>Equality of Python values: numbers compare by value, dictionaries without regard to order.\<close>

fun py_number :: "pv \<Rightarrow> real option" where
  "py_number (PBool b) = Some (if b then 1 else 0)"
| "py_number (PInt i) = Some (of_int i)"
| "py_number (PFloat r) = Some r"
| "py_number _ = None"

fun py_eq :: "pv \<Rightarrow> pv \<Rightarrow> bool"
  and py_eq_list :: "pv list \<Rightarrow> pv list \<Rightarrow> bool"
  and py_eq_entries :: "pdict \<Rightarrow> pdict \<Rightarrow> bool" where
  "py_eq (PList xs) w = (case w of PList ys \<Rightarrow> py_eq_list xs ys | _ \<Rightarrow> False)"
| "py_eq (PDict d) w = (case w of PDict e \<Rightarrow> length d = length e \<and> py_eq_entries d e | _ \<Rightarrow> False)"
| "py_eq v w = (case (py_number v, py_number w) of (Some x, Some y) \<Rightarrow> x = y | _ \<Rightarrow> v = w)"
| "py_eq_list [] ys = (ys = [])"
| "py_eq_list (x # xs) ys = (case ys of [] \<Rightarrow> False | y # ys' \<Rightarrow> py_eq x y \<and> py_eq_list xs ys')"
| "py_eq_entries [] e = True"
| "py_eq_entries ((k, v) # d) e =
     ((case map_of e k of None \<Rightarrow> False | Some w \<Rightarrow> py_eq v w) \<and> py_eq_entries d e)"

definition py_eq_dict :: "pdict \<Rightarrow> pdict \<Rightarrow> bool" where
  "py_eq_dict d e \<longleftrightarrow> length d = length e \<and> py_eq_entries d e"

section \<open>Rewriting a request\<close>

definition ascii_lower :: "char \<Rightarrow> char" where
  "ascii_lower c = (let n = (of_char c :: nat) in if 65 \<le> n \<and> n \<le> 90 then char_of (n + 32) else c)"

definition replace_scope_headers :: "(string \<times> string) list \<Rightarrow> http_request \<Rightarrow> http_request" where
  "replace_scope_headers updates r =
     (let encoded = fold (\<lambda>(k, v). AList.update (py_lower k) v) updates [];
          kept = filter (\<lambda>(k, v). map_of encoded (map ascii_lower k) = None) (hq_headers r)
      in r\<lparr>hq_headers := kept @ encoded\<rparr>)"

definition set_request_json_body :: "http_lib \<Rightarrow> pdict \<Rightarrow> http_request \<Rightarrow> http_request" where
  "set_request_json_body lib payload r =
     (let raw_body = lib_dumps lib payload in
      replace_scope_headers
        [(''content-length'', nat_text (length raw_body)), (''content-type'', ''application/json'')]
        (r\<lparr>hq_raw := raw_body, hq_json := PDict payload, hq_loaded := True, hq_body := Inr raw_body\<rparr>))"

definition query_items_of :: "(pv \<Rightarrow> string) \<Rightarrow> string \<times> pv \<Rightarrow> (string \<times> string) list" where
  "query_items_of text_of kv =
     (case kv of (key, value) \<Rightarrow>
        (case value of
           PList l \<Rightarrow> map (\<lambda>item. (key, py_str text_of item)) l
         | PNone \<Rightarrow> []
         | v \<Rightarrow> [(key, py_str text_of v)]))"

definition query_items :: "(pv \<Rightarrow> string) \<Rightarrow> pdict \<Rightarrow> (string \<times> string) list" where
  "query_items text_of params = concat (map (query_items_of text_of) params)"

definition set_request_query_params :: "http_lib \<Rightarrow> pdict \<Rightarrow> http_request \<Rightarrow> http_request" where
  "set_request_query_params lib params r =
     r\<lparr>hq_query_string := lib_urlencode lib (query_items (lib_text_of lib) params)\<rparr>"

definition request_header :: "http_request \<Rightarrow> string \<Rightarrow> string option" where
  "request_header r k = map_of (hq_headers r) (py_lower k)"

definition request_can_have_json_body :: "http_request \<Rightarrow> bool" where
  "request_can_have_json_body r \<longleftrightarrow>
     py_upper (hq_method r) = ''GET'' \<or>
     (py_upper (hq_method r) \<in> set [''POST'', ''PUT'', ''PATCH'', ''DELETE''] \<and>
      contains_str (py_lower (opt_text (request_header r ''content-type''))) ''json'')"

definition parse_request_body :: "http_lib \<Rightarrow> string \<Rightarrow> pv" where
  "parse_request_body lib raw_body =
     (if raw_body = [] then PDict []
      else case lib_loads lib raw_body of
        None \<Rightarrow> PNone
      | Some payload \<Rightarrow> if payload = PNone then PDict [] else payload)"

definition ensure_request_json_body :: "http_lib \<Rightarrow> http_request \<Rightarrow> exc + (pv \<times> http_request)" where
  "ensure_request_json_body lib r =
     (if \<not> request_can_have_json_body r then Inr (PNone, r)
      else if hq_loaded r then Inr (hq_json r, r)
      else case hq_body r of
        Inl e \<Rightarrow> Inl e
      | Inr raw_body \<Rightarrow>
          (let payload = parse_request_body lib raw_body
           in Inr (payload, r\<lparr>hq_raw := raw_body, hq_json := payload, hq_loaded := True\<rparr>)))"

text \<open>The body written back, with the authenticated user when the rule overrides the user of a run.\<close>

definition written_body :: "string option \<Rightarrow> bool \<Rightarrow> pdict \<Rightarrow> pdict" where
  "written_body username override d =
     (case (if override then nonempty (opt_text username) else None) of
        None \<Rightarrow> d | Some u \<Rightarrow> AList.update ''user_id'' (PStr u) d)"

definition apply_request_context_rewrites ::
  "http_lib \<Rightarrow> request \<Rightarrow> request \<Rightarrow> string option \<Rightarrow> bool \<Rightarrow> http_request \<Rightarrow> http_request" where
  "apply_request_context_rewrites lib original updated username override r =
     (let body_changed = (\<not> py_eq (rq_json_body updated) (rq_json_body original));
          needs_user_override = (override \<and> opt_text username \<noteq> []);
          r1 = (case rq_json_body updated of
             PDict d \<Rightarrow>
               if body_changed \<or> needs_user_override
               then set_request_json_body lib (written_body username override d) r else r
           | _ \<Rightarrow> r)
      in if \<not> py_eq_dict (rq_query_params updated) (rq_query_params original)
         then set_request_query_params lib (rq_query_params updated) r1 else r1)"

section \<open>Filtering a response\<close>

definition read_json_response_payload :: "http_lib \<Rightarrow> http_response \<Rightarrow> pdict option" where
  "read_json_response_payload lib resp =
     (if \<not> contains_str (py_lower (opt_text (map_of (hr_headers resp) ''content-type''))) ''application/json''
      then None
      else case lib_loads_utf8 lib (hr_body resp) of Some (PDict d) \<Rightarrow> Some d | _ \<Rightarrow> None)"

definition replace_json_response_payload :: "http_lib \<Rightarrow> pdict \<Rightarrow> http_response \<Rightarrow> http_response" where
  "replace_json_response_payload lib payload resp =
     (let body = lib_dumps lib payload
      in resp\<lparr>hr_body := body,
              hr_headers := AList.update ''content-length'' (nat_text (length body)) (hr_headers resp)\<rparr>)"

text \<open>\<open>ws.get("name") in accessible\<close>: a list or dictionary cannot be looked up in a set.\<close>

definition workspace_kept :: "string list \<Rightarrow> pv \<Rightarrow> exc + bool" where
  "workspace_kept accessible ws =
     (case ws of
        PDict d \<Rightarrow>
          (case dget d ''name'' of
             PStr n \<Rightarrow> Inr (n \<in> set accessible)
           | PList _ \<Rightarrow> Inl PyTypeError
           | PDict _ \<Rightarrow> Inl PyTypeError
           | _ \<Rightarrow> Inr False)
      | _ \<Rightarrow> Inr False)"

definition workspace_names :: "pv list \<Rightarrow> string list" where
  "workspace_names workspaces =
     List.map_filter (\<lambda>ws. case ws of PDict d \<Rightarrow> as_str (dget d ''name'') | _ \<Rightarrow> None) workspaces"

definition filter_workspace_list_response ::
  "http_lib \<Rightarrow> env \<Rightarrow> identity \<Rightarrow> http_response \<Rightarrow> (world, http_response) eff" where
  "filter_workspace_list_response lib env i resp =
     (case read_json_response_payload lib resp of
        None \<Rightarrow> ret resp
      | Some payload \<Rightarrow>
          (case dget payload ''workspaces'' of
             PList workspaces \<Rightarrow>
               andthen (accessible_workspaces env i (workspace_names workspaces)) (\<lambda>accessible.
               andthen (filter_eff (\<lambda>ws. lift (workspace_kept accessible ws)) workspaces) (\<lambda>kept.
                 ret (if kept = workspaces then resp
                      else replace_json_response_payload lib
                             (AList.update ''workspaces'' (PList kept) payload) resp)))
           | _ \<Rightarrow> ret resp))"

definition apply_response_authorization_filters ::
  "http_lib \<Rightarrow> env \<Rightarrow> authorization_result \<Rightarrow> http_response \<Rightarrow> (world, http_response) eff" where
  "apply_response_authorization_filters lib env result resp =
     (if apply_workspace_filter (hd (ar_rules result)) \<and> hr_status resp < 400
      then filter_workspace_list_response lib env (ar_identity result) resp else ret resp)"

section \<open>Dispatching a request\<close>

text \<open>
  What a request sees and changes: the plugin's state and the context variables, that is the workspace
  of MLflow's request context, \<open>_AUTHORIZATION_HANDLED\<close> and whether \<open>_GRAPHQL_AUTHORIZER\<close> is set.
\<close>

record req_state =
  cx_world :: world
  cx_workspace :: "string option"
  cx_handled :: "authorization_result option"
  cx_graphql :: bool

text \<open>A computation of the plugin in the current context.\<close>

definition in_context :: "env \<Rightarrow> (env \<Rightarrow> (world, 'a) eff) \<Rightarrow> (req_state, 'a) eff" where
  "in_context env m = (\<lambda>c.
     case m (env\<lparr>env_request_workspace := cx_workspace c\<rparr>) (cx_world c) of
       (r, w) \<Rightarrow> (r, c\<lparr>cx_world := w\<rparr>))"

datatype reply = Refused exc | Answered http_response

type_synonym handler_run = "http_request \<Rightarrow> (req_state, http_response) eff"

definition authorization_request :: "http_lib \<Rightarrow> server \<Rightarrow> env \<Rightarrow> string \<Rightarrow> string option \<Rightarrow> http_request \<Rightarrow> request" where
  "authorization_request lib srv env path workspace r =
     (let groups = map (\<lambda>(k, v). (k, PStr v)) (extract_path_params (sv_registry srv) path (hq_method r)) in
      build_fastapi_authorization_request env (request_header r) (hq_headers r)
        (cf_user_header (sv_config srv)) (cf_groups_header (sv_config srv))
        (lib_parse_query lib (hq_query_string r)) path workspace (hq_method r) (hq_json r)
        (if groups \<noteq> [] then groups else hq_path_params r) (hq_path_params r)
        (Some (case ensure_request_json_body lib r of Inl e \<Rightarrow> Inl e | Inr (_, r') \<Rightarrow> Inr (hq_json r'))))"

text \<open>
  The workspace of the request, and whether the middleware itself put it into the context. An error of
  MLflow's resolution is an answer, any other exception leaves the middleware.
\<close>

definition resolve_request_workspace ::
  "http_lib \<Rightarrow> server \<Rightarrow> http_request \<Rightarrow> (req_state, exc + (string option \<times> bool)) eff" where
  "resolve_request_workspace lib srv r = (\<lambda>c.
     if \<not> cf_workspaces_enabled (sv_config srv) then (Inr (Inr (cf_namespace (sv_config srv), False)), c)
     else case cx_workspace c of
       Some ws \<Rightarrow> (Inr (Inr (Some ws, False)), c)
     | None \<Rightarrow>
         (case lib_workspace_of_header lib (request_header r (lib_workspace_header lib)) of
            Inl (MlflowExc code message) \<Rightarrow> (Inr (Inl (MlflowExc code message)), c)
          | Inl e \<Rightarrow> (Inl e, c)
          | Inr None \<Rightarrow> (Inr (Inr (None, False)), c)
          | Inr (Some ws) \<Rightarrow> (Inr (Inr (Some ws, True)), c\<lparr>cx_workspace := Some ws\<rparr>)))"

definition clear_if :: "bool \<Rightarrow> req_state \<Rightarrow> req_state" where
  "clear_if workspace_set c = (if workspace_set then c\<lparr>cx_workspace := None\<rparr> else c)"

text \<open>Running the handler on an authorized request, with the \<open>finally\<close> clause around it.\<close>

definition run_handler ::
  "handler_run \<Rightarrow> bool \<Rightarrow> bool \<Rightarrow> http_request \<Rightarrow> (req_state, http_response) eff" where
  "run_handler call_next workspace_set graphql r = (\<lambda>c.
     case call_next r c of (result, c') \<Rightarrow> (result, (clear_if workspace_set c')\<lparr>cx_graphql := graphql\<rparr>))"

definition serve_authorized ::
  "http_lib \<Rightarrow> env \<Rightarrow> handler_run \<Rightarrow> bool \<Rightarrow> bool \<Rightarrow> request \<Rightarrow> authorization_result \<Rightarrow> http_request \<Rightarrow>
   (req_state, reply) eff" where
  "serve_authorized lib env call_next workspace_set graphql auth_request result r =
     andthen (run_handler call_next workspace_set graphql
       (apply_request_context_rewrites lib auth_request (ar_request result) (ar_username result)
          (override_run_user (hd (ar_rules result))) r)) (\<lambda>resp.
     andthen (in_context env (\<lambda>env. apply_response_authorization_filters lib env result resp)) (\<lambda>resp'.
     andthen (in_context env (\<lambda>env. apply_response_cache_updates env (ar_request result) (ar_rules result)
                (hr_status resp'))) (\<lambda>_.
       ret (Answered resp'))))"

definition dispatch_protected ::
  "http_lib \<Rightarrow> server \<Rightarrow> env \<Rightarrow> handler_run \<Rightarrow> string \<Rightarrow> http_request \<Rightarrow> string option \<Rightarrow> bool \<Rightarrow>
   (req_state, reply) eff" where
  "dispatch_protected lib srv env call_next path r workspace workspace_set = (\<lambda>c.
     let auth_request = authorization_request lib srv env path workspace r in
     case in_context env (\<lambda>env. authorize_request srv env auth_request) c of
       (Inl (MlflowExc code message), c') \<Rightarrow> (Inr (Refused (MlflowExc code message)), clear_if workspace_set c')
     | (Inl e, c') \<Rightarrow> (Inl e, c')
     | (Inr result, c') \<Rightarrow>
         serve_authorized lib env call_next workspace_set (cx_graphql c') auth_request result r
           (c'\<lparr>cx_handled := Some result, cx_graphql := True\<rparr>))"

definition dispatch_request ::
  "http_lib \<Rightarrow> server \<Rightarrow> env \<Rightarrow> handler_run \<Rightarrow> http_request \<Rightarrow> (req_state, reply) eff" where
  "dispatch_request lib srv env call_next r =
     (let path = canonicalize_path (sv_static srv) (hq_url_path r) None (hq_scope_path r) (hq_root_path r) None in
      if \<not> hq_has_app r
      then ret (Refused (MlflowExc INTERNAL_ERROR ''FastAPI app missing from request scope.''))
      else if is_unprotected_path path then andthen (call_next r) (\<lambda>resp. ret (Answered resp))
      else andthen (resolve_request_workspace lib srv r) (\<lambda>ws.
        case ws of
          Inl e \<Rightarrow> ret (Refused e)
        | Inr (workspace, workspace_set) \<Rightarrow>
            dispatch_protected lib srv env call_next path r workspace workspace_set))"

text \<open>\<open>dispatch\<close>: the value of \<open>_AUTHORIZATION_HANDLED\<close> is put back whatever happens.\<close>

definition dispatch ::
  "http_lib \<Rightarrow> server \<Rightarrow> env \<Rightarrow> handler_run \<Rightarrow> http_request \<Rightarrow> (req_state, reply) eff" where
  "dispatch lib srv env call_next r = (\<lambda>c.
     case dispatch_request lib srv env call_next r (c\<lparr>cx_handled := None\<rparr>) of
       (result, c') \<Rightarrow> (result, c'\<lparr>cx_handled := cx_handled c\<rparr>))"

section \<open>The application\<close>

text \<open>
  \<open>_registered_graphql_auth_middleware\<close>, called for every field while a handler runs: without an
  authorizer in the context there is no middleware.
\<close>

definition registered_graphql_resolve ::
  "http_lib \<Rightarrow> env \<Rightarrow> string \<Rightarrow> input_object option \<Rightarrow> (req_state, resolution) eff" where
  "registered_graphql_resolve lib env field_name input = (\<lambda>c.
     if \<not> cx_graphql c then (Inr (NextResolver input), c)
     else in_context env (\<lambda>env. graphql_resolve env (lib_text_of lib) (cx_handled c) field_name input) c)"

text \<open>
  The constructor of \<open>KubernetesAuthorizer\<close>: \<open>loaded\<close> is what loading the Kubernetes configuration of
  its mode gives. \<open>ttl\<close> is the configured time-to-live, a finite number.
\<close>

definition new_authorizer :: "exc + unit \<Rightarrow> real \<Rightarrow> auth_config \<Rightarrow> exc + authorizer" where
  "new_authorizer loaded ttl cfg =
     (case loaded of
        Inl e \<Rightarrow> Inl e
      | Inr _ \<Rightarrow> Inr
          \<lparr>az_group = DEFAULT_AUTH_GROUP, az_mode = cf_authorization_mode cfg,
           az_label = (if cf_user_header cfg \<noteq> [] then ''Header '' @ quoted (cf_user_header cfg)
                       else ''Remote user header''),
           az_base_configured = (cf_authorization_mode cfg = SELF_SUBJECT_ACCESS_REVIEW),
           az_sar_client = (cf_authorization_mode cfg \<noteq> SELF_SUBJECT_ACCESS_REVIEW),
           az_cache = new_cache ttl 10000, az_rules_cache = new_cache ttl 10000\<rparr>)"

text \<open>What MLflow and FastAPI give \<open>create_app\<close>: the Flask application, the routes, the GraphQL schema.\<close>

record application =
  ap_flask :: flask_app
  ap_routes :: "(string \<times> string list) list"
  ap_query_fields :: "string list option"
  ap_mutation_fields :: "string list option"

definition create_app ::
  "exc + auth_config \<Rightarrow> (auth_config \<Rightarrow> exc + authorizer) \<Rightarrow> string option \<Rightarrow> request_table \<Rightarrow> path_table \<Rightarrow>
   application \<Rightarrow> registry \<Rightarrow> (exc + (auth_config \<times> authorizer)) \<times> registry" where
  "create_app configured authorizer_of static requests paths app reg =
     (case configured of
        Inl e \<Rightarrow> (Inl e, reg)
      | Inr cfg \<Rightarrow>
          (case authorizer_of cfg of
             Inl e \<Rightarrow> (Inl e, reg)
           | Inr a \<Rightarrow>
               (case compile_authorization_rules static (ap_flask app) requests paths reg of
                  (Inl e, reg1) \<Rightarrow> (Inl e, reg1)
                | (Inr _, reg1) \<Rightarrow>
                    (case validate_fastapi_route_authorization static paths (ap_routes app) of
                       Inl e \<Rightarrow> (Inl e, reg1)
                     | Inr _ \<Rightarrow>
                         (case validate_graphql_field_authorization (ap_query_fields app) (ap_mutation_fields app) of
                            Inl e \<Rightarrow> (Inl e, reg1)
                          | Inr _ \<Rightarrow> (Inr (cfg, a), reg1))))))"

text \<open>
  The life of a server: it is created, then it dispatches requests, with any handlers that touch the
  plugin's state only as \<open>keeps\<close> allows.
\<close>

inductive serving ::
  "http_lib \<Rightarrow> env \<Rightarrow> (handler_run \<Rightarrow> bool) \<Rightarrow> server \<Rightarrow> authorizer \<Rightarrow> req_state \<Rightarrow> bool"
  for lib env keeps srv a where
  serving_start: "az (cx_world c) = a \<Longrightarrow> serving lib env keeps srv a c"
| serving_request: "serving lib env keeps srv a c \<Longrightarrow> keeps call_next \<Longrightarrow>
    dispatch lib srv env call_next r c = (result, c') \<Longrightarrow> serving lib env keeps srv a c'"
| serving_context: "serving lib env keeps srv a c \<Longrightarrow> cx_world c' = cx_world c \<Longrightarrow> serving lib env keeps srv a c'"

end
