(* ===== verification/Middleware_Safety.thy ===== *)
theory Middleware_Safety
  imports Middleware
begin

text \<open>
  What the middleware guarantees: a handler of a protected path runs at most once, on a request that was
  authorized and rewritten to what was authorized; the answer to a workspace listing is filtered; the
  context is restored; the decision cache stays backed by reviews over the life of the server.
\<close>

section \<open>Safe computations in a context\<close>

abbreviation ctx_inv :: "env \<Rightarrow> string \<Rightarrow> auth_mode \<Rightarrow> real \<Rightarrow> req_state \<Rightarrow> bool" where
  "ctx_inv env g m ttl c \<equiv> az_inv env g m ttl (cx_world c)"

text \<open>The evidence does not depend on the workspace of MLflow's request context.\<close>

lemma granted_at_workspace [simp]:
  "granted_at (env\<lparr>env_request_workspace := ws\<rparr>) g m k t = granted_at env g m k t"
  by (simp add: granted_at_def)

lemma az_inv_workspace [simp]:
  "az_inv (env\<lparr>env_request_workspace := ws\<rparr>) g m ttl w = az_inv env g m ttl w"
  by (simp add: az_inv_def cached_grant_def)

lemma approved_workspace [simp]:
  "approved (env\<lparr>env_request_workspace := ws\<rparr>) g m i res verb ns sub n = approved env g m i res verb ns sub n"
  by (simp add: approved_def)

lemma workspace_listed_workspace [simp]:
  "workspace_listed (env\<lparr>env_request_workspace := ws\<rparr>) g m i verb n = workspace_listed env g m i verb n"
  by (simp add: workspace_listed_def)

lemma safe_in_context:
  assumes "\<And>ws. safe (az_inv env g m ttl) (f (env\<lparr>env_request_workspace := ws\<rparr>)) Q"
  shows "safe (ctx_inv env g m ttl) (in_context env f) Q"
  using assms by (force simp: safe_def in_context_def split: prod.splits)

lemma safe_workspace_env:
  "safe (az_inv (env\<lparr>env_request_workspace := ws\<rparr>) g m ttl) c Q \<Longrightarrow> safe (az_inv env g m ttl) c Q"
  by (simp add: safe_def)

definition handler_safe :: "env \<Rightarrow> string \<Rightarrow> auth_mode \<Rightarrow> real \<Rightarrow> handler_run \<Rightarrow> bool" where
  "handler_safe env g m ttl call_next \<longleftrightarrow> (\<forall>r. safe (ctx_inv env g m ttl) (call_next r) (\<lambda>_. True))"

text \<open>A handler that resolves GraphQL fields through the registered middleware is safe.\<close>

lemma safe_graphql_resolve: "safe (az_inv env g m ttl) (graphql_resolve env text_of handled f input) (\<lambda>_. True)"
  unfolding graphql_resolve_def Let_def
  by (auto intro!: safe_ret safe_weaken [OF safe_resolve_request_scope] safe_weaken [OF safe_resolve_request_filter]
      split: option.splits)

lemma safe_registered_resolve: "safe (ctx_inv env g m ttl) (registered_graphql_resolve lib env f input) (\<lambda>_. True)"
  unfolding registered_graphql_resolve_def safe_def
proof (intro allI impI)
  fix c
  assume c: "ctx_inv env g m ttl c"
  have s: "safe (ctx_inv env g m ttl)
      (in_context env (\<lambda>env. graphql_resolve env (lib_text_of lib) (cx_handled c) f input)) (\<lambda>_. True)"
    by (rule safe_in_context, rule safe_workspace_env, rule safe_graphql_resolve)
  show "case if \<not> cx_graphql c then (Inr (NextResolver input), c)
      else in_context env (\<lambda>env. graphql_resolve env (lib_text_of lib) (cx_handled c) f input) c of
      (r, s') \<Rightarrow> ctx_inv env g m ttl s' \<and> (\<forall>x. r = Inr x \<longrightarrow> True)"
    using c safe_state [OF s c] by (auto split: prod.splits)
qed

section \<open>Filtered workspaces\<close>

text \<open>
  What is left of a workspace listing: the response as it was when it is no such listing or every workspace
  in it was approved, otherwise the same payload with the workspaces that were approved, in order.
\<close>

definition workspace_approved :: "env \<Rightarrow> string \<Rightarrow> auth_mode \<Rightarrow> identity \<Rightarrow> pv \<Rightarrow> bool" where
  "workspace_approved env g m i ws \<longleftrightarrow>
     (\<exists>d n. ws = PDict d \<and> dget d ''name'' = PStr n \<and> workspace_listed env g m i ''list'' n)"

definition listing_filtered ::
  "http_lib \<Rightarrow> env \<Rightarrow> string \<Rightarrow> auth_mode \<Rightarrow> identity \<Rightarrow> http_response \<Rightarrow> http_response \<Rightarrow> bool" where
  "listing_filtered lib env g m i resp resp' \<longleftrightarrow>
     (case read_json_response_payload lib resp of
        None \<Rightarrow> resp' = resp
      | Some payload \<Rightarrow>
          (case dget payload ''workspaces'' of
             PList workspaces \<Rightarrow>
               (\<exists>kept. kept \<in> set (subseqs workspaces) \<and> list_all (workspace_approved env g m i) kept \<and>
                  resp' = (if kept = workspaces then resp
                    else replace_json_response_payload lib (AList.update ''workspaces'' (PList kept) payload) resp))
           | _ \<Rightarrow> resp' = resp))"

lemma filter_eff_subseq: "filter_eff f xs s = (Inr ys, s') \<Longrightarrow> ys \<in> set (subseqs xs)"
proof (induction xs arbitrary: ys s)
  case Nil
  then show ?case by (simp add: ret_def)
next
  case (Cons x xs)
  from Cons.prems obtain b s1 zs where
    "filter_eff f xs s1 = (Inr zs, s')" and ys: "ys = (if b then x # zs else zs)"
    by (auto simp: eff_defs split: prod.splits sum.splits)
  from Cons.IH [OF this(1)] show ?case by (auto simp: ys Let_def)
qed

lemma safe_kept:
  assumes "\<forall>n \<in> set accessible. workspace_listed env g m i ''list'' n"
  shows "safe I (filter_eff (\<lambda>ws. lift (workspace_kept accessible ws)) workspaces)
    (\<lambda>kept. list_all (workspace_approved env g m i) kept \<and> kept \<in> set (subseqs workspaces))"
proof -
  have "safe I (filter_eff (\<lambda>ws. lift (workspace_kept accessible ws)) workspaces)
    (\<lambda>kept. (\<forall>ws \<in> set kept. workspace_approved env g m i ws) \<and> set kept \<subseteq> set workspaces)"
  proof (rule safe_filter_eff, rule safe_lift, rule impI)
    fix ws b
    assume "workspace_kept accessible ws = Inr b" b
    with assms show "workspace_approved env g m i ws"
      by (auto simp: workspace_kept_def workspace_approved_def split: pv.splits)
  qed
  then show ?thesis
    unfolding safe_def list_all_iff by (auto split: prod.splits dest: filter_eff_subseq)
qed

lemma safe_filter_workspaces:
  "safe (az_inv env g m ttl) (filter_workspace_list_response lib env i resp) (listing_filtered lib env g m i resp)"
proof (cases "read_json_response_payload lib resp")
  case None
  then show ?thesis by (simp add: filter_workspace_list_response_def listing_filtered_def safe_ret)
next
  case (Some payload)
  show ?thesis
  proof (cases "dget payload ''workspaces''")
    case (PList workspaces)
    show ?thesis
      unfolding filter_workspace_list_response_def Some option.case PList pv.case
      apply (rule safe_andthen [OF safe_accessible_workspaces], elim conjE)
      apply (rule safe_andthen [OF safe_kept], assumption)
      apply (rule safe_ret)
      apply (auto simp: listing_filtered_def Some PList list_all_iff)
      done
  qed (simp_all add: filter_workspace_list_response_def listing_filtered_def Some safe_ret)
qed

section \<open>Handing a request over\<close>

text \<open>
  What the handler of a protected path gets: the request rewritten to the one that was authorized, for the
  workspace of the context, or the configured namespace without workspaces, and the result of the
  authorization for the GraphQL middleware.
\<close>

definition request_path :: "server \<Rightarrow> http_request \<Rightarrow> string" where
  "request_path srv r =
     canonicalize_path (sv_static srv) (hq_url_path r) None (hq_scope_path r) (hq_root_path r) None"

definition request_workspace :: "server \<Rightarrow> req_state \<Rightarrow> string option" where
  "request_workspace srv c =
     (if cf_workspaces_enabled (sv_config srv) then cx_workspace c else cf_namespace (sv_config srv))"

definition handed_over ::
  "http_lib \<Rightarrow> server \<Rightarrow> env \<Rightarrow> string \<Rightarrow> auth_mode \<Rightarrow> http_request \<Rightarrow> authorization_result \<Rightarrow>
   http_request \<Rightarrow> req_state \<Rightarrow> bool" where
  "handed_over lib srv env g m r result r' c \<longleftrightarrow>
     (let rq = authorization_request lib srv env (request_path srv r) (request_workspace srv c) r in
      request_authorized srv (env\<lparr>env_request_workspace := cx_workspace c\<rparr>) g m rq result \<and>
      r' = apply_request_context_rewrites lib rq (ar_request result) (ar_username result)
             (override_run_user (hd (ar_rules result))) r \<and>
      cx_handled c = Some result \<and> cx_graphql c)"

lemma dispatch_protected_hands_over:
  assumes inv: "ctx_inv env g m ttl c" and path: "path = request_path srv r" and ws: "workspace = request_workspace srv c"
  shows "(\<forall>h h'. dispatch_protected lib srv env h path r workspace b c = dispatch_protected lib srv env h' path r workspace b c) \<or>
    (\<exists>result r' c1 finish. handed_over lib srv env g m r result r' c1 \<and> ctx_inv env g m ttl c1 \<and>
       (\<forall>h. dispatch_protected lib srv env h path r workspace b c = finish (h r' c1)))"
proof -
  let ?env = "env\<lparr>env_request_workspace := cx_workspace c\<rparr>"
  let ?rq = "authorization_request lib srv env path workspace r"
  have s: "safe (az_inv env g m ttl) (authorize_request srv ?env ?rq) (request_authorized srv ?env g m ?rq)"
    by (rule safe_workspace_env, rule safe_authorize_request)
  obtain res w' where run: "authorize_request srv ?env ?rq (cx_world c) = (res, w')" by (cases "authorize_request srv ?env ?rq (cx_world c)")
  show ?thesis
  proof (cases res)
    case (Inl e)
    with run have "\<forall>h h'. dispatch_protected lib srv env h path r workspace b c =
        dispatch_protected lib srv env h' path r workspace b c"
      by (cases e) (simp_all add: dispatch_protected_def in_context_def Let_def)
    then show ?thesis by blast
  next
    case (Inr result)
    let ?c1 = "c\<lparr>cx_world := w', cx_handled := Some result, cx_graphql := True\<rparr>"
    let ?r' = "apply_request_context_rewrites lib ?rq (ar_request result) (ar_username result)
        (override_run_user (hd (ar_rules result))) r"
    let ?finish = "\<lambda>run. andthen (\<lambda>c. case run of (res, c') \<Rightarrow> (res, (clear_if b c')\<lparr>cx_graphql := cx_graphql c\<rparr>)) (\<lambda>resp.
      andthen (in_context env (\<lambda>env. apply_response_authorization_filters lib env result resp)) (\<lambda>resp'.
      andthen (in_context env (\<lambda>env. apply_response_cache_updates env (ar_request result) (ar_rules result)
                (hr_status resp'))) (\<lambda>_. ret (Answered resp')))) c"
    from safeD [OF s inv] run Inr have "request_authorized srv ?env g m ?rq result" "az_inv env g m ttl w'" by auto
    then have "handed_over lib srv env g m r result ?r' ?c1" "ctx_inv env g m ttl ?c1"
      by (auto simp: handed_over_def Let_def path ws request_workspace_def)
    moreover have "dispatch_protected lib srv env h path r workspace b c = ?finish (h ?r' ?c1)" for h
      using run Inr
      by (simp add: dispatch_protected_def in_context_def [of env "\<lambda>env. authorize_request srv env _"] Let_def
          serve_authorized_def run_handler_def andthen_def)
    ultimately show ?thesis
      by (intro disjI2 exI [of _ result] exI [of _ ?r'] exI [of _ ?c1] exI [of _ ?finish] conjI allI)
  qed
qed

lemma dispatch_request_hands_over:
  assumes inv: "ctx_inv env g m ttl c" and "\<not> is_unprotected_path (request_path srv r)"
  shows "(\<forall>h h'. dispatch_request lib srv env h r c = dispatch_request lib srv env h' r c) \<or>
    (\<exists>result r' c1 finish. handed_over lib srv env g m r result r' c1 \<and> ctx_inv env g m ttl c1 \<and>
       (\<forall>h. dispatch_request lib srv env h r c = finish (h r' c1)))"
proof (cases "hq_has_app r")
  case False
  then show ?thesis by (simp add: dispatch_request_def)
next
  case True
  obtain res c0 where ws: "resolve_request_workspace lib srv r c = (res, c0)" by (cases "resolve_request_workspace lib srv r c")
  have run: "dispatch_request lib srv env h r c = (case res of Inl e \<Rightarrow> (Inl e, c0) | Inr (Inl e) \<Rightarrow> (Inr (Refused e), c0)
      | Inr (Inr (workspace, b)) \<Rightarrow> dispatch_protected lib srv env h (request_path srv r) r workspace b c0)" for h
    using True assms(2) ws
    by (auto simp: dispatch_request_def request_path_def andthen_def ret_def Let_def split: sum.splits prod.splits)
  have c0: "cx_world c0 = cx_world c" and wsp: "\<And>workspace b. res = Inr (Inr (workspace, b)) \<Longrightarrow> workspace = request_workspace srv c0"
    using ws by (auto simp: resolve_request_workspace_def request_workspace_def
        split: if_splits option.splits sum.splits exc.splits)
  show ?thesis
  proof (cases "\<exists>workspace b. res = Inr (Inr (workspace, b))")
    case False
    then show ?thesis using run by (cases res) (auto split: sum.splits)
  next
    case True
    then obtain workspace b where r: "res = Inr (Inr (workspace, b))" by blast
    from dispatch_protected_hands_over [OF _ refl wsp [OF r], where env = env and g = g and m = m and ttl = ttl]
    show ?thesis using inv c0 by (simp add: run r)
  qed
qed

lemma az_inv_created:
  assumes "new_authorizer loaded ttl cfg = Inr (az w)"
  shows "az_inv env DEFAULT_AUTH_GROUP (cf_authorization_mode cfg) ttl w"
proof -
  have "az_group (az w) = DEFAULT_AUTH_GROUP" "az_mode (az w) = cf_authorization_mode cfg"
    "az_cache (az w) = new_cache ttl 10000"
    using assms [symmetric] by (simp_all add: new_authorizer_def split: sum.splits)
  then show ?thesis by (simp add: az_inv_def cache_at_new peek_new)
qed

lemma in_context_state:
  "in_context env f c = (x, c') \<Longrightarrow>
   c' = c\<lparr>cx_world := cx_world c'\<rparr> \<and> f (env\<lparr>env_request_workspace := cx_workspace c\<rparr>) (cx_world c) = (x, cx_world c')"
  by (auto simp: in_context_def split: prod.splits)

lemma safe_response_filters:
  "safe (az_inv env g m ttl) (apply_response_authorization_filters lib (env\<lparr>env_request_workspace := ws\<rparr>) result resp) (\<lambda>_. True)"
  unfolding apply_response_authorization_filters_def
  by (rule safe_workspace_env [where ws = ws])
     (auto intro!: safe_if safe_ret safe_weaken [OF safe_filter_workspaces])

lemma safe_clear_experiments:
  "safe (az_inv env g m ttl) clear_experiment_ids (\<lambda>_. True)"
  "safe (az_inv env g m ttl) clear_experiment_names (\<lambda>_. True)"
  "safe (az_inv env g m ttl) (invalidate_experiment_name x) (\<lambda>_. True)"
  by (auto simp: clear_experiment_ids_def clear_experiment_names_def invalidate_experiment_name_def safe_def
      intro: az_inv_frame)

lemma safe_cache_updates:
  "safe (az_inv env g m ttl) (apply_response_cache_updates env rq rules status) (\<lambda>_. True)"
proof -
  have new: "safe (az_inv env g m ttl) (update_experiment_name_cache env i n) (\<lambda>_. True)" for i n
    unfolding update_experiment_name_cache_def
    by (rule safe_andthen [OF safe_clear_experiments(1)])
       (auto intro!: safe_ret safe_name_cache_set split: option.splits)
  have lookup: "safe (az_inv env g m ttl) (andthen (lift r) f) (\<lambda>_. True)"
    if "\<And>x. safe (az_inv env g m ttl) (f x) (\<lambda>_. True)" for r :: "exc + string" and f :: "string \<Rightarrow> (world, unit) eff"
    by (rule safe_andthen [OF safe_lift [where Q = "\<lambda>_. True"]]) (simp_all add: that)
  show ?thesis
    unfolding apply_response_cache_updates_def Let_def
    by (intro safe_if safe_ret TrueI safe_andthen [where Q = "\<lambda>_. True"] safe_clear_experiments safe_on_unresolved
        lookup new)
qed

lemma safe_serve_authorized:
  assumes h: "handler_safe env g m ttl h"
  shows "safe (ctx_inv env g m ttl) (serve_authorized lib env h b graphql rq result r) (\<lambda>_. True)"
proof -
  have handler: "safe (ctx_inv env g m ttl) (run_handler h b graphql r') (\<lambda>_. True)" for r'
    using h unfolding handler_safe_def safe_def run_handler_def
    by (fastforce simp: clear_if_def split: prod.splits)
  have filters: "safe (ctx_inv env g m ttl)
      (in_context env (\<lambda>env. apply_response_authorization_filters lib env result resp)) (\<lambda>_. True)" for resp
    by (rule safe_in_context, rule safe_response_filters)
  have caches: "safe (ctx_inv env g m ttl)
      (in_context env (\<lambda>env. apply_response_cache_updates env rq rules status)) (\<lambda>_. True)" for rq rules status
    by (rule safe_in_context, rule safe_workspace_env, rule safe_cache_updates)
  show ?thesis
    unfolding serve_authorized_def
    by (rule safe_andthen [OF handler], rule safe_andthen [OF filters], rule safe_andthen [OF caches],
        rule safe_ret, rule TrueI)
qed

lemma safe_dispatch_request:
  assumes h: "handler_safe env g m ttl h"
  shows "safe (ctx_inv env g m ttl) (dispatch_request lib srv env h r) (\<lambda>_. True)"
proof -
  have next_: "safe (ctx_inv env g m ttl) (h r) (\<lambda>_. True)" for r
    using h by (simp add: handler_safe_def)
  have ws: "safe (ctx_inv env g m ttl) (resolve_request_workspace lib srv r) (\<lambda>_. True)"
    by (auto simp: safe_def resolve_request_workspace_def split: option.splits sum.splits exc.splits)
  have protected: "safe (ctx_inv env g m ttl) (dispatch_protected lib srv env h path r workspace b) (\<lambda>_. True)"
    for path workspace b
  proof (rule safeI)
    fix c res c'
    assume c: "ctx_inv env g m ttl c" and run: "dispatch_protected lib srv env h path r workspace b c = (res, c')"
    let ?rq = "authorization_request lib srv env path workspace r"
    obtain res1 c1 where auth: "in_context env (\<lambda>env. authorize_request srv env ?rq) c = (res1, c1)"
      by (cases "in_context env (\<lambda>env. authorize_request srv env ?rq) c")
    have "safe (ctx_inv env g m ttl) (in_context env (\<lambda>env. authorize_request srv env ?rq)) (\<lambda>_. True)"
      by (rule safe_in_context, rule safe_workspace_env, rule safe_weaken [OF safe_authorize_request TrueI])
    from safe_state [OF this c auth] have c1: "ctx_inv env g m ttl c1" .
    show "ctx_inv env g m ttl c' \<and> (\<forall>x. res = Inr x \<longrightarrow> True)"
    proof (cases res1)
      case (Inl e)
      with run auth have "cx_world c' = cx_world c1"
        by (auto simp: dispatch_protected_def Let_def clear_if_def split: exc.splits)
      with c1 show ?thesis by simp
    next
      case (Inr result)
      with run auth have "serve_authorized lib env h b (cx_graphql c1) ?rq result r
          (c1\<lparr>cx_handled := Some result, cx_graphql := True\<rparr>) = (res, c')"
        by (simp add: dispatch_protected_def Let_def)
      from safe_state [OF safe_serve_authorized [OF h] _ this] c1 show ?thesis by simp
    qed
  qed
  show ?thesis
    unfolding dispatch_request_def Let_def
    by (intro safe_if safe_ret TrueI safe_andthen [OF next_] safe_andthen [OF ws])
       (auto intro: safe_ret protected split: sum.splits)
qed

lemma safe_dispatch_keeps:
  assumes "handler_safe env g m ttl h" and c: "ctx_inv env g m ttl c" and run: "dispatch lib srv env h r c = (res, c')"
  shows "ctx_inv env g m ttl c'"
proof -
  obtain c1 where "dispatch_request lib srv env h r (c\<lparr>cx_handled := None\<rparr>) = (res, c1)"
    and c': "c' = c1\<lparr>cx_handled := cx_handled c\<rparr>"
    using run by (auto simp: dispatch_def split: prod.splits)
  from safe_state [OF safe_dispatch_request [OF assms(1)] _ this(1)] c show ?thesis by (simp add: c')
qed

lemma serving_inv:
  assumes "serving lib env (handler_safe env DEFAULT_AUTH_GROUP (cf_authorization_mode cfg) ttl) srv a c"
    and a: "new_authorizer loaded ttl cfg = Inr a"
  shows "ctx_inv env DEFAULT_AUTH_GROUP (cf_authorization_mode cfg) ttl c"
  using assms(1)
proof induction
  case (serving_start c)
  with a show ?case by (intro az_inv_created) simp
next
  case (serving_request c call_next r result c')
  show ?case by (rule safe_dispatch_keeps [OF serving_request(2) serving_request(4,3)])
qed simp

section \<open>What a rewritten request reads as\<close>

text \<open>The value of a query parameter as it reads after encoding: texts, one or several.\<close>

definition rendered :: "(pv \<Rightarrow> string) \<Rightarrow> pv \<Rightarrow> pv" where
  "rendered text_of v =
     (case v of
        PNone \<Rightarrow> PNone
      | PList l \<Rightarrow> collected (map (py_str text_of) l)
      | w \<Rightarrow> PStr (py_str text_of w))"

lemma query_items_of_values:
  "map snd (query_items_of t (k, v)) =
     (case v of PNone \<Rightarrow> [] | PList l \<Rightarrow> map (py_str t) l | w \<Rightarrow> [py_str t w])"
  by (cases v) (simp_all add: query_items_of_def comp_def)

lemma query_items_of_key: "kv \<in> set (query_items_of t (k, v)) \<Longrightarrow> fst kv = k"
  by (cases v) (auto simp: query_items_of_def)

lemma rendered_collected: "rendered t v = collected (map snd (query_items_of t (k, v)))"
  by (cases v) (auto simp: rendered_def query_items_of_values collected_def)

lemma filter_query_items:
  "distinct (map fst params) \<Longrightarrow>
   filter (\<lambda>(k', v). k' = k) (query_items t params) = query_items_of t (k, dget params k)"
proof (induction params)
  case Nil
  then show ?case by (simp add: query_items_def query_items_of_def dget_def)
next
  case (Cons kv params)
  obtain k' v where kv: "kv = (k', v)" by (cases kv)
  have mine: "filter (\<lambda>(k'', v). k'' = k) (query_items_of t (k', v)) = (if k' = k then query_items_of t (k', v) else [])"
    using query_items_of_key [of _ t k' v] by (fastforce simp: filter_empty_conv intro: filter_True)
  have rest: "filter (\<lambda>(k', v). k' = k) (query_items t params) = query_items_of t (k, dget params k)"
    using Cons by simp
  have none: "k \<notin> fst ` set params \<Longrightarrow> query_items_of t (k, dget params k) = []"
    by (simp add: dget_def query_items_of_def map_of_eq_None_iff [THEN iffD2])
  have split: "query_items t (kv # params) = query_items_of t (k', v) @ query_items t params"
    by (simp add: query_items_def kv)
  show ?case
    using Cons.prems none unfolding split filter_append mine rest by (auto simp: kv dget_def)
qed

lemma collect_query_items:
  assumes "distinct (map fst params)"
  shows "dget (collect_query_params (query_items t params)) k = rendered t (dget params k)"
  unfolding collect_query_params_complete rendered_collected [where k = k] filter_query_items [OF assms] ..

lemma distinct_collect: "distinct (map fst (collect_query_params items))"
proof (induction items rule: rev_induct)
  case (snoc kv items)
  then show ?case
    by (cases kv) (auto simp: collect_query_params_def collect_query_param_def distinct_update split: pv.splits)
qed (simp add: collect_query_params_def)

lemma rendered_of_collected: "rendered t (collected vs) = collected vs"
  by (cases vs rule: remdups_adj.cases) (simp_all add: collected_def rendered_def comp_def)

lemma py_eq_texts: "py_eq_list xs (map PStr vs) \<Longrightarrow> (\<And>x v. x \<in> set xs \<Longrightarrow> py_eq x (PStr v) \<Longrightarrow> x = PStr v) \<Longrightarrow> xs = map PStr vs"
proof (induction xs arbitrary: vs)
  case (Cons x xs)
  then show ?case by (cases vs) auto
qed simp

lemma py_eq_text: "py_eq x (PStr v) \<Longrightarrow> x = PStr v"
  by (cases x) simp_all

lemma py_eq_collected: "py_eq x (collected vs) \<Longrightarrow> x = collected vs"
proof (cases vs rule: remdups_adj.cases)
  case 1
  moreover assume "py_eq x (collected vs)"
  ultimately show ?thesis by (cases x) (simp_all add: collected_def)
next
  case (2 v)
  moreover assume "py_eq x (collected vs)"
  ultimately show ?thesis by (simp add: collected_def py_eq_text)
next
  case (3 v v' vs')
  moreover assume "py_eq x (collected vs)"
  ultimately have "py_eq x (PList (map PStr vs))" "collected vs = PList (map PStr vs)" by (simp_all add: collected_def)
  then show ?thesis by (cases x) (auto dest!: py_eq_texts dest: py_eq_text)
qed

lemma py_eq_entries_map:
  "py_eq_entries d e \<Longrightarrow> (k, v) \<in> set d \<Longrightarrow> \<exists>w. map_of e k = Some w \<and> py_eq v w"
  by (induction d) (auto split: option.splits)

lemma py_eq_dict_collected:
  assumes eq: "py_eq_dict d (collect_query_params items)" and d: "distinct (map fst d)"
  shows "dget d k = dget (collect_query_params items) k"
proof -
  let ?e = "collect_query_params items"
  have sub: "\<exists>w. map_of ?e k = Some w \<and> py_eq v w" if "(k, v) \<in> set d" for k v
    using py_eq_entries_map [of d ?e k v] that eq by (simp add: py_eq_dict_def)
  have keys: "set (map fst d) \<subseteq> set (map fst ?e)"
  proof
    fix k
    assume "k \<in> set (map fst d)"
    then obtain v where "(k, v) \<in> set d" by auto
    from sub [OF this] obtain w where "map_of ?e k = Some w" by blast
    then show "k \<in> set (map fst ?e)" by (metis map_of_SomeD fst_conv image_eqI set_map)
  qed
  moreover have "length (map fst d) = length (map fst ?e)" using eq by (simp add: py_eq_dict_def)
  ultimately have same: "set (map fst d) = set (map fst ?e)"
    using d distinct_collect [of items] by (metis List.finite_set card_subset_eq distinct_card)
  show ?thesis
  proof (cases "map_of d k")
    case None
    then have "map_of ?e k = None" using same by (simp add: map_of_eq_None_iff)
    with None show ?thesis by (simp add: dget_def)
  next
    case (Some v)
    from sub [OF map_of_SomeD [OF Some]] obtain w where w: "map_of ?e k = Some w" "py_eq v w" by blast
    then have "w = collected (map snd (filter (\<lambda>(k', v). k' = k) items))"
      using collect_query_params_complete [of items k] by (simp add: dget_def)
    with w Some show ?thesis using py_eq_collected by (auto simp: dget_def)
  qed
qed

section \<open>Properties\<close>

text \<open>
  C1: over the whole life of a server no handler of a protected path runs without authorization. In every
  state a started server can reach, whatever requests, handlers and answers of the cluster came before, a
  request to a protected path is either answered the same way whatever the handler would do, so that the
  handler does not run, or the handler runs once, on one request that is the original rewritten to what
  was authorized: the caller is the one of the credentials and every rule of the request was satisfied by
  approved reviews, an applied filter or a reference to nothing protected.
\<close>

theorem protected_handler_needs_authorization:
  assumes "new_authorizer loaded ttl (sv_config srv) = Inr a"
    and "serving lib env (handler_safe env DEFAULT_AUTH_GROUP (cf_authorization_mode (sv_config srv)) ttl) srv a c"
    and "\<not> is_unprotected_path (request_path srv r)"
  shows "(\<forall>h h'. dispatch lib srv env h r c = dispatch lib srv env h' r c) \<or>
    (\<exists>result r' c1 finish.
       handed_over lib srv env DEFAULT_AUTH_GROUP (cf_authorization_mode (sv_config srv)) r result r' c1 \<and>
       (\<forall>h. dispatch lib srv env h r c = finish (h r' c1)))"
proof -
  let ?c = "c\<lparr>cx_handled := None\<rparr>" and ?m = "cf_authorization_mode (sv_config srv)"
  have inv: "ctx_inv env DEFAULT_AUTH_GROUP ?m ttl ?c" using serving_inv [OF assms(2,1)] by simp
  show ?thesis
    using dispatch_request_hands_over [OF inv assms(3)]
  proof
    assume same: "\<forall>h h'. dispatch_request lib srv env h r ?c = dispatch_request lib srv env h' r ?c"
    have "dispatch lib srv env h r c = dispatch lib srv env h' r c" for h h'
      unfolding dispatch_def using same by metis
    then show ?thesis by blast
  next
    assume "\<exists>result r' c1 finish. handed_over lib srv env DEFAULT_AUTH_GROUP ?m r result r' c1 \<and>
      ctx_inv env DEFAULT_AUTH_GROUP ?m ttl c1 \<and> (\<forall>h. dispatch_request lib srv env h r ?c = finish (h r' c1))"
    then obtain result r' c1 finish where over: "handed_over lib srv env DEFAULT_AUTH_GROUP ?m r result r' c1"
      and fin: "\<forall>h. dispatch_request lib srv env h r ?c = finish (h r' c1)" by blast
    let ?fin = "\<lambda>run. case finish run of (res, c') \<Rightarrow> (res, c'\<lparr>cx_handled := cx_handled c\<rparr>)"
    have "dispatch lib srv env h r c = ?fin (h r' c1)" for h
      unfolding dispatch_def using fin by simp
    with over show ?thesis by (intro disjI2 exI [of _ result] exI [of _ r'] exI [of _ c1] exI [of _ ?fin] conjI allI)
  qed
qed

text \<open>A server, a request to it and the libraries, for concrete runs.\<close>

definition sample_http :: http_request where
  "sample_http =
     \<lparr>hq_method = ''GET'', hq_url_path = ''/e'', hq_scope_path = None, hq_root_path = None, hq_has_app = True,
      hq_headers = [], hq_query_string = [], hq_path_params = [], hq_body = Inr [], hq_raw = [],
      hq_json = PNone, hq_loaded = False\<rparr>"

definition sample_lib :: http_lib where
  "sample_lib =
     \<lparr>lib_loads = (\<lambda>s. None), lib_loads_utf8 = (\<lambda>s. None), lib_dumps = (\<lambda>d. []), lib_urlencode = (\<lambda>items. []),
      lib_parse_query = (\<lambda>s. []), lib_workspace_header = ''x-mlflow-workspace'',
      lib_workspace_of_header = (\<lambda>h. Inr (Some ''ns'')), lib_text_of = (\<lambda>v. [])\<rparr>"

definition sample_state :: req_state where
  "sample_state =
     \<lparr>cx_world = sample_world SELF_SUBJECT_ACCESS_REVIEW, cx_workspace = None, cx_handled = None, cx_graphql = False\<rparr>"

lemma sample_path: "\<not> is_unprotected_path (request_path sample_server sample_http)"
  by code_simp

lemma sample_unauthenticated:
  "\<exists>e. authenticate sample_server (authorization_request lib sample_server env path ws sample_http) = Inl e"
  by (simp add: authenticate_def sample_server_def authorization_request_def
      build_fastapi_authorization_request_def request_header_def resolve_bearer_token_def nonempty_def
      sample_http_def Let_def)

definition fresh_authorizer :: authorizer where
  "fresh_authorizer =
     \<lparr>az_group = DEFAULT_AUTH_GROUP, az_mode = SELF_SUBJECT_ACCESS_REVIEW,
      az_label = ''Header '' @ quoted ''x-remote-user'',
      az_base_configured = True, az_sar_client = False, az_cache = new_cache 300 10000,
      az_rules_cache = new_cache 300 10000\<rparr>"

theorem protected_handler_needs_authorization_witness:
  "\<forall>h h'. dispatch sample_lib sample_server (sample_env (\<lambda>a. True)) h sample_http
      (sample_state\<lparr>cx_world := (cx_world sample_state)\<lparr>az := fresh_authorizer\<rparr>\<rparr>) =
   dispatch sample_lib sample_server (sample_env (\<lambda>a. True)) h' sample_http
      (sample_state\<lparr>cx_world := (cx_world sample_state)\<lparr>az := fresh_authorizer\<rparr>\<rparr>)"
proof -
  let ?c = "sample_state\<lparr>cx_world := (cx_world sample_state)\<lparr>az := fresh_authorizer\<rparr>\<rparr>"
  have new: "new_authorizer (Inr ()) 300 (sv_config sample_server) = Inr fresh_authorizer"
    by (simp add: new_authorizer_def sample_server_def fresh_authorizer_def)
  have start: "serving sample_lib (sample_env (\<lambda>a. True)) k sample_server fresh_authorizer ?c" for k
    by (rule serving_start) simp
  have "\<not> handed_over sample_lib sample_server (sample_env (\<lambda>a. True)) g m sample_http result r' c1" for g m result r' c1
  proof -
    obtain e where "authenticate sample_server (authorization_request sample_lib sample_server (sample_env (\<lambda>a. True))
        (request_path sample_server sample_http) (request_workspace sample_server c1) sample_http) = Inl e"
      using sample_unauthenticated by blast
    then show ?thesis by (simp add: handed_over_def request_authorized_def Let_def)
  qed
  with protected_handler_needs_authorization [OF new start sample_path] show ?thesis by blast
qed

section \<open>The answer to a workspace listing\<close>

lemma replaced_payload_read:
  assumes "read_json_response_payload lib resp = Some p"
    and "lib_loads_utf8 lib (lib_dumps lib d) = Some (PDict d)"
  shows "read_json_response_payload lib (replace_json_response_payload lib d resp) = Some d"
proof -
  have header: "map_of (hr_headers (replace_json_response_payload lib d resp)) ''content-type'' =
      map_of (hr_headers resp) ''content-type''"
    by (simp add: replace_json_response_payload_def Let_def update_conv')
  have "contains_str (py_lower (opt_text (map_of (hr_headers resp) ''content-type''))) ''application/json''"
    using assms(1) by (simp add: read_json_response_payload_def split: if_splits)
  with assms(2) show ?thesis unfolding read_json_response_payload_def
    by (simp add: header) (simp add: replace_json_response_payload_def Let_def)
qed

lemma filtered_listing_approved:
  assumes filtered: "listing_filtered lib env g m i resp resp'"
    and json: "\<forall>d. hr_body resp' = lib_dumps lib d \<longrightarrow> lib_loads_utf8 lib (lib_dumps lib d) = Some (PDict d)"
    and payload: "read_json_response_payload lib resp' = Some payload" and wss: "dget payload ''workspaces'' = PList wss"
  shows "list_all (workspace_approved env g m i) wss"
proof (cases "read_json_response_payload lib resp")
  case None
  with filtered payload show ?thesis by (simp add: listing_filtered_def)
next
  case (Some p)
  show ?thesis
  proof (cases "dget p ''workspaces''")
    case (PList l)
    with filtered Some obtain kept where kept: "list_all (workspace_approved env g m i) kept"
      and resp': "resp' = (if kept = l then resp
        else replace_json_response_payload lib (AList.update ''workspaces'' (PList kept) p) resp)"
      by (auto simp: listing_filtered_def)
    have "wss = kept"
    proof (cases "kept = l")
      case True
      with payload wss PList Some show ?thesis by (simp add: resp')
    next
      case False
      let ?d = "AList.update ''workspaces'' (PList kept) p"
      from False resp' have new: "resp' = replace_json_response_payload lib ?d resp" by simp
      then have "lib_loads_utf8 lib (lib_dumps lib ?d) = Some (PDict ?d)"
        using json by (simp add: replace_json_response_payload_def Let_def)
      from replaced_payload_read [OF Some this] payload have "payload = ?d" by (simp add: new)
      with wss show ?thesis by simp
    qed
    with kept show ?thesis by simp
  qed (use filtered Some payload wss in \<open>simp_all add: listing_filtered_def\<close>)
qed

text \<open>
  C5: a caller sees only workspaces Kubernetes lets the caller list. The middleware leaves in the answer to
  a workspace listing, in order, only workspaces whose name was approved by a review of one of the workspace
  resources, and changes nothing else; read back as JSON the answer lists no other workspace.
\<close>

theorem workspace_listing_filtered:
  assumes "az_inv env g m ttl w"
    and "apply_workspace_filter (hd (ar_rules result))" and "hr_status resp < 400"
    and "apply_response_authorization_filters lib env result resp w = (Inr resp', w')"
  shows "listing_filtered lib env g m (ar_identity result) resp resp' \<and>
    (\<forall>payload wss. (\<forall>d. hr_body resp' = lib_dumps lib d \<longrightarrow> lib_loads_utf8 lib (lib_dumps lib d) = Some (PDict d)) \<longrightarrow>
       read_json_response_payload lib resp' = Some payload \<longrightarrow> dget payload ''workspaces'' = PList wss \<longrightarrow>
       list_all (workspace_approved env g m (ar_identity result)) wss)"
proof -
  have "filter_workspace_list_response lib env (ar_identity result) resp w = (Inr resp', w')"
    using assms(2-4) by (simp add: apply_response_authorization_filters_def)
  from safeD [OF safe_filter_workspaces assms(1) this]
  have filtered: "listing_filtered lib env g m (ar_identity result) resp resp'" by simp
  with filtered_listing_approved show ?thesis by blast
qed

theorem workspace_listing_filtered_witness:
  "workspace_approved (sample_env (\<lambda>a. ra_namespace a = ''a'')) DEFAULT_AUTH_GROUP SELF_SUBJECT_ACCESS_REVIEW
     sample_identity (PDict [(''name'', PStr ''a'')])"
proof -
  let ?env = "sample_env (\<lambda>a. ra_namespace a = ''a'')"
  let ?a = "[(''workspaces'', PList [PDict [(''name'', PStr ''a'')]])]"
  let ?all = "[PDict [(''name'', PStr ''b'')], PDict [(''name'', PStr ''a'')]]"
  define lib where "lib = sample_lib\<lparr>lib_dumps := (\<lambda>d. if d = ?a then [] else ''y''),
      lib_loads_utf8 := (\<lambda>s. Some (PDict (if s = [] then ?a else [(''workspaces'', PList ?all)])))\<rparr>"
  let ?result = "\<lparr>ar_identity = sample_identity, ar_rules = [sample_rule\<lparr>apply_workspace_filter := True\<rparr>],
      ar_request = sample_request, ar_username = None\<rparr>"
  let ?resp = "\<lparr>hr_status = 200, hr_headers = [(''content-type'', ''application/json'')], hr_body = ''x''\<rparr>"
  define resp' where "resp' = replace_json_response_payload lib ?a ?resp"
  have type: "contains_str (py_lower (opt_text (Some ''application/json''))) ''application/json''" by code_simp
  have dumps: "lib_dumps lib d = (if d = ?a then [] else ''y'')"
    "lib_loads_utf8 lib s = Some (PDict (if s = [] then ?a else [(''workspaces'', PList ?all)]))" for d s
    by (simp_all add: lib_def)
  have json: "read_json_response_payload lib ?resp = Some [(''workspaces'', PList ?all)]"
    "read_json_response_payload lib resp' = Some ?a" and body: "hr_body resp' = []"
    by (simp_all add: read_json_response_payload_def resp'_def replace_json_response_payload_def Let_def dumps type)
  let ?run = "apply_response_authorization_filters lib ?env ?result ?resp (sample_world SELF_SUBJECT_ACCESS_REVIEW)"
  have "fst ?run = Inr resp'"
    by (simp add: apply_response_authorization_filters_def filter_workspace_list_response_def json resp'_def
        accessible_workspaces_def can_access_workspace_def workspace_names_def map_filter_def workspace_kept_def dget_def
        WORKSPACE_PERMISSION_RESOURCE_PRIORITY_def
        run_defs Let_def eff_defs world_eff_defs subject_hash_def decision_key_def
        key_attrs_def opt_text_def sample_defs effective_resource_name_def normalize_resource_type_def resource_defs)
  then obtain w' where run: "?run = (Inr resp', w')" by (metis prod.collapse)
  have reads: "\<forall>d. hr_body resp' = lib_dumps lib d \<longrightarrow> lib_loads_utf8 lib (lib_dumps lib d) = Some (PDict d)"
    by (simp add: body dumps)
  have "list_all (workspace_approved ?env DEFAULT_AUTH_GROUP SELF_SUBJECT_ACCESS_REVIEW sample_identity)
      [PDict [(''name'', PStr ''a'')]]"
    using workspace_listing_filtered [OF az_inv_sample _ _ run] reads json(2) by (simp add: dget_def)
  then show ?thesis by simp
qed

section \<open>The handler reads what was authorized\<close>

lemma map_of_filtered_out: "\<not> P k \<Longrightarrow> map_of (filter (\<lambda>(k, v). P k) hs) k = None"
  by (auto simp: map_of_eq_None_iff)

lemma request_header_set_body:
  "request_header (set_request_json_body lib d r) ''content-type'' = Some ''application/json''"
  "request_header (set_request_json_body lib d r) ''content-length'' = Some (nat_text (length (lib_dumps lib d)))"
proof -
  let ?e = "[(''content-length'', nat_text (length (lib_dumps lib d))), (''content-type'', ''application/json'')]"
  have lower: "py_lower ''content-length'' = ''content-length''" "py_lower ''content-type'' = ''content-type''"
    "map ascii_lower ''content-length'' = ''content-length''" "map ascii_lower ''content-type'' = ''content-type''"
    by code_simp+
  have headers: "hq_headers (set_request_json_body lib d r) =
      filter (\<lambda>(k, v). map_of ?e (map ascii_lower k) = None) (hq_headers r) @ ?e"
    by (simp add: set_request_json_body_def replace_scope_headers_def Let_def lower)
  have found: "map_of ?e (map ascii_lower ''content-type'') = Some ''application/json''"
    "map_of ?e (map ascii_lower ''content-length'') = Some (nat_text (length (lib_dumps lib d)))"
    unfolding lower by simp_all
  have "map_of (hq_headers (set_request_json_body lib d r)) k = map_of ?e k" if "map_of ?e (map ascii_lower k) \<noteq> None" for k
    unfolding headers map_of_append map_add_def using that by (subst map_of_filtered_out) (auto split: option.splits)
  from this [of "''content-type''"] this [of "''content-length''"] found
  show "request_header (set_request_json_body lib d r) ''content-type'' = Some ''application/json''"
    "request_header (set_request_json_body lib d r) ''content-length'' = Some (nat_text (length (lib_dumps lib d)))"
    unfolding request_header_def lower by simp_all
qed

text \<open>The rewritten request: the new body if there is one, then the new query string if it differs.\<close>

definition with_body :: "http_lib \<Rightarrow> string option \<Rightarrow> bool \<Rightarrow> pv \<Rightarrow> http_request \<Rightarrow> http_request" where
  "with_body lib username override body r =
     (case body of PDict d \<Rightarrow> set_request_json_body lib (written_body username override d) r | _ \<Rightarrow> r)"

lemma rewritten_shape:
  assumes "hq_json r = PNone"
  shows "apply_request_context_rewrites lib (authorization_request lib srv env path workspace r) updated username override r =
    (let r1 = with_body lib username override (rq_json_body updated) r in
     if \<not> py_eq_dict (rq_query_params updated) (collect_query_params (lib_parse_query lib (hq_query_string r)))
     then set_request_query_params lib (rq_query_params updated) r1 else r1)"
  unfolding apply_request_context_rewrites_def with_body_def Let_def authorization_request_def
    build_fastapi_authorization_request_def
  by (cases "rq_json_body updated") (simp_all add: assms)

lemma with_body_query: "hq_query_string (with_body lib username override body r) = hq_query_string r"
  by (simp add: with_body_def set_request_json_body_def replace_scope_headers_def Let_def split: pv.splits)

lemma set_query_keeps:
  "hq_body (set_request_query_params lib q r) = hq_body r"
  "request_header (set_request_query_params lib q r) = request_header r"
  by (simp_all add: set_request_query_params_def request_header_def fun_eq_iff)

lemma with_body_reads:
  assumes "\<forall>d. body = PDict d \<longrightarrow> lib_dumps lib (written_body username override d) \<noteq> [] \<and>
      lib_loads lib (lib_dumps lib (written_body username override d)) = Some (PDict (written_body username override d))"
    and "r1 = with_body lib username override body r"
  shows "case body of
       PDict d \<Rightarrow> \<exists>raw. hq_body r1 = Inr raw \<and> parse_request_body lib raw = PDict (written_body username override d) \<and>
         request_header r1 ''content-type'' = Some ''application/json'' \<and>
         request_header r1 ''content-length'' = Some (nat_text (length raw))
     | _ \<Rightarrow> hq_body r1 = hq_body r"
proof (cases body)
  case (PDict d)
  then have r1: "r1 = set_request_json_body lib (written_body username override d) r" by (simp add: assms(2) with_body_def)
  then have "hq_body r1 = Inr (lib_dumps lib (written_body username override d))"
    by (simp add: set_request_json_body_def replace_scope_headers_def Let_def)
  moreover have "parse_request_body lib (lib_dumps lib (written_body username override d)) =
      PDict (written_body username override d)"
    using assms(1) PDict by (simp add: parse_request_body_def)
  ultimately show ?thesis by (simp add: PDict r1 request_header_set_body)
qed (simp_all add: assms(2) with_body_def)

text \<open>
  C6: the handler reads the request that was authorized. After the rewrites, the query string MLflow parses
  gives for every parameter the value the authorization left, an empty list reading as a missing one; and
  if the authorization left a body object, the body is that object as JSON, with the authenticated user in
  \<open>user_id\<close> when a run's user is overridden, and headers that say so. Nothing filtered out by the
  authorization is left for the handler to find.
\<close>

theorem rewritten_request_reads_back:
  assumes "hq_json r = PNone" and "distinct (map fst (rq_query_params updated))"
    and "lib_parse_query lib (lib_urlencode lib (query_items (lib_text_of lib) (rq_query_params updated))) =
      query_items (lib_text_of lib) (rq_query_params updated)"
    and "\<forall>d. rq_json_body updated = PDict d \<longrightarrow> lib_dumps lib (written_body username override d) \<noteq> [] \<and>
      lib_loads lib (lib_dumps lib (written_body username override d)) = Some (PDict (written_body username override d))"
    and "r' = apply_request_context_rewrites lib (authorization_request lib srv env path workspace r) updated
      username override r"
  shows "dget (collect_query_params (lib_parse_query lib (hq_query_string r'))) k =
      rendered (lib_text_of lib) (dget (rq_query_params updated) k) \<and>
    (case rq_json_body updated of
       PDict d \<Rightarrow> \<exists>raw. hq_body r' = Inr raw \<and> parse_request_body lib raw = PDict (written_body username override d) \<and>
         request_header r' ''content-type'' = Some ''application/json'' \<and>
         request_header r' ''content-length'' = Some (nat_text (length raw))
     | _ \<Rightarrow> hq_body r' = hq_body r)"
proof -
  define r1 where "r1 = with_body lib username override (rq_json_body updated) r"
  let ?q = "collect_query_params (lib_parse_query lib (hq_query_string r))"
  have r': "r' = (if \<not> py_eq_dict (rq_query_params updated) ?q
      then set_request_query_params lib (rq_query_params updated) r1 else r1)"
    unfolding assms(5) rewritten_shape [OF assms(1)] by (simp add: Let_def r1_def)
  then have "hq_body r' = hq_body r1" "request_header r' = request_header r1" by (simp_all add: set_query_keeps)
  moreover have "dget (collect_query_params (lib_parse_query lib (hq_query_string r'))) k =
      rendered (lib_text_of lib) (dget (rq_query_params updated) k)"
  proof (cases "py_eq_dict (rq_query_params updated) ?q")
    case True
    then have "hq_query_string r' = hq_query_string r" by (simp add: r' r1_def with_body_query)
    then show ?thesis
      using py_eq_dict_collected [OF True assms(2), of k]
        collect_query_params_complete [of "lib_parse_query lib (hq_query_string r)" k]
      by (simp add: rendered_of_collected)
  next
    case False
    then have "hq_query_string r' = lib_urlencode lib (query_items (lib_text_of lib) (rq_query_params updated))"
      by (simp add: r' set_request_query_params_def)
    then show ?thesis by (simp add: assms(3) collect_query_items [OF assms(2)])
  qed
  ultimately show ?thesis using with_body_reads [OF assms(4) r1_def] by (simp only: simp_thms)
qed

definition sample_narrowed :: request where
  "sample_narrowed = sample_request\<lparr>rq_query_params := [(''filter'', PStr ''x'')],
     rq_json_body := PDict [(''run_id'', PStr ''7'')]\<rparr>"

definition rewrite_lib :: http_lib where
  "rewrite_lib = sample_lib\<lparr>lib_dumps := (\<lambda>d. ''j''),
     lib_loads := (\<lambda>s. Some (PDict [(''run_id'', PStr ''7''), (''user_id'', PStr ''u'')])),
     lib_urlencode := (\<lambda>items. ''q''), lib_parse_query := (\<lambda>s. if s = [] then [] else [(''filter'', ''x'')])\<rparr>"

definition sample_rewritten :: http_request where
  "sample_rewritten = apply_request_context_rewrites rewrite_lib
     (authorization_request rewrite_lib sample_server (sample_env (\<lambda>a. True)) ''/e'' None sample_http)
     sample_narrowed (Some ''u'') True sample_http"

theorem rewritten_request_reads_back_witness:
  "dget (collect_query_params (lib_parse_query rewrite_lib (hq_query_string sample_rewritten))) ''filter'' = PStr ''x'' \<and>
   (\<exists>raw. hq_body sample_rewritten = Inr raw \<and>
      parse_request_body rewrite_lib raw = PDict [(''run_id'', PStr ''7''), (''user_id'', PStr ''u'')])"
proof -
  have w: "written_body (Some ''u'') True [(''run_id'', PStr ''7'')] = [(''run_id'', PStr ''7''), (''user_id'', PStr ''u'')]"
    by (simp add: written_body_def opt_text_def nonempty_def)
  have "hq_json sample_http = PNone" "distinct (map fst (rq_query_params sample_narrowed))"
    "lib_parse_query rewrite_lib (lib_urlencode rewrite_lib (query_items (lib_text_of rewrite_lib) (rq_query_params sample_narrowed))) =
      query_items (lib_text_of rewrite_lib) (rq_query_params sample_narrowed)"
    "\<forall>d. rq_json_body sample_narrowed = PDict d \<longrightarrow> lib_dumps rewrite_lib (written_body (Some ''u'') True d) \<noteq> [] \<and>
      lib_loads rewrite_lib (lib_dumps rewrite_lib (written_body (Some ''u'') True d)) = Some (PDict (written_body (Some ''u'') True d))"
    by (simp_all add: sample_http_def sample_narrowed_def rewrite_lib_def w query_items_def query_items_of_def)
  from rewritten_request_reads_back [OF this sample_rewritten_def, of "''filter''"]
  show ?thesis by (auto simp: sample_narrowed_def rendered_def dget_def w)
qed

section \<open>The context is restored\<close>

text \<open>A handler leaves the context variables of the request as it found them.\<close>

definition keeps_context :: "handler_run \<Rightarrow> bool" where
  "keeps_context h \<longleftrightarrow>
     (\<forall>r c. cx_workspace (snd (h r c)) = cx_workspace c \<and> cx_graphql (snd (h r c)) = cx_graphql c)"

text \<open>An exception the middleware does not answer: one that is not MLflow's.\<close>

definition unanswered :: "exc \<Rightarrow> bool" where
  "unanswered e \<longleftrightarrow> (\<forall>code message. e \<noteq> MlflowExc code message)"

lemma in_context_frame:
  "in_context env f c = (x, c') \<Longrightarrow> cx_graphql c' = cx_graphql c \<and> cx_workspace c' = cx_workspace c"
  by (auto simp: in_context_def split: prod.splits)

lemma serve_authorized_context:
  assumes "keeps_context h" and "serve_authorized lib env h b graphql rq result r c = (res, c')"
  shows "cx_graphql c' = graphql \<and> cx_workspace c' = (if b then None else cx_workspace c)"
proof -
  let ?r = "apply_request_context_rewrites lib rq (ar_request result) (ar_username result) (override_run_user (hd (ar_rules result))) r"
  obtain res1 c1 where h: "h ?r c = (res1, c1)" by (cases "h ?r c")
  with assms(1) have "cx_workspace c1 = cx_workspace c" unfolding keeps_context_def by (metis snd_conv)
  with assms(2) h show ?thesis
    by (auto simp: serve_authorized_def andthen_def run_handler_def clear_if_def ret_def
        split: prod.splits sum.splits dest!: in_context_frame)
qed

lemma dispatch_protected_context:
  assumes h: "keeps_context h" and run: "dispatch_protected lib srv env h path r ws b c0 = (res, c2)"
  shows "cx_graphql c2 = cx_graphql c0 \<and> (cx_workspace c2 = (if b then None else cx_workspace c0) \<or>
    (\<exists>e. res = Inl e \<and> unanswered e \<and> cx_workspace c2 = cx_workspace c0))"
proof -
  let ?rq = "authorization_request lib srv env path ws r"
  obtain res1 c3 where auth: "in_context env (\<lambda>env. authorize_request srv env ?rq) c0 = (res1, c3)"
    by (cases "in_context env (\<lambda>env. authorize_request srv env ?rq) c0")
  show ?thesis
  proof (cases res1)
    case (Inl e)
    with run auth in_context_frame [OF auth] show ?thesis
      by (cases e) (auto simp: dispatch_protected_def Let_def clear_if_def unanswered_def)
  next
    case (Inr result)
    with run auth have "serve_authorized lib env h b (cx_graphql c3) ?rq result r
        (c3\<lparr>cx_handled := Some result, cx_graphql := True\<rparr>) = (res, c2)"
      by (simp add: dispatch_protected_def Let_def)
    from serve_authorized_context [OF h this] in_context_frame [OF auth] show ?thesis by simp
  qed
qed

text \<open>What the resolution of the workspace leaves: the flag says that the middleware set it.\<close>

lemma resolve_request_workspace_context:
  assumes "resolve_request_workspace lib srv r c = (ws, c0)"
  shows "cx_graphql c0 = cx_graphql c \<and>
    (case ws of
       Inr (Inr (n, True)) \<Rightarrow> cx_workspace c = None \<and> cx_workspace c0 \<noteq> None
     | _ \<Rightarrow> cx_workspace c0 = cx_workspace c)"
  using assms by (auto simp: resolve_request_workspace_def split: if_splits option.splits sum.splits exc.splits)

lemma dispatch_request_context:
  assumes h: "keeps_context h" and run: "dispatch_request lib srv env h r c = (res, c1)"
  shows "cx_graphql c1 = cx_graphql c \<and> (cx_workspace c1 = cx_workspace c \<or>
    (\<exists>e. res = Inl e \<and> unanswered e \<and> cx_workspace c = None \<and> cx_workspace c1 \<noteq> None))"
proof (cases "\<not> hq_has_app r \<or> is_unprotected_path (request_path srv r)")
  case True
  moreover have "cx_workspace (snd (h r c)) = cx_workspace c" "cx_graphql (snd (h r c)) = cx_graphql c"
    using h by (simp_all add: keeps_context_def)
  ultimately show ?thesis
    using run by (auto simp: dispatch_request_def request_path_def Let_def andthen_def ret_def
        split: if_splits prod.splits sum.splits)
next
  case False
  obtain ws c0 where ws: "resolve_request_workspace lib srv r c = (ws, c0)" by (cases "resolve_request_workspace lib srv r c")
  note c0 = resolve_request_workspace_context [OF ws]
  have step: "(case ws of Inl e \<Rightarrow> (Inl e, c0) | Inr (Inl e) \<Rightarrow> (Inr (Refused e), c0)
      | Inr (Inr (n, b)) \<Rightarrow> dispatch_protected lib srv env h (request_path srv r) r n b c0) = (res, c1)"
    using False ws run
    by (auto simp: dispatch_request_def request_path_def andthen_def ret_def Let_def split: sum.splits prod.splits)
  show ?thesis
  proof (cases "\<exists>n b. ws = Inr (Inr (n, b))")
    case True
    then obtain n b where w: "ws = Inr (Inr (n, b))" by blast
    with step have "dispatch_protected lib srv env h (request_path srv r) r n b c0 = (res, c1)" by simp
    from dispatch_protected_context [OF h this] c0 w show ?thesis by (cases b) auto
  next
    case False
    then obtain e where "ws = Inl e \<or> ws = Inr (Inl e)" by (metis old.sum.exhaust surj_pair)
    moreover from this have "c1 = c0" using step by auto
    ultimately show ?thesis using c0 by auto
  qed
qed

text \<open>
  C8: a request leaves nothing behind in the context. After every dispatch, whether it answers or raises,
  the authorization result and the GraphQL authorizer are those from before, and so is the workspace of
  MLflow's request context, with one exception: if the middleware itself set the workspace and the
  authorization raises something that is not an exception of MLflow, the workspace stays set.
\<close>

theorem dispatch_restores_context:
  assumes h: "keeps_context h" and run: "dispatch lib srv env h r c = (res, c')"
  shows "cx_handled c' = cx_handled c \<and> cx_graphql c' = cx_graphql c \<and>
    (cx_workspace c' = cx_workspace c \<or>
     (\<exists>e. res = Inl e \<and> unanswered e \<and> cx_workspace c = None \<and> cx_workspace c' \<noteq> None))"
proof -
  obtain c1 where c1: "dispatch_request lib srv env h r (c\<lparr>cx_handled := None\<rparr>) = (res, c1)" "c' = c1\<lparr>cx_handled := cx_handled c\<rparr>"
    using run by (auto simp: dispatch_def split: prod.splits)
  from dispatch_request_context [OF h c1(1)] show ?thesis by (simp add: c1(2))
qed

text \<open>The exception does happen: a gateway budget whose target scope is a list.\<close>

definition budget_server :: server where
  "budget_server = sample_server\<lparr>sv_registry := empty_registry\<lparr>
     auth_rules := [((''/e'', ''POST''), [gateway_budgets_rule (Some ''create'')])], rules_compiled := True\<rparr>\<rparr>"

definition budget_call :: http_request where
  "budget_call = sample_http\<lparr>hq_method := ''POST'', hq_body := Inr ''b'',
     hq_headers := [(''x-forwarded-access-token'', ''t''), (''content-type'', ''application/json'')]\<rparr>"

definition budget_lib :: http_lib where
  "budget_lib = sample_lib\<lparr>lib_loads := (\<lambda>s. Some (PDict [(''target_scope'', PList [])]))\<rparr>"

definition answer_ok :: handler_run where
  "answer_ok r = ret \<lparr>hr_status = 200, hr_headers = [], hr_body = []\<rparr>"

lemma budget_server_simps:
  "cf_workspaces_enabled (sv_config budget_server) = True" "sv_static budget_server = None"
  "auth_rules (sv_registry budget_server) = [((''/e'', ''POST''), [gateway_budgets_rule (Some ''create'')])]"
  by (simp_all add: budget_server_def sample_server_def)

lemma budget_request_raises:
  assumes rq: "rq_path rq = ''/e''" "rq_method rq = ''POST''" "rq_workspace rq = Some ''ns''" "rq_json_body rq = PNone"
    "rq_forwarded_access_token rq = Some ''t''" "rq_authorization_header rq = None"
    "rq_ensure_json_body rq = Some (Inr (PDict [(''target_scope'', PList [])]))"
  shows "fst (authorize_request budget_server env rq w) = Inl PyTypeError"
proof -
  have canonical: "canonical_route None ''/e'' = ''/e''" and post: "py_upper ''POST'' = ''POST''" by code_simp+
  let ?rule = "gateway_budgets_rule (Some ''create'')"
  have auth: "authenticate budget_server rq = Inr (sample_caller, None)"
    unfolding authenticate_def rq by code_simp
  have found: "find_authorization_rules env None (sv_registry budget_server) ''/e'' ''POST'' g = Some [?rule]" for g
    by (simp add: find_authorization_rules_def canonical Let_def budget_server_simps endswith_def)
  have rules: "request_rules budget_server env rq w = (Inr (rq, [?rule]), w)" for w
    by (simp add: request_rules_def rq budget_server_simps endswith_def found eff_defs)
       (simp add: rule_defs)
  have ws: "resolve_workspace rq r rq = (Some ''ns'', rq)" for r
    by (simp add: resolve_workspace_def rq nonempty_def py_strip_def py_rstrip_def py_lstrip_def is_space_def opt_text_def)
  have budget: "enforce_gateway_budget_scope env rq ?rule w = (Inl PyTypeError, w)" for w
    by (simp add: enforce_gateway_budget_scope_def rule_defs resource_defs rq post
        ensure_request_context_json_body_def eff_defs json_dict_def reject_global_scope_def dget_def is_global_scope_def)
  have "authorize_rule env i rq (Some ''ns'') ?rule rq w = (Inl PyTypeError, w)" for i w
    using budget [of w]
    by (simp add: authorize_rule_def authorize_verb_def rule_defs andthen_def)
  then show ?thesis
    by (simp add: authorize_request_def eff_defs auth rules ws budget_server_simps)
qed

lemma budget_authorization_request:
  fixes env :: env
  defines "rq \<equiv> authorization_request budget_lib budget_server env ''/e'' (Some ''ns'') budget_call"
  shows "rq_path rq = ''/e''" "rq_method rq = ''POST''" "rq_workspace rq = Some ''ns''" "rq_json_body rq = PNone"
    "rq_forwarded_access_token rq = Some ''t''" "rq_authorization_header rq = None"
    "rq_ensure_json_body rq = Some (Inr (PDict [(''target_scope'', PList [])]))"
proof -
  have body: "map_sum id (hq_json \<circ> snd) (ensure_request_json_body budget_lib budget_call) =
      Inr (PDict [(''target_scope'', PList [])])"
    by code_simp
  have headers: "request_header budget_call ''X-Forwarded-Access-Token'' = Some ''t''"
    "request_header budget_call ''Authorization'' = None"
    by code_simp+
  have "\<exists>p r. ensure_request_json_body budget_lib budget_call = Inr (p, r) \<and> hq_json r = PDict [(''target_scope'', PList [])]"
    using body by (cases "ensure_request_json_body budget_lib budget_call") auto
  then show "rq_path rq = ''/e''" "rq_method rq = ''POST''" "rq_workspace rq = Some ''ns''" "rq_json_body rq = PNone"
    "rq_forwarded_access_token rq = Some ''t''" "rq_authorization_header rq = None"
    "rq_ensure_json_body rq = Some (Inr (PDict [(''target_scope'', PList [])]))"
    by (auto simp: rq_def authorization_request_def build_fastapi_authorization_request_def Let_def headers)
       (simp_all add: budget_call_def sample_http_def)
qed

theorem dispatch_restores_context_witness:
  "\<exists>c'. dispatch budget_lib budget_server (sample_env (\<lambda>a. True)) answer_ok budget_call sample_state = (Inl PyTypeError, c') \<and>
     cx_workspace c' = Some ''ns'' \<and> cx_handled c' = None \<and> \<not> cx_graphql c'"
proof -
  let ?env = "sample_env (\<lambda>a. True)"
  have path: "canonicalize_path (sv_static budget_server) (hq_url_path budget_call) None (hq_scope_path budget_call)
      (hq_root_path budget_call) None = ''/e''" "\<not> is_unprotected_path ''/e''" "hq_has_app budget_call"
    by code_simp+
  have ws: "resolve_request_workspace budget_lib budget_server budget_call (sample_state\<lparr>cx_handled := None\<rparr>) =
      (Inr (Inr (Some ''ns'', True)), sample_state\<lparr>cx_workspace := Some ''ns''\<rparr>)"
    by (simp add: resolve_request_workspace_def budget_server_simps sample_state_def budget_lib_def sample_lib_def)
  have raises: "fst (in_context ?env (\<lambda>env. authorize_request budget_server env
      (authorization_request budget_lib budget_server ?env ''/e'' (Some ''ns'') budget_call)) c) = Inl PyTypeError" for c
    using budget_request_raises [OF budget_authorization_request [of ?env]]
    by (simp add: in_context_def split: prod.split) (metis fst_conv)
  obtain c1 where auth: "in_context ?env (\<lambda>env. authorize_request budget_server env
      (authorization_request budget_lib budget_server ?env ''/e'' (Some ''ns'') budget_call))
      (sample_state\<lparr>cx_workspace := Some ''ns''\<rparr>) = (Inl PyTypeError, c1)"
    using raises by (metis prod.collapse)
  have run: "dispatch budget_lib budget_server ?env answer_ok budget_call sample_state =
      (Inl PyTypeError, c1\<lparr>cx_handled := cx_handled sample_state\<rparr>)"
    unfolding dispatch_def dispatch_request_def path Let_def andthen_def ws dispatch_protected_def
    using path by (simp add: ws auth)
  have "keeps_context answer_ok" by (simp add: keeps_context_def answer_ok_def ret_def)
  from dispatch_restores_context [OF this run] in_context_frame [OF auth] show ?thesis
    unfolding run by (simp add: sample_state_def)
qed

end
