(* ===== verification/Kube_Client.thy ===== *)
theory Kube_Client
  imports Core_Safety
begin

text \<open>
  The Kubernetes clients of \<open>auth/authorizer.py\<close>: how configurations are loaded, the client of a token,
  which acts with the caller's credentials only, and the client that impersonates, whose headers name the
  caller. The generated client and the transport are the environment.
\<close>

section \<open>Configurations\<close>

record kube_config =
  kc_host :: string
  kc_ssl_ca_cert :: "string option"
  kc_verify_ssl :: bool
  kc_proxy :: "string option"
  kc_no_proxy :: "string option"
  kc_proxy_headers :: "(string \<times> string) list"
  kc_safe_chars :: string
  kc_pool_maxsize :: int
  kc_assert_hostname :: "string option"
  kc_retries :: "int option"
  kc_cert_file :: "string option"
  kc_key_file :: "string option"
  kc_username :: "string option"
  kc_password :: "string option"
  kc_refresh_hook :: bool
  kc_api_key :: "(string \<times> string) list"
  kc_api_key_prefix :: "(string \<times> string) list"

text \<open>
  The two loaders of the client library, \<open>None\<close> for a \<open>ConfigException\<close>. \<open>_load_kubernetes_configuration\<close>
  lets the second exception through, the others turn it into an error of MLflow.
\<close>

definition load_kubernetes_configuration :: "kube_config option \<Rightarrow> kube_config option \<Rightarrow> exc + kube_config" where
  "load_kubernetes_configuration incluster kubeconfig =
     (case incluster of
        Some c \<Rightarrow> Inr c
      | None \<Rightarrow> (case kubeconfig of Some c \<Rightarrow> Inr c | None \<Rightarrow> Inl OtherExc))"

definition load_or_fail :: "string \<Rightarrow> kube_config option \<Rightarrow> kube_config option \<Rightarrow> exc + kube_config" where
  "load_or_fail purpose incluster kubeconfig =
     (case incluster of
        Some c \<Rightarrow> Inr c
      | None \<Rightarrow>
          (case kubeconfig of
             Some c \<Rightarrow> Inr c
           | None \<Rightarrow> Inl (MlflowExc INVALID_STATE (''Failed to load Kubernetes configuration for '' @ purpose))))"

definition create_api_client_for_subject_access_reviews ::
  "kube_config option \<Rightarrow> kube_config option \<Rightarrow> exc + kube_config" where
  "create_api_client_for_subject_access_reviews = load_or_fail ''authorization plugin''"

definition create_api_clients :: "kube_config option \<Rightarrow> kube_config option \<Rightarrow> exc + kube_config" where
  "create_api_clients = load_or_fail ''workspace provider''"

text \<open>\<open>fresh\<close> is \<open>client.Configuration()\<close>.\<close>

definition build_api_client_with_token ::
  "kube_config \<Rightarrow> kube_config option \<Rightarrow> string \<Rightarrow> exc + kube_config" where
  "build_api_client_with_token fresh base_configuration token =
     (case base_configuration of
        None \<Rightarrow> Inl (MlflowExc INTERNAL_ERROR
          ''SelfSubjectAccessReview mode is not initialized with base configuration.'')
      | Some base \<Rightarrow> Inr (fresh
          \<lparr>kc_host := kc_host base, kc_ssl_ca_cert := kc_ssl_ca_cert base, kc_verify_ssl := kc_verify_ssl base,
           kc_proxy := kc_proxy base, kc_no_proxy := kc_no_proxy base, kc_proxy_headers := kc_proxy_headers base,
           kc_safe_chars := kc_safe_chars base, kc_pool_maxsize := kc_pool_maxsize base,
           kc_assert_hostname := kc_assert_hostname base, kc_retries := kc_retries base,
           kc_cert_file := None, kc_key_file := None, kc_username := None, kc_password := None,
           kc_refresh_hook := False,
           kc_api_key := [(''BearerToken'', token), (''authorization'', token)],
           kc_api_key_prefix := [(''BearerToken'', ''Bearer''), (''authorization'', ''Bearer'')]\<rparr>))"

section \<open>Impersonation headers\<close>

text \<open>
  A request goes out with its headers in order, one line each. \<open>HTTPHeaderDict.add\<close> adds a value to a
  name and keeps the values apart, so every group is a line of its own.
\<close>

type_synonym headers = "(string \<times> string) list"

definition impersonate_groups :: "string list \<Rightarrow> headers \<Rightarrow> headers" where
  "impersonate_groups groups hs = hs @ map (\<lambda>g. (''Impersonate-Group'', g)) groups"

text \<open>The headers of the impersonated rules review: those of the client, the user, the groups.\<close>

definition impersonation_headers :: "headers \<Rightarrow> string \<Rightarrow> string list \<Rightarrow> headers" where
  "impersonation_headers client_headers user groups =
     impersonate_groups groups (AList.update ''Impersonate-User'' user client_headers)"

text \<open>What HTTP makes of headers: lines \<open>name: value\<close> ended by CR LF, read back by splitting at them.\<close>

definition LF :: char where "LF = CHR 0x0A"
definition CR :: char where "CR = CHR 0x0D"

definition header_line :: "string \<times> string \<Rightarrow> string" where
  "header_line h = fst h @ '': '' @ snd h @ [CR]"

definition header_block :: "headers \<Rightarrow> string" where
  "header_block hs = py_join [LF] (map header_line hs)"

definition read_header_line :: "string \<Rightarrow> string \<times> string" where
  "read_header_line line =
     (case py_partition CHR '':'' line of (n, value) \<Rightarrow> (py_lower n, py_strip (opt_text value)))"

definition read_headers :: "string \<Rightarrow> headers" where
  "read_headers block = map read_header_line (py_split [LF] block)"

definition received :: "string \<Rightarrow> headers \<Rightarrow> string list" where
  "received n hs = map snd (filter (\<lambda>h. fst h = n) hs)"

section \<open>Kubernetes sees the caller\<close>

text \<open>Headers the transport can carry: no colon in a name, no line break anywhere.\<close>

definition plain_header :: "string \<times> string \<Rightarrow> bool" where
  "plain_header h \<longleftrightarrow> CHR '':'' \<notin> set (fst h) \<and> \<not> has_line_break (fst h) \<and> \<not> has_line_break (snd h)"

lemma py_strip_ends: "py_strip ([CHR '' ''] @ s @ [CR]) = py_strip s"
proof -
  have space: "is_space CHR '' ''" "is_space CR" by (simp_all add: is_space_def CR_def)
  have drop: "dropWhile is_space (xs @ [CR]) = (if \<forall>x \<in> set xs. is_space x then [] else dropWhile is_space xs @ [CR])" for xs
    using space(2) by (simp add: dropWhile_append dropWhile_eq_Nil_conv)
  show ?thesis
  proof (cases "\<forall>x \<in> set s. is_space x")
    case True
    then show ?thesis
      using space by (simp add: py_strip_def py_lstrip_def py_rstrip_def drop dropWhile_eq_Nil_conv [THEN iffD2])
  next
    case False
    then show ?thesis
      using space by (auto simp: py_strip_def py_lstrip_def py_rstrip_def drop)
  qed
qed

lemma read_header_line_plain:
  "plain_header h \<Longrightarrow> read_header_line (header_line h) = (py_lower (fst h), py_strip (snd h))"
proof -
  assume h: "plain_header h"
  then have "\<forall>x \<in> set (fst h). x \<noteq> CHR '':''" by (auto simp: plain_header_def)
  then have "py_partition CHR '':'' (header_line h) = (fst h, Some ([CHR '' ''] @ snd h @ [CR]))"
    by (simp add: py_partition_def header_line_def takeWhile_append dropWhile_append
        takeWhile_eq_all_conv dropWhile_eq_Nil_conv [THEN iffD2])
  then show ?thesis
    using py_strip_ends [of "snd h"] by (simp add: read_header_line_def opt_text_def)
qed

lemma read_header_block:
  assumes "hs \<noteq> []" and "\<forall>h \<in> set hs. plain_header h"
  shows "read_headers (header_block hs) = map (\<lambda>h. (py_lower (fst h), py_strip (snd h))) hs"
proof -
  have "py_split [LF] (header_block hs) = map header_line hs"
    unfolding header_block_def
    by (rule py_split_join) (use assms in \<open>auto simp: header_line_def plain_header_def has_line_break_def LF_def CR_def\<close>)
  then show ?thesis using assms(2) by (simp add: read_headers_def read_header_line_plain)
qed

lemma update_absent: "k \<notin> fst ` set al \<Longrightarrow> AList.update k v al = al @ [(k, v)]"
  by (induction al) auto

lemma received_append [simp]: "received n (xs @ ys) = received n xs @ received n ys"
  by (simp add: received_def)

lemma received_none: "\<forall>h \<in> set hs. fst h \<noteq> n \<Longrightarrow> received n hs = []"
  by (auto simp: received_def filter_empty_conv)

text \<open>Headers of the client that are not about impersonation and can be carried.\<close>

definition client_header :: "string \<times> string \<Rightarrow> bool" where
  "client_header h \<longleftrightarrow> plain_header h \<and> py_lower (fst h) \<notin> {''impersonate-user'', ''impersonate-group''}"

lemma impersonation_headers_read:
  assumes client: "\<forall>h \<in> set hs. client_header h"
    and user: "py_strip u = u" "\<not> has_line_break u" and groups: "\<forall>g \<in> set gs. py_strip g = g \<and> \<not> has_line_break g"
  shows "received ''impersonate-user'' (read_headers (header_block (impersonation_headers hs u gs))) = [u] \<and>
    received ''impersonate-group'' (read_headers (header_block (impersonation_headers hs u gs))) = gs"
proof -
  have lower: "py_lower ''Impersonate-User'' = ''impersonate-user''" "py_lower ''Impersonate-Group'' = ''impersonate-group''"
    by code_simp+
  have "''Impersonate-User'' \<notin> fst ` set hs" using client lower(1) by (auto simp: client_header_def)
  then have all: "impersonation_headers hs u gs =
      hs @ [(''Impersonate-User'', u)] @ map (\<lambda>g. (''Impersonate-Group'', g)) gs"
    by (simp add: impersonation_headers_def impersonate_groups_def update_absent)
  have plain: "\<forall>h \<in> set (impersonation_headers hs u gs). plain_header h"
    using client user(2) groups unfolding all
    by (auto simp: client_header_def plain_header_def has_line_break_def)
  have mine: "received n (map (\<lambda>h. (py_lower (fst h), py_strip (snd h))) hs) = []"
    if "n \<in> {''impersonate-user'', ''impersonate-group''}" for n
    using client that by (intro received_none) (auto simp: client_header_def)
  have gs: "map (\<lambda>g. py_strip g) gs = gs" using groups by (simp add: map_idI)
  have block: "read_headers (header_block (impersonation_headers hs u gs)) =
      map (\<lambda>h. (py_lower (fst h), py_strip (snd h))) hs @ [(''impersonate-user'', u)] @
      map (\<lambda>g. (''impersonate-group'', g)) gs"
    using read_header_block [OF _ plain] user(1) groups unfolding all by (simp add: lower)
  have mapped: "received ''impersonate-user'' (map (\<lambda>g. (''impersonate-group'', g)) gs) = []"
    "received ''impersonate-group'' (map (\<lambda>g. (''impersonate-group'', g)) gs) = gs"
    by (simp_all add: received_def filter_empty_conv comp_def)
  show ?thesis
    unfolding block received_append using mine mapped by (simp add: received_def)
qed

section \<open>Properties\<close>

text \<open>
  C18: an impersonated review is made for the caller and nobody else. In proxy mode, when a rules review is
  submitted for the user and groups the proxy forwarded, the headers Kubernetes reads name exactly this
  user and exactly these groups in their order: no value of a forwarded header can add, drop or change an
  impersonation header. Without the check for line breaks a group could.
\<close>

theorem impersonation_names_the_caller:
  assumes "cf_authorization_mode (sv_config srv) = SUBJECT_ACCESS_REVIEW"
    and "authenticate srv rq = Inr (i, username)"
    and "submit_impersonated_subject_rules_review env (opt_text (id_user i)) (id_groups i) ns w = (Inr status, w')"
    and "\<forall>h \<in> set client_headers. client_header h"
  shows "received ''impersonate-user'' (read_headers (header_block
      (impersonation_headers client_headers (opt_text (id_user i)) (id_groups i)))) = [opt_text (id_user i)] \<and>
    received ''impersonate-group'' (read_headers (header_block
      (impersonation_headers client_headers (opt_text (id_user i)) (id_groups i)))) = id_groups i"
proof -
  have caller: "id_user i = Some (py_strip (opt_text (rq_remote_user rq)))"
    "id_groups i = parse_remote_groups (rq_remote_groups rq) (cf_groups_separator (sv_config srv))"
    using assms(1,2) by (auto simp: authenticate_def Let_def split: if_splits)
  have "\<not> list_ex has_line_break (opt_text (id_user i) # id_groups i)"
    using assms(3) by (auto simp: submit_impersonated_subject_rules_review_def raise_def split: if_splits)
  moreover have "\<forall>g \<in> set (id_groups i). py_strip g = g"
    using parse_remote_groups_clean unfolding caller(2) list_all_iff by blast
  moreover have "py_strip (opt_text (id_user i)) = opt_text (id_user i)" by (simp add: caller(1) opt_text_def)
  ultimately show ?thesis
    by (intro impersonation_headers_read [OF assms(4)]) (auto simp: list_ex_iff)
qed

theorem impersonation_names_the_caller_witness:
  "received ''impersonate-group'' (read_headers (header_block
     (impersonation_headers [(''Accept'', ''application/json'')] ''u'' [''g'', ''h'']))) = [''g'', ''h'']"
proof -
  define srv where "srv = sample_server\<lparr>sv_config := (sv_config sample_server)\<lparr>cf_authorization_mode := SUBJECT_ACCESS_REVIEW\<rparr>\<rparr>"
  define rq where "rq = sample_request\<lparr>rq_remote_user := Some '' u'', rq_remote_groups := Some ''g| h''\<rparr>"
  have mode: "cf_authorization_mode (sv_config srv) = SUBJECT_ACCESS_REVIEW" by (simp add: srv_def)
  have auth: "authenticate srv rq = Inr (\<lparr>id_token = None, id_user = Some ''u'', id_groups = [''g'', ''h'']\<rparr>, Some ''u'')"
    unfolding srv_def rq_def by code_simp
  have run: "submit_impersonated_subject_rules_review (sample_env (\<lambda>a. True)) ''u'' [''g'', ''h''] ''ns''
      (sample_world SUBJECT_ACCESS_REVIEW) = (Inr None, (sample_world SUBJECT_ACCESS_REVIEW)\<lparr>tick := 1\<rparr>)"
    by (simp add: submit_impersonated_subject_rules_review_def has_line_break_def eff_defs world_eff_defs sample_defs)
  have client: "\<forall>h \<in> set [(''Accept'', ''application/json'')]. client_header h"
    by (simp add: client_header_def plain_header_def has_line_break_def) code_simp
  show ?thesis
    using impersonation_names_the_caller [OF mode auth _ client, of "sample_env (\<lambda>a. True)" "''ns''"
        "sample_world SUBJECT_ACCESS_REVIEW" None "(sample_world SUBJECT_ACCESS_REVIEW)\<lparr>tick := 1\<rparr>"] run
    by (simp add: opt_text_def)
qed

lemma line_break_would_inject:
  "received ''impersonate-group'' (read_headers (header_block
     (impersonation_headers [] ''u'' [''g'' @ [CR, LF] @ ''Impersonate-Group: system:masters'']))) = [''g'', ''system:masters'']"
  by code_simp

end
