(* ===== verification/Glob.thy ===== *)
theory Glob
  imports Prelude
begin

text \<open>
  \<open>fnmatch.fnmatchcase\<close> of Python's standard library, with which \<open>workspace_plugin/caches.py\<close> decides
  which namespaces are no workspaces: how a pattern is read, which names it matches, and what the pattern
  means.
\<close>

section \<open>Reading a pattern\<close>

text \<open>
  \<open>Among b cs\<close> is a bracket expression, \<open>b\<close> for a negated one. Its members are characters and the range
  operator, as they stand in the regular expression Python makes of it.
\<close>

datatype class_token = Member char | Dash

datatype glob_atom = Star | AnyChar | Among bool "class_token list" | Exactly char

text \<open>Ranges whose ends are in the wrong order are dropped with both ends.\<close>

fun class_tokens :: "string \<Rightarrow> class_token list" where
  "class_tokens (a # d # b # cs) =
     (if d = CHR ''-'' then (if b < a then [] else [Member a, Dash, Member b]) @ class_tokens cs
      else Member a # class_tokens (d # b # cs))"
| "class_tokens (c # cs) = Member c # class_tokens cs"
| "class_tokens [] = []"

definition bracket_atom :: "string \<Rightarrow> glob_atom" where
  "bracket_atom stuff =
     (let tokens = (case stuff of
          c # cs \<Rightarrow> if c = CHR ''!'' then Member c # class_tokens cs else class_tokens stuff
        | [] \<Rightarrow> []) in
      case tokens of
        Member c # ts \<Rightarrow> if c = CHR ''!'' then Among True ts else Among False tokens
      | _ \<Rightarrow> Among False tokens)"

text \<open>The text of a bracket expression and what follows it, \<open>None\<close> when it is not closed.\<close>

definition bracket_prefix :: "string \<Rightarrow> nat" where
  "bracket_prefix s =
     (let n = (if startswith s ''!'' then 1 else 0) in if startswith (drop n s) '']'' then Suc n else n)"

definition bracket_body :: "string \<Rightarrow> (string \<times> string) option" where
  "bracket_body s =
     (let n = bracket_prefix s in
      case dropWhile (\<lambda>c. c \<noteq> CHR '']'') (drop n s) of
        [] \<Rightarrow> None
      | _ # rest \<Rightarrow> Some (take n s @ takeWhile (\<lambda>c. c \<noteq> CHR '']'') (drop n s), rest))"

lemma bracket_body_shorter:
  assumes "bracket_body s = Some (stuff, rest)" shows "length rest < length s"
proof -
  let ?d = "drop (bracket_prefix s) s"
  have "length (dropWhile (\<lambda>c. c \<noteq> CHR '']'') ?d) = Suc (length rest)"
    using assms by (simp add: bracket_body_def Let_def split: list.splits)
  moreover have "length (dropWhile (\<lambda>c. c \<noteq> CHR '']'') ?d) \<le> length ?d" by (rule length_dropWhile_le)
  ultimately show ?thesis by simp
qed

function glob_atoms :: "string \<Rightarrow> glob_atom list" where
  "glob_atoms [] = []"
| "glob_atoms (c # cs) =
     (if c = CHR ''*'' then Star # glob_atoms cs
      else if c = CHR ''?'' then AnyChar # glob_atoms cs
      else if c = CHR ''['' then
        (case bracket_body cs of
           None \<Rightarrow> Exactly c # glob_atoms cs
         | Some (stuff, tail) \<Rightarrow> bracket_atom stuff # glob_atoms tail)
      else Exactly c # glob_atoms cs)"
  by pat_completeness auto
termination
  by (relation "measure length") (auto dest: bracket_body_shorter)

section \<open>Matching\<close>

fun in_class :: "class_token list \<Rightarrow> char \<Rightarrow> bool" where
  "in_class (Member a # Dash # Member b # ts) c = ((a \<le> c \<and> c \<le> b) \<or> in_class ts c)"
| "in_class (Member a # ts) c = (a = c \<or> in_class ts c)"
| "in_class (Dash # ts) c = (c = CHR ''-'' \<or> in_class ts c)"
| "in_class [] c = False"

fun atom_matches :: "glob_atom \<Rightarrow> char \<Rightarrow> bool" where
  "atom_matches Star c = False"
| "atom_matches AnyChar c = True"
| "atom_matches (Among negated ts) c = (in_class ts c \<noteq> negated)"
| "atom_matches (Exactly a) c = (a = c)"

fun glob_match :: "glob_atom list \<Rightarrow> string \<Rightarrow> bool" where
  "glob_match [] s = (s = [])"
| "glob_match (a # as) [] = (a = Star \<and> glob_match as [])"
| "glob_match (a # as) (c # cs) =
     (if a = Star then glob_match as (c # cs) \<or> glob_match (a # as) cs
      else atom_matches a c \<and> glob_match as cs)"

definition fnmatchcase :: "string \<Rightarrow> string \<Rightarrow> bool" where
  "fnmatchcase name pattern = glob_match (glob_atoms pattern) name"

section \<open>What patterns mean\<close>

text \<open>
  The declarative reading: the name is cut into one piece per atom, any piece for a star and one fitting
  character for every other atom.
\<close>

definition piece_fits :: "glob_atom \<Rightarrow> string \<Rightarrow> bool" where
  "piece_fits a piece = (if a = Star then True else (\<exists>c. piece = [c] \<and> atom_matches a c))"

lemma piece_fits_simps [simp]:
  "piece_fits Star piece"
  "a \<noteq> Star \<Longrightarrow> piece_fits a piece \<longleftrightarrow> (\<exists>c. piece = [c] \<and> atom_matches a c)"
  by (simp_all add: piece_fits_def)

text \<open>A star takes nothing and leaves the text to the rest, or takes a character and stays.\<close>

lemma star_pieces_Nil:
  "(\<exists>pieces. list_all2 piece_fits (Star # as) pieces \<and> concat pieces = []) \<longleftrightarrow>
   (\<exists>pieces. list_all2 piece_fits as pieces \<and> concat pieces = [])"
proof
  assume "\<exists>pieces. list_all2 piece_fits (Star # as) pieces \<and> concat pieces = []"
  then show "\<exists>pieces. list_all2 piece_fits as pieces \<and> concat pieces = []" by (auto simp: list_all2_Cons1)
next
  assume "\<exists>pieces. list_all2 piece_fits as pieces \<and> concat pieces = []"
  then obtain ps where "list_all2 piece_fits (Star # as) ([] # ps) \<and> concat ([] # ps) = []" by auto
  then show "\<exists>pieces. list_all2 piece_fits (Star # as) pieces \<and> concat pieces = []" by blast
qed

lemma star_pieces_Cons:
  "(\<exists>pieces. list_all2 piece_fits (Star # as) pieces \<and> concat pieces = c # cs) \<longleftrightarrow>
     (\<exists>pieces. list_all2 piece_fits as pieces \<and> concat pieces = c # cs) \<or>
     (\<exists>pieces. list_all2 piece_fits (Star # as) pieces \<and> concat pieces = cs)" (is "?l \<longleftrightarrow> ?here \<or> ?later")
proof
  assume ?l
  then obtain p ps where ps: "list_all2 piece_fits as ps" "p @ concat ps = c # cs"
    by (auto simp: list_all2_Cons1)
  then show "?here \<or> ?later"
  proof (cases p)
    case (Cons x p')
    with ps have "list_all2 piece_fits (Star # as) (p' # ps) \<and> concat (p' # ps) = cs" by simp
    then show ?thesis by blast
  qed auto
next
  assume "?here \<or> ?later"
  then show ?l
  proof
    assume ?here
    then obtain ps where "list_all2 piece_fits (Star # as) ([] # ps) \<and> concat ([] # ps) = c # cs" by auto
    then show ?l by blast
  next
    assume ?later
    then obtain p ps where "list_all2 piece_fits as ps" "p @ concat ps = cs" by (auto simp: list_all2_Cons1)
    then have "list_all2 piece_fits (Star # as) ((c # p) # ps) \<and> concat ((c # p) # ps) = c # cs" by simp
    then show ?l by blast
  qed
qed

lemma glob_match_pieces:
  "glob_match as s \<longleftrightarrow> (\<exists>pieces. list_all2 piece_fits as pieces \<and> concat pieces = s)"
proof (induction as s rule: glob_match.induct)
  case (1 s)
  then show ?case by auto
next
  case (2 a as)
  show ?case
  proof (cases "a = Star")
    case True
    with 2 star_pieces_Nil [of as] show ?thesis by simp
  qed (auto simp: list_all2_Cons1)
next
  case (3 a as c cs)
  show ?case
  proof (cases "a = Star")
    case True
    with 3 star_pieces_Cons [of as c cs] show ?thesis by simp
  next
    case False
    with 3 show ?thesis by (auto simp: list_all2_Cons1) (metis append_Cons append_Nil concat.simps(2))+
  qed
qed

text \<open>Plain text matches itself, and plain text with a star behind it matches what starts with it.\<close>

definition plain :: "string \<Rightarrow> bool" where
  "plain s = (CHR ''*'' \<notin> set s \<and> CHR ''?'' \<notin> set s \<and> CHR ''['' \<notin> set s)"

lemma glob_atoms_plain: "plain p \<Longrightarrow> glob_atoms (p @ q) = map Exactly p @ glob_atoms q"
  by (induction p) (auto simp: plain_def)

lemma glob_match_exactly: "glob_match (map Exactly p @ as) s \<longleftrightarrow> (\<exists>t. s = p @ t \<and> glob_match as t)"
proof (induction p arbitrary: s)
  case (Cons c p)
  then show ?case by (cases s) auto
qed simp

lemma glob_match_star [simp]: "glob_match [Star] s"
  by (induction s) auto

lemma fnmatchcase_plain: "plain p \<Longrightarrow> fnmatchcase s p \<longleftrightarrow> s = p"
  using glob_atoms_plain [of p "[]"] glob_match_exactly [of p "[]" s] by (simp add: fnmatchcase_def)

lemma fnmatchcase_prefix: "plain p \<Longrightarrow> fnmatchcase s (p @ ''*'') \<longleftrightarrow> startswith s p"
  by (simp add: fnmatchcase_def glob_atoms_plain glob_match_exactly startswith_iff)

end
