(* ===== verification/Workspace_World.thy ===== *)
theory Workspace_World
  imports Glob
begin

text \<open>
  The state of the workspace plugin and the Kubernetes API it watches: \<open>NamespaceCache\<close>,
  \<open>MlflowConfigCache\<close> and \<open>SecretCache\<close> of \<open>workspace_plugin/caches.py\<close>. \<open>cluster\<close> is everything the
  plugin asks of its environment; each answer may depend on the number of the interaction, so nothing is
  assumed about how the cluster changes.
\<close>

section \<open>Kubernetes objects and events\<close>

text \<open>
  An object of the typed client as the source reads it, with \<open>None\<close> for attributes that are not set.
  Custom objects are dictionaries, and a listing of them has a list of them.
\<close>

record metadata =
  md_name :: "string option"
  md_namespace :: "string option"
  md_resource_version :: "string option"
  md_annotations :: "(string \<times> string) list"

record api_object =
  ob_metadata :: "metadata option"
  ob_data :: "(string \<times> string) list"

record api_list =
  al_items :: "api_object list"
  al_resource_version :: "string option"

record config_list =
  cl_items :: "pdict list"
  cl_resource_version :: pv

datatype event_object = NoObject | Typed api_object | Raw pv

record watch_event =
  ev_type :: "string option"
  ev_object :: event_object

definition opt_pv :: "string option \<Rightarrow> pv" where
  "opt_pv s = (case s of None \<Rightarrow> PNone | Some t \<Rightarrow> PStr t)"

text \<open>\<open>getattr(getattr(obj, "metadata", None), name, None)\<close> for the typed objects; anything else has no metadata.\<close>

definition typed_metadata :: "event_object \<Rightarrow> metadata option" where
  "typed_metadata ob = (case ob of Typed t \<Rightarrow> ob_metadata t | _ \<Rightarrow> None)"

definition metadata_text :: "(metadata \<Rightarrow> string option) \<Rightarrow> metadata option \<Rightarrow> string option" where
  "metadata_text f m = (case m of None \<Rightarrow> None | Some md \<Rightarrow> f md)"

definition nonempty_text :: "string option \<Rightarrow> string option" where
  "nonempty_text s = (case s of None \<Rightarrow> None | Some t \<Rightarrow> nonempty t)"

lemma nonempty_text_some: "nonempty_text s = Some t \<longleftrightarrow> s = Some t \<and> t \<noteq> []"
  by (auto simp: nonempty_text_def nonempty_def split: option.splits)

section \<open>The caches\<close>

text \<open>
  What the three watch caches share: entries by name, the resource version the watch continues from, and
  whether the first listing is done. \<open>sn_available\<close> is \<open>_crd_available\<close> or \<open>_available\<close>.
\<close>

record namespace_info =
  ni_name :: string
  ni_description :: "string option"

record mlflow_config_info =
  mi_namespace :: string
  mi_artifact_root_path :: "string option"
  mi_artifact_root_secret :: "string option"

record secret_info =
  si_namespace :: string
  si_bucket_uri :: "string option"

record 'v snapshot =
  sn_entries :: "(string \<times> 'v) list"
  sn_cursor :: pv
  sn_ready :: bool

record 'v optional_snapshot = "'v snapshot" +
  sn_available :: bool

type_synonym namespace_cache = "namespace_info snapshot"
type_synonym config_cache = "mlflow_config_info optional_snapshot"
type_synonym secret_cache = "secret_info optional_snapshot"

section \<open>The environment and the state\<close>

text \<open>
  \<open>k8s_decode\<close> is \<open>base64.b64decode(raw).decode("utf-8")\<close>, \<open>None\<close> when it raises; \<open>k8s_append\<close> is
  \<open>append_to_uri_path\<close> of MLflow, \<open>k8s_error_text\<close> the text of an exception.
\<close>

record cluster =
  k8s_namespaces :: "nat \<Rightarrow> exc + api_list"
  k8s_namespaces_named :: "nat \<Rightarrow> string \<Rightarrow> exc + api_object list"
  k8s_configs :: "nat \<Rightarrow> exc + config_list"
  k8s_configs_in :: "nat \<Rightarrow> string option \<Rightarrow> exc + config_list"
  k8s_secrets :: "nat \<Rightarrow> exc + api_list"
  k8s_secrets_in :: "nat \<Rightarrow> string \<Rightarrow> exc + api_object list"
  k8s_decode :: "string \<Rightarrow> string option"
  k8s_append :: "string \<Rightarrow> string \<Rightarrow> string"
  k8s_error_text :: "exc \<Rightarrow> string"

record workspaces =
  ws_tick :: nat
  ws_namespaces :: namespace_cache
  ws_configs :: config_cache
  ws_secrets :: "secret_cache option"

definition ask_cluster :: "(nat \<Rightarrow> exc + 'a) \<Rightarrow> (workspaces, exc + 'a) eff" where
  "ask_cluster f = (\<lambda>w. (Inr (f (ws_tick w)), w\<lparr>ws_tick := Suc (ws_tick w)\<rparr>))"

definition read_state :: "(workspaces \<Rightarrow> 'a) \<Rightarrow> (workspaces, 'a) eff" where
  "read_state f = (\<lambda>w. (Inr (f w), w))"

definition change_state :: "(workspaces \<Rightarrow> workspaces) \<Rightarrow> (workspaces, unit) eff" where
  "change_state f = (\<lambda>w. (Inr (), f w))"

lemmas cluster_eff_defs = ask_cluster_def read_state_def change_state_def

section \<open>Errors\<close>

text \<open>The status of an API error decides the code.\<close>

definition api_status :: "exc \<Rightarrow> int option" where
  "api_status e = (case e of ApiExc s \<Rightarrow> s | _ \<Rightarrow> None)"

definition status_code :: "exc \<Rightarrow> error_code" where
  "status_code e =
     (if api_status e = Some 401 then UNAUTHENTICATED
      else if api_status e = Some 403 then PERMISSION_DENIED else INTERNAL_ERROR)"

definition storage_lookup_error :: "string \<Rightarrow> string option \<Rightarrow> exc \<Rightarrow> exc" where
  "storage_lookup_error resource ns e =
     (let detail = (case api_status e of None \<Rightarrow> [] | Some s \<Rightarrow> '' (HTTP '' @ int_text s @ '')'');
          location = (case ns of None \<Rightarrow> ''across namespaces'' | Some n \<Rightarrow> ''in namespace '' @ quoted n)
      in MlflowExc (status_code e)
           (''Failed to verify '' @ resource @ '' '' @ location @ detail @
            ''. Check Kubernetes API connectivity and list permissions.''))"

text \<open>\<open>except ApiException\<close> and \<open>except HTTPError\<close>; everything else propagates as it is.\<close>

definition api_failure :: "exc \<Rightarrow> bool" where
  "api_failure e = (case e of ApiExc _ \<Rightarrow> True | HttpExc \<Rightarrow> True | _ \<Rightarrow> False)"

section \<open>Watched snapshots\<close>

text \<open>
  What an event means for a snapshot: nothing, or that the entry of a name is replaced or removed.
\<close>

datatype 'v change = Keep | Put string 'v | Drop string

fun apply_change :: "'v change \<Rightarrow> (string \<rightharpoonup> 'v) \<Rightarrow> (string \<rightharpoonup> 'v)" where
  "apply_change Keep m = m"
| "apply_change (Put k v) m = m(k \<mapsto> v)"
| "apply_change (Drop k) m = m(k := None)"

text \<open>
  The contract of a watch cache: an event changes the entries as its change says, one entry per name.
\<close>

locale watched_snapshot =
  fixes on_event :: "'e \<Rightarrow> 'c \<Rightarrow> 'c"
    and entry_list :: "'c \<Rightarrow> (string \<times> 'v) list"
    and change_of :: "'e \<Rightarrow> 'v change"
  assumes event_change: "map_of (entry_list (on_event e c)) = apply_change (change_of e) (map_of (entry_list c))"
    and event_distinct: "distinct (map fst (entry_list c)) \<Longrightarrow> distinct (map fst (entry_list (on_event e c)))"
begin

text \<open>A snapshot with events is the replay of the changes on the listing.\<close>

lemma replay: "map_of (entry_list (fold on_event es c)) = fold (\<lambda>e. apply_change (change_of e)) es (map_of (entry_list c))"
  by (induction es arbitrary: c) (simp_all add: event_change)

lemma replay_distinct: "distinct (map fst (entry_list c)) \<Longrightarrow> distinct (map fst (entry_list (fold on_event es c)))"
  by (induction es arbitrary: c) (simp_all add: event_distinct)

text \<open>What holds of the entries of a listing and of what events put holds of the snapshot.\<close>

definition entries_ok :: "(string \<Rightarrow> 'v \<Rightarrow> bool) \<Rightarrow> 'c \<Rightarrow> bool" where
  "entries_ok P c \<longleftrightarrow> (\<forall>k v. map_of (entry_list c) k = Some v \<longrightarrow> P k v)"

lemma event_ok:
  assumes "entries_ok P c" and "\<And>k v. change_of e = Put k v \<Longrightarrow> P k v"
  shows "entries_ok P (on_event e c)"
proof (cases "change_of e")
  case Keep
  with assms show ?thesis by (simp add: entries_ok_def event_change)
next
  case (Put k v)
  with assms show ?thesis by (auto simp: entries_ok_def event_change split: if_splits)
next
  case (Drop k)
  with assms show ?thesis by (auto simp: entries_ok_def event_change split: if_splits)
qed

lemma replay_ok:
  "entries_ok P c \<Longrightarrow> \<forall>e \<in> set es. \<forall>k v. change_of e = Put k v \<longrightarrow> P k v \<Longrightarrow> entries_ok P (fold on_event es c)"
  by (induction es arbitrary: c) (auto intro: event_ok)

end

section \<open>A cluster for concrete runs\<close>

definition sample_object :: "string \<Rightarrow> string option \<Rightarrow> (string \<times> string) list \<Rightarrow> api_object" where
  "sample_object name ns data =
     \<lparr>ob_metadata = Some \<lparr>md_name = Some name, md_namespace = ns, md_resource_version = Some ''8'', md_annotations = []\<rparr>,
      ob_data = data\<rparr>"

definition sample_listing :: api_list where
  "sample_listing = \<lparr>al_items = [sample_object ''kube-system'' None [], sample_object ''team'' None []],
     al_resource_version = Some ''7''\<rparr>"

definition sample_deletion :: watch_event where
  "sample_deletion = \<lparr>ev_type = Some ''DELETED'', ev_object = Typed (sample_object ''team'' None [])\<rparr>"

definition sample_cluster :: cluster where
  "sample_cluster =
     \<lparr>k8s_namespaces = (\<lambda>t. Inr sample_listing),
      k8s_namespaces_named = (\<lambda>t name. Inr []),
      k8s_configs = (\<lambda>t. Inr \<lparr>cl_items = [[(''metadata'', PDict [(''namespace'', PStr ''team'')]),
          (''spec'', PDict [(''artifactRootPath'', PStr ''a/../b''),
                            (''artifactRootSecret'', PStr ''mlflow-artifact-connection'')])]],
        cl_resource_version = PStr ''9''\<rparr>),
      k8s_configs_in = (\<lambda>t ns. Inr \<lparr>cl_items = [], cl_resource_version = PStr ''9''\<rparr>),
      k8s_secrets = (\<lambda>t. Inr \<lparr>al_items = [sample_object ''mlflow-artifact-connection'' (Some ''team'')
          [(''AWS_S3_BUCKET'', ''bucket'')]], al_resource_version = Some ''7''\<rparr>),
      k8s_secrets_in = (\<lambda>t ns. Inr []), k8s_decode = Some, k8s_append = (\<lambda>u q. u @ ''/'' @ q),
      k8s_error_text = (\<lambda>e. [])\<rparr>"

end
