(* ===== verification/Namespace_Cache.thy ===== *)
theory Namespace_Cache
  imports Workspace_World
begin

text \<open>
  \<open>NamespaceCache\<close> of \<open>workspace_plugin/caches.py\<close>: the listing, the watch events, the watch loop and the
  two readers. \<open>globs\<close> and the selector are configuration; the selector is applied by Kubernetes.
\<close>

section \<open>Operations\<close>

definition DEFAULT_DESCRIPTION_ANNOTATION :: string where
  "DEFAULT_DESCRIPTION_ANNOTATION = ''mlflow.kubeflow.org/workspace-description''"

definition is_excluded :: "string list \<Rightarrow> string \<Rightarrow> bool" where
  "is_excluded globs name = list_ex (fnmatchcase name) globs"

definition extract_namespace :: "string list \<Rightarrow> metadata option \<Rightarrow> namespace_info option" where
  "extract_namespace globs md =
     (case nonempty_text (metadata_text md_name md) of
        None \<Rightarrow> None
      | Some name \<Rightarrow>
          if is_excluded globs name then None
          else Some \<lparr>ni_name = name,
                 ni_description = map_of (case md of None \<Rightarrow> [] | Some m \<Rightarrow> md_annotations m)
                   DEFAULT_DESCRIPTION_ANNOTATION\<rparr>)"

definition add_listed :: "string list \<Rightarrow> api_object \<Rightarrow> (string \<times> namespace_info) list \<Rightarrow> (string \<times> namespace_info) list" where
  "add_listed globs ns infos =
     (case extract_namespace globs (ob_metadata ns) of
        None \<Rightarrow> infos
      | Some info \<Rightarrow> AList.update (ni_name info) info infos)"

definition refresh_namespaces ::
  "cluster \<Rightarrow> string list \<Rightarrow> exc + api_list \<Rightarrow> namespace_cache \<Rightarrow> exc + namespace_cache" where
  "refresh_namespaces k globs response c =
     (case response of
        Inl e \<Rightarrow> (case e of
            ApiExc _ \<Rightarrow> Inl (MlflowExc INVALID_PARAMETER_VALUE
              (''Failed to list Kubernetes namespaces: '' @ k8s_error_text k e))
          | _ \<Rightarrow> Inl e)
      | Inr l \<Rightarrow>
          Inr (c\<lparr>sn_entries := fold (add_listed globs) (al_items l) [],
                 sn_cursor := opt_pv (al_resource_version l), sn_ready := True\<rparr>))"

text \<open>
  The resource version of a bookmark. A dictionary whose metadata is no dictionary has no \<open>get\<close>: that
  exception ends the stream.
\<close>

definition bookmark_version :: "event_object \<Rightarrow> exc + pv" where
  "bookmark_version ob =
     (case ob of
        Raw (PDict d) \<Rightarrow>
          (case (if dhas d ''metadata'' then dget d ''metadata'' else PDict []) of
             PDict m \<Rightarrow> Inr (dget m ''resourceVersion'')
           | _ \<Rightarrow> Inl OtherExc)
      | _ \<Rightarrow> Inr (opt_pv (metadata_text md_resource_version (typed_metadata ob))))"

definition namespace_object_event ::
  "string list \<Rightarrow> string option \<Rightarrow> metadata option \<Rightarrow> namespace_cache \<Rightarrow> namespace_cache" where
  "namespace_object_event globs ty md c =
     (case nonempty_text (metadata_text md_name md) of
        None \<Rightarrow> c
      | Some name \<Rightarrow>
          let version = opt_pv (metadata_text md_resource_version md) in
          if ty \<in> {Some ''ADDED'', Some ''MODIFIED''}
          then c\<lparr>sn_entries := (case extract_namespace globs md of
                    None \<Rightarrow> AList.delete name (sn_entries c)
                  | Some info \<Rightarrow> AList.update name info (sn_entries c)),
                 sn_cursor := version, sn_ready := True\<rparr>
          else if ty = Some ''DELETED''
          then c\<lparr>sn_entries := AList.delete name (sn_entries c), sn_cursor := version, sn_ready := True\<rparr>
          else c\<lparr>sn_cursor := PNone\<rparr>)"

definition namespace_event :: "string list \<Rightarrow> watch_event \<Rightarrow> namespace_cache \<Rightarrow> exc + namespace_cache" where
  "namespace_event globs ev c =
     (if ev_type ev = Some ''ERROR'' then Inr (c\<lparr>sn_cursor := PNone\<rparr>)
      else if ev_type ev = Some ''BOOKMARK''
      then (case bookmark_version (ev_object ev) of
              Inl e \<Rightarrow> Inl e | Inr v \<Rightarrow> Inr (c\<lparr>sn_cursor := py_or v (sn_cursor c)\<rparr>))
      else Inr (namespace_object_event globs (ev_type ev) (typed_metadata (ev_object ev)) c))"

text \<open>
  One stream: events until the cursor is lost, an event fails, or the stream ends. However it ends, the
  cursor is dropped, so that the next turn of the loop lists again. \<open>running\<close> tells for each event whether
  the cache has not been stopped.
\<close>

fun namespace_stream :: "string list \<Rightarrow> (watch_event \<times> bool) list \<Rightarrow> namespace_cache \<Rightarrow> namespace_cache" where
  "namespace_stream globs [] c = c"
| "namespace_stream globs ((ev, running) # evs) c =
     (if \<not> running then c
      else case namespace_event globs ev c of
          Inl e \<Rightarrow> c
        | Inr c' \<Rightarrow> if sn_cursor c' = PNone then c' else namespace_stream globs evs c')"

text \<open>
  One turn of \<open>_run\<close>: the listing if there is no cursor, retried later when it fails with an error the loop
  expects, then one stream. Any other exception of the listing ends the thread.
\<close>

definition namespace_turn ::
  "cluster \<Rightarrow> string list \<Rightarrow> exc + api_list \<Rightarrow> (watch_event \<times> bool) list \<Rightarrow> namespace_cache \<Rightarrow> exc + namespace_cache" where
  "namespace_turn k globs response evs c =
     (case (if sn_cursor c = PNone then refresh_namespaces k globs response c else Inr c) of
        Inl e \<Rightarrow> (case e of MlflowExc _ _ \<Rightarrow> Inr c | HttpExc \<Rightarrow> Inr c | _ \<Rightarrow> Inl e)
      | Inr c1 \<Rightarrow> Inr ((namespace_stream globs evs c1)\<lparr>sn_cursor := PNone\<rparr>))"

definition namespace_wait_until_ready :: "(workspaces, unit) eff" where
  "namespace_wait_until_ready =
     andthen (read_state ws_namespaces) (\<lambda>c.
       if sn_ready c then ret ()
       else raise (MlflowExc INTERNAL_ERROR
         (''Timed out while waiting for the Kubernetes namespace cache to initialize. '' @
          ''Double-check the MLflow server can reach the Kubernetes API.'')))"

definition list_namespaces :: "(workspaces, namespace_info list) eff" where
  "list_namespaces =
     andthen namespace_wait_until_ready (\<lambda>_. andthen (read_state ws_namespaces) (\<lambda>c. ret (map snd (sn_entries c))))"

fun first_namespace :: "string list \<Rightarrow> string \<Rightarrow> api_object list \<Rightarrow> namespace_info option" where
  "first_namespace globs name [] = None"
| "first_namespace globs name (ns # rest) =
     (case extract_namespace globs (ob_metadata ns) of
        Some info \<Rightarrow> if ni_name info = name then Some info else first_namespace globs name rest
      | None \<Rightarrow> first_namespace globs name rest)"

definition namespace_lookup_error :: "string \<Rightarrow> exc \<Rightarrow> exc" where
  "namespace_lookup_error name e =
     (case e of
        ApiExc s \<Rightarrow> MlflowExc (status_code e)
          (''Failed to verify Kubernetes namespace '' @ quoted name @ '' (HTTP '' @
           (case s of None \<Rightarrow> ''None'' | Some i \<Rightarrow> int_text i) @
           ''). Check Kubernetes API connectivity and namespace list permissions.'')
      | HttpExc \<Rightarrow> MlflowExc INTERNAL_ERROR
          (''Failed to verify Kubernetes namespace '' @ quoted name @ ''. Check Kubernetes API connectivity.'')
      | _ \<Rightarrow> e)"

definition get_namespace :: "cluster \<Rightarrow> string list \<Rightarrow> string \<Rightarrow> (workspaces, namespace_info option) eff" where
  "get_namespace k globs name =
     andthen namespace_wait_until_ready (\<lambda>_.
     andthen (read_state ws_namespaces) (\<lambda>c.
       case map_of (sn_entries c) name of
         Some info \<Rightarrow> ret (Some info)
       | None \<Rightarrow>
           if is_excluded globs name then ret None
           else
             andthen (ask_cluster (\<lambda>t. k8s_namespaces_named k t name)) (\<lambda>response.
               case response of
                 Inl e \<Rightarrow> raise (namespace_lookup_error name e)
               | Inr items \<Rightarrow> ret (first_namespace globs name items))))"

section \<open>The watch keeps the snapshot of the cluster\<close>

definition namespace_change :: "string list \<Rightarrow> watch_event \<Rightarrow> namespace_info change" where
  "namespace_change globs ev =
     (if ev_type ev \<in> {Some ''ERROR'', Some ''BOOKMARK''} then Keep
      else case nonempty_text (metadata_text md_name (typed_metadata (ev_object ev))) of
        None \<Rightarrow> Keep
      | Some name \<Rightarrow>
          if ev_type ev \<in> {Some ''ADDED'', Some ''MODIFIED''}
          then (case extract_namespace globs (typed_metadata (ev_object ev)) of
                  None \<Rightarrow> Drop name | Some info \<Rightarrow> Put name info)
          else if ev_type ev = Some ''DELETED'' then Drop name else Keep)"

definition after_namespace_event :: "string list \<Rightarrow> watch_event \<Rightarrow> namespace_cache \<Rightarrow> namespace_cache" where
  "after_namespace_event globs ev c = (case namespace_event globs ev c of Inl _ \<Rightarrow> c | Inr c' \<Rightarrow> c')"

lemma map_of_del: "map_of (AList.delete k xs) = (map_of xs)(k := None)"
  by (rule ext) (simp add: delete_conv')

lemma map_of_upd: "map_of (AList.update k v xs) = (map_of xs)(k \<mapsto> v)"
  by (rule ext) (simp add: update_conv')

interpretation namespaces: watched_snapshot "after_namespace_event globs" sn_entries "namespace_change globs" for globs
proof
  show "map_of (sn_entries (after_namespace_event globs ev c)) =
      apply_change (namespace_change globs ev) (map_of (sn_entries c))" for ev c
    by (auto simp: after_namespace_event_def namespace_event_def namespace_object_event_def namespace_change_def
        Let_def map_of_del map_of_upd split: option.splits sum.splits)
  show "distinct (map fst (sn_entries c)) \<Longrightarrow> distinct (map fst (sn_entries (after_namespace_event globs ev c)))" for ev c
    by (auto simp: after_namespace_event_def namespace_event_def namespace_object_event_def
        Let_def distinct_update distinct_delete split: option.splits sum.splits)
qed

lemma after_event_result: "namespace_event globs ev c = Inr c' \<Longrightarrow> after_namespace_event globs ev c = c'"
  by (simp add: after_namespace_event_def)

text \<open>A stream handles a prefix of its events, all of them unless something ended it.\<close>

lemma stream_prefix:
  "\<exists>n \<le> length evs. namespace_stream globs evs c = fold (after_namespace_event globs) (map fst (take n evs)) c \<and>
     (n < length evs \<longrightarrow> sn_cursor (namespace_stream globs evs c) = PNone \<or> \<not> snd (evs ! n) \<or>
        (\<exists>e. namespace_event globs (fst (evs ! n)) (namespace_stream globs evs c) = Inl e))"
proof (induction evs arbitrary: c)
  case Nil
  show ?case by simp
next
  case (Cons er evs)
  obtain ev running where er: "er = (ev, running)" by (cases er)
  show ?case
  proof (cases "running \<and> (\<exists>c'. namespace_event globs ev c = Inr c')")
    case False
    then show ?thesis by (cases "namespace_event globs ev c") (auto simp: er intro!: exI [of _ "0 :: nat"])
  next
    case True
    then obtain c' where running: running and c': "namespace_event globs ev c = Inr c'" by blast
    note step = after_event_result [OF c']
    show ?thesis
    proof (cases "sn_cursor c' = PNone")
      case True
      with running c' step show ?thesis by (auto simp: er intro!: exI [of _ "1 :: nat"])
    next
      case False
      from Cons.IH [of c'] obtain n where "n \<le> length evs"
        "namespace_stream globs evs c' = fold (after_namespace_event globs) (map fst (take n evs)) c'"
        "n < length evs \<longrightarrow> sn_cursor (namespace_stream globs evs c') = PNone \<or> \<not> snd (evs ! n) \<or>
           (\<exists>e. namespace_event globs (fst (evs ! n)) (namespace_stream globs evs c') = Inl e)" by blast
      with False running c' step show ?thesis by (auto simp: er intro!: exI [of _ "Suc n"])
    qed
  qed
qed

section \<open>Reachable caches\<close>

text \<open>
  What can happen to the cache, in any order: a turn of the loop with any answer and any events. Between
  the events of a turn a request may see the cache, so single events are steps too.
\<close>

inductive namespaces_reachable :: "cluster \<Rightarrow> string list \<Rightarrow> namespace_cache \<Rightarrow> bool"
  for k globs where
  initial: "refresh_namespaces k globs response \<lparr>sn_entries = [], sn_cursor = PNone, sn_ready = False\<rparr> = Inr c \<Longrightarrow>
    namespaces_reachable k globs c"
| listed: "namespaces_reachable k globs c \<Longrightarrow> refresh_namespaces k globs response c = Inr c' \<Longrightarrow>
    namespaces_reachable k globs c'"
| event: "namespaces_reachable k globs c \<Longrightarrow> namespaces_reachable k globs (after_namespace_event globs ev c)"
| resync: "namespaces_reachable k globs c \<Longrightarrow> namespaces_reachable k globs (c\<lparr>sn_cursor := PNone\<rparr>)"

text \<open>Turns stay within the reachable caches.\<close>

lemma stream_reachable:
  "namespaces_reachable k globs c \<Longrightarrow> namespaces_reachable k globs (namespace_stream globs evs c)"
proof (induction evs arbitrary: c)
  case (Cons er evs)
  obtain ev running where er: "er = (ev, running)" by (cases er)
  show ?case
  proof (cases "namespace_event globs ev c")
    case (Inr c')
    from namespaces_reachable.event [OF Cons.prems, of ev] have "namespaces_reachable k globs c'"
      by (simp add: after_event_result [OF Inr])
    with Inr Cons show ?thesis by (simp add: er)
  qed (simp add: er Cons.prems)
qed simp

lemma turn_reachable:
  assumes "namespaces_reachable k globs c" and "namespace_turn k globs response evs c = Inr c'"
  shows "namespaces_reachable k globs c'"
proof -
  have "namespaces_reachable k globs ((namespace_stream globs evs c1)\<lparr>sn_cursor := PNone\<rparr>)"
    if "namespaces_reachable k globs c1" for c1
    using that by (intro namespaces_reachable.resync stream_reachable)
  with assms show ?thesis
    by (auto simp: namespace_turn_def split: if_splits sum.splits exc.splits intro: namespaces_reachable.listed)
qed

definition workspace_entry :: "string list \<Rightarrow> string \<Rightarrow> namespace_info \<Rightarrow> bool" where
  "workspace_entry globs name info \<longleftrightarrow> ni_name info = name \<and> name \<noteq> [] \<and> \<not> is_excluded globs name"

lemma extract_entry:
  "extract_namespace globs md = Some info \<Longrightarrow>
   workspace_entry globs (ni_name info) info \<and> metadata_text md_name md = Some (ni_name info)"
  by (auto simp: extract_namespace_def workspace_entry_def nonempty_text_some split: option.splits if_splits)

definition good_namespaces :: "string list \<Rightarrow> (string \<times> namespace_info) list \<Rightarrow> bool" where
  "good_namespaces globs es \<longleftrightarrow>
     distinct (map fst es) \<and> (\<forall>name info. map_of es name = Some info \<longrightarrow> workspace_entry globs name info)"

lemma good_nil [simp]: "good_namespaces globs []"
  by (simp add: good_namespaces_def)

lemma good_update:
  "good_namespaces globs es \<Longrightarrow> workspace_entry globs name info \<Longrightarrow> good_namespaces globs (AList.update name info es)"
  by (auto simp: good_namespaces_def map_of_upd distinct_update simp del: map_of_eq_Some_iff split: if_splits)

lemma listing_good: "good_namespaces globs es \<Longrightarrow> good_namespaces globs (fold (add_listed globs) items es)"
  by (induction items arbitrary: es)
     (auto simp: add_listed_def split: option.splits intro: good_update dest: extract_entry)

lemma reachable_good: "namespaces_reachable k globs c \<Longrightarrow> good_namespaces globs (sn_entries c)"
proof (induction rule: namespaces_reachable.induct)
  case (event c ev)
  have "namespaces.entries_ok (workspace_entry globs) (after_namespace_event globs ev c)"
  proof (rule namespaces.event_ok)
    show "namespaces.entries_ok (workspace_entry globs) c"
      using event.IH by (simp add: namespaces.entries_ok_def good_namespaces_def)
    show "workspace_entry globs n v" if "namespace_change globs ev = Put n v" for n v
      using that by (auto simp: namespace_change_def nonempty_text_some dest!: extract_entry split: if_splits option.splits)
  qed
  with event.IH namespaces.event_distinct [of c globs ev] show ?case
    unfolding namespaces.entries_ok_def good_namespaces_def by blast
qed (auto simp: refresh_namespaces_def listing_good [OF good_nil] split: sum.splits exc.splits)

section \<open>Properties\<close>

text \<open>
  A namespace is excluded exactly if, for some pattern, its name can be cut into pieces that fit the
  pattern's atoms in order: any piece, also an empty one, for a star, and one fitting character for a
  question mark, a bracket expression or a literal.
\<close>

lemma exclusion_by_pieces:
  "is_excluded globs name \<longleftrightarrow>
     (\<exists>pattern \<in> set globs. \<exists>pieces. list_all2 piece_fits (glob_atoms pattern) pieces \<and> concat pieces = name)"
  by (simp add: is_excluded_def list_ex_iff fnmatchcase_def glob_match_pieces)

text \<open>
  C27: an excluded namespace is never a workspace. Whatever the cluster answers and whatever the watch
  reports, in any order, the workspaces listed have distinct, non-empty names that match no exclusion
  pattern; a namespace that is looked up has the name asked for and is not excluded either, whether it
  comes from the cache or from a fresh listing.
\<close>

theorem excluded_namespaces_hidden:
  assumes "namespaces_reachable k globs (ws_namespaces w)"
  shows "(list_namespaces w = (Inr infos, w1) \<longrightarrow>
      distinct (map ni_name infos) \<and> (\<forall>i \<in> set infos. ni_name i \<noteq> [] \<and> \<not> is_excluded globs (ni_name i))) \<and>
    (get_namespace k globs name w = (Inr (Some info), w2) \<longrightarrow>
      ni_name info = name \<and> name \<noteq> [] \<and> \<not> is_excluded globs name)"
proof (rule conjI; rule impI)
  have good: "good_namespaces globs (sn_entries (ws_namespaces w))" by (rule reachable_good [OF assms])
  have pair: "workspace_entry globs n i" if "(n, i) \<in> set (sn_entries (ws_namespaces w))" for n i
    using good that by (auto simp: good_namespaces_def)
  assume "list_namespaces w = (Inr infos, w1)"
  then have infos: "infos = map snd (sn_entries (ws_namespaces w))"
    by (auto simp: list_namespaces_def namespace_wait_until_ready_def eff_defs cluster_eff_defs split: if_splits)
  have "map ni_name infos = map fst (sn_entries (ws_namespaces w))"
    unfolding infos map_map by (rule map_cong) (auto simp: workspace_entry_def dest: pair)
  with good have "distinct (map ni_name infos)" by (simp add: good_namespaces_def)
  moreover have "\<forall>i \<in> set infos. ni_name i \<noteq> [] \<and> \<not> is_excluded globs (ni_name i)"
    unfolding infos by (auto simp: workspace_entry_def dest: pair)
  ultimately show "distinct (map ni_name infos) \<and> (\<forall>i \<in> set infos. ni_name i \<noteq> [] \<and> \<not> is_excluded globs (ni_name i))" ..
next
  have found: "workspace_entry globs name info" if "first_namespace globs name items = Some info" for items
    using that by (induction items) (auto split: option.splits if_splits dest: extract_entry)
  assume "get_namespace k globs name w = (Inr (Some info), w2)"
  then have "map_of (sn_entries (ws_namespaces w)) name = Some info \<or> (\<exists>items. first_namespace globs name items = Some info)"
    by (auto simp: get_namespace_def namespace_wait_until_ready_def eff_defs cluster_eff_defs
        split: if_splits option.splits sum.splits)
  with reachable_good [OF assms] found have "workspace_entry globs name info"
    unfolding good_namespaces_def by blast
  then show "ni_name info = name \<and> name \<noteq> [] \<and> \<not> is_excluded globs name" by (simp add: workspace_entry_def)
qed

definition sample_namespaces :: namespace_cache where
  "sample_namespaces = \<lparr>sn_entries = [(''team'', \<lparr>ni_name = ''team'', ni_description = None\<rparr>)],
     sn_cursor = PStr ''7'', sn_ready = True\<rparr>"

lemma sample_refresh:
  "refresh_namespaces sample_cluster [''kube-*''] (Inr sample_listing)
     \<lparr>sn_entries = [], sn_cursor = PNone, sn_ready = False\<rparr> = Inr sample_namespaces"
proof -
  have "is_excluded [''kube-*''] ''kube-system''" "\<not> is_excluded [''kube-*''] ''team''" by code_simp+
  then show ?thesis
    by (simp add: refresh_namespaces_def sample_listing_def sample_object_def add_listed_def extract_namespace_def
        sample_namespaces_def metadata_text_def nonempty_text_def nonempty_def opt_pv_def)
qed

definition sample_workspaces :: workspaces where
  "sample_workspaces =
     \<lparr>ws_tick = 0, ws_namespaces = sample_namespaces,
      ws_configs = \<lparr>sn_entries = [], sn_cursor = PNone, sn_ready = True, sn_available = True\<rparr>, ws_secrets = None\<rparr>"

theorem excluded_namespaces_hidden_witness:
  "\<not> is_excluded [''kube-*''] ''team'' \<and> fst (list_namespaces sample_workspaces) = Inr [\<lparr>ni_name = ''team'', ni_description = None\<rparr>]"
proof -
  have "namespaces_reachable sample_cluster [''kube-*''] (ws_namespaces sample_workspaces)"
    using namespaces_reachable.initial [OF sample_refresh] by (simp add: sample_workspaces_def)
  note hidden = excluded_namespaces_hidden [OF this]
  have run: "list_namespaces sample_workspaces =
      (Inr [\<lparr>ni_name = ''team'', ni_description = None\<rparr>], sample_workspaces)"
    by (simp add: list_namespaces_def namespace_wait_until_ready_def eff_defs cluster_eff_defs
        sample_workspaces_def sample_namespaces_def)
  with hidden [of "[\<lparr>ni_name = ''team'', ni_description = None\<rparr>]" sample_workspaces] show ?thesis by simp
qed

text \<open>
  C29: a namespace is declared absent only after asking. A lookup without a result was for an excluded name,
  or the cluster's own answer, given in this call, has no namespace of that name; a failed request is an
  error with the code of its status, never an absence. The watch cache is left to the watch.
\<close>

theorem namespace_absence_verified:
  "case get_namespace k globs name w of (r, w') \<Rightarrow>
     ws_namespaces w' = ws_namespaces w \<and>
     (r = Inr None \<longrightarrow> is_excluded globs name \<or>
        (\<exists>items. k8s_namespaces_named k (ws_tick w) name = Inr items \<and> first_namespace globs name items = None)) \<and>
     (\<forall>s. k8s_namespaces_named k (ws_tick w) name = Inl (ApiExc s) \<longrightarrow> sn_ready (ws_namespaces w) \<longrightarrow>
        map_of (sn_entries (ws_namespaces w)) name = None \<longrightarrow> \<not> is_excluded globs name \<longrightarrow>
        (\<exists>msg. r = Inl (MlflowExc (if s = Some 401 then UNAUTHENTICATED
           else if s = Some 403 then PERMISSION_DENIED else INTERNAL_ERROR) msg)))"
  by (auto simp: get_namespace_def namespace_wait_until_ready_def eff_defs cluster_eff_defs
      namespace_lookup_error_def status_code_def api_status_def split: option.splits sum.splits)

theorem namespace_absence_verified_witness:
  "fst (get_namespace sample_cluster [''kube-*''] ''gone'' sample_workspaces) = Inr None \<and>
   k8s_namespaces_named sample_cluster 0 ''gone'' = Inr []"
proof -
  have "\<not> is_excluded [''kube-*''] ''gone''" by code_simp
  then have run: "get_namespace sample_cluster [''kube-*''] ''gone'' sample_workspaces =
      (Inr None, sample_workspaces\<lparr>ws_tick := 1\<rparr>)"
    by (simp add: get_namespace_def namespace_wait_until_ready_def eff_defs cluster_eff_defs
        sample_workspaces_def sample_namespaces_def sample_cluster_def)
  with \<open>\<not> is_excluded [''kube-*''] ''gone''\<close>
    namespace_absence_verified [where k = sample_cluster and globs = "[''kube-*'']" and name = "''gone''" and
      w = sample_workspaces]
  have "\<exists>items. k8s_namespaces_named sample_cluster 0 ''gone'' = Inr items"
    by (auto simp: sample_workspaces_def)
  with run show ?thesis by (simp add: sample_cluster_def)
qed

text \<open>
  C28: a turn of the watch gives the listing with the events replayed. After a turn that lists, the entry of
  every name is what the listing has for it, changed by a prefix of the events in order; the prefix is all
  of them unless the cache was stopped, the watch lost its place or an event could not be read. The next
  turn lists again.
\<close>

theorem namespace_turn_replays:
  assumes "sn_cursor c = PNone" and "namespace_turn k globs (Inr l) evs c = Inr c'"
  shows "sn_cursor c' = PNone \<and>
    (\<exists>n \<le> length evs. map_of (sn_entries c') =
       fold (\<lambda>ev. apply_change (namespace_change globs ev)) (map fst (take n evs))
         (map_of (fold (add_listed globs) (al_items l) [])) \<and>
       (n = length evs \<or> \<not> snd (evs ! n) \<or>
        (\<exists>c1. refresh_namespaces k globs (Inr l) c = Inr c1 \<and>
           (let end_cache = namespace_stream globs evs c1 in
              sn_cursor end_cache = PNone \<or> (\<exists>e. namespace_event globs (fst (evs ! n)) end_cache = Inl e)))))"
proof -
  let ?c1 = "c\<lparr>sn_entries := fold (add_listed globs) (al_items l) [], sn_cursor := opt_pv (al_resource_version l), sn_ready := True\<rparr>"
  have refresh: "refresh_namespaces k globs (Inr l) c = Inr ?c1" by (simp add: refresh_namespaces_def)
  with assms have c': "c' = (namespace_stream globs evs ?c1)\<lparr>sn_cursor := PNone\<rparr>"
    by (simp add: namespace_turn_def)
  from stream_prefix [of evs globs ?c1] obtain n where n: "n \<le> length evs"
    "namespace_stream globs evs ?c1 = fold (after_namespace_event globs) (map fst (take n evs)) ?c1"
    "n < length evs \<longrightarrow> sn_cursor (namespace_stream globs evs ?c1) = PNone \<or> \<not> snd (evs ! n) \<or>
        (\<exists>e. namespace_event globs (fst (evs ! n)) (namespace_stream globs evs ?c1) = Inl e)" by blast
  then have "map_of (sn_entries c') = fold (\<lambda>ev. apply_change (namespace_change globs ev)) (map fst (take n evs))
      (map_of (fold (add_listed globs) (al_items l) []))"
    by (simp add: c' namespaces.replay)
  with n refresh show ?thesis by (auto simp: c' Let_def intro!: exI [of _ n])
qed

theorem namespace_turn_replays_witness:
  "\<exists>n \<le> length [(sample_deletion, True)].
     map_of (sn_entries (namespace_stream [''kube-*''] [(sample_deletion, True)] sample_namespaces)) =
     fold (\<lambda>ev. apply_change (namespace_change [''kube-*''] ev)) (map fst (take n [(sample_deletion, True)]))
       (map_of (fold (add_listed [''kube-*'']) (al_items sample_listing) []))"
proof -
  let ?c = "\<lparr>sn_entries = [], sn_cursor = PNone, sn_ready = False\<rparr> :: namespace_cache"
  let ?s = "namespace_stream [''kube-*''] [(sample_deletion, True)] sample_namespaces"
  have cursor: "sn_cursor ?c = PNone" by simp
  have "namespace_turn sample_cluster [''kube-*''] (Inr sample_listing) [(sample_deletion, True)] ?c =
      Inr (?s\<lparr>sn_cursor := PNone\<rparr>)"
    using sample_refresh by (simp add: namespace_turn_def del: namespace_stream.simps)
  from namespace_turn_replays [OF cursor this] obtain n where "n \<le> length [(sample_deletion, True)]"
    "map_of (sn_entries (?s\<lparr>sn_cursor := PNone\<rparr>)) =
       fold (\<lambda>ev. apply_change (namespace_change [''kube-*''] ev)) (map fst (take n [(sample_deletion, True)]))
         (map_of (fold (add_listed [''kube-*'']) (al_items sample_listing) []))" by blast
  moreover have "sn_entries (c\<lparr>sn_cursor := v\<rparr>) = sn_entries c" for c :: namespace_cache and v by simp
  ultimately show ?thesis by (intro exI [of _ n] conjI) (assumption, simp only:)
qed

end
