(* ===== verification/Storage_Caches.thy ===== *)
theory Storage_Caches
  imports Namespace_Cache
begin

text \<open>
  \<open>SecretCache\<close> and \<open>MlflowConfigCache\<close> of \<open>workspace_plugin/caches.py\<close>: where the artifacts of a
  workspace are stored. The configuration cache starts the secret cache of the provider when a
  configuration needs it, so its operations work on the state of the whole plugin.
\<close>

definition ARTIFACT_CONNECTION_SECRET_NAME :: string where
  "ARTIFACT_CONNECTION_SECRET_NAME = ''mlflow-artifact-connection''"

section \<open>Secrets\<close>

definition decode_bucket_uri :: "cluster \<Rightarrow> (string \<times> string) list \<Rightarrow> string option" where
  "decode_bucket_uri k data =
     (case nonempty_text (map_of data ''AWS_S3_BUCKET'') of
        None \<Rightarrow> None
      | Some raw \<Rightarrow> (case k8s_decode k raw of None \<Rightarrow> None | Some bucket \<Rightarrow> Some (''s3://'' @ bucket)))"

definition extract_secret :: "cluster \<Rightarrow> api_object \<Rightarrow> secret_info option" where
  "extract_secret k ob =
     (case nonempty_text (metadata_text md_namespace (ob_metadata ob)) of
        None \<Rightarrow> None
      | Some ns \<Rightarrow> Some \<lparr>si_namespace = ns, si_bucket_uri = decode_bucket_uri k (ob_data ob)\<rparr>)"

definition add_secret :: "cluster \<Rightarrow> api_object \<Rightarrow> (string \<times> secret_info) list \<Rightarrow> (string \<times> secret_info) list" where
  "add_secret k ob infos =
     (case extract_secret k ob of None \<Rightarrow> infos | Some info \<Rightarrow> AList.update (si_namespace info) info infos)"

definition unavailable :: "'v optional_snapshot \<Rightarrow> 'v optional_snapshot" where
  "unavailable c = c\<lparr>sn_available := False, sn_entries := [], sn_cursor := PNone\<rparr>"

definition refresh_secrets :: "cluster \<Rightarrow> exc + api_list \<Rightarrow> secret_cache \<Rightarrow> exc + secret_cache" where
  "refresh_secrets k response c =
     (case response of
        Inl e \<Rightarrow>
          if e = ApiExc (Some 403) then Inr ((unavailable c)\<lparr>sn_ready := True\<rparr>)
          else if api_failure e then Inl (storage_lookup_error ''artifact connection Secrets'' None e)
          else Inl e
      | Inr l \<Rightarrow>
          Inr (c\<lparr>sn_entries := fold (add_secret k) (al_items l) [], sn_cursor := opt_pv (al_resource_version l),
                 sn_available := True, sn_ready := True\<rparr>))"

text \<open>A bookmark moves the cursor only when it carries a text; a dictionary is read with care.\<close>

definition bookmark_text :: "event_object \<Rightarrow> pv" where
  "bookmark_text ob =
     (case ob of
        Raw (PDict d) \<Rightarrow> (case dget d ''metadata'' of PDict m \<Rightarrow> dget m ''resourceVersion'' | _ \<Rightarrow> PNone)
      | _ \<Rightarrow> opt_pv (metadata_text md_resource_version (typed_metadata ob)))"

definition move_cursor :: "pv \<Rightarrow> 'v optional_snapshot \<Rightarrow> 'v optional_snapshot" where
  "move_cursor v c = (case v of PStr s \<Rightarrow> if s = [] then c else c\<lparr>sn_cursor := v\<rparr> | _ \<Rightarrow> c)"

definition secret_object_event :: "cluster \<Rightarrow> string option \<Rightarrow> api_object \<Rightarrow> secret_cache \<Rightarrow> secret_cache" where
  "secret_object_event k ty ob c =
     (case nonempty_text (metadata_text md_namespace (ob_metadata ob)) of
        None \<Rightarrow> c
      | Some ns \<Rightarrow>
          let version = opt_pv (metadata_text md_resource_version (ob_metadata ob)) in
          if ty \<in> {Some ''ADDED'', Some ''MODIFIED''}
          then c\<lparr>sn_entries := (case extract_secret k ob of
                    None \<Rightarrow> AList.delete ns (sn_entries c)
                  | Some info \<Rightarrow> AList.update ns info (sn_entries c)),
                 sn_cursor := version, sn_ready := True\<rparr>
          else if ty = Some ''DELETED''
          then c\<lparr>sn_entries := AList.delete ns (sn_entries c), sn_cursor := version, sn_ready := True\<rparr>
          else c\<lparr>sn_cursor := PNone\<rparr>)"

definition secret_event :: "cluster \<Rightarrow> watch_event \<Rightarrow> secret_cache \<Rightarrow> secret_cache" where
  "secret_event k ev c =
     (if ev_type ev = Some ''ERROR'' then c\<lparr>sn_cursor := PNone\<rparr>
      else if ev_type ev = Some ''BOOKMARK'' then move_cursor (bookmark_text (ev_object ev)) c
      else case ev_object ev of Typed ob \<Rightarrow> secret_object_event k (ev_type ev) ob c | _ \<Rightarrow> c)"

text \<open>A stream that ends with an error 403 makes the cache unavailable.\<close>

fun secret_stream :: "cluster \<Rightarrow> (watch_event \<times> bool) list \<Rightarrow> exc option \<Rightarrow> secret_cache \<Rightarrow> secret_cache" where
  "secret_stream k [] ending c = (if ending = Some (ApiExc (Some 403)) then unavailable c else c)"
| "secret_stream k ((ev, running) # evs) ending c =
     (if \<not> running then c
      else let c' = secret_event k ev c in
        if sn_cursor c' = PNone then c' else secret_stream k evs ending c')"

definition secret_turn ::
  "cluster \<Rightarrow> exc + api_list \<Rightarrow> (watch_event \<times> bool) list \<Rightarrow> exc option \<Rightarrow> secret_cache \<Rightarrow> secret_cache" where
  "secret_turn k response evs ending c =
     (if \<not> sn_available c then c\<lparr>sn_available := True, sn_cursor := PNone\<rparr>
      else case (if sn_cursor c = PNone then refresh_secrets k response c else Inr c) of
        Inl _ \<Rightarrow> c
      | Inr c1 \<Rightarrow> if \<not> sn_available c1 then c1 else (secret_stream k evs ending c1)\<lparr>sn_cursor := PNone\<rparr>)"

fun first_secret :: "cluster \<Rightarrow> string \<Rightarrow> api_object list \<Rightarrow> secret_info option" where
  "first_secret k ns [] = None"
| "first_secret k ns (ob # rest) =
     (case extract_secret k ob of
        Some info \<Rightarrow> if si_namespace info = ns then Some info else first_secret k ns rest
      | None \<Rightarrow> first_secret k ns rest)"

definition get_secret :: "cluster \<Rightarrow> secret_cache \<Rightarrow> string \<Rightarrow> (workspaces, secret_info option) eff" where
  "get_secret k c ns =
     (if \<not> sn_ready c
      then raise (MlflowExc INTERNAL_ERROR
        (''Timed out while waiting for the Kubernetes secret cache to initialize. '' @
         ''Double-check the MLflow server can reach the Kubernetes API.''))
      else if \<not> sn_available c then ret None
      else case map_of (sn_entries c) ns of
        Some info \<Rightarrow> ret (Some info)
      | None \<Rightarrow>
          andthen (ask_cluster (\<lambda>t. k8s_secrets_in k t ns)) (\<lambda>response.
            case response of
              Inl e \<Rightarrow>
                if e = ApiExc (Some 404) then ret None
                else if api_failure e
                then raise (storage_lookup_error ''artifact connection Secret'' (Some ns) e)
                else raise e
            | Inr items \<Rightarrow> ret (first_secret k ns items)))"

text \<open>\<open>_ensure_secret_cache\<close> of the provider: the cache is created once, with its first listing.\<close>

definition new_secret_cache :: secret_cache where
  "new_secret_cache = \<lparr>sn_entries = [], sn_cursor = PNone, sn_ready = False, sn_available = True\<rparr>"

definition ensure_secret_cache :: "cluster \<Rightarrow> (workspaces, secret_cache) eff" where
  "ensure_secret_cache k =
     andthen (read_state ws_secrets) (\<lambda>existing.
       case existing of
         Some c \<Rightarrow> ret c
       | None \<Rightarrow>
           andthen (ask_cluster (k8s_secrets k)) (\<lambda>response.
           andthen (lift (refresh_secrets k response new_secret_cache)) (\<lambda>c.
           andthen (change_state (\<lambda>w. w\<lparr>ws_secrets := Some c\<rparr>)) (\<lambda>_. ret c))))"

section \<open>Configurations\<close>

definition config_namespace :: "pdict \<Rightarrow> string option" where
  "config_namespace ob =
     (case dget ob ''metadata'' of
        PDict m \<Rightarrow> (case dget m ''namespace'' of PStr ns \<Rightarrow> nonempty ns | _ \<Rightarrow> None)
      | _ \<Rightarrow> None)"

definition extract_config :: "pdict \<Rightarrow> mlflow_config_info option" where
  "extract_config ob =
     (case config_namespace ob of
        None \<Rightarrow> None
      | Some ns \<Rightarrow>
          let spec = (case dget ob ''spec'' of PDict d \<Rightarrow> d | _ \<Rightarrow> []) in
          Some \<lparr>mi_namespace = ns,
            mi_artifact_root_path = as_str (dget spec ''artifactRootPath''),
            mi_artifact_root_secret = as_str (dget spec ''artifactRootSecret'')\<rparr>)"

definition uses_artifact_connection_secret :: "mlflow_config_info \<Rightarrow> bool" where
  "uses_artifact_connection_secret info \<longleftrightarrow> mi_artifact_root_secret info = Some ARTIFACT_CONNECTION_SECRET_NAME"

definition list_configs :: "pdict list \<Rightarrow> mlflow_config_info list" where
  "list_configs items = concat (map (\<lambda>i. case extract_config i of None \<Rightarrow> [] | Some info \<Rightarrow> [info]) items)"

definition file_configs :: "mlflow_config_info list \<Rightarrow> (string \<times> mlflow_config_info) list" where
  "file_configs infos = fold (\<lambda>info. AList.update (mi_namespace info) info) infos []"

definition set_configs :: "(config_cache \<Rightarrow> config_cache) \<Rightarrow> (workspaces, unit) eff" where
  "set_configs f = change_state (\<lambda>w. w\<lparr>ws_configs := f (ws_configs w)\<rparr>)"

definition ensure_if :: "cluster \<Rightarrow> bool \<Rightarrow> (workspaces, unit) eff" where
  "ensure_if k b = (if b then andthen (ensure_secret_cache k) (\<lambda>_. ret ()) else ret ())"

definition refresh_configs :: "cluster \<Rightarrow> bool \<Rightarrow> (workspaces, bool) eff" where
  "refresh_configs k raise_on_error =
     andthen (ask_cluster (k8s_configs k)) (\<lambda>response.
       case response of
         Inl e \<Rightarrow>
           if e \<in> {ApiExc (Some 404), ApiExc (Some 403)}
           then andthen (set_configs (\<lambda>c. (unavailable c)\<lparr>sn_ready := True\<rparr>)) (\<lambda>_. ret False)
           else if raise_on_error then raise (storage_lookup_error ''MLflowConfig'' None e)
           else andthen (set_configs (\<lambda>c. c\<lparr>sn_ready := True\<rparr>)) (\<lambda>_. ret False)
       | Inr l \<Rightarrow>
           let infos = list_configs (cl_items l) in
           andthen (set_configs (\<lambda>c. c\<lparr>sn_entries := file_configs infos, sn_cursor := cl_resource_version l,
                      sn_available := True\<rparr>)) (\<lambda>_.
           andthen (ensure_if k (list_ex uses_artifact_connection_secret infos)) (\<lambda>_.
           andthen (set_configs (\<lambda>c. c\<lparr>sn_ready := True\<rparr>)) (\<lambda>_. ret True))))"

definition try_reload :: "cluster \<Rightarrow> (workspaces, bool) eff" where
  "try_reload k =
     andthen (refresh_configs k True) (\<lambda>_. read_state (\<lambda>w. sn_available (ws_configs w)))"

text \<open>The configurations of a namespace, or of all, as Kubernetes has them now. Nothing is cached.\<close>

definition lookup_configs :: "cluster \<Rightarrow> string option \<Rightarrow> (workspaces, (string \<times> mlflow_config_info) list) eff" where
  "lookup_configs k ns =
     andthen (ask_cluster (\<lambda>t. k8s_configs_in k t ns)) (\<lambda>response.
       case response of
         Inl e \<Rightarrow>
           if e = ApiExc (Some 404) then ret []
           else if api_failure e then raise (storage_lookup_error ''MLflowConfig'' ns e)
           else raise e
       | Inr l \<Rightarrow>
           ret (file_configs (filter (\<lambda>info. ns = None \<or> ns = Some (mi_namespace info)) (list_configs (cl_items l)))))"

definition config_wait_until_ready :: "(workspaces, unit) eff" where
  "config_wait_until_ready =
     andthen (read_state ws_configs) (\<lambda>c.
       if sn_ready c then ret ()
       else raise (MlflowExc INTERNAL_ERROR ''Timed out waiting for MLflowConfig cache to initialize.''))"

definition verified_config :: "cluster \<Rightarrow> string \<Rightarrow> (workspaces, mlflow_config_info option) eff" where
  "verified_config k ns =
     andthen (lookup_configs k (Some ns)) (\<lambda>found.
     andthen (ensure_if k (case map_of found ns of None \<Rightarrow> False | Some info \<Rightarrow> uses_artifact_connection_secret info))
       (\<lambda>_. ret (map_of found ns)))"

definition get_config :: "cluster \<Rightarrow> string \<Rightarrow> (workspaces, mlflow_config_info option) eff" where
  "get_config k ns =
     andthen config_wait_until_ready (\<lambda>_.
     andthen (read_state ws_configs) (\<lambda>c.
       case map_of (sn_entries c) ns of
         Some info \<Rightarrow> ret (Some info)
       | None \<Rightarrow>
           if sn_available c then verified_config k ns
           else
             andthen (try_reload k) (\<lambda>reloaded.
               if \<not> reloaded then ret None
               else
                 andthen (read_state ws_configs) (\<lambda>c.
                   case map_of (sn_entries c) ns of
                     Some info \<Rightarrow> ret (Some info)
                   | None \<Rightarrow> verified_config k ns))))"

definition restrict_to :: "string list \<Rightarrow> (string \<times> 'v) list \<Rightarrow> (string \<times> 'v) list" where
  "restrict_to names es = filter (\<lambda>(n, _). n \<in> set names) es"

definition get_configs :: "cluster \<Rightarrow> string list \<Rightarrow> (workspaces, (string \<times> mlflow_config_info) list) eff" where
  "get_configs k names =
     andthen config_wait_until_ready (\<lambda>_.
     andthen (read_state ws_configs) (\<lambda>c.
       let known = restrict_to names (sn_entries c) in
       if set names \<subseteq> set (map fst known) then ret known
       else
         andthen (if sn_available c then ret True else try_reload k) (\<lambda>reloaded.
           if \<not> sn_available c
           then (if \<not> reloaded then ret [] else read_state (\<lambda>w. restrict_to names (sn_entries (ws_configs w))))
           else
             andthen (lookup_configs k None) (\<lambda>found.
               let configs = restrict_to names found in
               andthen (ensure_if k (list_ex (\<lambda>(_, info). uses_artifact_connection_secret info) configs))
                 (\<lambda>_. ret configs)))))"

text \<open>What an event changes, and whether the secret cache is needed after it.\<close>

definition config_object_event :: "string option \<Rightarrow> pdict \<Rightarrow> config_cache \<Rightarrow> config_cache \<times> bool" where
  "config_object_event ty ob c =
     (case config_namespace ob of
        None \<Rightarrow> (c, False)
      | Some ns \<Rightarrow>
          let version = (case dget ob ''metadata'' of PDict m \<Rightarrow> dget m ''resourceVersion'' | _ \<Rightarrow> PNone) in
          if ty \<in> {Some ''ADDED'', Some ''MODIFIED''}
          then (case extract_config ob of
                  None \<Rightarrow> (c\<lparr>sn_cursor := version\<rparr>, False)
                | Some info \<Rightarrow> (c\<lparr>sn_entries := AList.update ns info (sn_entries c), sn_cursor := version\<rparr>,
                                uses_artifact_connection_secret info))
          else if ty = Some ''DELETED''
          then (c\<lparr>sn_entries := AList.delete ns (sn_entries c), sn_cursor := version\<rparr>, False)
          else (c\<lparr>sn_cursor := PNone\<rparr>, False))"

definition raw_bookmark :: "event_object \<Rightarrow> pv" where
  "raw_bookmark ob = (case ob of Raw v \<Rightarrow> bookmark_text (Raw v) | _ \<Rightarrow> PNone)"

definition config_event :: "watch_event \<Rightarrow> config_cache \<Rightarrow> config_cache \<times> bool" where
  "config_event ev c =
     (if ev_type ev = Some ''ERROR'' then (c\<lparr>sn_cursor := PNone\<rparr>, False)
      else if ev_type ev = Some ''BOOKMARK'' then (move_cursor (raw_bookmark (ev_object ev)) c, False)
      else case ev_object ev of Raw (PDict ob) \<Rightarrow> config_object_event (ev_type ev) ob c | _ \<Rightarrow> (c, False))"

definition handle_config_event :: "cluster \<Rightarrow> watch_event \<Rightarrow> (workspaces, unit) eff" where
  "handle_config_event k ev =
     andthen (read_state ws_configs) (\<lambda>c.
     andthen (set_configs (\<lambda>c. fst (config_event ev c))) (\<lambda>_. ensure_if k (snd (config_event ev c))))"

fun config_stream :: "cluster \<Rightarrow> (watch_event \<times> bool) list \<Rightarrow> exc option \<Rightarrow> (workspaces, unit) eff" where
  "config_stream k [] ending = (case ending of None \<Rightarrow> ret () | Some e \<Rightarrow> raise e)"
| "config_stream k ((ev, running) # evs) ending =
     (if \<not> running then ret ()
      else
        andthen (handle_config_event k ev) (\<lambda>_.
        andthen (read_state (\<lambda>w. sn_cursor (ws_configs w))) (\<lambda>v.
          if v = PNone then ret () else config_stream k evs ending)))"

text \<open>One turn of \<open>_run\<close>. The removal of the CRD or of the permission makes the cache unavailable.\<close>

definition config_turn :: "cluster \<Rightarrow> (watch_event \<times> bool) list \<Rightarrow> exc option \<Rightarrow> (workspaces, unit) eff" where
  "config_turn k evs ending =
     andthen (read_state ws_configs) (\<lambda>c.
       if \<not> sn_available c then set_configs (\<lambda>c. c\<lparr>sn_available := True, sn_cursor := PNone\<rparr>)
       else
         andthen (handle (if sn_cursor c = PNone then refresh_configs k False else ret True) (\<lambda>_. ret False)) (\<lambda>ok.
           if \<not> ok then ret ()
           else
             andthen (read_state (\<lambda>w. sn_available (ws_configs w))) (\<lambda>still.
               if \<not> still then ret ()
               else
                 andthen (handle (config_stream k evs ending) (\<lambda>e.
                   if e \<in> {ApiExc (Some 404), ApiExc (Some 403)} then set_configs unavailable else ret ())) (\<lambda>_.
                 set_configs (\<lambda>c. c\<lparr>sn_cursor := PNone\<rparr>)))))"

section \<open>The watches keep the snapshots of the cluster\<close>

definition secret_change :: "cluster \<Rightarrow> watch_event \<Rightarrow> secret_info change" where
  "secret_change k ev =
     (if ev_type ev \<in> {Some ''ERROR'', Some ''BOOKMARK''} then Keep
      else case ev_object ev of
        Typed ob \<Rightarrow>
          (case extract_secret k ob of
             None \<Rightarrow> Keep
           | Some info \<Rightarrow>
               if ev_type ev \<in> {Some ''ADDED'', Some ''MODIFIED''} then Put (si_namespace info) info
               else if ev_type ev = Some ''DELETED'' then Drop (si_namespace info) else Keep)
      | _ \<Rightarrow> Keep)"

definition config_change :: "watch_event \<Rightarrow> mlflow_config_info change" where
  "config_change ev =
     (if ev_type ev \<in> {Some ''ERROR'', Some ''BOOKMARK''} then Keep
      else case ev_object ev of
        Raw (PDict ob) \<Rightarrow>
          (case extract_config ob of
             None \<Rightarrow> Keep
           | Some info \<Rightarrow>
               if ev_type ev \<in> {Some ''ADDED'', Some ''MODIFIED''} then Put (mi_namespace info) info
               else if ev_type ev = Some ''DELETED'' then Drop (mi_namespace info) else Keep)
      | _ \<Rightarrow> Keep)"

lemma move_cursor_entries [simp]: "sn_entries (move_cursor v c) = sn_entries c"
  by (auto simp: move_cursor_def split: pv.splits)

interpretation secrets: watched_snapshot "secret_event k" sn_entries "secret_change k" for k
proof
  show "map_of (sn_entries (secret_event k ev c)) = apply_change (secret_change k ev) (map_of (sn_entries c))" for ev c
    by (auto simp: secret_event_def secret_object_event_def secret_change_def extract_secret_def
        Let_def map_of_del map_of_upd split: option.splits event_object.splits)
  show "distinct (map fst (sn_entries c)) \<Longrightarrow> distinct (map fst (sn_entries (secret_event k ev c)))" for ev c
    by (auto simp: secret_event_def secret_object_event_def
        Let_def distinct_update distinct_delete split: option.splits event_object.splits)
qed

interpretation configs: watched_snapshot "\<lambda>ev c. fst (config_event ev c)" sn_entries config_change
proof
  show "map_of (sn_entries (fst (config_event ev c))) = apply_change (config_change ev) (map_of (sn_entries c))" for ev c
    by (auto simp: config_event_def config_object_event_def config_change_def extract_config_def
        Let_def map_of_del map_of_upd split: option.splits event_object.splits pv.splits)
  show "distinct (map fst (sn_entries c)) \<Longrightarrow> distinct (map fst (sn_entries (fst (config_event ev c))))" for ev c
    by (auto simp: config_event_def config_object_event_def
        Let_def distinct_update distinct_delete split: option.splits event_object.splits pv.splits)
qed

end
