(* ===== verification/Provider.thy ===== *)
theory Provider
  imports Storage_Caches Skill_Artifacts
begin

text \<open>
  \<open>workspace_plugin/provider.py\<close>: MLflow workspaces as Kubernetes namespaces, and where the artifacts of
  a workspace go.
\<close>

section \<open>Configuration\<close>

definition DEFAULT_NAMESPACE_EXCLUDE_GLOBS :: "string list" where
  "DEFAULT_NAMESPACE_EXCLUDE_GLOBS =
     [''dedicated-admin'', ''kube-*'', ''nvidia-gpu-operator'', ''open-cluster-management'',
      ''open-cluster-management-*'', ''openshift-*'', ''openshift'', ''redhat-ods-*'']"

datatype glob_input = GlobText string | GlobList "string list"

definition parse_glob_input :: "glob_input option \<Rightarrow> string list option" where
  "parse_glob_input value =
     map_option (\<lambda>v. map py_strip (filter (\<lambda>t. py_strip t \<noteq> [])
       (case v of GlobText t \<Rightarrow> py_split '','' t | GlobList l \<Rightarrow> l))) value"

text \<open>The loops of \<open>_merge_globs\<close>: the patterns merged so far are the ones seen.\<close>

definition merge_one :: "string \<Rightarrow> string list \<Rightarrow> string list" where
  "merge_one pattern merged = (if pattern \<in> set merged then merged else merged @ [pattern])"

definition merge_globs :: "string list option list \<Rightarrow> string list" where
  "merge_globs glob_lists =
     fold (\<lambda>gs merged. case gs of None \<Rightarrow> merged | Some patterns \<Rightarrow> fold merge_one patterns merged) glob_lists []"

record provider_config =
  pc_label_selector :: "string option"
  pc_default_workspace :: "string option"
  pc_namespace_exclude_globs :: "string list"

definition option_or :: "string option \<Rightarrow> string option \<Rightarrow> string option" where
  "option_or a b = (case nonempty_text a of None \<Rightarrow> b | Some t \<Rightarrow> Some t)"

definition config_from_sources ::
  "(string \<Rightarrow> string option) \<Rightarrow> string option \<Rightarrow> string option \<Rightarrow> glob_input option \<Rightarrow> provider_config" where
  "config_from_sources environ label_selector default_workspace namespace_exclude_globs =
     (let env_globs = parse_glob_input (map_option GlobText (environ ''MLFLOW_K8S_NAMESPACE_EXCLUDE_GLOBS''));
          glob_source = (case parse_glob_input namespace_exclude_globs of
              Some gs \<Rightarrow> gs
            | None \<Rightarrow> (case env_globs of Some gs \<Rightarrow> gs | None \<Rightarrow> []))
      in \<lparr>pc_label_selector = option_or label_selector (environ ''MLFLOW_K8S_WORKSPACE_LABEL_SELECTOR''),
          pc_default_workspace = option_or default_workspace (environ ''MLFLOW_K8S_DEFAULT_WORKSPACE''),
          pc_namespace_exclude_globs = merge_globs [Some DEFAULT_NAMESPACE_EXCLUDE_GLOBS, Some glob_source]\<rparr>)"

text \<open>\<open>query\<close> is \<open>parse_qs(urlparse(uri).query, keep_blank_values=True)\<close>.\<close>

definition uri_param :: "(string \<times> string list) list \<Rightarrow> string \<Rightarrow> string option" where
  "uri_param query name =
     (case map_of query name of
        None \<Rightarrow> None
      | Some values \<Rightarrow> if values = [] then None else nonempty (py_strip (last values)))"

record uri_options =
  uo_label_selector :: "string option"
  uo_default_workspace :: "string option"
  uo_namespace_exclude_globs :: "string list option"

definition parse_workspace_uri_options :: "(string \<Rightarrow> (string \<times> string list) list) \<Rightarrow> string \<Rightarrow> uri_options" where
  "parse_workspace_uri_options parse_query uri =
     (if uri = [] then \<lparr>uo_label_selector = None, uo_default_workspace = None, uo_namespace_exclude_globs = None\<rparr>
      else
        (let query = parse_query uri in
         \<lparr>uo_label_selector = uri_param query ''label_selector'',
          uo_default_workspace = uri_param query ''default_workspace'',
          uo_namespace_exclude_globs =
            parse_glob_input (map_option GlobText (uri_param query ''namespace_exclude_globs''))\<rparr>))"

definition store_config ::
  "(string \<Rightarrow> (string \<times> string list) list) \<Rightarrow> (string \<Rightarrow> string option) \<Rightarrow> string \<Rightarrow> provider_config" where
  "store_config parse_query environ uri =
     (let opts = parse_workspace_uri_options parse_query uri in
      config_from_sources environ (uo_label_selector opts) (uo_default_workspace opts)
        (map_option GlobList (uo_namespace_exclude_globs opts)))"

text \<open>The constructor: both caches take their first listing before the provider exists.\<close>

definition empty_workspaces :: "nat \<Rightarrow> workspaces" where
  "empty_workspaces t =
     \<lparr>ws_tick = t, ws_namespaces = \<lparr>sn_entries = [], sn_cursor = PNone, sn_ready = False\<rparr>,
      ws_configs = \<lparr>sn_entries = [], sn_cursor = PNone, sn_ready = False, sn_available = True\<rparr>, ws_secrets = None\<rparr>"

definition start_provider :: "cluster \<Rightarrow> provider_config \<Rightarrow> (workspaces, unit) eff" where
  "start_provider k p =
     andthen (ask_cluster (k8s_namespaces k)) (\<lambda>response.
     andthen (read_state ws_namespaces) (\<lambda>c.
     andthen (lift (refresh_namespaces k (pc_namespace_exclude_globs p) response c)) (\<lambda>c.
     andthen (change_state (\<lambda>w. w\<lparr>ws_namespaces := c\<rparr>)) (\<lambda>_.
     andthen (refresh_configs k False) (\<lambda>_. ret ())))))"

section \<open>Artifact roots\<close>

definition parameter_error :: "string \<Rightarrow> exc" where
  "parameter_error msg = MlflowExc INVALID_PARAMETER_VALUE msg"

definition bad_artifact_path :: "string \<Rightarrow> string \<Rightarrow> string \<Rightarrow> exc" where
  "bad_artifact_path path ns why =
     parameter_error (''Invalid artifactRootPath '' @ quoted path @ '' in MLflowConfig for namespace '' @
       quoted ns @ ''. '' @ why)"

definition validate_artifact_path :: "string \<Rightarrow> string \<Rightarrow> exc + string option" where
  "validate_artifact_path path ns =
     (if CHR 0x5C \<in> set path
      then Inl (bad_artifact_path path ns ''Backslashes are not allowed; use forward slashes.'')
      else
        (let normalized = py_normpath path in
         if startswith normalized ''/'' then Inl (bad_artifact_path path ns ''Absolute paths are not allowed.'')
         else if normalized = ''..'' \<or> startswith normalized ''../'' \<or> contains_str normalized ''/../''
         then Inl (bad_artifact_path path ns (''Path traversal ('' @ quoted ''..'' @ '') is not allowed.''))
         else if normalized = ''.'' then Inr None
         else Inr (Some normalized)))"

definition bucket_root :: "cluster \<Rightarrow> string \<Rightarrow> string option \<Rightarrow> string \<Rightarrow> exc + string" where
  "bucket_root k bucket_uri root_path ns =
     (case nonempty_text root_path of
        None \<Rightarrow> Inr bucket_uri
      | Some raw \<Rightarrow>
          (let path = py_strip raw in
           if path = [] then Inr bucket_uri
           else case validate_artifact_path path ns of
             Inl e \<Rightarrow> Inl e
           | Inr None \<Rightarrow> Inr bucket_uri
           | Inr (Some validated) \<Rightarrow> Inr (k8s_append k bucket_uri validated)))"

definition resolve_artifact_root_from_config ::
  "cluster \<Rightarrow> string option \<Rightarrow> string \<Rightarrow> mlflow_config_info option \<Rightarrow> (workspaces, string option \<times> bool) eff" where
  "resolve_artifact_root_from_config k default_artifact_root ns config =
     (case config of
        None \<Rightarrow> ret (default_artifact_root, True)
      | Some info \<Rightarrow>
          (case nonempty_text (mi_artifact_root_secret info) of
             None \<Rightarrow> ret (default_artifact_root, True)
           | Some secret \<Rightarrow>
               if secret \<noteq> ARTIFACT_CONNECTION_SECRET_NAME
               then raise (parameter_error (''MLflowConfig in namespace '' @ quoted ns @
                 '' sets artifactRootSecret to '' @ quoted secret @ '', but only '' @
                 quoted ARTIFACT_CONNECTION_SECRET_NAME @ '' is supported.''))
               else
                 andthen (ensure_secret_cache k) (\<lambda>cache.
                 andthen (get_secret k cache ns) (\<lambda>secret_info.
                   case nonempty_text (case secret_info of None \<Rightarrow> None | Some i \<Rightarrow> si_bucket_uri i) of
                     None \<Rightarrow> raise (parameter_error (''Invalid artifact storage configuration in namespace '' @
                       quoted ns @ ''. Secret '' @ quoted ARTIFACT_CONNECTION_SECRET_NAME @
                       '' does not exist or is missing the '' @ quoted ''AWS_S3_BUCKET'' @ '' key.''))
                   | Some bucket_uri \<Rightarrow>
                       andthen (lift (bucket_root k bucket_uri (mi_artifact_root_path info) ns)) (\<lambda>root_uri.
                         ret (Some root_uri, False))))))"

definition resolve_artifact_root ::
  "cluster \<Rightarrow> string option \<Rightarrow> string \<Rightarrow> (workspaces, string option \<times> bool) eff" where
  "resolve_artifact_root k default_artifact_root ns =
     (if ns = [] then ret (default_artifact_root, True)
      else andthen (get_config k ns) (resolve_artifact_root_from_config k default_artifact_root ns))"

definition resolve_workspace_artifact_root ::
  "cluster \<Rightarrow> (string \<times> mlflow_config_info) list option \<Rightarrow> string \<Rightarrow> (workspaces, string option) eff" where
  "resolve_workspace_artifact_root k configs ns =
     handle
       (andthen (case configs of
            None \<Rightarrow> resolve_artifact_root k None ns
          | Some cs \<Rightarrow> resolve_artifact_root_from_config k None ns (map_of cs ns))
         (\<lambda>(root_uri, should_append). ret (if should_append then None else root_uri)))
       (\<lambda>e. case e of MlflowExc INVALID_PARAMETER_VALUE _ \<Rightarrow> ret None | _ \<Rightarrow> raise e)"

section \<open>Workspaces\<close>

record workspace =
  wk_name :: string
  wk_description :: "string option"
  wk_default_artifact_root :: "string option"

definition workspace_of ::
  "cluster \<Rightarrow> (string \<times> mlflow_config_info) list option \<Rightarrow> namespace_info \<Rightarrow> (workspaces, workspace) eff" where
  "workspace_of k configs info =
     andthen (resolve_workspace_artifact_root k configs (ni_name info)) (\<lambda>root_uri.
       ret \<lparr>wk_name = ni_name info, wk_description = ni_description info, wk_default_artifact_root = root_uri\<rparr>)"

definition list_workspaces :: "cluster \<Rightarrow> (workspaces, workspace list) eff" where
  "list_workspaces k =
     andthen list_namespaces (\<lambda>infos.
     andthen (get_configs k (map ni_name infos)) (\<lambda>configs.
       map_eff (workspace_of k (Some configs)) infos))"

definition workspace_not_found :: "provider_config \<Rightarrow> string \<Rightarrow> exc" where
  "workspace_not_found p ns =
     MlflowExc RESOURCE_DOES_NOT_EXIST (py_join '' ''
       ([''Workspace '' @ quoted ns @ '' not found in the Kubernetes cluster.'',
         ''Each MLflow workspace maps 1:1 to a namespace.''] @
        (case nonempty_text (pc_label_selector p) of
           None \<Rightarrow> []
         | Some s \<Rightarrow> [''Ensure the namespace exists and matches the configured selector ('' @ quoted s @ '').''])))"

definition get_workspace :: "cluster \<Rightarrow> provider_config \<Rightarrow> string \<Rightarrow> (workspaces, workspace) eff" where
  "get_workspace k p ns =
     andthen (get_namespace k (pc_namespace_exclude_globs p) ns) (\<lambda>info.
       case info of None \<Rightarrow> raise (workspace_not_found p ns) | Some i \<Rightarrow> workspace_of k None i)"

definition create_workspace :: "(workspaces, workspace) eff" where
  "create_workspace = raise (PyNotImplemented ''Namespace creation is not supported by this provider'')"

definition update_workspace :: "(workspaces, workspace) eff" where
  "update_workspace = raise (PyNotImplemented ''Namespace updates are not supported by this provider'')"

definition delete_workspace :: "(workspaces, unit) eff" where
  "delete_workspace = raise (PyNotImplemented ''Namespace deletion is not supported by this provider'')"

definition get_default_workspace :: "cluster \<Rightarrow> provider_config \<Rightarrow> (workspaces, workspace) eff" where
  "get_default_workspace k p =
     (case nonempty_text (pc_default_workspace p) of
        None \<Rightarrow> raise (PyNotImplemented (''Active workspace is required. Specify one in the request path or set '' @
          ''MLFLOW_K8S_DEFAULT_WORKSPACE.''))
      | Some ns \<Rightarrow> get_workspace k p ns)"

end
