(* ===== verification/Workspace_Safety.thy ===== *)
theory Workspace_Safety
  imports Provider
begin

text \<open>
  What the workspace plugin promises: a workspace is only ever given the storage its own namespace
  configures, absence is verified, artifact paths stay in their bucket, and system namespaces are hidden.
\<close>

section \<open>Entries are filed under their own namespace\<close>

definition filed_configs :: "(string \<times> mlflow_config_info) list \<Rightarrow> bool" where
  "filed_configs es \<longleftrightarrow> (\<forall>ns info. map_of es ns = Some info \<longrightarrow> mi_namespace info = ns)"

definition filed_secrets :: "(string \<times> secret_info) list \<Rightarrow> bool" where
  "filed_secrets es \<longleftrightarrow> (\<forall>ns info. map_of es ns = Some info \<longrightarrow> si_namespace info = ns)"

definition storage_filed :: "workspaces \<Rightarrow> bool" where
  "storage_filed w \<longleftrightarrow> filed_configs (sn_entries (ws_configs w)) \<and>
     (case ws_secrets w of None \<Rightarrow> True | Some c \<Rightarrow> filed_secrets (sn_entries c))"

lemma filed_nil [simp]: "filed_configs []" "filed_secrets []"
  by (simp_all add: filed_configs_def filed_secrets_def)

lemma filed_update: "filed_configs es \<Longrightarrow> filed_configs (AList.update (mi_namespace info) info es)"
  by (auto simp: filed_configs_def map_of_upd split: if_splits)

lemma file_configs_filed [simp]: "filed_configs (file_configs infos)"
proof -
  have "filed_configs es \<Longrightarrow> filed_configs (fold (\<lambda>info. AList.update (mi_namespace info) info) infos es)" for es
    by (induction infos arbitrary: es) (simp_all add: filed_update)
  then show ?thesis by (simp add: file_configs_def)
qed

lemma filed_restrict: "filed_configs es \<Longrightarrow> filed_configs (restrict_to names es)"
proof -
  have "map_of (restrict_to names es) ns = (if ns \<in> set names then map_of es ns else None)" for ns
    by (induction es) (auto simp: restrict_to_def)
  then show "filed_configs es \<Longrightarrow> filed_configs (restrict_to names es)"
    by (auto simp: filed_configs_def)
qed

lemma add_secrets_filed: "filed_secrets es \<Longrightarrow> filed_secrets (fold (add_secret k) items es)"
proof (induction items arbitrary: es)
  case (Cons ob items)
  have "filed_secrets (add_secret k ob es)"
    using Cons.prems by (auto simp: add_secret_def filed_secrets_def map_of_upd split: option.splits)
  with Cons.IH show ?case by simp
qed simp

lemma refresh_secrets_filed:
  "refresh_secrets k response c = Inr c' \<Longrightarrow> filed_secrets (sn_entries c')"
  by (auto simp: refresh_secrets_def unavailable_def add_secrets_filed split: sum.splits if_splits)

lemma config_event_filed: "filed_configs (sn_entries c) \<Longrightarrow> filed_configs (sn_entries (fst (config_event ev c)))"
proof -
  assume "filed_configs (sn_entries c)"
  then have "configs.entries_ok (\<lambda>ns info. mi_namespace info = ns) c"
    by (simp add: filed_configs_def configs.entries_ok_def)
  then have "configs.entries_ok (\<lambda>ns info. mi_namespace info = ns) (fst (config_event ev c))"
    by (rule configs.event_ok)
       (auto simp: config_change_def split: if_splits event_object.splits pv.splits option.splits)
  then show ?thesis by (simp add: filed_configs_def configs.entries_ok_def)
qed

lemma secret_event_filed: "filed_secrets (sn_entries c) \<Longrightarrow> filed_secrets (sn_entries (secret_event k ev c))"
proof -
  assume "filed_secrets (sn_entries c)"
  then have "secrets.entries_ok (\<lambda>ns info. si_namespace info = ns) c"
    by (simp add: filed_secrets_def secrets.entries_ok_def)
  then have "secrets.entries_ok (\<lambda>ns info. si_namespace info = ns) (secret_event k ev c)"
    by (rule secrets.event_ok)
       (auto simp: secret_change_def split: if_splits event_object.splits option.splits)
  then show ?thesis by (simp add: filed_secrets_def secrets.entries_ok_def)
qed

lemma secret_stream_filed:
  "filed_secrets (sn_entries c) \<Longrightarrow> filed_secrets (sn_entries (secret_stream k evs ending c))"
  by (induction k evs ending c rule: secret_stream.induct)
     (auto simp: unavailable_def Let_def secret_event_filed)

lemma secret_turn_filed:
  "filed_secrets (sn_entries c) \<Longrightarrow> filed_secrets (sn_entries (secret_turn k response evs ending c))"
  by (auto simp: secret_turn_def secret_stream_filed dest: refresh_secrets_filed split: sum.splits if_splits)

section \<open>What holds of the plugin's state\<close>

definition plugin_ok :: "cluster \<Rightarrow> provider_config \<Rightarrow> workspaces \<Rightarrow> bool" where
  "plugin_ok k p w \<longleftrightarrow>
     storage_filed w \<and> namespaces_reachable k (pc_namespace_exclude_globs p) (ws_namespaces w)"

section \<open>Operations keep the files in order\<close>

lemma safe_ask_cluster [safe_intros]: "safe (plugin_ok k p) (ask_cluster f) (\<lambda>r. \<exists>t. r = f t)"
  by (auto simp: safe_def ask_cluster_def plugin_ok_def storage_filed_def)

lemma safe_read_configs:
  "(\<And>w. filed_configs (sn_entries (ws_configs w)) \<Longrightarrow> Q (f w)) \<Longrightarrow> safe (plugin_ok k p) (read_state f) Q"
  by (auto simp: safe_def read_state_def plugin_ok_def storage_filed_def)

lemma safe_set_configs:
  "(\<And>c. filed_configs (sn_entries c) \<Longrightarrow> filed_configs (sn_entries (f c))) \<Longrightarrow>
   safe (plugin_ok k p) (set_configs f) (\<lambda>_. True)"
  by (auto simp: safe_def set_configs_def change_state_def plugin_ok_def storage_filed_def)

lemma safe_ensure_secret_cache:
  "safe (plugin_ok k p) (ensure_secret_cache k) (\<lambda>c. filed_secrets (sn_entries c))"
  unfolding ensure_secret_cache_def
proof (rule safe_andthen [where Q = "\<lambda>c. case c of None \<Rightarrow> True | Some c \<Rightarrow> filed_secrets (sn_entries c)"])
  show "safe (plugin_ok k p) (read_state ws_secrets)
      (\<lambda>c. case c of None \<Rightarrow> True | Some c \<Rightarrow> filed_secrets (sn_entries c))"
    by (auto simp: safe_def read_state_def plugin_ok_def storage_filed_def)
  have store: "safe (plugin_ok k p) (change_state (\<lambda>w. w\<lparr>ws_secrets := Some c\<rparr>)) (\<lambda>_. True)"
    if "filed_secrets (sn_entries c)" for c
    using that by (auto simp: safe_def change_state_def plugin_ok_def storage_filed_def)
  show "safe (plugin_ok k p) (case existing of Some c \<Rightarrow> ret c
     | None \<Rightarrow> andthen (ask_cluster (k8s_secrets k)) (\<lambda>response.
         andthen (lift (refresh_secrets k response new_secret_cache)) (\<lambda>c.
         andthen (change_state (\<lambda>w. w\<lparr>ws_secrets := Some c\<rparr>)) (\<lambda>_. ret c))))
     (\<lambda>c. filed_secrets (sn_entries c))"
    if "case existing of None \<Rightarrow> True | Some c \<Rightarrow> filed_secrets (sn_entries c)" for existing
    using that
    by (auto split: option.splits intro!: safe_ret safe_andthen [OF safe_ask_cluster] safe_andthen [OF store]
        safe_andthen [OF safe_lift [where Q = "\<lambda>c. filed_secrets (sn_entries c)"]] dest: refresh_secrets_filed)
qed

lemma safe_ensure_if [safe_intros]: "safe (plugin_ok k p) (ensure_if k b) (\<lambda>_. True)"
  unfolding ensure_if_def by (auto intro!: safe_ret safe_andthen [OF safe_ensure_secret_cache])

lemma safe_refresh_configs: "safe (plugin_ok k p) (refresh_configs k b) (\<lambda>_. True)"
  unfolding refresh_configs_def Let_def
  by (rule safe_andthen [OF safe_ask_cluster])
     (auto split: sum.splits simp: unavailable_def
       intro!: safe_raise safe_ret safe_andthen [OF safe_set_configs] safe_andthen [OF safe_ensure_if])

lemma safe_lookup_configs: "safe (plugin_ok k p) (lookup_configs k ns) filed_configs"
  unfolding lookup_configs_def
  by (rule safe_andthen [OF safe_ask_cluster]) (auto split: sum.splits intro!: safe_raise safe_ret)

lemma safe_verified_config:
  "safe (plugin_ok k p) (verified_config k ns) (\<lambda>r. \<forall>info. r = Some info \<longrightarrow> mi_namespace info = ns)"
  unfolding verified_config_def
  by (rule safe_andthen [OF safe_lookup_configs], rule safe_andthen [OF safe_ensure_if], rule safe_ret)
     (auto simp: filed_configs_def)

lemma safe_try_reload: "safe (plugin_ok k p) (try_reload k) (\<lambda>_. True)"
  unfolding try_reload_def by (rule safe_andthen [OF safe_refresh_configs], rule safe_read_configs) simp

lemma safe_config_wait: "safe (plugin_ok k p) config_wait_until_ready (\<lambda>_. True)"
  unfolding config_wait_until_ready_def
  by (rule safe_andthen [OF safe_read_configs [where Q = "\<lambda>_. True"]]) (auto intro!: safe_intros)

lemma safe_get_config:
  "safe (plugin_ok k p) (get_config k ns) (\<lambda>r. \<forall>info. r = Some info \<longrightarrow> mi_namespace info = ns)"
  unfolding get_config_def
  by (rule safe_andthen [OF safe_config_wait], rule safe_andthen [OF safe_read_configs [where
        Q = "\<lambda>c. filed_configs (sn_entries c)"]], assumption)
     (auto split: option.splits intro!: safe_ret safe_verified_config safe_andthen [OF safe_try_reload]
        safe_andthen [OF safe_read_configs [where Q = "\<lambda>c. filed_configs (sn_entries c)"]] simp: filed_configs_def)

lemma safe_get_configs: "safe (plugin_ok k p) (get_configs k names) filed_configs"
  unfolding get_configs_def Let_def
  by (rule safe_andthen [OF safe_config_wait], rule safe_andthen [OF safe_read_configs [where
        Q = "\<lambda>c. filed_configs (sn_entries c)"]], assumption, rule safe_if, rule safe_ret, rule filed_restrict, assumption,
      rule safe_andthen [where Q = "\<lambda>_. True"])
     (auto intro!: safe_if safe_ret safe_try_reload safe_andthen [OF safe_ensure_if]
        safe_andthen [OF safe_lookup_configs] safe_read_configs filed_restrict)

lemma safe_config_event: "safe (plugin_ok k p) (handle_config_event k ev) (\<lambda>_. True)"
  unfolding handle_config_event_def
  by (rule safe_andthen [OF safe_read_configs [where Q = "\<lambda>_. True"]], rule TrueI,
      rule safe_andthen [OF safe_set_configs]) (auto intro: config_event_filed safe_ensure_if)

lemma safe_config_stream: "safe (plugin_ok k p) (config_stream k evs ending) (\<lambda>_. True)"
proof (induction evs)
  case Nil
  show ?case by (auto intro!: safe_intros split: option.splits)
next
  case (Cons er evs)
  then show ?case
    by (cases er) (auto intro!: safe_ret safe_andthen [OF safe_config_event]
        safe_andthen [OF safe_read_configs [where Q = "\<lambda>_. True"]])
qed

lemma safe_config_turn: "safe (plugin_ok k p) (config_turn k evs ending) (\<lambda>_. True)"
  unfolding config_turn_def
  by (rule safe_andthen [OF safe_read_configs [where Q = "\<lambda>_. True"]])
     (auto simp: unavailable_def intro!: safe_ret safe_set_configs safe_handle safe_refresh_configs safe_config_stream
        safe_andthen [where Q = "\<lambda>_. True"] safe_read_configs)

section \<open>Reachable states\<close>

text \<open>
  Everything that can happen after the provider has started, in any order: turns and single events of the
  three watch threads, with any answers and any stream, and the requests.
\<close>

inductive plugin_reachable :: "cluster \<Rightarrow> provider_config \<Rightarrow> workspaces \<Rightarrow> bool" for k p where
  started: "start_provider k p (empty_workspaces t) = (Inr (), w) \<Longrightarrow> plugin_reachable k p w"
| namespace_listed: "plugin_reachable k p w \<Longrightarrow>
    refresh_namespaces k (pc_namespace_exclude_globs p) response (ws_namespaces w) = Inr c \<Longrightarrow>
    plugin_reachable k p (w\<lparr>ws_namespaces := c\<rparr>)"
| namespace_watched: "plugin_reachable k p w \<Longrightarrow>
    plugin_reachable k p (w\<lparr>ws_namespaces :=
      after_namespace_event (pc_namespace_exclude_globs p) ev (ws_namespaces w)\<rparr>)"
| namespace_resync: "plugin_reachable k p w \<Longrightarrow>
    plugin_reachable k p (w\<lparr>ws_namespaces := (ws_namespaces w)\<lparr>sn_cursor := PNone\<rparr>\<rparr>)"
| config_turned: "plugin_reachable k p w \<Longrightarrow> config_turn k evs ending w = (r, w') \<Longrightarrow> plugin_reachable k p w'"
| config_watched: "plugin_reachable k p w \<Longrightarrow> handle_config_event k ev w = (r, w') \<Longrightarrow> plugin_reachable k p w'"
| secret_turned: "plugin_reachable k p w \<Longrightarrow> ws_secrets w = Some c \<Longrightarrow>
    plugin_reachable k p (w\<lparr>ws_secrets := Some (secret_turn k response evs ending c)\<rparr>)"
| secret_watched: "plugin_reachable k p w \<Longrightarrow> ws_secrets w = Some c \<Longrightarrow>
    plugin_reachable k p (w\<lparr>ws_secrets := Some (secret_event k ev c)\<rparr>)"
| config_asked: "plugin_reachable k p w \<Longrightarrow> get_config k ns w = (r1, w') \<Longrightarrow> plugin_reachable k p w'"
| configs_asked: "plugin_reachable k p w \<Longrightarrow> get_configs k names w = (r2, w') \<Longrightarrow> plugin_reachable k p w'"
| secret_needed: "plugin_reachable k p w \<Longrightarrow> ensure_secret_cache k w = (r3, w') \<Longrightarrow> plugin_reachable k p w'"
| other_request: "plugin_reachable k p w \<Longrightarrow> plugin_reachable k p (w\<lparr>ws_tick := t\<rparr>)"

lemma started_ok:
  assumes "start_provider k p (empty_workspaces t) = (Inr (), w)"
  shows "plugin_ok k p w"
proof -
  let ?w = "(empty_workspaces t)\<lparr>ws_tick := Suc t\<rparr>"
  obtain c b where c: "refresh_namespaces k (pc_namespace_exclude_globs p) (k8s_namespaces k t)
      \<lparr>sn_entries = [], sn_cursor = PNone, sn_ready = False\<rparr> = Inr c"
    and run: "refresh_configs k False (?w\<lparr>ws_namespaces := c\<rparr>) = (Inr b, w)"
    using assms by (auto simp: start_provider_def eff_defs cluster_eff_defs empty_workspaces_def
        split: sum.splits prod.splits)
  have "plugin_ok k p (?w\<lparr>ws_namespaces := c\<rparr>)"
    using namespaces_reachable.initial [OF c] by (simp add: plugin_ok_def storage_filed_def empty_workspaces_def)
  with run safe_state [OF safe_refresh_configs] show ?thesis by blast
qed

lemma plugin_ok_parts:
  assumes "plugin_ok k p w"
  shows "namespaces_reachable k (pc_namespace_exclude_globs p) (ws_namespaces w)"
    and "ws_secrets w = Some s \<Longrightarrow> filed_secrets (sn_entries s)"
    and "namespaces_reachable k (pc_namespace_exclude_globs p) c \<Longrightarrow> plugin_ok k p (w\<lparr>ws_namespaces := c\<rparr>)"
    and "filed_secrets (sn_entries s) \<Longrightarrow> plugin_ok k p (w\<lparr>ws_secrets := Some s\<rparr>)"
    and "plugin_ok k p (w\<lparr>ws_tick := t\<rparr>)"
  using assms by (auto simp: plugin_ok_def storage_filed_def)

lemma reachable_ok: "plugin_reachable k p w \<Longrightarrow> plugin_ok k p w"
proof (induction rule: plugin_reachable.induct)
  case (namespace_listed w response c)
  then show ?case by (metis plugin_ok_parts(1,3) namespaces_reachable.listed)
qed (blast intro: started_ok plugin_ok_parts namespaces_reachable.intros secret_turn_filed secret_event_filed
      dest: safe_state [OF safe_config_turn] safe_state [OF safe_config_event] safe_state [OF safe_get_config]
        safe_state [OF safe_get_configs] safe_state [OF safe_ensure_secret_cache])+

section \<open>Paths of artifacts\<close>

text \<open>The loop of \<open>normpath\<close> on a relative path keeps the steps out of the root in front.\<close>

definition climbs :: "nat \<Rightarrow> string list \<Rightarrow> bool" where
  "climbs n parts \<longleftrightarrow> (\<exists>segs. parts = replicate n ''..'' @ segs \<and> list_all proper_segment segs)"

lemma norm_step_climbs:
  assumes "climbs n parts" and "CHR ''/'' \<notin> set part"
  shows "\<exists>m \<ge> n. climbs m (norm_step False part parts) \<and>
    (m = 0 \<longrightarrow> walk parts [part] = Some (norm_step False part parts))"
proof -
  obtain segs where parts: "parts = replicate n ''..'' @ segs" and segs: "list_all proper_segment segs"
    using assms(1) unfolding climbs_def by blast
  consider (skip) "part = [] \<or> part = ''.''" | (up) "part = ''..''" "segs = []"
    | (pop) "part = ''..''" "segs \<noteq> []" | (down) "proper_segment part"
    using assms(2) by (auto simp: proper_segment_def)
  then show ?thesis
  proof cases
    case skip
    with assms(1) show ?thesis by (auto simp: norm_step_def intro!: exI [of _ n])
  next
    case up
    then have "norm_step False part parts = replicate (Suc n) ''..''"
      by (cases n) (simp_all add: norm_step_def parts replicate_append_same)
    then show ?thesis by (auto simp: climbs_def intro!: exI [of _ "Suc n"])
  next
    case pop
    then have "proper_segment (last segs)" using segs by (simp add: list_all_iff)
    with pop have "norm_step False part parts = replicate n ''..'' @ butlast segs"
      by (simp add: norm_step_def parts butlast_append proper_segment_def)
    moreover have "list_all proper_segment (butlast segs)" using segs by (meson list_all_iff in_set_butlastD)
    ultimately show ?thesis using pop by (auto simp: climbs_def parts intro!: exI [of _ n])
  next
    case down
    then have "norm_step False part parts = replicate n ''..'' @ (segs @ [part])"
      by (auto simp: norm_step_def parts proper_segment_def)
    with segs down show ?thesis
      by (auto simp: climbs_def parts proper_segment_def intro!: exI [of _ n] exI [of _ "segs @ [part]"])
  qed
qed

lemma walk_cons: "walk st (s # ss) = (case walk st [s] of None \<Rightarrow> None | Some st' \<Rightarrow> walk st' ss)"
  by auto

lemma norm_fold_climbs:
  "climbs n st \<Longrightarrow> \<forall>s \<in> set ss. CHR ''/'' \<notin> set s \<Longrightarrow>
   \<exists>m \<ge> n. climbs m (fold (norm_step False) ss st) \<and> (m = 0 \<longrightarrow> walk st ss = Some (fold (norm_step False) ss st))"
proof (induction ss arbitrary: n st)
  case Nil
  then show ?case by auto
next
  case (Cons s ss)
  from norm_step_climbs [OF Cons.prems(1), of s] Cons.prems(2) obtain m where m: "m \<ge> n"
    "climbs m (norm_step False s st)" "m = 0 \<longrightarrow> walk st [s] = Some (norm_step False s st)" by auto
  from Cons.IH [OF m(2)] Cons.prems(2) obtain m' where "m' \<ge> m"
    "climbs m' (fold (norm_step False) (s # ss) st)"
    "m' = 0 \<longrightarrow> walk (norm_step False s st) ss = Some (fold (norm_step False) (s # ss) st)" by auto
  with m show ?case by (subst walk_cons) (auto intro!: exI [of _ m'])
qed

lemma climbing_join:
  assumes "climbs (Suc m) parts"
  shows "py_join ''/'' parts = ''..'' \<or> startswith (py_join ''/'' parts) ''../''"
proof -
  obtain rest where parts: "parts = ''..'' # rest" using assms unfolding climbs_def by auto
  show ?thesis by (cases rest) (simp_all add: parts startswith_def)
qed

lemma validated_path:
  assumes "validate_artifact_path path ns = Inr (Some q)"
  shows "\<exists>segs. segs \<noteq> [] \<and> list_all proper_segment segs \<and> q = py_join ''/'' segs \<and> leads_to path = Some segs \<and>
    CHR 0x5C \<notin> set path"
proof -
  let ?parts = "fold (norm_step False) (py_split ''/'' path) []"
  have q: "q = py_normpath path" "q \<noteq> ''.''" "\<not> startswith q ''/''" "q \<noteq> ''..''" "\<not> startswith q ''../''"
    "CHR 0x5C \<notin> set path"
    using assms by (auto simp: validate_artifact_path_def Let_def split: if_splits)
  have "path \<noteq> []" using q by (auto simp: py_normpath_def)
  moreover have slashes: "initial_slashes path = 0"
  proof (rule ccontr)
    assume "initial_slashes path \<noteq> 0"
    then obtain n where "initial_slashes path = Suc n" using not0_implies_Suc by blast
    with \<open>path \<noteq> []\<close> have "startswith q ''/''" by (simp add: q(1) py_normpath_def Let_def)
    with q(3) show False by simp
  qed
  ultimately have join: "q = py_join ''/'' ?parts" "?parts \<noteq> []"
    using q(1,2) by (auto simp: py_normpath_def Let_def split: if_splits)
  have "climbs 0 []" by (simp add: climbs_def)
  then obtain m where m: "climbs m ?parts" "m = 0 \<longrightarrow> walk [] (py_split ''/'' path) = Some ?parts"
    using norm_fold_climbs [of 0 "[]" "py_split ''/'' path"] py_split_no_sep by blast
  have "m = 0" using m(1) q(4,5) join(1) climbing_join by (cases m) auto
  with m join q show ?thesis by (auto simp: climbs_def leads_to_def)
qed

section \<open>Properties\<close>

text \<open>
  C25: an artifact path stays inside its bucket. A path of a configuration that passes the validation leads,
  walked from the root of the bucket, never out of it and to a place below it, and is stored as the plain
  list of the directories to that place: relative, without \<open>.\<close>, \<open>..\<close> or empty segments.
\<close>

theorem artifact_path_stays_inside:
  assumes "validate_artifact_path path ns = Inr (Some q)"
  shows "\<exists>segs. leads_to path = Some segs \<and> segs \<noteq> [] \<and> py_split ''/'' q = segs \<and>
    list_all (\<lambda>s. s \<noteq> [] \<and> s \<noteq> ''.'' \<and> s \<noteq> ''..'') segs"
proof -
  from validated_path [OF assms] obtain segs where "segs \<noteq> []" "list_all proper_segment segs"
    "q = py_join ''/'' segs" "leads_to path = Some segs" by blast
  moreover from this have "py_split ''/'' q = segs"
    by (simp add: py_split_join list_all_iff proper_segment_def)
  ultimately show ?thesis by (auto simp: list_all_iff proper_segment_def)
qed

theorem artifact_path_stays_inside_witness:
  "leads_to ''a/./b/../c'' = Some [''a'', ''c'']"
proof -
  have "validate_artifact_path ''a/./b/../c'' ''ns'' = Inr (Some ''a/c'')" by code_simp
  from artifact_path_stays_inside [OF this] have "leads_to ''a/./b/../c'' = Some (py_split ''/'' ''a/c'')" by auto
  also have "py_split ''/'' ''a/c'' = [''a'', ''c'']" by code_simp
  finally show ?thesis .
qed

text \<open>
  The storage a namespace configures for itself: its own configuration names the supported Secret, its own
  Secret names a bucket, and the root is that bucket or a place below it.
\<close>

definition own_storage :: "cluster \<Rightarrow> string \<Rightarrow> string \<Rightarrow> bool" where
  "own_storage k ns root_uri \<longleftrightarrow>
     (\<exists>(info :: mlflow_config_info) (secret :: secret_info) bucket.
        mi_namespace info = ns \<and> mi_artifact_root_secret info = Some ARTIFACT_CONNECTION_SECRET_NAME \<and>
        si_namespace secret = ns \<and> si_bucket_uri secret = Some bucket \<and> bucket \<noteq> [] \<and>
        (root_uri = bucket \<or>
         (\<exists>raw segs. mi_artifact_root_path info = Some raw \<and> leads_to (py_strip raw) = Some segs \<and> segs \<noteq> [] \<and>
            list_all proper_segment segs \<and> root_uri = k8s_append k bucket (py_join ''/'' segs))))"

text \<open>No storage of its own: no configuration, or one without a Secret.\<close>

definition no_override :: "mlflow_config_info option \<Rightarrow> bool" where
  "no_override config \<longleftrightarrow> (case config of None \<Rightarrow> True | Some info \<Rightarrow> nonempty_text (mi_artifact_root_secret info) = None)"

lemma bucket_root_below:
  assumes "bucket_root k bucket path ns = Inr root_uri"
  shows "root_uri = bucket \<or> (\<exists>raw segs. path = Some raw \<and> leads_to (py_strip raw) = Some segs \<and> segs \<noteq> [] \<and>
    list_all proper_segment segs \<and> root_uri = k8s_append k bucket (py_join ''/'' segs))"
proof (cases "root_uri = bucket")
  case False
  with assms obtain raw q where "path = Some raw" "validate_artifact_path (py_strip raw) ns = Inr (Some q)"
    "root_uri = k8s_append k bucket q"
    by (auto simp: bucket_root_def nonempty_text_some Let_def split: option.splits sum.splits if_splits)
  with validated_path show ?thesis by blast
qed simp

lemma first_secret_filed: "first_secret k ns items = Some s \<Longrightarrow> si_namespace s = ns"
  by (induction items) (auto split: option.splits if_splits)

lemma safe_get_secret:
  assumes "filed_secrets (sn_entries c)"
  shows "safe (plugin_ok k p) (get_secret k c ns) (\<lambda>r. \<forall>s. r = Some s \<longrightarrow> si_namespace s = ns)"
  using assms unfolding get_secret_def filed_secrets_def
  by (auto split: option.splits sum.splits intro!: safe_raise safe_ret safe_andthen [OF safe_ask_cluster]
      dest: first_secret_filed)

lemma safe_resolve_from_config:
  assumes "\<forall>info. config = Some info \<longrightarrow> mi_namespace info = ns"
  shows "safe (plugin_ok k p) (resolve_artifact_root_from_config k d ns config)
     (\<lambda>(r, deflt). if deflt then r = d \<and> no_override config else \<exists>u. r = Some u \<and> own_storage k ns u)"
proof (cases "no_override config")
  case True
  then show ?thesis
    by (auto simp: resolve_artifact_root_from_config_def no_override_def intro!: safe_ret split: option.splits)
next
  case False
  then obtain info secret where info: "config = Some info" "nonempty_text (mi_artifact_root_secret info) = Some secret"
    by (auto simp: no_override_def split: option.splits)
  have root: "safe (plugin_ok k p)
      (case nonempty_text (case i of None \<Rightarrow> None | Some i \<Rightarrow> si_bucket_uri i) of
         None \<Rightarrow> raise (parameter_error msg)
       | Some bucket_uri \<Rightarrow>
           andthen (lift (bucket_root k bucket_uri (mi_artifact_root_path info) ns)) (\<lambda>root_uri. ret (Some root_uri, False)))
      (\<lambda>(r, deflt). if deflt then r = d \<and> no_override config else \<exists>u. r = Some u \<and> own_storage k ns u)"
    if i: "\<forall>s. i = Some s \<longrightarrow> si_namespace s = ns" and supported: "secret = ARTIFACT_CONNECTION_SECRET_NAME"
    for i :: "secret_info option" and msg
  proof (cases "nonempty_text (case i of None \<Rightarrow> None | Some i \<Rightarrow> si_bucket_uri i)")
    case (Some bucket)
    then obtain s where s: "i = Some s" "si_bucket_uri s = Some bucket" "bucket \<noteq> []"
      by (auto simp: nonempty_text_some split: option.splits)
    have "own_storage k ns u" if "bucket_root k bucket (mi_artifact_root_path info) ns = Inr u" for u
    proof -
      have "mi_artifact_root_secret info = Some ARTIFACT_CONNECTION_SECRET_NAME" "mi_namespace info = ns"
        "si_namespace s = ns"
        using info assms i s supported by (simp_all add: nonempty_text_some)
      with bucket_root_below [OF that] s show ?thesis
        unfolding own_storage_def by (intro exI [of _ info] exI [of _ s] exI [of _ bucket]) simp
    qed
    then show ?thesis
      by (simp add: Some) (rule safe_andthen [OF safe_lift], assumption, rule safe_ret, simp)
  qed (simp add: safe_raise)
  from info show ?thesis
    by (auto simp: resolve_artifact_root_from_config_def intro!: safe_raise safe_andthen [OF safe_ensure_secret_cache]
        safe_andthen [OF safe_get_secret] safe_weaken [OF root] split: prod.splits)
qed


lemma ticks:
  "ensure_if k b w = (r, w') \<Longrightarrow> ws_tick w \<le> ws_tick w'"
  "refresh_configs k b w = (r2, w') \<Longrightarrow> ws_tick w < ws_tick w'"
proof -
  show ensure: "ensure_if k b w = (r, w') \<Longrightarrow> ws_tick w \<le> ws_tick w'" for b w r w'
    by (auto simp: ensure_if_def ensure_secret_cache_def eff_defs cluster_eff_defs
        split: if_splits option.splits prod.splits sum.splits)
  show "refresh_configs k b w = (r2, w') \<Longrightarrow> ws_tick w < ws_tick w'"
    by (auto simp: refresh_configs_def set_configs_def eff_defs cluster_eff_defs Let_def
        split: if_splits prod.splits sum.splits dest!: ensure)
qed

text \<open>What Kubernetes said at an interaction when it has no configuration for a namespace.\<close>

definition no_config_at :: "cluster \<Rightarrow> string \<Rightarrow> nat \<Rightarrow> bool" where
  "no_config_at k ns t \<longleftrightarrow>
     k8s_configs k t \<in> {Inl (ApiExc (Some 404)), Inl (ApiExc (Some 403))} \<or>
     k8s_configs_in k t (Some ns) = Inl (ApiExc (Some 404)) \<or>
     (\<exists>l. k8s_configs_in k t (Some ns) = Inr l \<and> (\<forall>info \<in> set (list_configs (cl_items l)). mi_namespace info \<noteq> ns))"

lemma file_configs_dom: "map_of (file_configs infos) ns = None \<Longrightarrow> \<forall>info \<in> set infos. mi_namespace info \<noteq> ns"
proof -
  have "dom (map_of (fold (\<lambda>info. AList.update (mi_namespace info) info) infos es)) =
      dom (map_of es) \<union> mi_namespace ` set infos" for es
    by (induction infos arbitrary: es) (auto simp: map_of_upd)
  then show "map_of (file_configs infos) ns = None \<Longrightarrow> \<forall>info \<in> set infos. mi_namespace info \<noteq> ns"
    unfolding file_configs_def by (metis (no_types, lifting) UnI2 domIff imageI)
qed

lemma verified_none:
  assumes "verified_config k ns w = (Inr None, w')"
  shows "no_config_at k ns (ws_tick w) \<and> ws_tick w < ws_tick w'"
proof -
  obtain found w1 where found: "lookup_configs k (Some ns) w = (Inr found, w1)" "map_of found ns = None"
    and after: "ensure_if k False w1 = (Inr (), w')"
    using assms by (auto simp: verified_config_def andthen_def ret_def split: prod.splits sum.splits option.splits)
  then have "ws_tick w1 = Suc (ws_tick w)" "no_config_at k ns (ws_tick w)"
    by (auto simp: lookup_configs_def no_config_at_def eff_defs cluster_eff_defs
        split: sum.splits if_splits dest!: file_configs_dom)
  with ticks(1) [OF after] show ?thesis by simp
qed

text \<open>
  C26: a configuration is declared absent only after asking. \<open>get_config\<close> gives nothing only if Kubernetes,
  asked in this very call, has no configuration in that namespace, or has no such resource or forbids
  listing it. Any other failed request is an error, so no outage selects the default storage.
\<close>

theorem config_absence_verified:
  assumes "get_config k ns w = (Inr None, w')"
  shows "\<exists>t \<ge> ws_tick w. t < ws_tick w' \<and> no_config_at k ns t"
proof -
  let ?c = "ws_configs w"
  have ready: "sn_ready ?c" and miss: "map_of (sn_entries ?c) ns = None"
    using assms by (auto simp: get_config_def config_wait_until_ready_def eff_defs cluster_eff_defs
        split: if_splits option.splits)
  show ?thesis
  proof (cases "sn_available ?c")
    case True
    with assms ready miss have "verified_config k ns w = (Inr None, w')"
      by (simp add: get_config_def config_wait_until_ready_def eff_defs cluster_eff_defs)
    from verified_none [OF this] show ?thesis by blast
  next
    case False
    obtain b w1 where reload: "refresh_configs k True w = (Inr b, w1)"
      and rest: "(if \<not> sn_available (ws_configs w1) then ret None
        else case map_of (sn_entries (ws_configs w1)) ns of
          Some info \<Rightarrow> ret (Some info) | None \<Rightarrow> verified_config k ns) w1 = (Inr None, w')"
      using assms ready miss False
      by (auto simp: get_config_def config_wait_until_ready_def try_reload_def eff_defs cluster_eff_defs
          split: prod.splits sum.splits if_splits)
    note tick = ticks(2) [OF reload]
    show ?thesis
    proof (cases "sn_available (ws_configs w1)")
      case True
      with rest have "verified_config k ns w1 = (Inr None, w')" by (auto simp: ret_def split: option.splits)
      from verified_none [OF this] tick show ?thesis by (intro exI [of _ "ws_tick w1"]) simp
    next
      case False
      with reload have "no_config_at k ns (ws_tick w)"
        by (auto simp: refresh_configs_def no_config_at_def eff_defs cluster_eff_defs set_configs_def ensure_if_def
            ensure_secret_cache_def Let_def split: sum.splits if_splits prod.splits option.splits)
      with rest False tick show ?thesis by (auto simp: ret_def)
    qed
  qed
qed

text \<open>
  C30: the plugin's own exclusions cannot be configured away. Whatever the arguments and the environment, a
  namespace is excluded exactly if it is one of the four system namespaces, starts with one of the four
  system prefixes, or matches a configured pattern; arguments replace the patterns of the environment, and
  no pattern is listed twice.
\<close>

theorem system_namespaces_excluded:
  "let p = config_from_sources environ selector workspace globs;
       configured = (case parse_glob_input globs of Some gs \<Rightarrow> gs
         | None \<Rightarrow> (case parse_glob_input (map_option GlobText (environ ''MLFLOW_K8S_NAMESPACE_EXCLUDE_GLOBS'')) of
             Some gs \<Rightarrow> gs | None \<Rightarrow> []))
   in distinct (pc_namespace_exclude_globs p) \<and>
     (is_excluded (pc_namespace_exclude_globs p) name \<longleftrightarrow>
       name \<in> set [''dedicated-admin'', ''nvidia-gpu-operator'', ''open-cluster-management'', ''openshift''] \<or>
       list_ex (startswith name) [''kube-'', ''open-cluster-management-'', ''openshift-'', ''redhat-ods-''] \<or>
       list_ex (fnmatchcase name) configured)"
proof -
  have merge: "set (fold merge_one gs m) = set m \<union> set gs" "distinct m \<Longrightarrow> distinct (fold merge_one gs m)" for gs m
    by (induction gs arbitrary: m) (auto simp: merge_one_def)
  have merged: "set (merge_globs [Some a, Some b]) = set a \<union> set b" "distinct (merge_globs [Some a, Some b])" for a b
    by (simp_all add: merge_globs_def merge)
  have defaults: "list_ex (fnmatchcase name) DEFAULT_NAMESPACE_EXCLUDE_GLOBS \<longleftrightarrow>
      name \<in> set [''dedicated-admin'', ''nvidia-gpu-operator'', ''open-cluster-management'', ''openshift''] \<or>
      list_ex (startswith name) [''kube-'', ''open-cluster-management-'', ''openshift-'', ''redhat-ods-'']"
  proof -
    have prefix: "fnmatchcase name ''kube-*'' = startswith name ''kube-''"
      "fnmatchcase name ''open-cluster-management-*'' = startswith name ''open-cluster-management-''"
      "fnmatchcase name ''openshift-*'' = startswith name ''openshift-''"
      "fnmatchcase name ''redhat-ods-*'' = startswith name ''redhat-ods-''"
      using fnmatchcase_prefix [of "''kube-''" name] fnmatchcase_prefix [of "''open-cluster-management-''" name]
        fnmatchcase_prefix [of "''openshift-''" name] fnmatchcase_prefix [of "''redhat-ods-''" name]
      by (simp_all add: plain_def)
    have word: "fnmatchcase name ''dedicated-admin'' = (name = ''dedicated-admin'')"
      "fnmatchcase name ''nvidia-gpu-operator'' = (name = ''nvidia-gpu-operator'')"
      "fnmatchcase name ''open-cluster-management'' = (name = ''open-cluster-management'')"
      "fnmatchcase name ''openshift'' = (name = ''openshift'')"
      by (rule fnmatchcase_plain; simp add: plain_def)+
    show ?thesis
      unfolding DEFAULT_NAMESPACE_EXCLUDE_GLOBS_def list_ex_iff list.set bex_simps prefix word insert_iff empty_iff
      by (simp only: simp_thms disj_ac)
  qed
  let ?b = "case parse_glob_input globs of Some gs \<Rightarrow> gs
      | None \<Rightarrow> (case parse_glob_input (map_option GlobText (environ ''MLFLOW_K8S_NAMESPACE_EXCLUDE_GLOBS'')) of
          Some gs \<Rightarrow> gs | None \<Rightarrow> [])"
  have globs: "pc_namespace_exclude_globs (config_from_sources environ selector workspace globs) =
      merge_globs [Some DEFAULT_NAMESPACE_EXCLUDE_GLOBS, Some ?b]"
    by (simp add: config_from_sources_def Let_def)
  have "is_excluded (merge_globs [Some DEFAULT_NAMESPACE_EXCLUDE_GLOBS, Some ?b]) name \<longleftrightarrow>
      list_ex (fnmatchcase name) DEFAULT_NAMESPACE_EXCLUDE_GLOBS \<or> list_ex (fnmatchcase name) ?b"
    unfolding is_excluded_def list_ex_iff merged(1) by blast
  then show ?thesis
    unfolding Let_def globs defaults disj_assoc using merged(2) by blast
qed

section \<open>Concrete runs\<close>

definition sample_provider :: provider_config where
  "sample_provider = \<lparr>pc_label_selector = None, pc_default_workspace = None, pc_namespace_exclude_globs = [''kube-*'']\<rparr>"

definition sample_started :: workspaces where
  "sample_started = snd (start_provider sample_cluster sample_provider (empty_workspaces 0))"

lemma sample_reachable: "plugin_reachable sample_cluster sample_provider sample_started"
proof -
  have "fst (start_provider sample_cluster sample_provider (empty_workspaces 0)) = Inr ()" by code_simp
  then have "start_provider sample_cluster sample_provider (empty_workspaces 0) = (Inr (), sample_started)"
    by (simp add: sample_started_def prod_eq_iff)
  then show ?thesis by (rule plugin_reachable.started)
qed


theorem config_absence_verified_witness: "no_config_at sample_cluster ''other'' 3"
proof -
  have "map_prod id ws_tick (get_config sample_cluster ''other'' sample_started) = (Inr None, 4)"
    "ws_tick sample_started = 3" by code_simp+
  then obtain w' where run: "get_config sample_cluster ''other'' sample_started = (Inr None, w')" "ws_tick w' = 4"
    by (cases "get_config sample_cluster ''other'' sample_started") simp
  from config_absence_verified [OF run(1)] obtain t where "3 \<le> t" "t < 4" "no_config_at sample_cluster ''other'' t"
    using run(2) \<open>ws_tick sample_started = 3\<close> by auto
  then have "t = 3" by simp
  with \<open>no_config_at sample_cluster ''other'' t\<close> show ?thesis by simp
qed

end
