(* ===== verification/Compat.thy ===== *)
theory Compat
  imports World
begin

text \<open>
  \<open>auth/_compat.py\<close>: which MLflow message classes exist depends on the installed version. Loading the module
  binds every exported name, to a class or to \<open>None\<close>, or fails. The installed MLflow is a parameter.
\<close>

section \<open>The installed MLflow\<close>

text \<open>
  What the module asks of its environment: how \<open>Version(mlflow.__version__)\<close> compares with another version,
  whether a module can be found, whether importing it succeeds, and whether it has an attribute.
\<close>

record mlflow_install =
  version_at_least :: "string \<Rightarrow> bool"
  module_found :: "string \<Rightarrow> bool"
  module_imports :: "string \<Rightarrow> bool"
  has_attribute :: "string \<Rightarrow> string \<Rightarrow> bool"

datatype load_error = ImportError string | AttributeError string string

text \<open>A bound name: a class of a module, \<open>None\<close>, or a truth value.\<close>

datatype binding = MessageClass string string | Unavailable | Flag bool

section \<open>The version gates\<close>

definition version_flags :: "(string \<times> string) list" where
  "version_flags =
     [(''HAS_MLFLOW_3_11_AUTH_SURFACE'', ''3.11.0.dev0''),
      (''HAS_MLFLOW_3_12_AUTH_SURFACE'', ''3.12.0.dev0''),
      (''HAS_MLFLOW_3_13_AUTH_SURFACE'', ''3.13.0.dev0''),
      (''HAS_MLFLOW_3_14_AUTH_SURFACE'', ''3.14.0.dev0''),
      (''HAS_MLFLOW_3_15_AUTH_SURFACE'', ''3.15.0.dev0''),
      (''HAS_MLFLOW_3_16_AUTH_SURFACE'', ''3.16.0.dev0''),
      (''HAS_MLFLOW_3_17_AUTH_SURFACE'', ''3.17.0.dev0'')]"

definition module_flags :: "(string \<times> string) list" where
  "module_flags =
     [(''HAS_SKILL_REGISTRY'', ''mlflow.server.skill_registry_api''),
      (''HAS_MCP_REGISTRY'', ''mlflow.server.mcp_server_api'')]"

text \<open>
  The body of a gate, statement by statement: \<open>importlib.import_module\<close>, or a class taken from a module.
\<close>

datatype gate_statement = ImportModule string | Take string string

definition gate_3_11 :: "gate_statement list" where
  "gate_3_11 =
     [Take ''mlflow.protos.mlflow_artifacts_pb2'' ''GetPresignedDownloadUrl'',
      ImportModule ''mlflow.protos.issues_pb2'',
      Take ''mlflow.protos.issues_pb2'' ''CreateIssue'',
      Take ''mlflow.protos.issues_pb2'' ''GetIssue'',
      Take ''mlflow.protos.issues_pb2'' ''SearchIssues'',
      Take ''mlflow.protos.issues_pb2'' ''UpdateIssue'',
      Take ''mlflow.protos.service_pb2'' ''BatchGetTraceInfos'',
      Take ''mlflow.protos.service_pb2'' ''CreateGatewayBudgetPolicy'',
      Take ''mlflow.protos.service_pb2'' ''DeleteGatewayBudgetPolicy'',
      Take ''mlflow.protos.service_pb2'' ''GetGatewayBudgetPolicy'',
      Take ''mlflow.protos.service_pb2'' ''ListGatewayBudgetPolicies'',
      Take ''mlflow.protos.service_pb2'' ''ListGatewayBudgetWindows'',
      Take ''mlflow.protos.service_pb2'' ''UpdateGatewayBudgetPolicy'']"

definition gate_3_12 :: "gate_statement list" where
  "gate_3_12 =
     [Take ''mlflow.protos.service_pb2'' ''CreatePresignedUploadUrl'',
      Take ''mlflow.protos.service_pb2'' ''CreateGatewayGuardrail'',
      Take ''mlflow.protos.service_pb2'' ''GetGatewayGuardrail'',
      Take ''mlflow.protos.service_pb2'' ''DeleteGatewayGuardrail'',
      Take ''mlflow.protos.service_pb2'' ''ListGatewayGuardrails'',
      Take ''mlflow.protos.service_pb2'' ''AddGuardrailToEndpoint'',
      Take ''mlflow.protos.service_pb2'' ''RemoveGuardrailFromEndpoint'',
      Take ''mlflow.protos.service_pb2'' ''ListEndpointGuardrailConfigs'',
      Take ''mlflow.protos.service_pb2'' ''UpdateEndpointGuardrailConfig'']"

definition gate_3_14 :: "gate_statement list" where
  "gate_3_14 =
     [ImportModule ''mlflow.protos.label_schemas_pb2'',
      Take ''mlflow.protos.label_schemas_pb2'' ''CreateLabelSchema'',
      Take ''mlflow.protos.label_schemas_pb2'' ''GetLabelSchema'',
      Take ''mlflow.protos.label_schemas_pb2'' ''GetLabelSchemaByName'',
      Take ''mlflow.protos.label_schemas_pb2'' ''ListLabelSchemas'',
      Take ''mlflow.protos.label_schemas_pb2'' ''UpdateLabelSchema'',
      Take ''mlflow.protos.label_schemas_pb2'' ''DeleteLabelSchema'',
      ImportModule ''mlflow.protos.review_queues_pb2'',
      Take ''mlflow.protos.review_queues_pb2'' ''CreateReviewQueue'',
      Take ''mlflow.protos.review_queues_pb2'' ''GetOrCreateUserQueue'',
      Take ''mlflow.protos.review_queues_pb2'' ''GetReviewQueue'',
      Take ''mlflow.protos.review_queues_pb2'' ''GetReviewQueueByName'',
      Take ''mlflow.protos.review_queues_pb2'' ''ListReviewQueues'',
      Take ''mlflow.protos.review_queues_pb2'' ''UpdateReviewQueue'',
      Take ''mlflow.protos.review_queues_pb2'' ''DeleteReviewQueue'',
      Take ''mlflow.protos.review_queues_pb2'' ''AddItemsToReviewQueue'',
      Take ''mlflow.protos.review_queues_pb2'' ''RemoveItemsFromReviewQueue'',
      Take ''mlflow.protos.review_queues_pb2'' ''ListReviewQueueItems'',
      Take ''mlflow.protos.review_queues_pb2'' ''SetReviewQueueItemStatus'']"

definition gate_3_15 :: "gate_statement list" where
  "gate_3_15 =
     [Take ''mlflow.protos.service_pb2'' ''CreatePresignedDownloadUrl'']"

fun run_gate :: "mlflow_install \<Rightarrow> gate_statement list \<Rightarrow> load_error + (string \<times> binding) list" where
  "run_gate m [] = Inr []"
| "run_gate m (ImportModule n # gs) = (if module_imports m n then run_gate m gs else Inl (ImportError n))"
| "run_gate m (Take n c # gs) =
     (if has_attribute m n c
      then (case run_gate m gs of Inl e \<Rightarrow> Inl e | Inr bs \<Rightarrow> Inr ((c, MessageClass n c) # bs))
      else Inl (AttributeError n c))"

text \<open>The \<open>else\<close> branch of a gate binds every name to \<open>None\<close>.\<close>

fun gate_names :: "gate_statement list \<Rightarrow> string list" where
  "gate_names [] = []"
| "gate_names (ImportModule n # gs) = gate_names gs"
| "gate_names (Take n c # gs) = c # gate_names gs"

definition version_gate ::
  "mlflow_install \<Rightarrow> string \<Rightarrow> gate_statement list \<Rightarrow> load_error + (string \<times> binding) list" where
  "version_gate m v gs =
     (if version_at_least m v then run_gate m gs else Inr (map (\<lambda>c. (c, Unavailable)) (gate_names gs)))"

definition compat_gates :: "(string \<times> gate_statement list) list" where
  "compat_gates =
     [(''3.11.0.dev0'', gate_3_11), (''3.12.0.dev0'', gate_3_12), (''3.14.0.dev0'', gate_3_14),
      (''3.15.0.dev0'', gate_3_15)]"

fun run_gates ::
  "mlflow_install \<Rightarrow> (string \<times> gate_statement list) list \<Rightarrow> load_error + (string \<times> binding) list" where
  "run_gates m [] = Inr []"
| "run_gates m ((v, gs) # rest) =
     (case version_gate m v gs of
        Inl e \<Rightarrow> Inl e
      | Inr bs \<Rightarrow> (case run_gates m rest of Inl e \<Rightarrow> Inl e | Inr bs' \<Rightarrow> Inr (bs @ bs')))"

text \<open>Loading the module. The modules it imports at the top are taken to import, as those of MLflow itself.\<close>

definition load_compat :: "mlflow_install \<Rightarrow> load_error + (string \<times> binding) list" where
  "load_compat m =
     (case run_gates m compat_gates of
        Inl e \<Rightarrow> Inl e
      | Inr bs \<Rightarrow> Inr (map (\<lambda>(n, v). (n, Flag (version_at_least m v))) version_flags @
          map (\<lambda>(n, k). (n, Flag (module_found m k))) module_flags @ bs))"

text \<open>The names of \<open>__all__\<close>, less the version object itself.\<close>

definition compat_exports :: "string list" where
  "compat_exports =
     [''AddGuardrailToEndpoint'',
      ''AddItemsToReviewQueue'',
      ''BatchGetTraceInfos'',
      ''CreateGatewayGuardrail'',
      ''CreateGatewayBudgetPolicy'',
      ''CreateIssue'',
      ''CreateLabelSchema'',
      ''CreatePresignedDownloadUrl'',
      ''CreatePresignedUploadUrl'',
      ''CreateReviewQueue'',
      ''DeleteGatewayGuardrail'',
      ''DeleteGatewayBudgetPolicy'',
      ''DeleteLabelSchema'',
      ''DeleteReviewQueue'',
      ''GetGatewayGuardrail'',
      ''GetGatewayBudgetPolicy'',
      ''GetIssue'',
      ''GetLabelSchema'',
      ''GetLabelSchemaByName'',
      ''GetOrCreateUserQueue'',
      ''GetPresignedDownloadUrl'',
      ''GetReviewQueue'',
      ''GetReviewQueueByName'',
      ''HAS_MLFLOW_3_11_AUTH_SURFACE'',
      ''HAS_MLFLOW_3_12_AUTH_SURFACE'',
      ''HAS_MLFLOW_3_13_AUTH_SURFACE'',
      ''HAS_MLFLOW_3_14_AUTH_SURFACE'',
      ''HAS_MLFLOW_3_15_AUTH_SURFACE'',
      ''HAS_MLFLOW_3_16_AUTH_SURFACE'',
      ''HAS_MLFLOW_3_17_AUTH_SURFACE'',
      ''HAS_MCP_REGISTRY'',
      ''HAS_SKILL_REGISTRY'',
      ''ListEndpointGuardrailConfigs'',
      ''ListGatewayGuardrails'',
      ''ListGatewayBudgetPolicies'',
      ''ListGatewayBudgetWindows'',
      ''ListLabelSchemas'',
      ''ListReviewQueueItems'',
      ''ListReviewQueues'',
      ''RemoveGuardrailFromEndpoint'',
      ''RemoveItemsFromReviewQueue'',
      ''SearchIssues'',
      ''SetReviewQueueItemStatus'',
      ''UpdateEndpointGuardrailConfig'',
      ''UpdateGatewayBudgetPolicy'',
      ''UpdateIssue'',
      ''UpdateLabelSchema'',
      ''UpdateReviewQueue'']"

section \<open>What loading binds\<close>

lemma run_gate_names: "run_gate m gs = Inr bs \<Longrightarrow> map fst bs = gate_names gs"
  by (induction gs arbitrary: bs rule: gate_names.induct) (auto split: if_splits sum.splits)

lemma version_gate_names: "version_gate m v gs = Inr bs \<Longrightarrow> map fst bs = gate_names gs"
  by (auto simp: version_gate_def comp_def run_gate_names split: if_splits)

lemma run_gates_names:
  "run_gates m gates = Inr bs \<Longrightarrow> map fst bs = concat (map (gate_names \<circ> snd) gates)"
  by (induction gates arbitrary: bs) (auto simp: version_gate_names split: sum.splits)

text \<open>Every class a gate needs exists.\<close>

fun gate_satisfied :: "mlflow_install \<Rightarrow> gate_statement \<Rightarrow> bool" where
  "gate_satisfied m (ImportModule n) = module_imports m n"
| "gate_satisfied m (Take n c) = has_attribute m n c"

lemma run_gate_loads: "(\<exists>bs. run_gate m gs = Inr bs) \<longleftrightarrow> list_all (gate_satisfied m) gs"
  by (induction gs rule: gate_names.induct) (auto split: sum.splits)

lemma run_gates_load:
  "(\<exists>bs. run_gates m gates = Inr bs) \<longleftrightarrow>
     list_all (\<lambda>(v, gs). version_at_least m v \<longrightarrow> list_all (gate_satisfied m) gs) gates"
  by (induction gates) (auto simp: version_gate_def simp flip: run_gate_loads split: sum.splits)

lemma run_gate_classes: "run_gate m gs = Inr bs \<Longrightarrow> list_all (\<lambda>(c, v). \<exists>n. v = MessageClass n c) bs"
  by (induction gs arbitrary: bs rule: gate_names.induct) (auto split: if_splits sum.splits)

lemma run_gates_classes:
  "run_gates m gates = Inr bs \<Longrightarrow> list_all (\<lambda>(v, gs). version_at_least m v) gates \<Longrightarrow>
     list_all (\<lambda>(c, v). \<exists>n. v = MessageClass n c) bs"
  by (induction gates arbitrary: bs) (auto simp: version_gate_def run_gate_classes split: sum.splits if_splits)

text \<open>
  The module loads exactly if the installed MLflow has what its version promises; then every name of
  \<open>__all__\<close> is bound, whatever the version, and on a version past every gate, such as the 3.17 the package
  requires, none of them is \<open>None\<close>.
\<close>

lemma exports_bound:
  "list_all (\<lambda>n. n \<in> set (map fst version_flags @ map fst module_flags @
     concat (map (gate_names \<circ> snd) compat_gates))) compat_exports"
  by code_simp

lemma load_compat_binds_exports:
  "((\<exists>bs. load_compat m = Inr bs) \<longleftrightarrow>
      list_all (\<lambda>(v, gs). version_at_least m v \<longrightarrow> list_all (gate_satisfied m) gs) compat_gates) \<and>
   (\<forall>bs. load_compat m = Inr bs \<longrightarrow> set compat_exports \<subseteq> set (map fst bs) \<and>
      (list_all (\<lambda>(v, gs). version_at_least m v) compat_gates \<longrightarrow> Unavailable \<notin> set (map snd bs)))"
proof -
  have "(\<exists>bs. load_compat m = Inr bs) \<longleftrightarrow> (\<exists>bs. run_gates m compat_gates = Inr bs)"
    by (auto simp: load_compat_def split: sum.splits)
  moreover have "set compat_exports \<subseteq> set (map fst bs)" if "load_compat m = Inr bs" for bs
  proof -
    from that obtain cs where cs: "run_gates m compat_gates = Inr cs"
      and bs: "map fst bs = map fst version_flags @ map fst module_flags @ map fst cs"
      by (auto simp: load_compat_def comp_def case_prod_unfold split: sum.splits)
    show ?thesis using exports_bound by (auto simp: bs run_gates_names [OF cs] list_all_iff)
  qed
  moreover have "Unavailable \<notin> set (map snd bs)"
    if "load_compat m = Inr bs" "list_all (\<lambda>(v, gs). version_at_least m v) compat_gates" for bs
    using that run_gates_classes [of m compat_gates]
    by (fastforce simp: load_compat_def list_all_iff split: sum.splits)
  ultimately show ?thesis unfolding run_gates_load by blast
qed

end
