(* ===== verification/Db_Migrate.thy ===== *)
theory Db_Migrate
  imports Collection_Filters
begin

text \<open>
  \<open>db_migrate.py\<close>, the script of the Helm chart that prepares the databases before the server starts: it
  bootstraps or upgrades every configured store and turns every outcome into an exit code the chart
  understands. The database layer of MLflow is a parameter that acts on a state of its own.
\<close>

section \<open>Outcomes\<close>

definition EXIT_UNSUPPORTED_BACKEND :: nat where "EXIT_UNSUPPORTED_BACKEND = 11"
definition EXIT_UNSUPPORTED_REGISTRY :: nat where "EXIT_UNSUPPORTED_REGISTRY = 12"
definition EXIT_REVISION_MISMATCH :: nat where "EXIT_REVISION_MISMATCH = 13"
definition EXIT_REVISION_RESOLUTION_FAILURE :: nat where "EXIT_REVISION_RESOLUTION_FAILURE = 14"
definition EXIT_RETRYABLE_FAILURE :: nat where "EXIT_RETRYABLE_FAILURE = 15"

definition TERMINAL_REVISION_RESOLUTION_PATTERNS :: "string list" where
  "TERMINAL_REVISION_RESOLUTION_PATTERNS =
     [''can't locate revision identified by'', ''multiple heads are present'',
      ''cycle is detected in revisions'', ''dependency cycle detected'']"

lemmas exit_defs = EXIT_UNSUPPORTED_BACKEND_def EXIT_UNSUPPORTED_REGISTRY_def EXIT_REVISION_MISMATCH_def
  EXIT_REVISION_RESOLUTION_FAILURE_def EXIT_RETRYABLE_FAILURE_def

text \<open>How a step stops: with an exit code, or with an exception, its class name and its text.\<close>

datatype stop = SystemExit nat | Exception string string

text \<open>
  The database layer: connecting with retries, the schema version of a store, bootstrapping, upgrading,
  and the latest revision MLflow knows. Each may raise.
\<close>

type_synonym ('d, 'a) db_eff = "'d \<Rightarrow> (string \<times> string + 'a) \<times> 'd"

record ('d, 'e) db_utils =
  du_engine :: "string \<Rightarrow> ('d, 'e) db_eff"
  du_version :: "'e \<Rightarrow> ('d, string option) db_eff"
  du_initialize :: "'e \<Rightarrow> ('d, unit) db_eff"
  du_upgrade :: "'e \<Rightarrow> ('d, unit) db_eff"
  du_latest :: "('d, string option) db_eff"

text \<open>The state of the script: the databases and the termination log, if it can be written.\<close>

record 'd script =
  sp_db :: 'd
  sp_log_writable :: bool
  sp_termination_log :: "string option"

type_synonym ('d, 'a) script_eff = "'d script \<Rightarrow> (stop + 'a) \<times> 'd script"

definition do_db :: "('d, 'a) db_eff \<Rightarrow> ('d, 'a) script_eff" where
  "do_db m = (\<lambda>s. case m (sp_db s) of
     (Inl (c, t), d) \<Rightarrow> (Inl (Exception c t), s\<lparr>sp_db := d\<rparr>)
   | (Inr x, d) \<Rightarrow> (Inr x, s\<lparr>sp_db := d\<rparr>))"

definition script_ret :: "'a \<Rightarrow> ('d, 'a) script_eff" where
  "script_ret x = (\<lambda>s. (Inr x, s))"

definition script_then :: "('d, 'a) script_eff \<Rightarrow> ('a \<Rightarrow> ('d, 'b) script_eff) \<Rightarrow> ('d, 'b) script_eff" where
  "script_then m f = (\<lambda>s. case m s of (Inl e, s') \<Rightarrow> (Inl e, s') | (Inr x, s') \<Rightarrow> f x s')"

lemmas script_eff_defs = script_ret_def script_then_def do_db_def

section \<open>The script\<close>

definition supports_sql_migration :: "string \<Rightarrow> bool" where
  "supports_sql_migration uri =
     (takeWhile (\<lambda>c. c \<noteq> CHR ''+'') (takeWhile (\<lambda>c. c \<noteq> CHR '':'') uri)
        \<in> set [''sqlite'', ''postgresql'', ''mysql''])"

definition script_fail :: "string \<Rightarrow> nat \<Rightarrow> ('d, 'a) script_eff" where
  "script_fail message exit_code = (\<lambda>s.
     (Inl (SystemExit exit_code), if sp_log_writable s then s\<lparr>sp_termination_log := Some message\<rparr> else s))"

definition terminal_exception :: "string \<Rightarrow> string \<Rightarrow> bool" where
  "terminal_exception exc_class exc_text =
     list_ex (contains_str (py_lower (if exc_text = [] then exc_class else exc_text)))
       TERMINAL_REVISION_RESOLUTION_PATTERNS"

definition classify_exception :: "string \<Rightarrow> string \<Rightarrow> string \<times> nat" where
  "classify_exception exc_class exc_text =
     (if terminal_exception exc_class exc_text
      then (''migration failed: Alembic could not resolve the revision graph'', EXIT_REVISION_RESOLUTION_FAILURE)
      else (''migration failed due to a retryable database or migration error'', EXIT_RETRYABLE_FAILURE))"

definition revision_text :: "string option \<Rightarrow> string" where
  "revision_text r = (case r of None \<Rightarrow> ''None'' | Some t \<Rightarrow> py_repr t)"

definition migrate_store :: "('d, 'e) db_utils \<Rightarrow> string \<times> string \<Rightarrow> ('d, unit) script_eff" where
  "migrate_store du store =
     (case store of (name, uri) \<Rightarrow>
        script_then (do_db (du_engine du uri)) (\<lambda>engine.
        script_then (do_db (du_version du engine)) (\<lambda>current_rev.
        script_then (do_db (if current_rev = None \<or> current_rev = Some [] then du_initialize du engine
                            else du_upgrade du engine)) (\<lambda>_.
        script_then (do_db (du_version du engine)) (\<lambda>final_rev.
        script_then (do_db (du_latest du)) (\<lambda>latest_rev.
          if final_rev \<noteq> latest_rev
          then script_fail (name @ '' store revision '' @ revision_text final_rev @ '' does not match head '' @
                 revision_text latest_rev) EXIT_REVISION_MISMATCH
          else script_ret ()))))))"

fun migrate_stores :: "('d, 'e) db_utils \<Rightarrow> (string \<times> string) list \<Rightarrow> ('d, unit) script_eff" where
  "migrate_stores du [] = script_ret ()"
| "migrate_stores du (store # stores) = script_then (migrate_store du store) (\<lambda>_. migrate_stores du stores)"

definition configured_uri :: "string option \<Rightarrow> string" where
  "configured_uri v = (case v of None \<Rightarrow> [] | Some t \<Rightarrow> py_strip t)"

definition migration_stores :: "string \<Rightarrow> string \<Rightarrow> (string \<times> string) list" where
  "migration_stores backend_uri registry_uri =
     (if backend_uri \<noteq> [] then [(''backend'', backend_uri)] else []) @
     (if registry_uri \<noteq> [] \<and> registry_uri \<noteq> backend_uri then [(''registry'', registry_uri)] else [])"

definition migration_main :: "('d, 'e) db_utils \<Rightarrow> string option \<Rightarrow> string option \<Rightarrow> ('d, nat) script_eff" where
  "migration_main du backend_env registry_env =
     (let backend_uri = configured_uri backend_env; registry_uri = configured_uri registry_env in
      if backend_uri \<noteq> [] \<and> \<not> supports_sql_migration backend_uri
      then script_fail ''migration only supports SQL backend store URIs'' EXIT_UNSUPPORTED_BACKEND
      else if registry_uri \<noteq> [] \<and> registry_uri \<noteq> backend_uri \<and> \<not> supports_sql_migration registry_uri
      then script_fail ''migration only supports SQL registry store URIs'' EXIT_UNSUPPORTED_REGISTRY
      else if migration_stores backend_uri registry_uri = [] then script_ret 0
      else script_then (migrate_stores du (migration_stores backend_uri registry_uri)) (\<lambda>_. script_ret 0))"

text \<open>The module's main block: the exit code of the process and the state it leaves.\<close>

definition exit_code_of :: "stop + nat \<Rightarrow> nat" where
  "exit_code_of r = (case r of Inr n \<Rightarrow> n | Inl (SystemExit n) \<Rightarrow> n | Inl (Exception c t) \<Rightarrow> snd (classify_exception c t))"

definition run_migration ::
  "('d, 'e) db_utils \<Rightarrow> string option \<Rightarrow> string option \<Rightarrow> 'd script \<Rightarrow> nat \<times> 'd script" where
  "run_migration du backend_env registry_env s =
     (case migration_main du backend_env registry_env s of
        (Inl (Exception c t), s') \<Rightarrow>
          (case classify_exception c t of (message, exit_code) \<Rightarrow> (exit_code, snd (script_fail message exit_code s' :: (stop + unit) \<times> _)))
      | (r, s') \<Rightarrow> (exit_code_of r, s'))"

section \<open>What an exit code says\<close>

text \<open>One call of the database layer, and the states of the databases a sequence of calls can reach.\<close>

inductive db_call :: "('d, 'e) db_utils \<Rightarrow> 'd \<Rightarrow> 'd \<Rightarrow> bool" for du where
  connect: "db_call du d (snd (du_engine du uri d))"
| version: "db_call du d (snd (du_version du e d))"
| initialize: "db_call du d (snd (du_initialize du e d))"
| upgrade: "db_call du d (snd (du_upgrade du e d))"
| latest: "db_call du d (snd (du_latest du d))"

text \<open>
  Between two states of a run a store was seen at head: on a connection to it, the version it reported is
  the latest revision MLflow knew right afterwards.
\<close>

definition seen_at_head :: "('d, 'e) db_utils \<Rightarrow> 'd \<Rightarrow> 'd \<Rightarrow> string \<Rightarrow> bool" where
  "seen_at_head du d0 d1 uri \<longleftrightarrow>
     (\<exists>c engine d d' d'' rev. (db_call du)\<^sup>*\<^sup>* d0 c \<and> du_engine du uri c = (Inr engine, d) \<and>
        (\<exists>e. (db_call du)\<^sup>*\<^sup>* d e \<and> du_version du engine e = (Inr rev, d') \<and>
           du_latest du d' = (Inr rev, d'') \<and> (db_call du)\<^sup>*\<^sup>* d'' d1))"

lemma seen_at_head_extend:
  "seen_at_head du d0 d1 uri \<Longrightarrow> (db_call du)\<^sup>*\<^sup>* d1 d2 \<Longrightarrow> seen_at_head du d0 d2 uri"
  unfolding seen_at_head_def by (meson rtranclp_trans)

lemma seen_at_head_before:
  "seen_at_head du d1 d2 uri \<Longrightarrow> (db_call du)\<^sup>*\<^sup>* d0 d1 \<Longrightarrow> seen_at_head du d0 d2 uri"
  unfolding seen_at_head_def by (meson rtranclp_trans)

lemma db_call_intros:
  "du_engine du uri d = (r1, d') \<Longrightarrow> db_call du d d'"
  "du_version du e d = (r2, d') \<Longrightarrow> db_call du d d'"
  "du_initialize du e d = (r3, d') \<Longrightarrow> db_call du d d'"
  "du_upgrade du e d = (r3, d') \<Longrightarrow> db_call du d d'"
  "du_latest du d = (r2, d') \<Longrightarrow> db_call du d d'"
  by (metis db_call.intros snd_conv)+

lemmas db_call_reach = r_into_rtranclp [where r = "db_call du" for du, OF db_call_intros(1)]
  r_into_rtranclp [where r = "db_call du" for du, OF db_call_intros(2)]
  r_into_rtranclp [where r = "db_call du" for du, OF db_call_intros(3)]
  r_into_rtranclp [where r = "db_call du" for du, OF db_call_intros(4)]
  r_into_rtranclp [where r = "db_call du" for du, OF db_call_intros(5)]

text \<open>What a run of the migration does: where it leads the databases and what its outcome means.\<close>

definition migration_outcome ::
  "('d, 'e) db_utils \<Rightarrow> string list \<Rightarrow> 'd script \<Rightarrow> (stop + unit) \<times> 'd script \<Rightarrow> bool" where
  "migration_outcome du uris s res \<longleftrightarrow>
     (db_call du)\<^sup>*\<^sup>* (sp_db s) (sp_db (snd res)) \<and> sp_log_writable (snd res) = sp_log_writable s \<and>
     (case fst res of
        Inr _ \<Rightarrow> list_all (seen_at_head du (sp_db s) (sp_db (snd res))) uris \<and>
          sp_termination_log (snd res) = sp_termination_log s
      | Inl (SystemExit n) \<Rightarrow> n = EXIT_REVISION_MISMATCH \<and>
          (sp_log_writable s \<longrightarrow> sp_termination_log (snd res) \<noteq> None)
      | Inl (Exception c t) \<Rightarrow> sp_termination_log (snd res) = sp_termination_log s)"

lemma migration_outcome_start:
  assumes "migration_outcome du [] s1 res" "(db_call du)\<^sup>*\<^sup>* (sp_db s) (sp_db s1)"
    and "sp_log_writable s1 = sp_log_writable s" "sp_termination_log s1 = sp_termination_log s"
  shows "migration_outcome du [] s res"
proof -
  have "(db_call du)\<^sup>*\<^sup>* (sp_db s) (sp_db (snd res))"
    using assms(1,2) by (auto simp: migration_outcome_def intro: rtranclp_trans)
  with assms show ?thesis
    by (cases "fst res"; cases "projl (fst res)") (simp_all add: migration_outcome_def)
qed

text \<open>A step that only calls the database layer composes with what follows it.\<close>

lemma outcome_do_db:
  assumes "\<And>d r. m d = (r, snd (m d)) \<Longrightarrow> (db_call du)\<^sup>*\<^sup>* d (snd (m d))"
    and "\<And>x d'. m (sp_db s) = (Inr x, d') \<Longrightarrow> migration_outcome du [] (s\<lparr>sp_db := d'\<rparr>) (f x (s\<lparr>sp_db := d'\<rparr>))"
  shows "migration_outcome du [] s (script_then (do_db m) f s)"
proof -
  obtain r d' where m: "m (sp_db s) = (r, d')" by (cases "m (sp_db s)")
  have reach: "(db_call du)\<^sup>*\<^sup>* (sp_db s) d'" using assms(1) [of "sp_db s" r] m by simp
  show ?thesis
  proof (cases r)
    case (Inl e)
    with m reach show ?thesis
      by (cases e) (simp add: migration_outcome_def script_then_def do_db_def)
  next
    case (Inr x)
    with assms(2) [of x d'] m have "migration_outcome du [] (s\<lparr>sp_db := d'\<rparr>) (f x (s\<lparr>sp_db := d'\<rparr>))" by simp
    then have "migration_outcome du [] s (f x (s\<lparr>sp_db := d'\<rparr>))"
      by (rule migration_outcome_start) (simp_all add: reach)
    with m Inr show ?thesis by (simp add: script_then_def do_db_def)
  qed
qed

lemma migrate_store_run: "migration_outcome du [] s (migrate_store du (name, uri) s)"
  unfolding migrate_store_def prod.case
  apply (rule outcome_do_db, simp add: db_call.intros(1) r_into_rtranclp)
  apply (rule outcome_do_db, simp add: db_call.intros(2) r_into_rtranclp)
  apply (rule outcome_do_db, simp add: db_call.intros(3,4) r_into_rtranclp)
  apply (rule outcome_do_db, simp add: db_call.intros(2) r_into_rtranclp)
  apply (rule outcome_do_db, simp add: db_call.intros(5) r_into_rtranclp)
  apply (simp add: migration_outcome_def script_fail_def script_ret_def)
  done

lemma script_then_Inr: "script_then m f s = (Inr y, s'') \<longleftrightarrow> (\<exists>x s'. m s = (Inr x, s') \<and> f x s' = (Inr y, s''))"
  by (auto simp: script_then_def split: prod.splits sum.splits)

lemma do_db_Inr: "do_db m s = (Inr x, s') \<longleftrightarrow> (\<exists>d. m (sp_db s) = (Inr x, d) \<and> s' = s\<lparr>sp_db := d\<rparr>)"
  by (auto simp: do_db_def split: prod.splits sum.splits)

lemma script_check_Inr:
  "(if p then script_fail message code else script_ret ()) s = (Inr u, s') \<longleftrightarrow> \<not> p \<and> s' = s"
  by (auto simp: script_fail_def script_ret_def)

lemma migrate_store_seen:
  assumes "migrate_store du (name, uri) s = (Inr u, s')"
  shows "seen_at_head du (sp_db s) (sp_db s') uri"
proof -
  obtain engine d1 cur d2 d3 rev d4 d5 where
    run: "du_engine du uri (sp_db s) = (Inr engine, d1)" "du_version du engine d1 = (Inr cur, d2)"
      "(if cur = None \<or> cur = Some [] then du_initialize du engine else du_upgrade du engine) d2 = (Inr (), d3)"
      "du_version du engine d3 = (Inr rev, d4)" "du_latest du d4 = (Inr rev, d5)" "s' = s\<lparr>sp_db := d5\<rparr>"
    using assms unfolding migrate_store_def prod.case script_then_Inr do_db_Inr script_check_Inr
    by (elim exE conjE) (simp only: not_not, rule that, (assumption | simp)+)
  have "(db_call du)\<^sup>*\<^sup>* d1 d2" by (rule db_call_reach(2) [OF run(2)])
  moreover have "(db_call du)\<^sup>*\<^sup>* d2 d3" 
    by (cases "cur = None \<or> cur = Some []")
      (use run(3) in \<open>auto intro: db_call_reach(3,4) simp del: not_None_eq\<close>)
  ultimately have "(db_call du)\<^sup>*\<^sup>* d1 d3" by (rule rtranclp_trans)
  with run show ?thesis unfolding seen_at_head_def by (fastforce intro: exI [of _ "sp_db s"])
qed

lemma migrate_store_outcome: "migration_outcome du [uri] s (migrate_store du (name, uri) s)"
  using migrate_store_run [of du s name uri] migrate_store_seen [of du name uri s]
  by (cases "migrate_store du (name, uri) s") (auto simp: migration_outcome_def split: sum.splits)

lemma migration_outcome_trans:
  assumes "migration_outcome du xs s (Inr (), s1)" "migration_outcome du ys s1 res"
  shows "migration_outcome du (xs @ ys) s res"
proof -
  have "(db_call du)\<^sup>*\<^sup>* (sp_db s) (sp_db (snd res))"
    using assms by (auto simp: migration_outcome_def intro: rtranclp_trans)
  then show ?thesis
    using assms by (auto simp: migration_outcome_def list_all_iff split: sum.splits stop.splits
        intro: seen_at_head_extend seen_at_head_before)
qed

lemma migrate_stores_outcome: "migration_outcome du (map snd stores) s (migrate_stores du stores s)"
proof (induction stores arbitrary: s)
  case Nil
  show ?case by (simp add: migration_outcome_def script_ret_def)
next
  case (Cons store stores)
  obtain name uri where store: "store = (name, uri)" by (cases store)
  obtain r s1 where r: "migrate_store du (name, uri) s = (r, s1)" by (cases "migrate_store du (name, uri) s")
  have one: "migration_outcome du [uri] s (r, s1)" using migrate_store_outcome [of du uri s name] by (simp add: r)
  show ?case
  proof (cases r)
    case (Inl e)
    with one show ?thesis by (cases e) (simp_all add: store r script_then_def migration_outcome_def)
  next
    case (Inr u)
    with migration_outcome_trans [of du "[uri]" s s1, OF _ Cons.IH] one show ?thesis
      by (simp add: store r script_then_def)
  qed
qed

text \<open>The three ways through \<open>main\<close>.\<close>

lemma migrate_stores_then:
  "(if stores = [] then script_ret 0 s else script_then (migrate_stores du stores) (\<lambda>_. script_ret 0) s) =
     (case migrate_stores du stores s of (Inl e, s1) \<Rightarrow> (Inl e, s1) | (Inr _, s1) \<Rightarrow> (Inr 0, s1))"
  by (cases stores) (simp_all add: script_ret_def script_then_def)

lemma migration_main_cases:
  fixes du :: "('d, 'e) db_utils" and backend_env registry_env :: "string option"
  defines "b \<equiv> configured_uri backend_env" and "r \<equiv> configured_uri registry_env"
  shows "migration_main du backend_env registry_env s =
    (if b \<noteq> [] \<and> \<not> supports_sql_migration b
     then script_fail ''migration only supports SQL backend store URIs'' EXIT_UNSUPPORTED_BACKEND s
     else if r \<noteq> [] \<and> r \<noteq> b \<and> \<not> supports_sql_migration r
     then script_fail ''migration only supports SQL registry store URIs'' EXIT_UNSUPPORTED_REGISTRY s
     else (case migrate_stores du (migration_stores b r) s of (Inl e, s1) \<Rightarrow> (Inl e, s1) | (Inr _, s1) \<Rightarrow> (Inr 0, s1)))"
  unfolding b_def r_def migration_main_def Let_def if_distribR migrate_stores_then ..

text \<open>The result of the script if every store is an SQL store.\<close>

lemma run_migration_sql:
  assumes "configured_uri backend_env \<noteq> [] \<longrightarrow> supports_sql_migration (configured_uri backend_env)"
    and "configured_uri registry_env \<noteq> [] \<longrightarrow> supports_sql_migration (configured_uri registry_env)"
    and run: "migrate_stores du (migration_stores (configured_uri backend_env) (configured_uri registry_env)) s = (res, s1)"
  shows "run_migration du backend_env registry_env s =
    (case res of
       Inr _ \<Rightarrow> (0, s1)
     | Inl (SystemExit n) \<Rightarrow> (n, s1)
     | Inl (Exception c t) \<Rightarrow> (snd (classify_exception c t),
         snd (script_fail (fst (classify_exception c t)) (snd (classify_exception c t)) s1 :: (stop + unit) \<times> _)))"
proof -
  let ?b = "configured_uri backend_env" and ?r = "configured_uri registry_env"
  have no: "(?b \<noteq> [] \<and> \<not> supports_sql_migration ?b) = False"
    "(?r \<noteq> [] \<and> ?r \<noteq> ?b \<and> \<not> supports_sql_migration ?r) = False" using assms(1,2) by auto
  have "migration_main du backend_env registry_env s = (case res of Inl e \<Rightarrow> (Inl e, s1) | Inr _ \<Rightarrow> (Inr 0, s1))"
    unfolding migration_main_cases no if_False run by simp
  then show ?thesis
    by (cases res; cases "projl res") (simp_all add: run_migration_def exit_code_of_def case_prod_unfold)
qed

lemma migration_stores_all:
  "list_all P (map snd (migration_stores b r)) \<longleftrightarrow> list_all (\<lambda>uri. uri = [] \<or> P uri) [b, r]"
  by (auto simp: migration_stores_def)

section \<open>Properties\<close>

text \<open>
  C31: the exit code of the migration says what happened. It is one of six codes. Zero means that every
  configured store is an SQL store and was seen at MLflow's latest revision between the start and the end of the
  run; 11 and 12 mean that a store is no SQL store and no database was touched; every failure leaves a
  message in the termination log if it can be written.
\<close>

theorem migration_exit_codes:
  fixes du :: "('d, 'e) db_utils"
  assumes "run_migration du backend_env registry_env s = (code, s')"
  shows "code \<in> {0, EXIT_UNSUPPORTED_BACKEND, EXIT_UNSUPPORTED_REGISTRY, EXIT_REVISION_MISMATCH,
      EXIT_REVISION_RESOLUTION_FAILURE, EXIT_RETRYABLE_FAILURE} \<and>
    (code = 0 \<longrightarrow> list_all (\<lambda>uri. uri = [] \<or> supports_sql_migration uri \<and> seen_at_head du (sp_db s) (sp_db s') uri)
       [configured_uri backend_env, configured_uri registry_env]) \<and>
    (code \<in> {EXIT_UNSUPPORTED_BACKEND, EXIT_UNSUPPORTED_REGISTRY} \<longrightarrow> sp_db s' = sp_db s) \<and>
    (code \<noteq> 0 \<longrightarrow> sp_log_writable s \<longrightarrow> sp_termination_log s' \<noteq> None)"
proof -
  let ?b = "configured_uri backend_env" and ?r = "configured_uri registry_env"
  let ?stores = "migration_stores ?b ?r"
  obtain res s1 where run: "migrate_stores du ?stores s = (res, s1)" by (cases "migrate_stores du ?stores s")
  have out: "migration_outcome du (map snd ?stores) s (res, s1)"
    using migrate_stores_outcome [of du ?stores s] by (simp add: run)
  consider (backend) "?b \<noteq> []" "\<not> supports_sql_migration ?b"
    | (registry) "?b \<noteq> [] \<longrightarrow> supports_sql_migration ?b" "?r \<noteq> []" "?r \<noteq> ?b" "\<not> supports_sql_migration ?r"
    | (sql) "?b \<noteq> [] \<longrightarrow> supports_sql_migration ?b" "?r \<noteq> [] \<longrightarrow> supports_sql_migration ?r"
    by metis
  then show ?thesis
  proof cases
    case backend
    with assms show ?thesis
      by (auto simp: run_migration_def migration_main_cases script_fail_def exit_code_of_def exit_defs)
  next
    case registry
    with assms have "(code, s') = (EXIT_UNSUPPORTED_REGISTRY, snd (script_fail
        ''migration only supports SQL registry store URIs'' EXIT_UNSUPPORTED_REGISTRY s :: (stop + unit) \<times> 'd script))"
      by (cases "?b = []") (simp_all add: run_migration_def migration_main_cases script_fail_def exit_code_of_def)
    then show ?thesis by (auto simp: script_fail_def exit_defs)
  next
    case sql
    note done_by = run_migration_sql [OF this run, unfolded assms]
    show ?thesis
    proof (cases res)
      case (Inr u)
      with out have "list_all (seen_at_head du (sp_db s) (sp_db s1)) (map snd ?stores)"
        by (simp add: migration_outcome_def)
      with sql done_by Inr show ?thesis
        by (auto simp: exit_defs migration_stores_all)
    next
      case (Inl e)
      with out done_by show ?thesis
        by (cases e) (auto simp: migration_outcome_def classify_exception_def script_fail_def exit_defs split: if_splits)
    qed
  qed
qed

text \<open>A fresh SQLite backend is bootstrapped: the databases are the revision of the one store, and head is 7.\<close>

definition one_store :: "(string option, unit) db_utils" where
  "one_store = \<lparr>du_engine = (\<lambda>_ d. (Inr (), d)), du_version = (\<lambda>_ d. (Inr d, d)),
     du_initialize = (\<lambda>_ d. (Inr (), Some ''7'')), du_upgrade = (\<lambda>_ d. (Inr (), d)),
     du_latest = (\<lambda>d. (Inr (Some ''7''), d))\<rparr>"

lemma one_store_run:
  "run_migration one_store (Some ''sqlite:///x'') None \<lparr>sp_db = None, sp_log_writable = True, sp_termination_log = None\<rparr> =
     (0, \<lparr>sp_db = Some ''7'', sp_log_writable = True, sp_termination_log = None\<rparr>)"
  by code_simp

theorem migration_exit_codes_witness:
  "list_all (\<lambda>uri. uri = [] \<or> supports_sql_migration uri \<and> seen_at_head one_store None (Some ''7'') uri)
     [configured_uri (Some ''sqlite:///x''), configured_uri None]"
  using migration_exit_codes [OF one_store_run] by simp

end
