(* ===== verification/Spec2Isabelle.thy ===== *)
theory Spec2Isabelle
  imports Rw_Lock Rules_Registry Name_Caches Core_Refinement Middleware_Safety Kube_Client Workspace_Safety Compat Db_Migrate
begin

text \<open>
  The Kubernetes plugins for MLflow, \<open>src/mlflow_kubernetes_plugins\<close>, and the migration script of the
  Helm chart, \<open>src/charts/mlflow/scripts/db_migrate.py\<close>.

  \<^bold>\<open>The program.\<close> MLflow runs as a server whose every request passes a middleware
  (\<open>auth/middleware.py\<close>). It asks \<open>auth/core.py\<close> whether the caller may make the request: which rules
  the request has (\<open>auth/compiler.py\<close> over the tables of \<open>auth/rules*.py\<close>, or \<open>auth/graphql.py\<close> for a
  GraphQL query), which named objects it refers to (\<open>auth/resource_names.py\<close>), and whether Kubernetes
  allows the caller each of them, by access reviews behind a cache (\<open>auth/authorizer.py\<close>). A caller
  without a broad permission may still get a collection request narrowed to what he may read
  (\<open>auth/collection_filters.py\<close>). The narrowed request is written back, the handler of MLflow runs, and
  its answer may be filtered. The second plugin (\<open>workspace_plugin\<close>) makes the namespaces of the cluster
  the workspaces of MLflow and decides where the artifacts of a workspace are stored, from objects it
  watches.

  \<^bold>\<open>The model.\<close> State is passed explicitly. A computation that may raise is a function from a
  state to an exception or a value and the new state (\<open>eff\<close> in Prelude); every \<open>raise\<close> and early return
  of the source is a branch, and an exception raised by Python itself (\<open>PyTypeError\<close>, \<open>PyKeyError\<close>) is one
  too. Python values that come out of JSON or a query string are the datatype \<open>pv\<close>, dictionaries are
  association lists in insertion order, text is a list of characters below 256. Everything that is not
  under \<open>src/\<close> is a record of functions the definitions take: \<open>env\<close> (World) for the clock, the Kubernetes
  API, MLflow's stores and parsers, \<open>http_lib\<close> (Middleware) for Starlette, JSON and URL encoding, \<open>cluster\<close>
  (Workspace_World) for the API the workspace plugin watches, \<open>db_utils\<close> (Db_Migrate) for MLflow's database
  layer, \<open>mlflow_install\<close> (Compat) for the installed version. What they answer may depend on the number of
  the interaction, so the cluster, the stores and the clock may change between any two calls. Where a
  property needs more of them, it is a named hypothesis with a witness.

  \<^bold>\<open>Theories and code.\<close>

  \<^item> Prelude: Python strings, values, dictionaries, exceptions, the state-and-exception monad and its
    judgement \<open>safe\<close>: whenever a computation returns, its result is justified and the invariant holds.
  \<^item> Constants, World: \<open>auth/constants.py\<close>; \<open>_RequestIdentity\<close>, the state the plugin keeps between requests
    (\<open>world\<close>: the authorizer with its two caches and the three name caches) and the environment.
  \<^item> Rw_Lock: \<open>_ReadWriteLock\<close> of \<open>auth/authorizer.py\<close> as a transition system over any number of threads; one
    step is one block under the condition's own lock.
  \<^item> Ttl_Cache: \<open>_ExpiringCache\<close>, and \<open>_NameLookupCache\<close> and \<open>_ExperimentIdLookupCache\<close> of
    \<open>auth/resource_names.py\<close>. The locale \<open>expiring_store\<close> is the contract of both kinds.
  \<^item> Authorizer, Kube_Client, Auth_Config: \<open>auth/authorizer.py\<close>: subject hashes, reviews behind the decision cache,
    discovery of named grants, workspace access; the clients and the headers of an impersonated review; the
    configuration from the environment. The locale \<open>access_reviews\<close> is what the callers of the authorizer
    may rely on.
  \<^item> Paths: canonical paths, templates, tokens and groups (\<open>auth/core.py\<close>, \<open>auth/compiler.py\<close>).
  \<^item> Rules, Rules_Base, Rules_Registry: the rule type and its constructors, every entry of
    \<open>auth/rules_base.py\<close> and \<open>auth/rules_skill_registry.py\<close>, the tables after loading \<open>auth/rules.py\<close>.
  \<^item> Compat: \<open>auth/_compat.py\<close>.
  \<^item> Request_Context: \<open>auth/request_context.py\<close>.
  \<^item> Graphql, Graphql_Middleware: \<open>auth/graphql.py\<close>: the scan of a query and its rules; the check of the schema
    at start-up and the middleware in front of the field resolvers.
  \<^item> Resource_Names, Collection_Filters, Skill_Artifacts: \<open>auth/resource_names.py\<close>, every parser and cache
    update; \<open>auth/collection_filters.py\<close>, every filter; \<open>skill_artifact_rules\<close> with \<open>posixpath.normpath\<close>.
    The locale \<open>resolution\<close> carries an invariant from the cached lookups to every parser; it has two
    interpretations, the authorizer's invariant and that of the name caches.
  \<^item> Name_Caches: the invariant of the caches of names over any order of resolutions and responses
    (\<open>names_reachable\<close>), and how old a resolved name may be.
  \<^item> Compiler: \<open>auth/compiler.py\<close>: the compiled tables, the checks at start-up, the lookups of a request.
  \<^item> Core, Core_Safety, Core_Refinement: \<open>_authorize_request_async\<close> of \<open>auth/core.py\<close> whole, what an authorized
    request means, and which callers get in.
  \<^item> Middleware, Middleware_Safety: \<open>auth/middleware.py\<close>: \<open>dispatch\<close> whole, \<open>create_app\<close>, the life of a server
    (\<open>serving\<close>), and what the middleware guarantees.
  \<^item> Glob, Workspace_World, Namespace_Cache, Storage_Caches, Provider, Workspace_Safety:
    \<open>workspace_plugin/caches.py\<close> and \<open>provider.py\<close>: \<open>fnmatchcase\<close>, the three watched caches turn by turn, the
    provider, and its guarantees. The locale \<open>watched_snapshot\<close> is the contract of the three caches: a turn
    of a watch is the listing with a prefix of the events replayed.
  \<^item> Db_Migrate: \<open>db_migrate.py\<close>.

  \<^bold>\<open>What the theorems show.\<close> They build on one another. An access review that is answered
  positively, now or less than the time-to-live ago, is \<open>approved\<close> (Authorizer); the invariant \<open>az_inv\<close> says
  that every positive entry of the decision cache once was. Core_Safety names for every rule the evidence
  that lets it pass: an approved review of the resource, approved reviews of every name the request
  resolves to, or a filter that narrowed the request to approved names, and the approved use of the objects a
  gateway endpoint depends on. The \<open>safe\<close> lemmas follow the steps of the code and end in
  \<open>authorize_request_sound\<close>. Core_Refinement has the other direction: on rules that only ask about a kind of
  object the authorization is exactly a conjunction of reviews, and a caller with the broad permissions gets in
  with his request untouched. Middleware_Safety composes it with the dispatch: over the whole life of a server,
  the handler of a protected path is not called at all, or exactly once with a request that was authorized and
  rewritten to what was authorized; the handler reads back what authorization left; a workspace listing
  keeps only approved workspaces; the context is restored. Graphql_Middleware does the same for the fields of
  a GraphQL query. The components have their own properties: mutual exclusion, preference of writers and no lost wakeup
  for the lock; freshness, bounds and races with invalidation for the caches; injectivity of the subject
  hash; the origin and age of every resolved name; well-formedness of all rule tables; coverage of all
  routes and GraphQL fields after a successful start; soundness of each narrowing filter and the round trip
  of the quoting it relies on; skill paths that cannot be reached under another spelling; for the workspace
  plugin, isolation of artifact roots, containment of artifact paths, verified absence, and exclusion of
  system namespaces; and the meaning of the exit codes of the migration.

  \<^bold>\<open>Loops.\<close> All definitions are total. The scan of a GraphQL document is a loop over a stack
  that cycles of fragments could keep going; its termination measure is the weight of the stack and of the
  fragments not yet visited, and \<open>graphql_scan_takes_linear_rounds\<close> bounds its rounds. The threads that watch
  the cluster never end; a turn of such a loop is one function of the events it reads, and reachability
  (\<open>namespaces_reachable\<close>, \<open>plugin_reachable\<close>, \<open>names_reachable\<close>, \<open>serving\<close>, \<open>rw_reachable\<close>) is inductive. The lock's waiting
  loops are steps of the transition system. No fuel is used in any definition of the program.

  \<^bold>\<open>Concurrency.\<close> The lock and the eviction and invalidation of the caches are modelled with
  their interleavings. A request is one sequence of steps of the plugin's state; that other requests
  run between them shows in the answers of the environment, which may differ from call to call, not in the
  state of the name caches. \<open>names_reachable\<close> orders whole resolutions and responses freely, whichever
  requests they belong to.

  \<^bold>\<open>Not modelled.\<close> Logging, metrics and what is printed; the transport (TLS, connections, HTTP
  parsing below headers); the package initialisers, which only re-export; the type declarations of the
  MlflowConfig resource (Go, YAML) and the Helm templates, which hold no program logic beyond what the
  script and the caches read. Floats are kept as real numbers, so the rounding of an expiry time is left out;
  characters above 255 do not occur, as the server decodes headers to Latin-1, and a name with such
  characters is outside of the model.
\<close>

end
